(* ===== verification/GoPrelude.thy ===== *)
theory GoPrelude
  imports "HOL-Library.Word" "HOL-Library.Sublist"
begin

text \<open>
  The part of the Go language and of its standard library that the components share:
  strings, decimal numbers, errors and panics.

  A Go string is a sequence of bytes, here \<^typ>\<open>string\<close> (a \<^typ>\<open>char\<close> is one byte),
  so \<^const>\<open>length\<close> is Go's \<^verbatim>\<open>len\<close>. The operations of package \<^verbatim>\<open>strings\<close> that
  consult the Unicode tables (case mapping, white space) are modelled on ASCII, the alphabet of
  the identifiers, keywords, markers and directives they are applied to: a byte above 127 has
  no case and is not white space.

  \<^verbatim>\<open>int\<close> and \<^verbatim>\<open>int64\<close> values are \<^typ>\<open>int\<close> where the code only compares or counts them; the
  unsigned and narrowed ones are words. A fallible call returns \<open>gerror + 'a\<close>; a call that can
  also panic returns \<open>'a outcome\<close>.
\<close>

section \<open>Rule collections\<close>

text \<open>
  \<open>go_defs\<close> unfolds the string library on concrete arguments; \<open>go_text\<close> collects its laws.
\<close>

named_theorems go_defs "definitions of the Go library functions, for evaluation"
named_theorems go_text "laws of the Go string functions"

section \<open>Errors and panics\<close>

datatype gerror = GoError (err_Error: string) (err_NotFound: bool)

text \<open>
  \<open>err_NotFound\<close> is \<^verbatim>\<open>errors.Is(err, audit.ErrMetadataNotFound)\<close>. Wrapping with
  \<^verbatim>\<open>%w\<close> keeps it; \<^verbatim>\<open>fmt.Errorf\<close> without \<^verbatim>\<open>%w\<close> makes a fresh error.
\<close>

definition errorf :: "string \<Rightarrow> gerror" where
  "errorf msg = GoError msg False"

definition wrapf :: "string \<Rightarrow> gerror \<Rightarrow> gerror" where
  "wrapf pre e = GoError (pre @ err_Error e) (err_NotFound e)"

definition ErrMetadataNotFound :: gerror where
  "ErrMetadataNotFound = GoError ''metadata object not found'' True"

lemma err_NotFound_simps [simp]:
  "\<not> err_NotFound (errorf m)"
  "err_NotFound (wrapf m e) = err_NotFound e"
  "err_NotFound ErrMetadataNotFound"
  by (simp_all add: errorf_def wrapf_def ErrMetadataNotFound_def)

datatype 'a outcome = Returns 'a | Raises gerror | Panics string

text \<open>
  \<open>sum_bind\<close> is the pattern \<^verbatim>\<open>x, err := f(); if err != nil { return err }\<close>, and
  \<open>fail_if\<close> the guard \<^verbatim>\<open>if cond { return err }\<close>.
\<close>

definition sum_bind :: "'e + 'a \<Rightarrow> ('a \<Rightarrow> 'e + 'b) \<Rightarrow> 'e + 'b" where
  "sum_bind m f = (case m of Inl e \<Rightarrow> Inl e | Inr a \<Rightarrow> f a)"

definition fail_if :: "bool \<Rightarrow> gerror \<Rightarrow> gerror + unit" where
  "fail_if c e = (if c then Inl e else Inr ())"

lemma sum_bind_simps [simp]:
  "sum_bind (Inl e) f = Inl e"
  "sum_bind (Inr a) f = f a"
  by (simp_all add: sum_bind_def)

lemma sum_bind_Inr_iff: "sum_bind m f = Inr b \<longleftrightarrow> (\<exists>a. m = Inr a \<and> f a = Inr b)"
  by (cases m) auto

lemma sum_bind_Inl_iff: "sum_bind m f = Inl e \<longleftrightarrow> m = Inl e \<or> (\<exists>a. m = Inr a \<and> f a = Inl e)"
  by (cases m) auto

lemma fail_if_Inr_iff [simp]: "fail_if c e = Inr u \<longleftrightarrow> \<not> c"
  by (simp add: fail_if_def)

lemma fail_if_Inl_iff [simp]: "fail_if c e = Inl e' \<longleftrightarrow> c \<and> e' = e"
  by (auto simp: fail_if_def)

lemma fail_if_simps [simp]:
  "fail_if True e = Inl e"
  "fail_if False e = Inr ()"
  by (simp_all add: fail_if_def)

section \<open>Bytes\<close>

lemma char_of_numeral [simp]:
  "char_of (numeral k :: nat) =
     Char (odd (numeral k :: nat)) (odd (numeral k div 2 :: nat)) (odd (numeral k div 4 :: nat))
       (odd (numeral k div 8 :: nat)) (odd (numeral k div 16 :: nat))
       (odd (numeral k div 32 :: nat)) (odd (numeral k div 64 :: nat))
       (odd (numeral k div 128 :: nat))"
  by (simp add: char_of_def bit_iff_odd)

lemma char_of_zero [simp]: "char_of (0 :: nat) = CHR 0x00"
  by (simp add: char_of_def)

abbreviation byte_val :: "char \<Rightarrow> nat" where
  "byte_val c \<equiv> of_char c"

definition lower_byte :: "char \<Rightarrow> char" where
  "lower_byte c = (if 65 \<le> byte_val c \<and> byte_val c \<le> 90 then char_of (byte_val c + 32) else c)"

definition upper_byte :: "char \<Rightarrow> char" where
  "upper_byte c = (if 97 \<le> byte_val c \<and> byte_val c \<le> 122 then char_of (byte_val c - 32) else c)"

definition is_space :: "char \<Rightarrow> bool" where
  "is_space c \<longleftrightarrow> c = CHR '' '' \<or> (9 \<le> byte_val c \<and> byte_val c \<le> 13)"

definition is_digit :: "char \<Rightarrow> bool" where
  "is_digit c \<longleftrightarrow> 48 \<le> byte_val c \<and> byte_val c \<le> 57"

definition is_letter :: "char \<Rightarrow> bool" where
  "is_letter c \<longleftrightarrow> (65 \<le> byte_val c \<and> byte_val c \<le> 90) \<or> (97 \<le> byte_val c \<and> byte_val c \<le> 122)"

definition digit_char :: "nat \<Rightarrow> char" where
  "digit_char d = char_of (48 + d)"

declare lower_byte_def [go_defs] upper_byte_def [go_defs] is_space_def [go_defs]
  is_digit_def [go_defs] is_letter_def [go_defs] digit_char_def [go_defs]

lemma lower_byte_idem [simp]: "lower_byte (lower_byte c) = lower_byte c"
  by (auto simp: lower_byte_def)

lemma byte_val_digit_char [simp]: "d < 10 \<Longrightarrow> byte_val (digit_char d) = 48 + d"
  by (simp add: digit_char_def)

section \<open>Package strings\<close>

definition strings_ToLower :: "string \<Rightarrow> string" where
  "strings_ToLower s = map lower_byte s"

definition strings_ToUpper :: "string \<Rightarrow> string" where
  "strings_ToUpper s = map upper_byte s"

definition strings_EqualFold :: "string \<Rightarrow> string \<Rightarrow> bool" where
  "strings_EqualFold a b \<longleftrightarrow> strings_ToLower a = strings_ToLower b"

definition strings_TrimLeftFunc :: "(char \<Rightarrow> bool) \<Rightarrow> string \<Rightarrow> string" where
  "strings_TrimLeftFunc f s = dropWhile f s"

definition strings_TrimRightFunc :: "(char \<Rightarrow> bool) \<Rightarrow> string \<Rightarrow> string" where
  "strings_TrimRightFunc f s = rev (dropWhile f (rev s))"

definition strings_TrimFunc :: "(char \<Rightarrow> bool) \<Rightarrow> string \<Rightarrow> string" where
  "strings_TrimFunc f s = strings_TrimRightFunc f (strings_TrimLeftFunc f s)"

definition strings_TrimSpace :: "string \<Rightarrow> string" where
  "strings_TrimSpace s = strings_TrimFunc is_space s"

definition strings_Trim :: "string \<Rightarrow> string \<Rightarrow> string" where
  "strings_Trim s cutset = strings_TrimFunc (\<lambda>c. c \<in> set cutset) s"

definition strings_TrimLeft :: "string \<Rightarrow> string \<Rightarrow> string" where
  "strings_TrimLeft s cutset = strings_TrimLeftFunc (\<lambda>c. c \<in> set cutset) s"

definition strings_HasPrefix :: "string \<Rightarrow> string \<Rightarrow> bool" where
  "strings_HasPrefix s p \<longleftrightarrow> take (length p) s = p"

definition strings_HasSuffix :: "string \<Rightarrow> string \<Rightarrow> bool" where
  "strings_HasSuffix s p \<longleftrightarrow> length p \<le> length s \<and> drop (length s - length p) s = p"

definition strings_TrimSuffix :: "string \<Rightarrow> string \<Rightarrow> string" where
  "strings_TrimSuffix s p = (if strings_HasSuffix s p then take (length s - length p) s else s)"

text \<open>\<^verbatim>\<open>strings.Index\<close>: the first position of the substring, \<^const>\<open>None\<close> for \<open>-1\<close>.\<close>

fun strings_Index :: "string \<Rightarrow> string \<Rightarrow> nat option" where
  "strings_Index [] sub = (if sub = [] then Some 0 else None)"
| "strings_Index (c # cs) sub =
     (if strings_HasPrefix (c # cs) sub then Some 0 else map_option Suc (strings_Index cs sub))"

definition strings_Contains :: "string \<Rightarrow> string \<Rightarrow> bool" where
  "strings_Contains s sub \<longleftrightarrow> strings_Index s sub \<noteq> None"

text \<open>\<^verbatim>\<open>strings.Split\<close> with a one-byte separator: always at least one field.\<close>

fun strings_Split :: "string \<Rightarrow> char \<Rightarrow> string list" where
  "strings_Split [] sep = [[]]"
| "strings_Split (c # cs) sep =
     (if c = sep then [] # strings_Split cs sep
      else (case strings_Split cs sep of [] \<Rightarrow> [[c]] | f # fs \<Rightarrow> (c # f) # fs))"

text \<open>\<^verbatim>\<open>strings.SplitN(s, sep, n)\<close> for \<open>n > 0\<close>: the last field keeps the remaining separators.\<close>

fun strings_SplitN :: "string \<Rightarrow> char \<Rightarrow> nat \<Rightarrow> string list" where
  "strings_SplitN s sep 0 = []"
| "strings_SplitN s sep (Suc 0) = [s]"
| "strings_SplitN s sep (Suc (Suc n)) =
     (if sep \<in> set s
      then takeWhile (\<lambda>c. c \<noteq> sep) s # strings_SplitN (tl (dropWhile (\<lambda>c. c \<noteq> sep) s)) sep (Suc n)
      else [s])"

fun strings_Join :: "string list \<Rightarrow> string \<Rightarrow> string" where
  "strings_Join [] sep = []"
| "strings_Join [x] sep = x"
| "strings_Join (x # y # ys) sep = x @ sep @ strings_Join (y # ys) sep"

text \<open>\<^verbatim>\<open>strings.ReplaceAll\<close> of a one-byte pattern.\<close>

definition strings_ReplaceAll :: "string \<Rightarrow> char \<Rightarrow> string \<Rightarrow> string" where
  "strings_ReplaceAll s old new = concat (map (\<lambda>c. if c = old then new else [c]) s)"

text \<open>\<^verbatim>\<open>strings.Fields\<close>: the maximal runs of non-space bytes.\<close>

fun fields_acc :: "string \<Rightarrow> string \<Rightarrow> string list" where
  "fields_acc acc [] = (if acc = [] then [] else [rev acc])"
| "fields_acc acc (c # cs) =
     (if is_space c then (if acc = [] then fields_acc [] cs else rev acc # fields_acc [] cs)
      else fields_acc (c # acc) cs)"

definition strings_Fields :: "string \<Rightarrow> string list" where
  "strings_Fields s = fields_acc [] s"

declare strings_ToLower_def [go_defs] strings_ToUpper_def [go_defs] strings_EqualFold_def [go_defs]
  strings_TrimLeftFunc_def [go_defs] strings_TrimRightFunc_def [go_defs]
  strings_TrimFunc_def [go_defs] strings_TrimSpace_def [go_defs] strings_Trim_def [go_defs]
  strings_TrimLeft_def [go_defs] strings_HasPrefix_def [go_defs] strings_HasSuffix_def [go_defs]
  strings_TrimSuffix_def [go_defs] strings_Contains_def [go_defs] strings_ReplaceAll_def [go_defs]
  strings_Fields_def [go_defs]

subsection \<open>Laws\<close>

lemma strings_ToLower_idem [simp]: "strings_ToLower (strings_ToLower s) = strings_ToLower s"
  by (simp add: strings_ToLower_def)

lemma strings_ToLower_append [simp]:
  "strings_ToLower (s @ t) = strings_ToLower s @ strings_ToLower t"
  by (simp add: strings_ToLower_def)

lemma strings_EqualFold_refl [simp]: "strings_EqualFold s s"
  by (simp add: strings_EqualFold_def)

lemma strings_EqualFold_sym: "strings_EqualFold a b \<Longrightarrow> strings_EqualFold b a"
  by (simp add: strings_EqualFold_def)

lemma strings_EqualFold_trans [trans]:
  "strings_EqualFold a b \<Longrightarrow> strings_EqualFold b c \<Longrightarrow> strings_EqualFold a c"
  by (simp add: strings_EqualFold_def)

lemma trim_right_suffix: "\<exists>t. s = strings_TrimRightFunc f s @ t \<and> (\<forall>c\<in>set t. f c)"
proof -
  have "rev s = takeWhile f (rev s) @ dropWhile f (rev s)" by simp
  then have "s = rev (dropWhile f (rev s)) @ rev (takeWhile f (rev s))"
    by (metis rev_append rev_rev_ident)
  moreover have "\<forall>c\<in>set (rev (takeWhile f (rev s))). f c"
    by (auto dest: set_takeWhileD)
  ultimately show ?thesis unfolding strings_TrimRightFunc_def by blast
qed

lemma trim_left_prefix: "\<exists>t. s = t @ strings_TrimLeftFunc f s \<and> (\<forall>c\<in>set t. f c)"
  unfolding strings_TrimLeftFunc_def
  by (metis set_takeWhileD takeWhile_dropWhile_id)

lemma trim_func_split:
  "\<exists>p q. s = p @ strings_TrimFunc f s @ q \<and> (\<forall>c\<in>set p. f c) \<and> (\<forall>c\<in>set q. f c)"
  unfolding strings_TrimFunc_def
  by (metis append.assoc trim_left_prefix trim_right_suffix)

lemma trim_func_hd: "strings_TrimFunc f s \<noteq> [] \<Longrightarrow> \<not> f (hd (strings_TrimFunc f s))"
proof -
  assume ne: "strings_TrimFunc f s \<noteq> []"
  obtain t where "strings_TrimLeftFunc f s = strings_TrimFunc f s @ t"
    using trim_right_suffix unfolding strings_TrimFunc_def by blast
  with ne have "hd (strings_TrimFunc f s) = hd (dropWhile f s)" and "dropWhile f s \<noteq> []"
    by (auto simp: strings_TrimLeftFunc_def)
  then show ?thesis by (simp add: hd_dropWhile)
qed

lemma trim_func_last: "strings_TrimFunc f s \<noteq> [] \<Longrightarrow> \<not> f (last (strings_TrimFunc f s))"
  unfolding strings_TrimFunc_def strings_TrimRightFunc_def
  by (simp add: hd_dropWhile last_rev)

lemma trim_func_id:
  "s = [] \<or> (\<not> f (hd s) \<and> \<not> f (last s)) \<Longrightarrow> strings_TrimFunc f s = s"
  by (cases s) (auto simp: strings_TrimFunc_def strings_TrimRightFunc_def strings_TrimLeftFunc_def
      dropWhile_eq_self_iff hd_rev hd_append split: if_splits)

lemma strings_TrimSpace_idem [simp]:
  "strings_TrimSpace (strings_TrimSpace s) = strings_TrimSpace s"
  unfolding strings_TrimSpace_def
  by (rule trim_func_id) (use trim_func_hd trim_func_last in blast)

lemma strings_Split_nonempty [simp]: "strings_Split s sep \<noteq> []"
  by (induction s) (auto split: list.splits)

lemma strings_Join_Cons: "ys \<noteq> [] \<Longrightarrow> strings_Join (x # ys) sep = x @ sep @ strings_Join ys sep"
  by (cases ys) auto

lemma strings_Join_Split [go_text]: "strings_Join (strings_Split s sep) [sep] = s"
proof (induction s)
  case (Cons c cs)
  show ?case
  proof (cases "strings_Split cs sep")
    case (Cons f fs)
    then show ?thesis using Cons.IH
      by (cases fs) (auto simp: strings_Join_Cons)
  qed simp
qed simp

lemma strings_Split_no_sep: "f \<in> set (strings_Split s sep) \<Longrightarrow> sep \<notin> set f"
  by (induction s arbitrary: f) (auto split: list.splits if_splits)

lemma strings_Split_sep_free: "sep \<notin> set s \<Longrightarrow> strings_Split s sep = [s]"
  by (induction s) auto

lemma strings_Split_append:
  "sep \<notin> set s \<Longrightarrow> strings_Split (s @ sep # t) sep = s # strings_Split t sep"
  by (induction s) (auto split: list.splits)

lemma strings_Split_Join [go_text]:
  "xs \<noteq> [] \<Longrightarrow> \<forall>x\<in>set xs. sep \<notin> set x \<Longrightarrow> strings_Split (strings_Join xs [sep]) sep = xs"
proof (induction xs)
  case (Cons x xs)
  show ?case
  proof (cases xs)
    case Nil
    with Cons.prems show ?thesis by (simp add: strings_Split_sep_free)
  next
    case (Cons y ys)
    then have "strings_Join (x # xs) [sep] = x @ sep # strings_Join xs [sep]" by simp
    then show ?thesis using Cons.IH Cons.prems(2) Cons
      by (simp add: strings_Split_append)
  qed
qed simp

lemma strings_HasPrefix_iff: "strings_HasPrefix s p \<longleftrightarrow> (\<exists>t. s = p @ t)"
  by (metis append_eq_conv_conj append_take_drop_id strings_HasPrefix_def)

section \<open>Package strconv and the verbs of fmt\<close>

fun nat_digits_rev :: "nat \<Rightarrow> string" where
  "nat_digits_rev n =
     (if n < 10 then [digit_char n] else digit_char (n mod 10) # nat_digits_rev (n div 10))"

declare nat_digits_rev.simps [simp del]

definition nat_string :: "nat \<Rightarrow> string" where
  "nat_string n = rev (nat_digits_rev n)"

text \<open>\<^verbatim>\<open>strconv.Itoa\<close>, \<^verbatim>\<open>strconv.FormatInt(_, 10)\<close> and the verb \<^verbatim>\<open>%d\<close>.\<close>

definition strconv_Itoa :: "int \<Rightarrow> string" where
  "strconv_Itoa i = (if i < 0 then CHR ''-'' # nat_string (nat (- i)) else nat_string (nat i))"

text \<open>The verb \<^verbatim>\<open>%08d\<close>.\<close>

definition fmt_08d :: "int \<Rightarrow> string" where
  "fmt_08d i =
     (if i < 0
      then CHR ''-'' # replicate (7 - length (nat_string (nat (- i)))) CHR ''0'' @ nat_string (nat (- i))
      else replicate (8 - length (nat_string (nat i))) CHR ''0'' @ nat_string (nat i))"

definition strconv_FormatBool :: "bool \<Rightarrow> string" where
  "strconv_FormatBool b = (if b then ''true'' else ''false'')"

datatype num_result = NumOk nat | NumSyntax | NumRange

text \<open>The scanning loop of \<^verbatim>\<open>strconv.ParseUint(s, 10, bits)\<close>; \<open>m\<close> is the largest value.\<close>

fun scan_uint :: "nat \<Rightarrow> nat \<Rightarrow> string \<Rightarrow> num_result" where
  "scan_uint m acc [] = NumOk acc"
| "scan_uint m acc (c # cs) =
     (if is_digit c
      then (if acc * 10 + (byte_val c - 48) > m then NumRange
            else scan_uint m (acc * 10 + (byte_val c - 48)) cs)
      else NumSyntax)"

definition strconv_ParseUint :: "string \<Rightarrow> nat \<Rightarrow> num_result" where
  "strconv_ParseUint s bits = (if s = [] then NumSyntax else scan_uint (2 ^ bits - 1) 0 s)"

text \<open>
  \<^verbatim>\<open>strconv.Atoi\<close> and \<^verbatim>\<open>strconv.ParseInt(_, 10, 64)\<close>: the value, and whether the error is
  \<^verbatim>\<open>nil\<close>. Out of range gives the nearest bound, bad syntax gives 0, both with an error.
\<close>

definition int64_of_magnitude :: "bool \<Rightarrow> num_result \<Rightarrow> int \<times> bool" where
  "int64_of_magnitude neg r = (case r of
       NumSyntax \<Rightarrow> (0, False)
     | NumRange \<Rightarrow> (if neg then - (2 ^ 63) else 2 ^ 63 - 1, False)
     | NumOk n \<Rightarrow>
         (if \<not> neg \<and> 2 ^ 63 \<le> n then (2 ^ 63 - 1, False)
          else if neg \<and> 2 ^ 63 < n then (- (2 ^ 63), False)
          else (if neg then - int n else int n, True)))"

definition strconv_Atoi :: "string \<Rightarrow> int \<times> bool" where
  "strconv_Atoi s = (case s of
       [] \<Rightarrow> (0, False)
     | c # cs \<Rightarrow>
         if c = CHR ''-'' then int64_of_magnitude True (strconv_ParseUint cs 64)
         else if c = CHR ''+'' then int64_of_magnitude False (strconv_ParseUint cs 64)
         else int64_of_magnitude False (strconv_ParseUint s 64))"

text \<open>\<^verbatim>\<open>strconv.Quote\<close>, the verb \<^verbatim>\<open>%q\<close>.\<close>

definition hex_digit :: "nat \<Rightarrow> char" where
  "hex_digit d = (if d < 10 then digit_char d else char_of (87 + d))"

definition quote_byte :: "char \<Rightarrow> string" where
  "quote_byte c =
     (if c = CHR 0x22 \<or> c = CHR 0x5C then [CHR 0x5C, c]
      else if byte_val c = 7 then [CHR 0x5C, CHR ''a'']
      else if byte_val c = 8 then [CHR 0x5C, CHR ''b'']
      else if byte_val c = 12 then [CHR 0x5C, CHR ''f'']
      else if byte_val c = 10 then [CHR 0x5C, CHR ''n'']
      else if byte_val c = 13 then [CHR 0x5C, CHR ''r'']
      else if byte_val c = 9 then [CHR 0x5C, CHR ''t'']
      else if byte_val c = 11 then [CHR 0x5C, CHR ''v'']
      else if byte_val c < 32 \<or> byte_val c = 127
      then [CHR 0x5C, CHR ''x'', hex_digit (byte_val c div 16), hex_digit (byte_val c mod 16)]
      else [c])"

definition strconv_Quote :: "string \<Rightarrow> string" where
  "strconv_Quote s = CHR 0x22 # concat (map quote_byte s) @ [CHR 0x22]"

text \<open>\<^verbatim>\<open>strconv.QuoteRune\<close>, the verb \<^verbatim>\<open>%q\<close> on a rune.\<close>

definition strconv_QuoteRune :: "char \<Rightarrow> string" where
  "strconv_QuoteRune c =
     CHR 0x27 # (if c = CHR 0x27 then [CHR 0x5C, c] else if c = CHR 0x22 then [c] else quote_byte c)
       @ [CHR 0x27]"

declare nat_string_def [go_defs] strconv_QuoteRune_def [go_defs] strconv_Itoa_def [go_defs] fmt_08d_def [go_defs]
  strconv_FormatBool_def [go_defs] strconv_ParseUint_def [go_defs]
  int64_of_magnitude_def [go_defs] strconv_Atoi_def [go_defs] hex_digit_def [go_defs]
  quote_byte_def [go_defs] strconv_Quote_def [go_defs] nat_digits_rev.simps [go_defs]

subsection \<open>Laws\<close>

lemma nat_digits_rev_digits: "\<forall>c\<in>set (nat_digits_rev n). is_digit c"
proof (induction n rule: nat_digits_rev.induct)
  case (1 n)
  show ?case
  proof (cases "n < 10")
    case True
    then show ?thesis by (subst nat_digits_rev.simps) (simp add: is_digit_def)
  next
    case False
    with "1.IH" show ?thesis by (subst nat_digits_rev.simps) (simp add: is_digit_def)
  qed
qed

lemma nat_string_digits: "\<forall>c\<in>set (nat_string n). is_digit c"
  by (simp add: nat_string_def nat_digits_rev_digits)

lemma nat_digits_rev_nonempty [simp]: "nat_digits_rev n \<noteq> []"
  by (subst nat_digits_rev.simps) simp

lemma nat_string_nonempty [simp]: "nat_string n \<noteq> []"
  by (simp add: nat_string_def)

lemma scan_uint_append_digit:
  "scan_uint m a s = NumOk k \<Longrightarrow> is_digit c \<Longrightarrow> k * 10 + (byte_val c - 48) \<le> m \<Longrightarrow>
   scan_uint m a (s @ [c]) = NumOk (k * 10 + (byte_val c - 48))"
  by (induction m a s rule: scan_uint.induct) (auto split: if_splits)

lemma scan_uint_nat_string: "n \<le> m \<Longrightarrow> scan_uint m 0 (nat_string n) = NumOk n"
proof (induction n rule: nat_digits_rev.induct)
  case (1 n)
  show ?case
  proof (cases "n < 10")
    case True
    then show ?thesis using "1.prems"
      by (simp add: nat_string_def nat_digits_rev.simps [of n] is_digit_def)
  next
    case False
    then have "scan_uint m 0 (nat_string (n div 10)) = NumOk (n div 10)"
      using 1 by simp
    moreover have "nat_string n = nat_string (n div 10) @ [digit_char (n mod 10)]"
      using False by (simp add: nat_string_def nat_digits_rev.simps [of n])
    ultimately show ?thesis using "1.prems" scan_uint_append_digit [of m 0 "nat_string (n div 10)" "n div 10" "digit_char (n mod 10)"]
      by (simp add: is_digit_def)
  qed
qed

lemma is_digit_not_sign: "is_digit c \<Longrightarrow> c \<noteq> CHR ''-'' \<and> c \<noteq> CHR ''+''"
  by (auto simp: is_digit_def)

lemma strconv_ParseUint_nat_string:
  "n < 2 ^ bits \<Longrightarrow> strconv_ParseUint (nat_string n) bits = NumOk n"
  by (simp add: strconv_ParseUint_def scan_uint_nat_string Suc_le_eq flip: less_eq_Suc_le)

lemma strconv_Atoi_digits:
  "s \<noteq> [] \<Longrightarrow> \<forall>c\<in>set s. is_digit c \<Longrightarrow>
   strconv_Atoi s = int64_of_magnitude False (strconv_ParseUint s 64)"
  by (cases s) (auto simp: strconv_Atoi_def dest: is_digit_not_sign)

lemma strconv_Atoi_Itoa [go_text]:
  assumes "- (2 ^ 63) \<le> i" and "i < 2 ^ 63"
  shows "strconv_Atoi (strconv_Itoa i) = (i, True)"
proof (cases "i < 0")
  case True
  with assms have "nat (- i) < 2 ^ 64" "nat (- i) \<le> 2 ^ 63" by auto
  with True show ?thesis
    by (simp add: strconv_Atoi_def strconv_Itoa_def strconv_ParseUint_nat_string int64_of_magnitude_def)
next
  case False
  with assms have "nat i < 2 ^ 64" "nat i < 2 ^ 63" by auto
  with False show ?thesis
    by (simp add: strconv_Itoa_def strconv_Atoi_digits nat_string_digits strconv_ParseUint_nat_string
        int64_of_magnitude_def)
qed

section \<open>Slices and loops\<close>

text \<open>
  A \<^verbatim>\<open>for i, v := range xs\<close> loop that returns the position of the first match is
  \<open>find_pos\<close>; \<^verbatim>\<open>append(xs[:n], xs[n+1:]...)\<close> is \<open>remove_at\<close>.
\<close>

fun find_pos :: "('a \<Rightarrow> bool) \<Rightarrow> 'a list \<Rightarrow> nat option" where
  "find_pos P [] = None"
| "find_pos P (x # xs) = (if P x then Some 0 else map_option Suc (find_pos P xs))"

definition remove_at :: "nat \<Rightarrow> 'a list \<Rightarrow> 'a list" where
  "remove_at n xs = take n xs @ drop (Suc n) xs"

lemma find_pos_None [simp]: "find_pos P xs = None \<longleftrightarrow> (\<forall>x\<in>set xs. \<not> P x)"
  by (induction xs) auto

lemma find_pos_SomeD:
  "find_pos P xs = Some n \<Longrightarrow> n < length xs \<and> P (xs ! n) \<and> (\<forall>j<n. \<not> P (xs ! j))"
proof (induction xs arbitrary: n)
  case (Cons x xs)
  show ?case
  proof (cases "P x")
    case False
    with Cons.prems obtain k where k: "find_pos P xs = Some k" "n = Suc k" by auto
    from Cons.IH [OF k(1)] k(2) False show ?thesis
      by (auto simp: nth_Cons split: nat.splits)
  qed (use Cons.prems in simp)
qed simp

lemma remove_at_Cons [simp]:
  "remove_at 0 (x # xs) = xs"
  "remove_at (Suc n) (x # xs) = x # remove_at n xs"
  by (simp_all add: remove_at_def)

lemma set_remove_at_subset: "set (remove_at n xs) \<subseteq> set xs"
  by (auto simp: remove_at_def dest: in_set_takeD in_set_dropD)

lemma map_remove_at: "map f (remove_at n xs) = remove_at n (map f xs)"
  by (simp add: remove_at_def take_map drop_map)

lemma distinct_remove_at: "distinct xs \<Longrightarrow> distinct (remove_at n xs)"
proof (induction xs arbitrary: n)
  case (Cons x xs)
  then show ?case
    by (cases n) (auto dest: subsetD [OF set_remove_at_subset])
qed (simp add: remove_at_def)

lemma length_remove_at: "n < length xs \<Longrightarrow> length (remove_at n xs) = length xs - 1"
  by (simp add: remove_at_def)

lemma notin_remove_at: "distinct xs \<Longrightarrow> n < length xs \<Longrightarrow> xs ! n \<notin> set (remove_at n xs)"
proof (induction xs arbitrary: n)
  case (Cons x xs)
  then show ?case by (cases n) auto
qed simp

lemma map_update_same: "n < length xs \<Longrightarrow> f y = f (xs ! n) \<Longrightarrow> map f (xs[n := y]) = map f xs"
  by (simp add: map_update list_update_same_conv)

text \<open>
  A loop whose body may return an error, over a state that the body updates: \<open>for_each\<close>. The
  remaining iterations do not run after an error.
\<close>

fun for_each :: "('a \<Rightarrow> 's \<Rightarrow> 'e + 's) \<Rightarrow> 'a list \<Rightarrow> 's \<Rightarrow> 'e + 's" where
  "for_each f [] s = Inr s"
| "for_each f (x # xs) s = sum_bind (f x s) (for_each f xs)"

lemma for_each_invariant:
  assumes "for_each f xs s = Inr s'" and "P s"
    and "\<And>x s s'. x \<in> set xs \<Longrightarrow> P s \<Longrightarrow> f x s = Inr s' \<Longrightarrow> P s'"
  shows "P s'"
  using assms by (induction xs arbitrary: s) (auto simp: sum_bind_Inr_iff)

lemma for_each_append: "for_each f (xs @ ys) s = sum_bind (for_each f xs s) (for_each f ys)"
proof (induction xs arbitrary: s)
  case (Cons x xs)
  then show ?case by (cases "f x s") simp_all
qed simp

section \<open>Slices that are searched by a key\<close>

text \<open>
  A slice whose elements are found by a key is, when the keys are distinct, a finite map. These
  are the laws that carry the slice operations over to the map.
\<close>

definition keyed :: "('a \<Rightarrow> 'k) \<Rightarrow> 'a list \<Rightarrow> 'k \<rightharpoonup> 'a" where
  "keyed f xs = map_of (map (\<lambda>x. (f x, x)) xs)"

lemma keyed_Nil [simp]: "keyed f [] = Map.empty"
  by (simp add: keyed_def)

lemma keyed_Cons [simp]: "keyed f (x # xs) = (keyed f xs)(f x \<mapsto> x)"
  by (simp add: keyed_def)

lemma keyed_None_iff: "keyed f xs k = None \<longleftrightarrow> k \<notin> f ` set xs"
  by (induction xs) auto

lemma keyed_find: "find_pos (\<lambda>x. f x = k) xs = Some n \<Longrightarrow> keyed f xs k = Some (xs ! n)"
  by (induction xs arbitrary: n) (auto split: if_splits)

lemma key_notin_nth: "k \<notin> f ` set xs \<Longrightarrow> n < length xs \<Longrightarrow> f (xs ! n) \<noteq> k"
  by (metis image_eqI nth_mem)

lemma keyed_nth: "distinct (map f xs) \<Longrightarrow> n < length xs \<Longrightarrow> keyed f xs (f (xs ! n)) = Some (xs ! n)"
  by (induction xs arbitrary: n) (auto simp: nth_Cons dest: key_notin_nth split: nat.splits)

lemma keyed_snoc: "f y \<notin> f ` set xs \<Longrightarrow> keyed f (xs @ [y]) = (keyed f xs)(f y \<mapsto> y)"
  by (induction xs) (auto simp: fun_eq_iff)

lemma keyed_remove_at:
  "distinct (map f xs) \<Longrightarrow> n < length xs \<Longrightarrow> keyed f (remove_at n xs) = (keyed f xs)(f (xs ! n) := None)"
proof (induction xs arbitrary: n)
  case (Cons x xs)
  show ?case
  proof (cases n)
    case 0
    with Cons.prems show ?thesis by (auto simp: fun_eq_iff keyed_None_iff)
  next
    case (Suc m)
    with Cons.prems have "f (xs ! m) \<noteq> f x" using key_notin_nth [of "f x" f xs m] by auto
    with Suc Cons.prems Cons.IH [of m] show ?thesis by (auto simp: fun_eq_iff)
  qed
qed simp

lemma keyed_update:
  "distinct (map f xs) \<Longrightarrow> n < length xs \<Longrightarrow> f y = f (xs ! n) \<or> f y \<notin> f ` set xs \<Longrightarrow>
   keyed f (xs[n := y]) = ((keyed f xs)(f (xs ! n) := None))(f y \<mapsto> y)"
proof (induction xs arbitrary: n)
  case (Cons x xs)
  show ?case
  proof (cases n)
    case 0
    with Cons.prems show ?thesis by (auto simp: fun_eq_iff keyed_None_iff)
  next
    case (Suc m)
    with Cons.prems have "f (xs ! m) \<noteq> f x" "f y \<noteq> f x"
      using key_notin_nth [of "f x" f xs m] by auto
    with Suc Cons.prems Cons.IH [of m] show ?thesis by (auto simp: fun_eq_iff)
  qed
qed simp

lemma distinct_update_key:
  "distinct (map f xs) \<Longrightarrow> n < length xs \<Longrightarrow> f y = f (xs ! n) \<or> f y \<notin> f ` set xs \<Longrightarrow>
   distinct (map f (xs[n := y]))"
  by (auto simp: map_update intro: distinct_list_update)

end
