(* ===== verification/DataModel.thy ===== *)
theory DataModel
  imports GoPrelude
begin

text \<open>
  The data that the components exchange: \<^verbatim>\<open>internal/model/model.go\<close> (statements and their
  DDL/DML projections, audit issues and records, request options, execution results), the
  metadata types of \<^verbatim>\<open>internal/audit/audit.go\<close> and the row changes of
  \<^verbatim>\<open>internal/backup/backup.go\<close>. One record per struct, one datatype per string or integer
  enumeration; a pointer that may be \<^verbatim>\<open>nil\<close> is an option. Every record has its Go zero value,
  which composite literals update field by field.
\<close>

section \<open>Statement kinds and literals\<close>

datatype statement_kind =
    StatementUnknown | StatementUse | StatementCreateDatabase | StatementAlterDatabase
  | StatementDropDatabase | StatementCreateTable | StatementAlterTable | StatementDropTable
  | StatementRenameTable | StatementTruncateTable | StatementCreateIndex | StatementDropIndex
  | StatementCreateView | StatementAlterView | StatementDropView | StatementInsert
  | StatementUpdate | StatementDelete | StatementSelect

datatype literal_kind =
    LiteralUnknown | LiteralNull | LiteralBoolean | LiteralSignedInteger | LiteralUnsignedInteger
  | LiteralFloat | LiteralDecimal | LiteralString | LiteralBinary | LiteralTemporal
  | LiteralDuration | LiteralJSON

datatype ddl_action =
    DDLCreateDatabase | DDLAlterDatabase | DDLDropDatabase | DDLCreateTable | DDLAlterTable
  | DDLDropTable | DDLRenameTable | DDLTruncateTable | DDLCreateIndex | DDLDropIndex
  | DDLCreateView | DDLAlterView | DDLDropView

datatype alter_action =
    AlterAddColumns | AlterDropColumn | AlterModifyColumn | AlterChangeColumn | AlterRenameColumn
  | AlterAddIndex | AlterDropIndex | AlterDropPrimaryKey | AlterRenameIndex | AlterRenameTable
  | AlterTableOptions

text \<open>The string values of the two action types, which error messages print.\<close>

fun ddl_action_string :: "ddl_action \<Rightarrow> string" where
  "ddl_action_string DDLCreateDatabase = ''CREATE_DATABASE''"
| "ddl_action_string DDLAlterDatabase = ''ALTER_DATABASE''"
| "ddl_action_string DDLDropDatabase = ''DROP_DATABASE''"
| "ddl_action_string DDLCreateTable = ''CREATE_TABLE''"
| "ddl_action_string DDLAlterTable = ''ALTER_TABLE''"
| "ddl_action_string DDLDropTable = ''DROP_TABLE''"
| "ddl_action_string DDLRenameTable = ''RENAME_TABLE''"
| "ddl_action_string DDLTruncateTable = ''TRUNCATE_TABLE''"
| "ddl_action_string DDLCreateIndex = ''CREATE_INDEX''"
| "ddl_action_string DDLDropIndex = ''DROP_INDEX''"
| "ddl_action_string DDLCreateView = ''CREATE_VIEW''"
| "ddl_action_string DDLAlterView = ''ALTER_VIEW''"
| "ddl_action_string DDLDropView = ''DROP_VIEW''"

fun alter_action_string :: "alter_action \<Rightarrow> string" where
  "alter_action_string AlterAddColumns = ''ADD_COLUMNS''"
| "alter_action_string AlterDropColumn = ''DROP_COLUMN''"
| "alter_action_string AlterModifyColumn = ''MODIFY_COLUMN''"
| "alter_action_string AlterChangeColumn = ''CHANGE_COLUMN''"
| "alter_action_string AlterRenameColumn = ''RENAME_COLUMN''"
| "alter_action_string AlterAddIndex = ''ADD_INDEX''"
| "alter_action_string AlterDropIndex = ''DROP_INDEX''"
| "alter_action_string AlterDropPrimaryKey = ''DROP_PRIMARY_KEY''"
| "alter_action_string AlterRenameIndex = ''RENAME_INDEX''"
| "alter_action_string AlterRenameTable = ''RENAME_TABLE''"
| "alter_action_string AlterTableOptions = ''TABLE_OPTIONS''"

section \<open>References, columns, indexes\<close>

record table_ref =
  tr_Schema :: string
  tr_Name :: string
  tr_Alias :: string

record column_ref =
  cr_Schema :: string
  cr_Table :: string
  cr_Name :: string

record rename_pair =
  rp_From :: table_ref
  rp_To :: table_ref

record column_spec =
  c_Name :: string
  c_Type :: string
  c_Nullable :: bool
  c_HasComment :: bool
  c_PrimaryKey :: bool
  c_AutoIncrement :: bool
  c_Unsigned :: bool
  c_HasDefault :: bool
  c_Generated :: bool
  c_CharacterSet :: string
  c_Collation :: string
  c_DefaultExpression :: string
  c_OnUpdate :: bool
  c_Length :: int
  c_PositionChanged :: bool
  c_ExplicitCharset :: bool

definition zero_column_spec :: column_spec where
  "zero_column_spec = \<lparr> c_Name = [], c_Type = [], c_Nullable = False, c_HasComment = False,
     c_PrimaryKey = False, c_AutoIncrement = False, c_Unsigned = False, c_HasDefault = False,
     c_Generated = False, c_CharacterSet = [], c_Collation = [], c_DefaultExpression = [],
     c_OnUpdate = False, c_Length = 0, c_PositionChanged = False, c_ExplicitCharset = False \<rparr>"

record index_spec =
  i_Name :: string
  i_Columns :: "string list"
  i_Unique :: bool
  i_Primary :: bool
  i_PrefixLengths :: "int list"
  i_Expressions :: "string list"

definition zero_index_spec :: index_spec where
  "zero_index_spec = \<lparr> i_Name = [], i_Columns = [], i_Unique = False, i_Primary = False,
     i_PrefixLengths = [], i_Expressions = [] \<rparr>"

record alter_operation =
  op_Action :: alter_action
  op_Name :: string
  op_NewName :: string
  op_Columns :: "column_spec list"
  op_Index :: "index_spec option"
  op_NewTable :: "table_ref option"

section \<open>Projections of a statement\<close>

record ddl_spec =
  d_Action :: ddl_action
  d_Schema :: string
  d_Table :: string
  d_Tables :: "table_ref list"
  d_Reference :: "table_ref option"
  d_RenamePairs :: "rename_pair list"
  d_AlterOperations :: "alter_operation list"
  d_Columns :: "column_spec list"
  d_Indexes :: "index_spec list"
  d_HasPrimaryKey :: bool
  d_HasComment :: bool
  d_CreateLike :: bool
  d_CreateSelect :: bool
  d_FullyProjected :: bool
  d_IfExists :: bool
  d_IfNotExists :: bool
  d_Noop :: bool
  d_Engine :: string
  d_CharacterSet :: string
  d_Collation :: string
  d_HasEngineOption :: bool
  d_HasCharsetOption :: bool
  d_HasCollationOption :: bool
  d_AutoIncrementValue :: "64 word"
  d_HasForeignKey :: bool
  d_Partitioned :: bool

definition zero_ddl_spec :: "ddl_action \<Rightarrow> ddl_spec" where
  "zero_ddl_spec a = \<lparr> d_Action = a, d_Schema = [], d_Table = [], d_Tables = [], d_Reference = None,
     d_RenamePairs = [], d_AlterOperations = [], d_Columns = [], d_Indexes = [],
     d_HasPrimaryKey = False, d_HasComment = False, d_CreateLike = False, d_CreateSelect = False,
     d_FullyProjected = False, d_IfExists = False, d_IfNotExists = False, d_Noop = False,
     d_Engine = [], d_CharacterSet = [], d_Collation = [], d_HasEngineOption = False,
     d_HasCharsetOption = False, d_HasCollationOption = False, d_AutoIncrementValue = 0,
     d_HasForeignKey = False, d_Partitioned = False \<rparr>"

record comparison_spec =
  cmp_Column :: column_ref
  cmp_LiteralKind :: literal_kind

record dml_spec =
  m_Tables :: "table_ref list"
  m_Columns :: "string list"
  m_Assignments :: "column_ref list"
  m_HasWhere :: bool
  m_HasLimit :: bool
  m_HasOrderBy :: bool
  m_MultiTable :: bool
  m_InsertSelect :: bool
  m_OnDuplicate :: bool
  m_FullyProjected :: bool
  m_ValueRows :: int
  m_HasJoinWithoutOn :: bool
  m_HasSelectStar :: bool
  m_EstimatedRows :: int
  m_EstimateMethod :: string
  m_UsesCTE :: bool
  m_OrderByRand :: bool
  m_WrongAndExpr :: bool
  m_Comparisons :: "comparison_spec list"

definition zero_dml_spec :: dml_spec where
  "zero_dml_spec = \<lparr> m_Tables = [], m_Columns = [], m_Assignments = [], m_HasWhere = False,
     m_HasLimit = False, m_HasOrderBy = False, m_MultiTable = False, m_InsertSelect = False,
     m_OnDuplicate = False, m_FullyProjected = False, m_ValueRows = 0, m_HasJoinWithoutOn = False,
     m_HasSelectStar = False, m_EstimatedRows = 0, m_EstimateMethod = [], m_UsesCTE = False,
     m_OrderByRand = False, m_WrongAndExpr = False, m_Comparisons = [] \<rparr>"

record statement =
  s_Sequence :: int
  s_Original :: string
  s_Normalized :: string
  s_Kind :: statement_kind
  s_Database :: string
  s_StartOffset :: int
  s_EndOffset :: int
  s_Supported :: bool
  s_DDL :: "ddl_spec option"
  s_DML :: "dml_spec option"

definition zero_statement :: "statement_kind \<Rightarrow> statement" where
  "zero_statement k = \<lparr> s_Sequence = 0, s_Original = [], s_Normalized = [], s_Kind = k,
     s_Database = [], s_StartOffset = 0, s_EndOffset = 0, s_Supported = False,
     s_DDL = None, s_DML = None \<rparr>"

record parse_result =
  pr_Statements :: "statement list"
  pr_Warnings :: "string list"

record impact_estimate =
  est_Rows :: int
  est_Method :: string
  est_Exact :: bool

section \<open>Audit issues, records, requests, results\<close>

text \<open>\<^verbatim>\<open>type Severity uint8\<close> with its three named values.\<close>

type_synonym severity = "8 word"

abbreviation SeverityNone :: severity where "SeverityNone \<equiv> 0"
abbreviation SeverityWarning :: severity where "SeverityWarning \<equiv> 1"
abbreviation SeverityError :: severity where "SeverityError \<equiv> 2"

record audit_issue =
  iss_RuleID :: string
  iss_LegacyKey :: string
  iss_Code :: int
  iss_Level :: severity
  iss_Message :: string
  iss_Sequence :: int

record audit_record =
  rec_Sequence :: int
  rec_Stage :: string
  rec_ErrorLevel :: severity
  rec_StageStatus :: string
  rec_ErrorMessage :: string
  rec_SQL :: string
  rec_AffectedRows :: int
  rec_BackupDatabase :: string
  rec_ExecuteTime :: int
  rec_SQLSHA1 :: string
  rec_BackupCompleted :: bool
  rec_BackupTime :: int
  rec_OperationID :: string
  rec_Issues :: "audit_issue list"

definition zero_audit_record :: audit_record where
  "zero_audit_record = \<lparr> rec_Sequence = 0, rec_Stage = [], rec_ErrorLevel = SeverityNone,
     rec_StageStatus = [], rec_ErrorMessage = [], rec_SQL = [], rec_AffectedRows = 0,
     rec_BackupDatabase = [], rec_ExecuteTime = 0, rec_SQLSHA1 = [], rec_BackupCompleted = False,
     rec_BackupTime = 0, rec_OperationID = [], rec_Issues = [] \<rparr>"

record target_options =
  tgt_Host :: string
  tgt_Port :: "16 word"
  tgt_User :: string
  tgt_Password :: string
  tgt_Database :: string
  tgt_SQLMode :: string
  tgt_Version :: string
  tgt_SQLSafeUpdates :: int
  tgt_LockWaitTimeout :: int
  tgt_DefaultCharset :: string

record request_options =
  opt_Target :: target_options
  opt_Check :: bool
  opt_Execute :: bool
  opt_Backup :: bool
  opt_IgnoreWarnings :: bool
  opt_SleepMillis :: int
  opt_SleepRows :: int
  opt_TraceID :: string

record execution_result =
  res_Sequence :: int
  res_AffectedRows :: int
  res_Duration :: int
  res_Error :: string
  res_RuleID :: string
  res_BackupDatabase :: string
  res_BackupCompleted :: bool
  res_BackupDuration :: int
  res_SequenceID :: string
  res_Executed :: bool

definition zero_execution_result :: execution_result where
  "zero_execution_result = \<lparr> res_Sequence = 0, res_AffectedRows = 0, res_Duration = 0,
     res_Error = [], res_RuleID = [], res_BackupDatabase = [], res_BackupCompleted = False,
     res_BackupDuration = 0, res_SequenceID = [], res_Executed = False \<rparr>"

section \<open>Metadata of the target server\<close>

record server_info =
  srv_Version :: string
  srv_SQLMode :: string
  srv_LowerCaseTableNames :: int
  srv_CharacterSetServer :: string
  srv_CollationServer :: string
  srv_ExplicitDefaultsForTimestamp :: bool

record schema_meta =
  sch_Name :: string
  sch_CharacterSet :: string
  sch_Collation :: string

record column_meta =
  col_Name :: string
  col_ColumnType :: string
  col_Nullable :: bool
  col_Default :: "string option"
  col_Extra :: string
  col_CharacterSet :: string
  col_Collation :: string
  col_Comment :: string
  col_GenerationExpression :: string
  col_AutoIncrement :: bool
  col_Unsigned :: bool

definition zero_column_meta :: column_meta where
  "zero_column_meta = \<lparr> col_Name = [], col_ColumnType = [], col_Nullable = False,
     col_Default = None, col_Extra = [], col_CharacterSet = [], col_Collation = [],
     col_Comment = [], col_GenerationExpression = [], col_AutoIncrement = False,
     col_Unsigned = False \<rparr>"

record index_meta =
  idx_Name :: string
  idx_Columns :: "string list"
  idx_Unique :: bool
  idx_Primary :: bool
  idx_PrefixLengths :: "int list"
  idx_Expressions :: "string list"
  idx_Directions :: "string list"
  idx_IndexType :: string
  idx_Visible :: bool

definition zero_index_meta :: index_meta where
  "zero_index_meta = \<lparr> idx_Name = [], idx_Columns = [], idx_Unique = False, idx_Primary = False,
     idx_PrefixLengths = [], idx_Expressions = [], idx_Directions = [], idx_IndexType = [],
     idx_Visible = False \<rparr>"

record table_meta =
  t_Schema :: string
  t_Name :: string
  t_CreateSQL :: string
  t_Columns :: "column_meta list"
  t_Indexes :: "index_meta list"
  t_IsView :: bool
  t_CharacterSet :: string
  t_Collation :: string
  t_Engine :: string
  t_TableType :: string
  t_Comment :: string
  t_Rows :: "64 word"

definition zero_table_meta :: table_meta where
  "zero_table_meta = \<lparr> t_Schema = [], t_Name = [], t_CreateSQL = [], t_Columns = [],
     t_Indexes = [], t_IsView = False, t_CharacterSet = [], t_Collation = [], t_Engine = [],
     t_TableType = [], t_Comment = [], t_Rows = 0 \<rparr>"

lemmas zero_defs = zero_column_spec_def zero_index_spec_def zero_ddl_spec_def zero_dml_spec_def
  zero_statement_def zero_audit_record_def zero_execution_result_def zero_column_meta_def
  zero_index_meta_def zero_table_meta_def

end
