(* ===== verification/Request.thy ===== *)
theory Request
  imports DataModel
begin

text \<open>
  \<^verbatim>\<open>internal/request/legacy.go\<close>: the inception envelope. A request is a directive comment, the
  marker \<^verbatim>\<open>inception_magic_start\<close>, the SQL statements and \<^verbatim>\<open>inception_magic_commit\<close>. The
  functions follow the file from the request boundary (console encoding) through the lexical
  splitter and the directive parser to \<open>ParseLegacyEnvelope\<close>.
\<close>

section \<open>Limits and directives\<close>

definition MaxRequestBytes :: nat where "MaxRequestBytes = 16 * 2 ^ 20"
definition MaxStatementBytes :: nat where "MaxStatementBytes = 2 ^ 20"
definition MaxStatements :: nat where "MaxStatements = 10000"

definition allowedDirectives :: "string list" where
  "allowedDirectives = [''host'', ''port'', ''user'', ''password'', ''db'', ''check'', ''execute'',
     ''backup'', ''sql_mode'', ''mysql_version'', ''ignore_warnings'', ''sleep'', ''sleep_rows'',
     ''trace_id'', ''trace-id'']"

record legacy_envelope =
  env_Options :: request_options
  env_SQL :: string

section \<open>Console encoding\<close>

text \<open>\<^verbatim>\<open>utf16.Decode\<close> and the conversion of runes to a string (UTF-8).\<close>

fun utf16_Decode :: "nat list \<Rightarrow> nat list" where
  "utf16_Decode [] = []"
| "utf16_Decode (u # us) =
     (if u < 0xD800 \<or> 0xE000 \<le> u then u # utf16_Decode us
      else if u < 0xDC00 then
        (case us of
           v # vs \<Rightarrow>
             if 0xDC00 \<le> v \<and> v < 0xE000
             then ((u - 0xD800) * 1024 + (v - 0xDC00) + 0x10000) # utf16_Decode vs
             else 0xFFFD # utf16_Decode us
         | [] \<Rightarrow> 0xFFFD # utf16_Decode us)
      else 0xFFFD # utf16_Decode us)"

definition utf8_encode_rune :: "nat \<Rightarrow> string" where
  "utf8_encode_rune r =
     (if r < 0x80 then [char_of r]
      else if r < 0x800 then [char_of (0xC0 + r div 64), char_of (0x80 + r mod 64)]
      else if r < 0x10000 then
        [char_of (0xE0 + r div 4096), char_of (0x80 + (r div 64) mod 64), char_of (0x80 + r mod 64)]
      else
        [char_of (0xF0 + r div 262144), char_of (0x80 + (r div 4096) mod 64),
         char_of (0x80 + (r div 64) mod 64), char_of (0x80 + r mod 64)])"

definition runes_to_string :: "nat list \<Rightarrow> string" where
  "runes_to_string rs = concat (map utf8_encode_rune rs)"

fun strip_utf8_bom :: "string \<Rightarrow> string" where
  "strip_utf8_bom (a # b # c # rest) =
     (if a = CHR 0xEF \<and> b = CHR 0xBB \<and> c = CHR 0xBF then strip_utf8_bom rest else a # b # c # rest)"
| "strip_utf8_bom s = s"

fun utf16_units :: "bool \<Rightarrow> string \<Rightarrow> nat list" where
  "utf16_units bigEndian (a # b # rest) =
     (if bigEndian then byte_val a * 256 + byte_val b else byte_val b * 256 + byte_val a)
       # utf16_units bigEndian rest"
| "utf16_units bigEndian s = []"

text \<open>The byte-order detection: the remaining bytes, \<^verbatim>\<open>utf16Input\<close> and \<^verbatim>\<open>bigEndian\<close>.\<close>

definition detect_utf16 :: "string \<Rightarrow> string \<times> bool \<times> bool" where
  "detect_utf16 b =
     (if length b \<ge> 2 \<and> b ! 0 = CHR 0xFF \<and> b ! 1 = CHR 0xFE then (drop 2 b, True, False)
      else if length b \<ge> 2 \<and> b ! 0 = CHR 0xFE \<and> b ! 1 = CHR 0xFF then (drop 2 b, True, True)
      else if length b \<ge> 4
      then (b, b ! 1 = CHR 0x00 \<and> b ! 3 = CHR 0x00, b ! 0 = CHR 0x00 \<and> b ! 2 = CHR 0x00)
      else (b, False, False))"

definition normalizeConsoleEncoding :: "string \<Rightarrow> string" where
  "normalizeConsoleEncoding input =
     (case detect_utf16 (strip_utf8_bom input) of (b, utf16Input, bigEndian) \<Rightarrow>
        if \<not> utf16Input \<and> \<not> bigEndian then b
        else if length b mod 2 \<noteq> 0 then input
        else runes_to_string (utf16_Decode (utf16_units bigEndian b)))"

section \<open>The lexical splitter\<close>

text \<open>
  The state of the loop of \<^verbatim>\<open>splitSQL\<close>. \<open>sp_segment\<close> is \<^verbatim>\<open>runes[start:i]\<close>, reversed;
  \<open>sp_quote\<close> is \<^const>\<open>None\<close> for \<^verbatim>\<open>quote == 0\<close>.
\<close>

record split_state =
  sp_result :: "string list"
  sp_segment :: string
  sp_quote :: "char option"
  sp_blockComment :: bool
  sp_lineComment :: bool
  sp_escaped :: bool

definition split_init :: split_state where
  "split_init = \<lparr> sp_result = [], sp_segment = [], sp_quote = None, sp_blockComment = False,
     sp_lineComment = False, sp_escaped = False \<rparr>"

definition keep1 :: "split_state \<Rightarrow> char \<Rightarrow> split_state" where
  "keep1 st r = st\<lparr>sp_segment := r # sp_segment st\<rparr>"

definition emit_part :: "split_state \<Rightarrow> split_state" where
  "emit_part st =
     (let part = strings_TrimSpace (rev (sp_segment st)) in
      st\<lparr>sp_result := (if part \<noteq> [] then sp_result st @ [part] else sp_result st),
         sp_segment := []\<rparr>)"

text \<open>
  One iteration of the loop on the rune \<open>r\<close>, with \<open>rest\<close> the runes after it; the boolean says
  that the body advanced \<^verbatim>\<open>i\<close> once more (\<^verbatim>\<open>i++\<close>).
\<close>

definition split_step :: "split_state \<Rightarrow> char \<Rightarrow> string \<Rightarrow> split_state \<times> bool" where
  "split_step st r rest =
     (let next = (case rest of [] \<Rightarrow> CHR 0x00 | c # _ \<Rightarrow> c);
          one = keep1 st r; two = keep1 one next in
      if sp_lineComment st then
        (if r = CHR 0x0A then one\<lparr>sp_lineComment := False\<rparr> else one, False)
      else if sp_blockComment st then
        (if r = CHR ''*'' \<and> next = CHR ''/'' then (two\<lparr>sp_blockComment := False\<rparr>, True)
         else (one, False))
      else (case sp_quote st of
        Some quote \<Rightarrow>
          if sp_escaped st then (one\<lparr>sp_escaped := False\<rparr>, False)
          else if r = CHR 0x5C \<and> quote \<noteq> CHR 0x60 then (one\<lparr>sp_escaped := True\<rparr>, False)
          else if r = quote then
            (if next = quote then (two, True) else (one\<lparr>sp_quote := None\<rparr>, False))
          else (one, False)
      | None \<Rightarrow>
          if r = CHR ''/'' \<and> next = CHR ''*'' then (two\<lparr>sp_blockComment := True\<rparr>, True)
          else if r = CHR ''#'' \<or> (r = CHR ''-'' \<and> next = CHR ''-'' \<and>
                 (case rest of _ # c # _ \<Rightarrow> is_space c | _ \<Rightarrow> True)) then
            (if r = CHR ''-'' then (two\<lparr>sp_lineComment := True\<rparr>, True)
             else (one\<lparr>sp_lineComment := True\<rparr>, False))
          else if r = CHR 0x27 \<or> r = CHR 0x22 \<or> r = CHR 0x60 then
            (one\<lparr>sp_quote := Some r\<rparr>, False)
          else if r = CHR '';'' then (emit_part st, False)
          else (one, False)))"

fun split_loop :: "split_state \<Rightarrow> string \<Rightarrow> split_state" where
  "split_loop st [] = st"
| "split_loop st (r # rest) =
     (case split_step st r rest of (st', skip) \<Rightarrow>
        split_loop st' (if skip then drop 1 rest else rest))"

definition splitSQL :: "string \<Rightarrow> gerror + string list" where
  "splitSQL input =
     (let st = split_loop split_init input in
      if sp_quote st \<noteq> None \<or> sp_blockComment st
      then Inl (errorf ''unterminated quoted string or comment'')
      else Inr (sp_result (emit_part st)))"

section \<open>Directives\<close>

definition splitLeadingDirectives :: "string \<Rightarrow> gerror + string \<times> string" where
  "splitLeadingDirectives input =
     (let trimmed = strings_TrimSpace input in
      if \<not> strings_HasPrefix trimmed ''/*'' then Inr ([], trimmed)
      else (case strings_Index (drop 2 trimmed) ''*/'' of
              None \<Rightarrow> Inl (errorf ''unterminated inception directive comment'')
            | Some n \<Rightarrow> Inr (take n (drop 2 trimmed), strings_TrimSpace (drop (n + 4) trimmed))))"

definition canonicalDirective :: "string \<Rightarrow> string" where
  "canonicalDirective key =
     strings_ReplaceAll (strings_ToLower (strings_TrimSpace key)) CHR ''-'' ''_''"

fun parseDirectiveFields :: "(string \<rightharpoonup> string) \<Rightarrow> string list \<Rightarrow> gerror + (string \<rightharpoonup> string)" where
  "parseDirectiveFields result [] = Inr result"
| "parseDirectiveFields result (f # fs) =
     (let field = strings_TrimSpace (strings_TrimLeft (strings_TrimSpace f) ''-'') in
      if field = [] then parseDirectiveFields result fs
      else (case strings_SplitN field CHR ''='' 2 of
              [k, v] \<Rightarrow>
                let key = canonicalDirective k in
                if key \<notin> set allowedDirectives
                then Inl (errorf (''unknown inception directive '' @ strconv_Quote key))
                else if result key \<noteq> None
                then Inl (errorf (''duplicate inception directive '' @ strconv_Quote key))
                else parseDirectiveFields
                       (result(key \<mapsto> strings_Trim (strings_TrimSpace v) [CHR 0x27, CHR 0x22])) fs
            | _ \<Rightarrow> Inl (errorf (''directive '' @ strconv_Quote field @ '' must use key=value''))))"

definition parseDirectives :: "string \<Rightarrow> gerror + (string \<rightharpoonup> string)" where
  "parseDirectives input = parseDirectiveFields Map.empty (strings_Split input CHR '';'')"

text \<open>Reading a Go map at a missing key gives the zero value.\<close>

definition map_get :: "(string \<rightharpoonup> string) \<Rightarrow> string \<Rightarrow> string" where
  "map_get m k = (case m k of None \<Rightarrow> [] | Some v \<Rightarrow> v)"

definition parseNonNegativeInt :: "string \<Rightarrow> string \<Rightarrow> int \<Rightarrow> gerror + int" where
  "parseNonNegativeInt value key mx =
     (if value = [] then Inr 0
      else (case strconv_Atoi value of (v, ok) \<Rightarrow>
        if \<not> ok \<or> v < 0 \<or> v > mx
        then Inl (errorf (''invalid '' @ key @ '' value '' @ strconv_Quote value))
        else Inr v))"

definition parsePort :: "string \<Rightarrow> gerror + 16 word" where
  "parsePort value =
     (if value = [] then Inr 3306
      else (case strconv_ParseUint value 16 of
              NumOk port \<Rightarrow>
                if port = 0 then Inl (errorf (''invalid target port '' @ strconv_Quote value))
                else Inr (of_nat port)
            | _ \<Rightarrow> Inl (errorf (''invalid target port '' @ strconv_Quote value))))"

definition parseBool :: "(string \<rightharpoonup> string) \<Rightarrow> string \<Rightarrow> bool \<Rightarrow> gerror + bool" where
  "parseBool values key fallback =
     (case values key of
        None \<Rightarrow> Inr fallback
      | Some value \<Rightarrow>
          if strings_ToLower value \<in> {''1'', ''true'', ''on''} then Inr True
          else if strings_ToLower value \<in> {''0'', ''false'', ''off''} then Inr False
          else Inl (errorf (''invalid boolean value '' @ strconv_Quote value @ '' for '' @ key)))"

definition markerEquals :: "string \<Rightarrow> string \<Rightarrow> bool" where
  "markerEquals value marker =
     strings_EqualFold
       (strings_TrimSpace (strings_TrimSuffix (strings_TrimSpace value) '';'')) marker"

section \<open>The envelope\<close>

definition trace_char_ok :: "char \<Rightarrow> bool" where
  "trace_char_ok r \<longleftrightarrow> is_letter r \<or> is_digit r \<or> r \<in> set ''._:-''"

definition is_control_marker :: "string \<Rightarrow> bool" where
  "is_control_marker part \<longleftrightarrow> markerEquals part ''inception_magic_start'' \<or>
     markerEquals part ''inception_magic_commit'' \<or> markerEquals part ''inception_magic_end''"

text \<open>The checks on the statement list: the directive text and the body statements.\<close>

definition envelope_body :: "string list \<Rightarrow> gerror + string \<times> string list" where
  "envelope_body parts =
     sum_bind (fail_if (length parts < 3)
       (errorf ''request must contain inception_magic_start, SQL, and inception_magic_commit'')) (\<lambda>_.
     sum_bind (splitLeadingDirectives (hd parts)) (\<lambda>(directiveText, startText).
     sum_bind (fail_if (\<not> markerEquals startText ''inception_magic_start'')
       (errorf ''first statement must be inception_magic_start'')) (\<lambda>_.
     sum_bind (fail_if (\<not> markerEquals (last parts) ''inception_magic_commit'' \<and>
                        \<not> markerEquals (last parts) ''inception_magic_end'')
       (errorf ''request must end with inception_magic_commit'')) (\<lambda>_.
     let bodyParts = butlast (tl parts) in
     sum_bind (fail_if (\<exists>part\<in>set bodyParts. is_control_marker part)
       (errorf ''duplicate or misplaced inception control marker'')) (\<lambda>_.
     sum_bind (fail_if (length bodyParts > MaxStatements)
       (errorf (''statement count exceeds '' @ strconv_Itoa (int MaxStatements)))) (\<lambda>_.
     sum_bind (fail_if (\<exists>part\<in>set bodyParts. length part > MaxStatementBytes)
       (errorf (''SQL statement exceeds '' @ strconv_Itoa (int MaxStatementBytes) @ '' bytes''))) (\<lambda>_.
     Inr (directiveText, bodyParts))))))))"

text \<open>The defaulting of \<^verbatim>\<open>sleep_rows\<close> and of the trace identifier.\<close>

definition effective_sleep_rows :: "int \<Rightarrow> int \<Rightarrow> int" where
  "effective_sleep_rows sleepMillis sleepRows =
     (let rows = (if sleepMillis > 0 \<and> sleepRows = 0 then 1 else sleepRows) in
      if sleepMillis = 0 then 0 else rows)"

definition request_trace_id :: "(string \<rightharpoonup> string) \<Rightarrow> string" where
  "request_trace_id values =
     (if map_get values ''trace_id'' = [] then map_get values ''trace-id''
      else map_get values ''trace_id'')"

text \<open>The checks on the directive values: the request options.\<close>

definition envelope_options :: "(string \<rightharpoonup> string) \<Rightarrow> gerror + request_options" where
  "envelope_options values =
     sum_bind (parsePort (map_get values ''port'')) (\<lambda>port.
     sum_bind (parseBool values ''check'' True) (\<lambda>check.
     sum_bind (parseBool values ''execute'' False) (\<lambda>execute.
     sum_bind (parseBool values ''backup'' False) (\<lambda>backup.
     sum_bind (fail_if (strings_TrimSpace (map_get values ''host'') = [])
       (errorf ''target host is required'')) (\<lambda>_.
     sum_bind (fail_if (strings_TrimSpace (map_get values ''user'') = [])
       (errorf ''target user is required'')) (\<lambda>_.
     sum_bind (fail_if (backup \<and> \<not> execute) (errorf ''backup requires execute=1'')) (\<lambda>_.
     sum_bind (parseBool values ''ignore_warnings'' False) (\<lambda>ignoreWarnings.
     sum_bind (parseNonNegativeInt (map_get values ''sleep'') ''sleep'' 100000) (\<lambda>sleepMillis.
     sum_bind (parseNonNegativeInt (map_get values ''sleep_rows'') ''sleep_rows'' (2 ^ 63 - 1)) (\<lambda>sleepRows.
     let traceID = request_trace_id values in
     sum_bind (fail_if (length traceID > 128) (errorf ''trace-id exceeds 128 characters'')) (\<lambda>_.
     case find (\<lambda>r. \<not> trace_char_ok r) traceID of
       Some r \<Rightarrow> Inl (errorf (''trace-id contains invalid character '' @ strconv_QuoteRune r))
     | None \<Rightarrow> Inr \<lparr> opt_Target = \<lparr> tgt_Host = map_get values ''host'', tgt_Port = port,
           tgt_User = map_get values ''user'', tgt_Password = map_get values ''password'',
           tgt_Database = map_get values ''db'', tgt_SQLMode = map_get values ''sql_mode'',
           tgt_Version = map_get values ''mysql_version'', tgt_SQLSafeUpdates = 0,
           tgt_LockWaitTimeout = 0, tgt_DefaultCharset = [] \<rparr>,
         opt_Check = check, opt_Execute = execute, opt_Backup = backup,
         opt_IgnoreWarnings = ignoreWarnings, opt_SleepMillis = sleepMillis,
         opt_SleepRows = effective_sleep_rows sleepMillis sleepRows, opt_TraceID = traceID \<rparr>)))))))))))"

definition join_body :: "string list \<Rightarrow> string" where
  "join_body bodyParts = strings_Join bodyParts ('';'' @ [CHR 0x0A]) @ '';''"

definition ParseLegacyEnvelope :: "string \<Rightarrow> gerror + legacy_envelope" where
  "ParseLegacyEnvelope raw =
     (let input = normalizeConsoleEncoding raw in
      sum_bind (fail_if (length input > MaxRequestBytes)
        (errorf (''inception request exceeds '' @ strconv_Itoa (int MaxRequestBytes) @ '' bytes''))) (\<lambda>_.
      sum_bind (splitSQL input) (\<lambda>parts.
      sum_bind (envelope_body parts) (\<lambda>(directiveText, bodyParts).
      sum_bind (parseDirectives directiveText) (\<lambda>values.
      sum_bind (envelope_options values) (\<lambda>options.
      Inr \<lparr> env_Options = options, env_SQL = join_body bodyParts \<rparr>))))))"

end
