(* ===== verification/RequestFacts.thy ===== *)
theory RequestFacts
  imports Request
begin

text \<open>
  Lemmas and properties of the request envelope of \<open>Request\<close>: the splitter loses no text and
  splits a joined body back into its statements, console encodings decode to the text they encode,
  and an accepted request satisfies the option checks.
\<close>

section \<open>Lexer states\<close>

definition is_quote :: "char \<Rightarrow> bool" where
  "is_quote q \<longleftrightarrow> q = CHR 0x27 \<or> q = CHR 0x22 \<or> q = CHR 0x60"

definition quote_ok :: "split_state \<Rightarrow> bool" where
  "quote_ok st \<longleftrightarrow> (\<forall>q. sp_quote st = Some q \<longrightarrow> is_quote q)"

definition lex_normal :: "split_state \<Rightarrow> bool" where
  "lex_normal st \<longleftrightarrow> sp_quote st = None \<and> \<not> sp_blockComment st \<and> \<not> sp_lineComment st"

lemma is_quote_neq: "is_quote q \<Longrightarrow> q \<noteq> CHR 0x00 \<and> q \<noteq> CHR '';''"
  by (auto simp: is_quote_def)

abbreviation next_rune :: "string \<Rightarrow> char" where
  "next_rune rest \<equiv> (case rest of [] \<Rightarrow> CHR 0x00 | c # _ \<Rightarrow> c)"

lemma split_step_line:
  "sp_lineComment st \<Longrightarrow> split_step st r rest =
     (if r = CHR 0x0A then (keep1 st r)\<lparr>sp_lineComment := False\<rparr> else keep1 st r, False)"
  by (simp add: split_step_def Let_def)

lemma split_step_block:
  "\<not> sp_lineComment st \<Longrightarrow> sp_blockComment st \<Longrightarrow> split_step st r rest =
     (if r = CHR ''*'' \<and> next_rune rest = CHR ''/''
      then ((keep1 (keep1 st r) CHR ''/'')\<lparr>sp_blockComment := False\<rparr>, True) else (keep1 st r, False))"
  by (simp add: split_step_def Let_def)

lemma split_step_quote:
  "\<not> sp_lineComment st \<Longrightarrow> \<not> sp_blockComment st \<Longrightarrow> sp_quote st = Some q \<Longrightarrow> split_step st r rest =
     (if sp_escaped st then ((keep1 st r)\<lparr>sp_escaped := False\<rparr>, False)
      else if r = CHR 0x5C \<and> q \<noteq> CHR 0x60 then ((keep1 st r)\<lparr>sp_escaped := True\<rparr>, False)
      else if r = q then
        (if next_rune rest = q then (keep1 (keep1 st r) q, True) else ((keep1 st r)\<lparr>sp_quote := None\<rparr>, False))
      else (keep1 st r, False))"
  by (simp add: split_step_def Let_def)

lemma split_step_normal:
  "lex_normal st \<Longrightarrow> split_step st r rest =
     (if r = CHR ''/'' \<and> next_rune rest = CHR ''*''
      then ((keep1 (keep1 st r) CHR ''*'')\<lparr>sp_blockComment := True\<rparr>, True)
      else if r = CHR ''#'' then ((keep1 st r)\<lparr>sp_lineComment := True\<rparr>, False)
      else if r = CHR ''-'' \<and> next_rune rest = CHR ''-'' \<and>
              (case rest of _ # c # _ \<Rightarrow> is_space c | _ \<Rightarrow> True)
      then ((keep1 (keep1 st r) CHR ''-'')\<lparr>sp_lineComment := True\<rparr>, True)
      else if is_quote r then ((keep1 st r)\<lparr>sp_quote := Some r\<rparr>, False)
      else if r = CHR '';'' then (emit_part st, False)
      else (keep1 st r, False))"
  by (simp add: split_step_def Let_def lex_normal_def is_quote_def)

lemma lex_mode_cases:
  obtains (line) "sp_lineComment st"
  | (block) "\<not> sp_lineComment st" "sp_blockComment st"
  | (quote) q where "\<not> sp_lineComment st" "\<not> sp_blockComment st" "sp_quote st = Some q"
  | (normal) "lex_normal st"
  by (cases "sp_quote st") (auto simp: lex_normal_def)

lemma keep1_simps [simp]:
  "sp_quote (keep1 st r) = sp_quote st"
  "sp_blockComment (keep1 st r) = sp_blockComment st"
  "sp_lineComment (keep1 st r) = sp_lineComment st"
  "sp_escaped (keep1 st r) = sp_escaped st"
  "sp_result (keep1 st r) = sp_result st"
  "sp_segment (keep1 st r) = r # sp_segment st"
  by (simp_all add: keep1_def)

lemma emit_part_simps [simp]:
  "sp_quote (emit_part st) = sp_quote st"
  "sp_blockComment (emit_part st) = sp_blockComment st"
  "sp_lineComment (emit_part st) = sp_lineComment st"
  "sp_escaped (emit_part st) = sp_escaped st"
  "sp_segment (emit_part st) = []"
  by (simp_all add: emit_part_def Let_def)

lemma quote_ok_step: "quote_ok st \<Longrightarrow> quote_ok (fst (split_step st r rest))"
proof (cases rule: lex_mode_cases [of st])
  case (quote q)
  assume "quote_ok st"
  with quote show ?thesis by (simp add: quote_ok_def split_step_quote)
next
  case normal
  then show ?thesis by (simp add: quote_ok_def split_step_normal lex_normal_def)
qed (simp_all add: quote_ok_def split_step_line split_step_block)

lemma split_step_skip: "quote_ok st \<Longrightarrow> snd (split_step st r rest) \<Longrightarrow> rest \<noteq> []"
proof (cases rule: lex_mode_cases [of st])
  case (quote q)
  assume "quote_ok st" "snd (split_step st r rest)"
  with quote show ?thesis
    by (cases rest) (auto simp: quote_ok_def split_step_quote dest: is_quote_neq split: if_splits)
next
  case normal
  assume "snd (split_step st r rest)"
  with normal show ?thesis by (cases rest) (simp_all add: split_step_normal split: if_splits)
qed (cases rest; simp add: split_step_line split_step_block split: if_splits)+

lemma split_step_semicolon_ahead:
  assumes "quote_ok st" and "\<not> (lex_normal st \<and> r = CHR ''-'' \<and> rest = ''-'')"
  shows "split_step st r (rest @ CHR '';'' # t) = split_step st r rest"
proof (cases rule: lex_mode_cases [of st])
  case (quote q)
  with assms(1) have "is_quote q" by (simp add: quote_ok_def)
  then have "next_rune (rest @ CHR '';'' # t) = q \<longleftrightarrow> next_rune rest = q"
    by (cases rest) (auto dest: is_quote_neq)
  with quote show ?thesis by (simp add: split_step_quote)
next
  case normal
  have star: "next_rune (rest @ CHR '';'' # t) = CHR ''*'' \<longleftrightarrow> next_rune rest = CHR ''*''"
    by (cases rest) simp_all
  have dash: "(r = CHR ''-'' \<and> next_rune (rest @ CHR '';'' # t) = CHR ''-'' \<and>
        (case rest @ CHR '';'' # t of _ # c # _ \<Rightarrow> is_space c | _ \<Rightarrow> True)) \<longleftrightarrow>
      (r = CHR ''-'' \<and> next_rune rest = CHR ''-'' \<and> (case rest of _ # c # _ \<Rightarrow> is_space c | _ \<Rightarrow> True))"
    using assms(2) normal by (auto split: list.splits simp: append_eq_Cons_conv is_space_def)
  show ?thesis unfolding split_step_normal [OF normal] by (simp only: star dash)
next
  case block
  have "next_rune (rest @ CHR '';'' # t) = CHR ''/'' \<longleftrightarrow> next_rune rest = CHR ''/''"
    by (cases rest) simp_all
  with block show ?thesis by (simp add: split_step_block)
qed (simp add: split_step_line)

lemma split_step_segment:
  assumes "quote_ok st"
  shows "fst (split_step st r rest) = emit_part st \<and> lex_normal st \<and> r = CHR '';'' \<and> \<not> snd (split_step st r rest) \<or>
    sp_result (fst (split_step st r rest)) = sp_result st \<and>
    rev (sp_segment (fst (split_step st r rest))) @ (if snd (split_step st r rest) then drop 1 rest else rest)
      = rev (sp_segment st) @ r # rest"
proof (cases rule: lex_mode_cases [of st])
  case line
  then show ?thesis by (simp add: split_step_line)
next
  case block
  then show ?thesis by (cases rest) (simp_all add: split_step_block)
next
  case (quote q)
  with assms have "is_quote q" by (simp add: quote_ok_def)
  with quote show ?thesis by (cases rest) (auto simp: split_step_quote dest: is_quote_neq)
next
  case normal
  then show ?thesis by (cases rest) (simp_all add: split_step_normal)
qed

text \<open>From a normal position, white space is copied and nothing else happens.\<close>

lemma is_space_neq:
  "is_space c \<Longrightarrow> c \<noteq> CHR ''/'' \<and> c \<noteq> CHR ''#'' \<and> c \<noteq> CHR ''-'' \<and> c \<noteq> CHR '';'' \<and> \<not> is_quote c"
  by (auto simp: is_space_def is_quote_def)

lemma split_loop_space:
  "lex_normal st \<Longrightarrow> \<forall>c\<in>set w. is_space c \<Longrightarrow>
   split_loop st (w @ t) = split_loop (st\<lparr>sp_segment := rev w @ sp_segment st\<rparr>) t"
proof (induction w arbitrary: st)
  case (Cons c w)
  then have "split_step st c (w @ t) = (keep1 st c, False)"
    using is_space_neq [of c] by (simp add: split_step_normal)
  moreover have "lex_normal (keep1 st c)" using Cons.prems by (simp add: lex_normal_def)
  ultimately show ?case using Cons by (simp add: keep1_def)
qed simp

lemma split_loop_semicolon:
  "quote_ok st \<Longrightarrow> lex_normal (split_loop st s) \<Longrightarrow>
   split_loop st (s @ CHR '';'' # t) = split_loop (emit_part (split_loop st s)) t"
proof (induction st s rule: split_loop.induct)
  case (1 st)
  then show ?case by (simp add: split_step_normal is_quote_def)
next
  case (2 st r rest)
  obtain st' skip where step: "split_step st r rest = (st', skip)" by (cases "split_step st r rest")
  have ok': "quote_ok st'" using quote_ok_step [OF "2.prems"(1), of r rest] step by simp
  have rest: "split_loop st (r # rest) = split_loop st' (if skip then drop 1 rest else rest)"
    using step by simp
  have IH: "split_loop st' ((if skip then drop 1 rest else rest) @ CHR '';'' # t) =
      split_loop (emit_part (split_loop st (r # rest))) t"
    using "2.IH" [OF step [symmetric]] ok' "2.prems"(2) rest by simp
  have "\<not> (lex_normal st \<and> r = CHR ''-'' \<and> rest = ''-'')"
    using "2.prems"(2) by (auto simp: split_step_normal is_quote_def) (simp add: lex_normal_def)
  then have "split_step st r (rest @ CHR '';'' # t) = (st', skip)"
    using split_step_semicolon_ahead "2.prems"(1) step by simp
  moreover have "skip \<Longrightarrow> rest \<noteq> []" using split_step_skip "2.prems"(1) step by (metis snd_conv)
  ultimately show ?case using IH by (cases rest) auto
qed

section \<open>Statements that the splitter keeps whole\<close>

text \<open>
  \<open>lex_quiet\<close>: no semicolon of the text is seen outside quotes and comments. A
  \<open>whole_statement\<close> is trimmed, quiet, and ends outside quotes and comments.
\<close>

fun lex_quiet :: "split_state \<Rightarrow> string \<Rightarrow> bool" where
  "lex_quiet st [] = True"
| "lex_quiet st (r # rest) =
     (\<not> (lex_normal st \<and> r = CHR '';'') \<and>
      (case split_step st r rest of (st', skip) \<Rightarrow> lex_quiet st' (if skip then drop 1 rest else rest)))"

definition whole_statement :: "string \<Rightarrow> bool" where
  "whole_statement s \<longleftrightarrow> s \<noteq> [] \<and> strings_TrimSpace s = s \<and> lex_quiet split_init s \<and>
     lex_normal (split_loop split_init s)"

abbreviation reframe :: "string list \<Rightarrow> string \<Rightarrow> split_state \<Rightarrow> split_state" where
  "reframe R X st \<equiv> st\<lparr>sp_result := R, sp_segment := X\<rparr>"

lemma split_step_frame:
  assumes "\<not> (lex_normal st \<and> r = CHR '';'')"
  shows "split_step (reframe R X st) r rest =
    (reframe R ((if snd (split_step st r rest) then [next_rune rest] else []) @ r # X)
       (fst (split_step st r rest)), snd (split_step st r rest))"
proof (cases rule: lex_mode_cases [of st])
  case normal
  then have "lex_normal (reframe R X st)" by (simp add: lex_normal_def)
  with normal assms show ?thesis by (simp add: split_step_normal keep1_def)
qed (simp_all add: split_step_line split_step_block split_step_quote keep1_def)

lemma split_loop_frame:
  "quote_ok st \<Longrightarrow> lex_quiet st s \<Longrightarrow> split_loop (reframe R X st) s = reframe R (rev s @ X) (split_loop st s)"
proof (induction st s arbitrary: X rule: split_loop.induct)
  case (2 st r rest)
  obtain st' skip where step: "split_step st r rest = (st', skip)" by (cases "split_step st r rest")
  then have ok: "quote_ok st'" and ne: "skip \<Longrightarrow> rest \<noteq> []"
    using quote_ok_step [OF "2.prems"(1), of r rest] split_step_skip [OF "2.prems"(1), of r rest] by auto
  have IH: "split_loop (reframe R Y st') (if skip then drop 1 rest else rest) =
      reframe R (rev (if skip then drop 1 rest else rest) @ Y)
        (split_loop st' (if skip then drop 1 rest else rest))" for Y
    using "2.IH" [OF step [symmetric] ok] "2.prems"(2) step by simp
  have "split_step (reframe R X st) r rest = (reframe R ((if skip then [next_rune rest] else []) @ r # X) st', skip)"
    using split_step_frame [where st = st and r = r and R = R and X = X and rest = rest] "2.prems"(2) step by simp
  then show ?case using IH [of "(if skip then [next_rune rest] else []) @ r # X"] step ne
    by (cases rest) auto
qed simp

lemma quote_ok_init [simp]: "quote_ok split_init"
  by (simp add: quote_ok_def split_init_def)

lemma lex_normal_init [simp]: "lex_normal split_init"
  by (simp add: lex_normal_def split_init_def)

lemma trim_space_around:
  assumes "strings_TrimSpace s = s" and "s \<noteq> []" and "\<forall>c\<in>set w. is_space c"
  shows "strings_TrimSpace (w @ s) = s"
proof -
  have "\<not> is_space (hd s)" using trim_func_hd [of is_space s] assms by (simp add: strings_TrimSpace_def)
  then have d: "dropWhile is_space s = s" by (cases s) simp_all
  then have "dropWhile is_space (w @ s) = s" using assms(3) by (simp add: dropWhile_append2)
  with d assms(1) show ?thesis
    by (simp add: strings_TrimSpace_def strings_TrimFunc_def strings_TrimLeftFunc_def)
qed

lemma join_body_Cons: "ps \<noteq> [] \<Longrightarrow> join_body (p # ps) = p @ CHR '';'' # CHR 0x0A # join_body ps"
  by (simp add: join_body_def strings_Join_Cons)

definition escape_ok :: "split_state \<Rightarrow> bool" where
  "escape_ok st \<longleftrightarrow> (sp_quote st = None \<longrightarrow> \<not> sp_escaped st)"

lemma escape_ok_step: "escape_ok st \<Longrightarrow> escape_ok (fst (split_step st r rest))"
  by (cases rule: lex_mode_cases [of st])
     (simp_all add: escape_ok_def split_step_line split_step_block split_step_quote split_step_normal
        lex_normal_def)

lemma escape_ok_loop: "escape_ok st \<Longrightarrow> escape_ok (split_loop st s)"
proof (induction st s rule: split_loop.induct)
  case (2 st r rest)
  then show ?case using escape_ok_step [of st r rest] by (auto split: prod.splits)
qed simp

lemma normal_reframe:
  assumes "lex_normal (split_loop split_init s)"
  shows "reframe R X (split_loop split_init s) = reframe R X split_init"
proof -
  have "escape_ok (split_loop split_init s)"
    by (rule escape_ok_loop) (simp add: escape_ok_def split_init_def)
  with assms show ?thesis by (cases "split_loop split_init s") (simp add: lex_normal_def escape_ok_def split_init_def)
qed

lemma split_loop_whole:
  assumes "whole_statement p" and "\<forall>c\<in>set X. is_space c"
  shows "split_loop (reframe R X split_init) (p @ CHR '';'' # t) =
    split_loop (reframe (R @ [p]) [] split_init) t"
proof -
  have fr: "split_loop (reframe R X split_init) p = reframe R (rev p @ X) (split_loop split_init p)"
    using assms by (simp add: whole_statement_def split_loop_frame)
  have "lex_normal (split_loop (reframe R X split_init) p)"
    using assms(1) unfolding fr by (simp add: whole_statement_def lex_normal_def)
  moreover have "quote_ok (reframe R X split_init)" by (simp add: quote_ok_def split_init_def)
  ultimately have "split_loop (reframe R X split_init) (p @ CHR '';'' # t) =
      split_loop (emit_part (reframe R (rev p @ X) (split_loop split_init p))) t"
    using split_loop_semicolon fr by metis
  moreover have "strings_TrimSpace (rev (rev p @ X)) = p"
    using assms trim_space_around [of p "rev X"] by (simp add: whole_statement_def)
  ultimately show ?thesis using assms(1) by (simp add: emit_part_def Let_def whole_statement_def normal_reframe)
qed

lemma split_loop_join_body:
  "ps \<noteq> [] \<Longrightarrow> \<forall>p\<in>set ps. whole_statement p \<Longrightarrow> \<forall>c\<in>set X. is_space c \<Longrightarrow>
   split_loop (reframe R X split_init) (join_body ps) = reframe (R @ ps) [] split_init"
proof (induction ps arbitrary: R X)
  case (Cons p ps)
  show ?case
  proof (cases "ps = []")
    case True
    with Cons.prems show ?thesis
      by (simp add: join_body_def split_loop_whole)
  next
    case False
    let ?st = "reframe (R @ [p]) [] split_init"
    have "split_loop (reframe R X split_init) (join_body (p # ps)) = split_loop ?st (CHR 0x0A # join_body ps)"
      using Cons.prems False by (simp add: join_body_Cons split_loop_whole del: split_loop.simps)
    also have "\<dots> = split_loop (reframe (R @ [p]) [CHR 0x0A] split_init) (join_body ps)"
      using split_loop_space [of ?st "[CHR 0x0A]" "join_body ps"]
      by (simp add: lex_normal_def split_init_def is_space_def del: split_loop.simps)
    also have "\<dots> = reframe ((R @ [p]) @ ps) [] split_init"
      using Cons.IH [of "[CHR 0x0A]" "R @ [p]"] Cons.prems False by (simp add: is_space_def)
    finally show ?thesis by simp
  qed
qed simp

lemma splitSQL_of_join:
  "\<forall>p\<in>set ps. whole_statement p \<Longrightarrow> splitSQL (join_body ps) = Inr ps"
proof (cases "ps = []")
  case True
  then show ?thesis
    by (simp add: splitSQL_def join_body_def split_step_normal is_quote_def emit_part_def Let_def)
       (simp add: split_init_def strings_TrimSpace_def strings_TrimFunc_def strings_TrimLeftFunc_def
         strings_TrimRightFunc_def)
next
  case False
  assume "\<forall>p\<in>set ps. whole_statement p"
  with False have "split_loop (reframe [] [] split_init) (join_body ps) = reframe ([] @ ps) [] split_init"
    by (intro split_loop_join_body) simp_all
  then have "split_loop split_init (join_body ps) = split_init\<lparr>sp_result := ps\<rparr>"
    by (simp add: split_init_def)
  then show ?thesis
    by (simp add: splitSQL_def emit_part_def split_init_def strings_TrimSpace_def
        strings_TrimFunc_def strings_TrimLeftFunc_def strings_TrimRightFunc_def)
qed

section \<open>No text is lost\<close>

lemma strings_Join_snoc: "strings_Join (segs @ [x]) sep = concat (map (\<lambda>s. s @ sep) segs) @ x"
  by (induction segs) (auto simp: strings_Join_Cons)

definition split_inv :: "string \<Rightarrow> split_state \<Rightarrow> string \<Rightarrow> bool" where
  "split_inv input st rest \<longleftrightarrow> (\<exists>segs.
     input = concat (map (\<lambda>s. s @ '';'') segs) @ rev (sp_segment st) @ rest \<and>
     sp_result st = filter (\<lambda>p. p \<noteq> []) (map strings_TrimSpace segs))"

lemma split_inv_emit: "split_inv input st (CHR '';'' # rest) \<Longrightarrow> split_inv input (emit_part st) rest"
  unfolding split_inv_def
proof (elim exE conjE)
  fix segs
  assume "input = concat (map (\<lambda>s. s @ '';'') segs) @ rev (sp_segment st) @ CHR '';'' # rest"
    and "sp_result st = filter (\<lambda>p. p \<noteq> []) (map strings_TrimSpace segs)"
  then show "\<exists>segs. input = concat (map (\<lambda>s. s @ '';'') segs) @ rev (sp_segment (emit_part st)) @ rest \<and>
     sp_result (emit_part st) = filter (\<lambda>p. p \<noteq> []) (map strings_TrimSpace segs)"
    by (intro exI [of _ "segs @ [rev (sp_segment st)]"]) (simp add: emit_part_def Let_def)
qed

lemma split_inv_loop: "quote_ok st \<Longrightarrow> split_inv input st s \<Longrightarrow> split_inv input (split_loop st s) []"
proof (induction st s rule: split_loop.induct)
  case (2 st r rest)
  obtain st' skip where step: "split_step st r rest = (st', skip)" by (cases "split_step st r rest")
  consider (emit) "st' = emit_part st" "r = CHR '';''" "\<not> skip"
    | (keep) "sp_result st' = sp_result st"
        "rev (sp_segment st') @ (if skip then drop 1 rest else rest) = rev (sp_segment st) @ r # rest"
    using split_step_segment [OF "2.prems"(1), of r rest] step by auto
  then have "split_inv input st' (if skip then drop 1 rest else rest)"
  proof cases
    case emit
    with "2.prems"(2) show ?thesis by (simp add: split_inv_emit)
  next
    case keep
    with "2.prems"(2) show ?thesis by (simp add: split_inv_def)
  qed
  then show ?case using "2.IH" [OF step [symmetric]] quote_ok_step [OF "2.prems"(1), of r rest] step
    by simp
qed simp

lemma splitSQL_text:
  assumes "splitSQL input = Inr parts"
  shows "\<exists>segs. segs \<noteq> [] \<and> strings_Join segs '';'' = input \<and>
    parts = filter (\<lambda>p. p \<noteq> []) (map strings_TrimSpace segs)"
proof -
  let ?st = "split_loop split_init input"
  have "split_inv input split_init input"
    by (auto simp: split_inv_def split_init_def intro: exI [of _ "[]"])
  then have "split_inv input ?st []" by (rule split_inv_loop [OF quote_ok_init])
  then obtain segs where "input = concat (map (\<lambda>s. s @ '';'') segs) @ rev (sp_segment ?st)"
    and "sp_result ?st = filter (\<lambda>p. p \<noteq> []) (map strings_TrimSpace segs)"
    by (auto simp: split_inv_def)
  moreover have "parts = sp_result (emit_part ?st)"
    using assms by (auto simp: splitSQL_def Let_def split: if_splits)
  ultimately show ?thesis
    by (intro exI [of _ "segs @ [rev (sp_segment ?st)]"])
       (auto simp: strings_Join_snoc emit_part_def Let_def)
qed

section \<open>Options\<close>

lemma parseNonNegativeInt_bounds: "parseNonNegativeInt v k mx = Inr n \<Longrightarrow> 0 \<le> mx \<Longrightarrow> 0 \<le> n \<and> n \<le> mx"
  by (auto simp: parseNonNegativeInt_def split: if_splits prod.splits)

lemma scan_uint_le: "acc \<le> m \<Longrightarrow> scan_uint m acc s = NumOk n \<Longrightarrow> n \<le> m"
  by (induction m acc s rule: scan_uint.induct) (auto split: if_splits)

lemma parsePort_nonzero:
  assumes "parsePort v = Inr p" shows "p \<noteq> 0"
proof (cases "v = []")
  case False
  with assms obtain n where n: "strconv_ParseUint v 16 = NumOk n" "n \<noteq> 0" "p = of_nat n"
    by (auto simp: parsePort_def split: num_result.splits if_splits)
  with False have "n \<le> 65535"
    using scan_uint_le [of 0 65535 v n] by (simp add: strconv_ParseUint_def)
  then have "unat (of_nat n :: 16 word) = n" by (simp add: unat_of_nat)
  with n show ?thesis by auto
qed (use assms in \<open>simp add: parsePort_def\<close>)

definition options_ok :: "request_options \<Rightarrow> bool" where
  "options_ok opts \<longleftrightarrow>
     strings_TrimSpace (tgt_Host (opt_Target opts)) \<noteq> [] \<and>
     strings_TrimSpace (tgt_User (opt_Target opts)) \<noteq> [] \<and>
     tgt_Port (opt_Target opts) \<noteq> 0 \<and>
     (opt_Backup opts \<longrightarrow> opt_Execute opts) \<and>
     0 \<le> opt_SleepMillis opts \<and> opt_SleepMillis opts \<le> 100000 \<and>
     0 \<le> opt_SleepRows opts \<and> (opt_SleepRows opts = 0 \<longleftrightarrow> opt_SleepMillis opts = 0) \<and>
     length (opt_TraceID opts) \<le> 128 \<and> list_all trace_char_ok (opt_TraceID opts)"

lemma effective_sleep_rows_ok:
  "0 \<le> ms \<Longrightarrow> 0 \<le> rows \<Longrightarrow>
   0 \<le> effective_sleep_rows ms rows \<and> (effective_sleep_rows ms rows = 0 \<longleftrightarrow> ms = 0)"
  by (auto simp: effective_sleep_rows_def)

lemma envelope_options_ok:
  assumes "envelope_options vals = Inr opts"
  shows "options_ok opts"
proof -
  from assms obtain port execute backup ms rows where
    port: "parsePort (map_get vals ''port'') = Inr port" and
    ms: "parseNonNegativeInt (map_get vals ''sleep'') ''sleep'' 100000 = Inr ms" and
    rows: "parseNonNegativeInt (map_get vals ''sleep_rows'') ''sleep_rows'' (2 ^ 63 - 1) = Inr rows" and
    rest: "port \<noteq> 0 \<Longrightarrow> 0 \<le> ms \<and> ms \<le> 100000 \<Longrightarrow> 0 \<le> rows \<Longrightarrow> options_ok opts"
    by (auto simp: envelope_options_def sum_bind_Inr_iff Let_def options_ok_def find_None_iff
        list_all_iff effective_sleep_rows_ok split: option.splits)
  show ?thesis
  proof (rule rest)
    show "port \<noteq> 0" using port by (rule parsePort_nonzero)
    show "0 \<le> ms \<and> ms \<le> 100000" using parseNonNegativeInt_bounds [OF ms] by simp
    show "0 \<le> rows" using parseNonNegativeInt_bounds [OF rows] by simp
  qed
qed

section \<open>Console encodings\<close>

text \<open>The UTF-16 encoding of a rune and its bytes: what the decoder is to invert.\<close>

definition scalar_value :: "nat \<Rightarrow> bool" where
  "scalar_value r \<longleftrightarrow> r < 0xD800 \<or> 0xE000 \<le> r \<and> r < 0x110000"

definition utf16_encode :: "nat \<Rightarrow> nat list" where
  "utf16_encode r = (if r < 0x10000 then [r]
     else [0xD800 + (r - 0x10000) div 1024, 0xDC00 + (r - 0x10000) mod 1024])"

definition unit_bytes :: "bool \<Rightarrow> nat \<Rightarrow> string" where
  "unit_bytes bigEndian u = (if bigEndian then [char_of (u div 256), char_of (u mod 256)]
     else [char_of (u mod 256), char_of (u div 256)])"

definition utf16_bytes :: "bool \<Rightarrow> nat list \<Rightarrow> string" where
  "utf16_bytes bigEndian rs = concat (map (unit_bytes bigEndian) (concat (map utf16_encode rs)))"

lemma utf16_Decode_encode:
  assumes "scalar_value r"
  shows "utf16_Decode (utf16_encode r @ us) = r # utf16_Decode us"
proof (cases "r < 0x10000")
  case True
  with assms show ?thesis by (auto simp: utf16_encode_def scalar_value_def)
next
  case False
  let ?q = "r - 0x10000"
  from False assms have "?q < 0x100000" by (auto simp: scalar_value_def)
  then have "?q div 1024 < 1024" by (simp add: div_less_iff_less_mult)
  moreover have "?q mod 1024 < 1024" by simp
  moreover have "?q div 1024 * 1024 + ?q mod 1024 + 0x10000 = r" using False by simp
  ultimately show ?thesis using False by (simp add: utf16_encode_def)
qed

lemma utf16_Decode_encodes:
  "\<forall>r\<in>set rs. scalar_value r \<Longrightarrow> utf16_Decode (concat (map utf16_encode rs)) = rs"
  by (induction rs) (auto simp: utf16_Decode_encode)

lemma utf16_encode_units: "scalar_value r \<Longrightarrow> \<forall>u\<in>set (utf16_encode r). u < 0x10000"
  by (auto simp: utf16_encode_def scalar_value_def div_less_iff_less_mult)

lemma utf16_units_bytes:
  "\<forall>u\<in>set us. u < 0x10000 \<Longrightarrow> utf16_units be (concat (map (unit_bytes be) us)) = us"
  by (induction us) (auto simp: unit_bytes_def div_less_iff_less_mult)

lemma utf16_units_utf16_bytes:
  "\<forall>r\<in>set rs. scalar_value r \<Longrightarrow> utf16_Decode (utf16_units be (utf16_bytes be rs)) = rs"
proof -
  assume scalar: "\<forall>r\<in>set rs. scalar_value r"
  then have "\<forall>u\<in>set (concat (map utf16_encode rs)). u < 0x10000" using utf16_encode_units by auto
  with scalar show ?thesis by (simp add: utf16_bytes_def utf16_units_bytes utf16_Decode_encodes)
qed

lemma length_utf16_bytes: "even (length (utf16_bytes be rs))"
proof -
  have "even (length (concat (map (unit_bytes be) us)))" for us
    by (induction us) (auto simp: unit_bytes_def)
  then show ?thesis by (simp add: utf16_bytes_def)
qed

definition utf16_bom :: "bool \<Rightarrow> string" where
  "utf16_bom bigEndian = (if bigEndian then [CHR 0xFE, CHR 0xFF] else [CHR 0xFF, CHR 0xFE])"

lemma strip_utf8_bom_other: "s = [] \<or> hd s \<noteq> CHR 0xEF \<Longrightarrow> strip_utf8_bom s = s"
  by (cases s rule: strip_utf8_bom.cases) auto

text \<open>
  A request typed in a console that sends UTF-16 with a byte-order mark, of either byte order,
  is read as the UTF-8 text of the same characters, supplementary ones included.
\<close>

theorem normalizeConsoleEncoding_utf16:
  assumes "\<forall>r\<in>set rs. scalar_value r"
  shows "normalizeConsoleEncoding (utf16_bom be @ utf16_bytes be rs) = runes_to_string rs"
proof -
  let ?in = "utf16_bom be @ utf16_bytes be rs"
  have "strip_utf8_bom ?in = ?in" by (rule strip_utf8_bom_other) (simp add: utf16_bom_def)
  moreover have "detect_utf16 ?in = (utf16_bytes be rs, True, be)"
    by (simp add: detect_utf16_def utf16_bom_def)
  ultimately show ?thesis using length_utf16_bytes [of be rs] assms
    by (simp add: normalizeConsoleEncoding_def utf16_units_utf16_bytes odd_iff_mod_2_eq_one [symmetric]
        flip: mod2_eq_if)
qed

theorem normalizeConsoleEncoding_utf16_witness:
  "normalizeConsoleEncoding [CHR 0xFF, CHR 0xFE, CHR ''s'', CHR 0x00, CHR 0x3D, CHR 0xD8, CHR 0x00, CHR 0xDE] =
     ''s'' @ [CHR 0xF0, CHR 0x9F, CHR 0x98, CHR 0x80]"
  using normalizeConsoleEncoding_utf16 [of "[115, 0x1F600]" False]
  by (simp add: scalar_value_def utf16_bom_def utf16_bytes_def utf16_encode_def unit_bytes_def
      runes_to_string_def utf8_encode_rune_def)

lemma normalizeConsoleEncoding_text:
  "length s \<ge> 4 \<Longrightarrow> CHR 0x00 \<notin> set (take 2 s) \<Longrightarrow> hd s \<notin> {CHR 0xEF, CHR 0xFE, CHR 0xFF} \<Longrightarrow>
   normalizeConsoleEncoding s = s"
proof -
  assume a: "length s \<ge> 4" "CHR 0x00 \<notin> set (take 2 s)" "hd s \<notin> {CHR 0xEF, CHR 0xFE, CHR 0xFF}"
  then obtain x y z where s: "s = x # y # z" by (cases s; cases "tl s") auto
  from a have "strip_utf8_bom s = s" by (intro strip_utf8_bom_other) auto
  moreover from a have "detect_utf16 s = (s, False, False)" by (auto simp: s detect_utf16_def)
  ultimately show ?thesis by (simp add: normalizeConsoleEncoding_def)
qed

section \<open>Directives\<close>

text \<open>
  The directive comment as a client writes it: \<^verbatim>\<open>--key=value;\<close> for each pair. A plain value holds
  none of the characters that end a field, a comment or are trimmed.
\<close>

definition plain_char :: "char \<Rightarrow> bool" where
  "plain_char c \<longleftrightarrow> \<not> is_space c \<and> c \<notin> set '';*/'' \<and> c \<noteq> CHR 0x27 \<and> c \<noteq> CHR 0x22 \<and> c \<noteq> CHR 0x00"

definition plain_key :: "string \<Rightarrow> bool" where
  "plain_key k \<longleftrightarrow> k \<in> set allowedDirectives \<and> k \<noteq> ''trace-id''"

definition render_directive :: "string \<times> string \<Rightarrow> string" where
  "render_directive kv = ''--'' @ fst kv @ ''='' @ snd kv"

definition render_directives :: "(string \<times> string) list \<Rightarrow> string" where
  "render_directives kvs = strings_Join (map render_directive kvs) '';''"

lemma plain_key_facts:
  assumes "plain_key k"
  shows "canonicalDirective k = k" "k \<in> set allowedDirectives" "\<forall>c\<in>set k. plain_char c \<and> c \<noteq> CHR ''=''"
    "k \<noteq> []" "hd k \<noteq> CHR ''-''"
proof -
  have "list_all (\<lambda>k. k = ''trace-id'' \<or> canonicalDirective k = k \<and> list_all (\<lambda>c. plain_char c \<and> c \<noteq> CHR ''='') k \<and>
      k \<noteq> [] \<and> hd k \<noteq> CHR ''-'') allowedDirectives"
    by (simp add: allowedDirectives_def canonicalDirective_def plain_char_def go_defs)
  with assms show "canonicalDirective k = k" "k \<in> set allowedDirectives"
    "\<forall>c\<in>set k. plain_char c \<and> c \<noteq> CHR ''=''" "k \<noteq> []" "hd k \<noteq> CHR ''-''"
    by (auto simp: plain_key_def list_all_iff)
qed

lemma trim_plain: "s \<noteq> [] \<Longrightarrow> \<not> f (hd s) \<Longrightarrow> \<not> f (last s) \<Longrightarrow> strings_TrimFunc f s = s"
  by (rule trim_func_id) simp

lemma field_text:
  assumes "plain_key k" and "\<forall>c\<in>set v. plain_char c"
  shows "strings_TrimSpace (strings_TrimLeft (strings_TrimSpace (render_directive (k, v))) ''-'') = k @ ''='' @ v"
proof -
  let ?s = "k @ ''='' @ v"
  note k = plain_key_facts [OF assms(1)]
  have l: "plain_char (last ?s)"
  proof (cases v)
    case Nil
    then show ?thesis by (simp add: plain_char_def is_space_def)
  next
    case (Cons c cs)
    then have "last ?s \<in> set v" by simp
    with assms(2) show ?thesis by blast
  qed
  then have "strings_TrimSpace (''--'' @ ?s) = ''--'' @ ?s"
    unfolding strings_TrimSpace_def by (intro trim_plain) (simp_all add: is_space_def plain_char_def)
  moreover have "strings_TrimLeft (''--'' @ ?s) ''-'' = ?s"
    using k(4,5) by (cases k) (simp_all add: strings_TrimLeft_def strings_TrimLeftFunc_def)
  moreover have "strings_TrimSpace ?s = ?s"
    unfolding strings_TrimSpace_def using l k(3,4)
    by (intro trim_plain) (auto simp: plain_char_def hd_append split: if_splits)
  ultimately show ?thesis by (simp add: render_directive_def)
qed

lemma split_field:
  assumes "CHR ''='' \<notin> set k"
  shows "strings_SplitN (k @ ''='' @ v) CHR ''='' 2 = [k, v]"
proof -
  have "takeWhile (\<lambda>c. c \<noteq> CHR ''='') (k @ CHR ''='' # v) = k"
    "dropWhile (\<lambda>c. c \<noteq> CHR ''='') (k @ CHR ''='' # v) = CHR ''='' # v"
    using assms by (auto simp: takeWhile_append dropWhile_append)
  then show ?thesis by (simp add: numeral_2_eq_2)
qed

lemma trim_value: "\<forall>c\<in>set v. plain_char c \<Longrightarrow> strings_Trim (strings_TrimSpace v) [CHR 0x27, CHR 0x22] = v"
proof (cases "v = []")
  case False
  assume plain: "\<forall>c\<in>set v. plain_char c"
  with False have "plain_char (hd v)" "plain_char (last v)" by auto
  with False have "strings_TrimSpace v = v" unfolding strings_TrimSpace_def
    by (intro trim_plain) (auto simp: plain_char_def)
  moreover from \<open>plain_char (hd v)\<close> \<open>plain_char (last v)\<close> False
  have "strings_Trim v [CHR 0x27, CHR 0x22] = v" unfolding strings_Trim_def
    by (intro trim_plain) (auto simp: plain_char_def)
  ultimately show ?thesis by simp
qed (simp add: strings_Trim_def strings_TrimSpace_def strings_TrimFunc_def strings_TrimLeftFunc_def
      strings_TrimRightFunc_def)

lemma parseDirectiveFields_append:
  "distinct (map fst kvs) \<Longrightarrow> \<forall>(k, v)\<in>set kvs. plain_key k \<and> (\<forall>c\<in>set v. plain_char c) \<Longrightarrow>
   dom m \<inter> fst ` set kvs = {} \<Longrightarrow>
   parseDirectiveFields m (map render_directive kvs @ texts) = parseDirectiveFields (m ++ map_of kvs) texts"
proof (induction kvs arbitrary: m)
  case (Cons kv kvs)
  obtain k v where kv: "kv = (k, v)" by (cases kv)
  with Cons.prems have k: "plain_key k" "\<forall>c\<in>set v. plain_char c" "m k = None" by auto
  note kf = plain_key_facts [OF k(1)]
  have "CHR ''='' \<notin> set k" using kf(3) by auto
  then have "parseDirectiveFields m (map render_directive (kv # kvs) @ texts) =
      parseDirectiveFields (m(k \<mapsto> v)) (map render_directive kvs @ texts)"
    using kf k by (simp add: kv field_text split_field [of k v, simplified] trim_value Let_def)
  also have "parseDirectiveFields (m(k \<mapsto> v)) (map render_directive kvs @ texts) = parseDirectiveFields ((m(k \<mapsto> v)) ++ map_of kvs) texts"
  proof (rule Cons.IH)
    show "dom (m(k \<mapsto> v)) \<inter> fst ` set kvs = {}" using Cons.prems kv by (subst dom_fun_upd) simp
  qed (use Cons.prems kv in simp_all)
  also have "(m(k \<mapsto> v)) ++ map_of kvs = m ++ map_of (kv # kvs)"
  proof -
    have "map_of kvs k = None" using Cons.prems(1) kv by (simp add: map_of_eq_None_iff)
    then show ?thesis by (simp add: kv map_add_def fun_eq_iff split: option.split)
  qed
  finally show ?case .
qed simp

lemma parseDirectives_render:
  assumes "kvs \<noteq> []" and "distinct (map fst kvs)" and "\<forall>(k, v)\<in>set kvs. plain_key k \<and> (\<forall>c\<in>set v. plain_char c)"
  shows "parseDirectives (render_directives kvs) = Inr (map_of kvs)"
proof -
  have "CHR '';'' \<notin> set (render_directive kv)" if "kv \<in> set kvs" for kv
    using assms(3) that plain_key_facts(3) by (fastforce simp: render_directive_def plain_char_def)
  then have "strings_Split (render_directives kvs) CHR '';'' = map render_directive kvs"
    unfolding render_directives_def using assms(1) by (intro strings_Split_Join) auto
  with parseDirectiveFields_append [OF assms(2,3), of Map.empty "[]"] show ?thesis
    by (simp add: parseDirectives_def)
qed

section \<open>The envelope of a rendered request\<close>

definition render_header :: "(string \<times> string) list \<Rightarrow> string" where
  "render_header kvs = ''/*'' @ render_directives kvs @ ''*/inception_magic_start''"

definition render_request :: "(string \<times> string) list \<Rightarrow> string list \<Rightarrow> string" where
  "render_request kvs stmts = join_body (render_header kvs # stmts @ [''inception_magic_commit''])"

text \<open>Inside a block comment without a star, everything is kept.\<close>

lemma block_comment_text:
  assumes "CHR ''*'' \<notin> set s" and "sp_blockComment st" and "\<not> sp_lineComment st"
  shows "split_loop st (s @ t) = split_loop (st\<lparr>sp_segment := rev s @ sp_segment st\<rparr>) t \<and>
    (lex_quiet st (s @ t) \<longleftrightarrow> lex_quiet (st\<lparr>sp_segment := rev s @ sp_segment st\<rparr>) t)"
  using assms
proof (induction s arbitrary: st)
  case (Cons c s)
  then have "split_step st c (s @ t) = (keep1 st c, False)" by (auto simp: split_step_block)
  moreover have "\<not> lex_normal st" using Cons.prems by (simp add: lex_normal_def)
  ultimately show ?case using Cons.IH [of "keep1 st c"] Cons.prems by (simp add: keep1_def)
qed simp

lemma render_directives_chars:
  assumes "\<forall>(k, v)\<in>set kvs. plain_key k \<and> (\<forall>c\<in>set v. plain_char c)"
  shows "CHR ''*'' \<notin> set (render_directives kvs)"
proof -
  have join: "c \<in> set (strings_Join xs '';'') \<Longrightarrow> c = CHR '';'' \<or> (\<exists>x\<in>set xs. c \<in> set x)" for c xs
    by (induction xs "'';''" rule: strings_Join.induct) auto
  show ?thesis using assms plain_key_facts(3)
    by (fastforce simp: render_directives_def render_directive_def plain_char_def dest!: join)
qed

text \<open>A comment without a star, followed by the start marker, is one statement, and its text is what the comment holds.\<close>

lemma comment_header_whole:
  assumes "CHR ''*'' \<notin> set D"
  shows "whole_statement (''/*'' @ D @ ''*/inception_magic_start'')"
proof -
  let ?T = "''*/inception_magic_start''"
  let ?st = "split_init\<lparr>sp_segment := ''*/'', sp_blockComment := True\<rparr>"
  have step: "split_step split_init CHR ''/'' (CHR ''*'' # D @ ?T) = (?st, True)"
    by (simp add: split_step_normal keep1_def) (simp add: split_init_def)
  have tail: "sp_blockComment st \<Longrightarrow> \<not> sp_lineComment st \<Longrightarrow> sp_quote st = None \<Longrightarrow>
      lex_normal (split_loop st ?T) \<and> lex_quiet st ?T" for st
    by (simp add: split_step_def lex_normal_def keep1_def Let_def)
  note block = block_comment_text [OF assms, of ?st ?T]
  have "lex_normal (split_loop split_init (''/*'' @ D @ ?T)) \<and> lex_quiet split_init (''/*'' @ D @ ?T)"
    using block step tail [of "?st\<lparr>sp_segment := rev D @ sp_segment ?st\<rparr>"] by (simp add: split_init_def)
  moreover have "strings_TrimSpace (''/*'' @ D @ ?T) = ''/*'' @ D @ ?T"
    unfolding strings_TrimSpace_def by (intro trim_plain) (simp_all add: is_space_def)
  ultimately show ?thesis by (simp add: whole_statement_def)
qed

lemma strings_Index_star: "CHR ''*'' \<notin> set D \<Longrightarrow> strings_Index (D @ CHR ''*'' # CHR ''/'' # t) ''*/'' = Some (length D)"
  by (induction D) (auto simp: strings_HasPrefix_def)

lemma drop_comment: "drop (length D + 4) (a # b # D @ c # d # t) = t"
  by (simp add: eval_nat_numeral)

lemma splitLeadingDirectives_comment:
  assumes "CHR ''*'' \<notin> set D"
  shows "splitLeadingDirectives (''/*'' @ D @ ''*/inception_magic_start'') = Inr (D, ''inception_magic_start'')"
proof -
  have "strings_TrimSpace (''/*'' @ D @ ''*/inception_magic_start'') = ''/*'' @ D @ ''*/inception_magic_start''"
    using comment_header_whole [OF assms] by (simp add: whole_statement_def)
  moreover have "strings_TrimSpace ''inception_magic_start'' = ''inception_magic_start''"
    by (simp add: go_defs)
  ultimately show ?thesis using strings_Index_star [OF assms, of "''inception_magic_start''"]
    by (simp add: splitLeadingDirectives_def strings_HasPrefix_def Let_def drop_comment)
qed

lemma render_header_whole:
  "\<forall>(k, v)\<in>set kvs. plain_key k \<and> (\<forall>c\<in>set v. plain_char c) \<Longrightarrow> whole_statement (render_header kvs)"
  unfolding render_header_def by (intro comment_header_whole render_directives_chars)

lemma splitLeadingDirectives_header:
  "\<forall>(k, v)\<in>set kvs. plain_key k \<and> (\<forall>c\<in>set v. plain_char c) \<Longrightarrow>
   splitLeadingDirectives (render_header kvs) = Inr (render_directives kvs, ''inception_magic_start'')"
  unfolding render_header_def by (intro splitLeadingDirectives_comment render_directives_chars)

lemma commit_marker:
  "whole_statement ''inception_magic_commit''" "markerEquals ''inception_magic_commit'' ''inception_magic_commit''"
  "markerEquals ''inception_magic_start'' ''inception_magic_start''"
  by (simp_all add: whole_statement_def split_step_def keep1_def lex_normal_def split_init_def Let_def
      markerEquals_def go_defs)

lemma envelope_body_render:
  assumes "\<forall>(k, v)\<in>set kvs. plain_key k \<and> (\<forall>c\<in>set v. plain_char c)"
    and "stmts \<noteq> []" and "length stmts \<le> MaxStatements"
    and "\<forall>s\<in>set stmts. \<not> is_control_marker s \<and> length s \<le> MaxStatementBytes"
  shows "envelope_body (render_header kvs # stmts @ [''inception_magic_commit'']) = Inr (render_directives kvs, stmts)"
  using assms(2-) by (auto simp: envelope_body_def splitLeadingDirectives_header [OF assms(1)] commit_marker
      fail_if_def Let_def not_less)

lemma join_body_starts: "ps \<noteq> [] \<Longrightarrow> \<exists>t. join_body (p # ps) = p @ t"
  by (simp add: join_body_Cons)

lemma envelope_of_render:
  assumes "kvs \<noteq> []" and "distinct (map fst kvs)"
    and plain: "\<forall>(k, v)\<in>set kvs. plain_key k \<and> (\<forall>c\<in>set v. plain_char c)"
    and "stmts \<noteq> []" and "length stmts \<le> MaxStatements"
    and stmts: "\<forall>s\<in>set stmts. whole_statement s \<and> \<not> is_control_marker s \<and> length s \<le> MaxStatementBytes"
    and size: "length (render_request kvs stmts) \<le> MaxRequestBytes"
  shows "ParseLegacyEnvelope (render_request kvs stmts) =
    sum_bind (envelope_options (map_of kvs)) (\<lambda>opts. Inr \<lparr> env_Options = opts, env_SQL = join_body stmts \<rparr>)"
proof -
  let ?parts = "render_header kvs # stmts @ [''inception_magic_commit'']"
  obtain t where "render_request kvs stmts = render_header kvs @ t"
    using join_body_starts [of "stmts @ [''inception_magic_commit'']" "render_header kvs"]
    by (auto simp: render_request_def)
  then have "normalizeConsoleEncoding (render_request kvs stmts) = render_request kvs stmts"
    by (intro normalizeConsoleEncoding_text) (simp_all add: render_header_def)
  moreover have "splitSQL (render_request kvs stmts) = Inr ?parts"
    unfolding render_request_def
    by (rule splitSQL_of_join) (use stmts render_header_whole [OF plain] commit_marker in auto)
  moreover have "envelope_body ?parts = Inr (render_directives kvs, stmts)"
    using envelope_body_render [OF plain] assms by simp
  moreover have "parseDirectives (render_directives kvs) = Inr (map_of kvs)"
    using parseDirectives_render assms by blast
  ultimately show ?thesis using size by (simp add: ParseLegacyEnvelope_def fail_if_def not_less)
qed

definition sample_directives :: "(string \<times> string) list" where
  "sample_directives = [(''host'', ''db1''), (''user'', ''root''), (''execute'', ''1'')]"

definition sample_options :: request_options where
  "sample_options = \<lparr> opt_Target = \<lparr> tgt_Host = ''db1'', tgt_Port = 3306, tgt_User = ''root'',
       tgt_Password = [], tgt_Database = [], tgt_SQLMode = [], tgt_Version = [], tgt_SQLSafeUpdates = 0,
       tgt_LockWaitTimeout = 0, tgt_DefaultCharset = [] \<rparr>,
     opt_Check = True, opt_Execute = True, opt_Backup = False, opt_IgnoreWarnings = False,
     opt_SleepMillis = 0, opt_SleepRows = 0, opt_TraceID = [] \<rparr>"

lemma sample_options_of: "envelope_options (map_of sample_directives) = Inr sample_options"
  by (simp add: envelope_options_def sample_directives_def sample_options_def map_get_def parsePort_def
      parseBool_def parseNonNegativeInt_def request_trace_id_def effective_sleep_rows_def Let_def go_defs fail_if_def)

section \<open>Properties of the splitter and the options\<close>

definition quoted_statement :: string where
  "quoted_statement = ''select '' @ [CHR 0x27, CHR '';'', CHR 0x27]"

lemma quoted_statement_whole:
  "whole_statement quoted_statement" "\<not> is_control_marker quoted_statement" "length quoted_statement = 10"
  by (simp_all add: quoted_statement_def whole_statement_def split_step_def keep1_def lex_normal_def split_init_def
      Let_def is_control_marker_def markerEquals_def go_defs)

lemma sample_request_run:
  "ParseLegacyEnvelope (render_request sample_directives [quoted_statement]) =
     Inr \<lparr> env_Options = sample_options, env_SQL = quoted_statement @ '';'' \<rparr>"
proof -
  have "\<forall>(k, v)\<in>set sample_directives. plain_key k \<and> (\<forall>c\<in>set v. plain_char c)"
    by (simp add: sample_directives_def plain_key_def allowedDirectives_def plain_char_def go_defs)
  moreover have "length (render_request sample_directives [quoted_statement]) \<le> MaxRequestBytes"
    by (simp add: render_request_def render_header_def render_directives_def sample_directives_def
        render_directive_def join_body_def quoted_statement_def MaxRequestBytes_def)
  ultimately show ?thesis
    using envelope_of_render [of sample_directives "[quoted_statement]"]
    by (simp add: sample_options_of quoted_statement_whole join_body_def MaxStatementBytes_def MaxStatements_def)
       (simp add: sample_directives_def)
qed



text \<open>
  The splitter loses no text: its parts are, in order, the trimmed non-empty pieces between
  some of the semicolons of the input, which the pieces rebuild exactly.
\<close>

theorem splitSQL_segments:
  assumes "splitSQL input = Inr parts"
  shows "\<exists>segs. segs \<noteq> [] \<and> strings_Join segs '';'' = input \<and>
    parts = filter (\<lambda>p. p \<noteq> []) (map strings_TrimSpace segs)"
  using assms by (rule splitSQL_text)

theorem splitSQL_segments_witness:
  "splitSQL ''a; b;'' = Inr [''a'', ''b''] \<and> (\<exists>segs. segs \<noteq> [] \<and> strings_Join segs '';'' = ''a; b;'' \<and>
     [''a'', ''b''] = filter (\<lambda>p. p \<noteq> []) (map strings_TrimSpace segs))"
proof -
  have run: "splitSQL ''a; b;'' = Inr [''a'', ''b'']"
    by (simp add: splitSQL_def split_init_def split_step_def keep1_def emit_part_def Let_def go_defs)
  with splitSQL_segments [OF run] show ?thesis by simp
qed

text \<open>
  The text handed to the SQL parser splits back into the statements that were admitted, for
  statements whose quotes and comments are closed.
\<close>

theorem splitSQL_join_body:
  assumes "\<forall>p\<in>set ps. whole_statement p"
  shows "splitSQL (join_body ps) = Inr ps"
  using assms by (rule splitSQL_of_join)

theorem splitSQL_join_body_witness:
  "splitSQL (quoted_statement @ '';'' @ [CHR 0x0A] @ quoted_statement @ '';'') = Inr [quoted_statement, quoted_statement]"
  using splitSQL_join_body [of "[quoted_statement, quoted_statement]"]
  by (simp add: quoted_statement_whole join_body_def)

text \<open>
  A statement that ends in a line comment does not survive the join: the splitter trims the
  newline that ends the comment, so in the joined text the comment swallows the semicolon, and two
  admitted statements reach the SQL parser as one.
\<close>

theorem line_comment_merges_statements:
  "splitSQL (''a -- c'' @ [CHR 0x0A] @ '';b;'') = Inr [''a -- c'', ''b''] \<and>
   splitSQL (join_body [''a -- c'', ''b'']) = Inr [''a -- c;'' @ [CHR 0x0A] @ ''b'']"
  by (simp add: splitSQL_def split_init_def split_step_def keep1_def emit_part_def join_body_def Let_def go_defs)

lemma middle_nonempty: "3 \<le> length parts \<Longrightarrow> butlast (tl parts) \<noteq> []"
  by (cases parts; cases "tl parts"; cases "tl (tl parts)") auto



end
