(* ===== verification/SchemaCache.thy ===== *)
theory SchemaCache
  imports DataModel
begin

text \<open>
  \<^verbatim>\<open>internal/metadata/cache.go\<close>: the request-scoped metadata cache in front of the target server.
  The server itself is the parameter \<open>metadata_source\<close>, a record of the answers it gives during
  the request. Lookups and updates are sequential, the way one audit uses the cache; the
  \<^verbatim>\<open>flights\<close> map, which coalesces concurrent loads of one key, is empty between the calls of a
  sequential run and is left out of the state; \<open>CacheFlights\<close> adds it.

  The locale \<open>table_store\<close> is the contract the schema snapshot relies on; the cache is its
  interpretation.
\<close>

section \<open>State\<close>

record metadata_source =
  src_LoadServerInfo :: "gerror + server_info"
  src_LoadSchema :: "string \<Rightarrow> gerror + schema_meta"
  src_LoadTable :: "string \<Rightarrow> string \<Rightarrow> gerror + table_meta"
  src_EstimateImpact :: "(string \<Rightarrow> string \<Rightarrow> gerror + impact_estimate) option"

text \<open>
  An entry is the sum of the \<^verbatim>\<open>value\<close> and \<^verbatim>\<open>err\<close> fields of \<^verbatim>\<open>schemaEntry\<close> and
  \<^verbatim>\<open>tableEntry\<close>; callers read the value only when the error is nil.
\<close>

record provider =
  pv_source :: metadata_source
  pv_lowerCase :: bool
  pv_server :: "server_info option"
  pv_schemas :: "string \<rightharpoonup> gerror + schema_meta"
  pv_tables :: "string \<rightharpoonup> gerror + table_meta"

section \<open>Operations\<close>

definition NewRequestCacheWithCaseMode :: "metadata_source \<Rightarrow> bool \<Rightarrow> provider" where
  "NewRequestCacheWithCaseMode source lowerCase =
     \<lparr> pv_source = source, pv_lowerCase = lowerCase, pv_server = None, pv_schemas = Map.empty,
       pv_tables = Map.empty \<rparr>"

definition NewRequestCache :: "metadata_source \<Rightarrow> provider" where
  "NewRequestCache source = NewRequestCacheWithCaseMode source False"

definition normalize :: "provider \<Rightarrow> string \<Rightarrow> string" where
  "normalize p v = (if pv_lowerCase p then strings_ToLower v else v)"

definition schemaKey :: "provider \<Rightarrow> string \<Rightarrow> string" where
  "schemaKey p schema = ''schema:'' @ normalize p schema"

definition tableKey :: "provider \<Rightarrow> string \<Rightarrow> string \<Rightarrow> string" where
  "tableKey p schema table = ''table:'' @ normalize p schema @ CHR 0x00 # normalize p table"

fun cacheable :: "gerror + 'a \<Rightarrow> bool" where
  "cacheable (Inr _) = True"
| "cacheable (Inl err) = err_NotFound err"

text \<open>A deep copy: on values it only rebuilds the slices.\<close>

definition cloneTable :: "table_meta \<Rightarrow> table_meta" where
  "cloneTable v = v\<lparr>t_Columns := t_Columns v,
     t_Indexes := map (\<lambda>i. i\<lparr>idx_Columns := idx_Columns i, idx_PrefixLengths := idx_PrefixLengths i,
       idx_Expressions := idx_Expressions i, idx_Directions := idx_Directions i\<rparr>) (t_Indexes v)\<rparr>"

definition LoadServerInfo :: "provider \<Rightarrow> (gerror + server_info) \<times> provider" where
  "LoadServerInfo p =
     (case pv_server p of
        Some v \<Rightarrow> (Inr v, p)
      | None \<Rightarrow> (case src_LoadServerInfo (pv_source p) of
          Inr v \<Rightarrow> (Inr v, p\<lparr>pv_server := Some v\<rparr>)
        | Inl err \<Rightarrow> (Inl err, p)))"

definition LoadSchema :: "provider \<Rightarrow> string \<Rightarrow> (gerror + schema_meta) \<times> provider" where
  "LoadSchema p schema =
     (let key = schemaKey p schema in
      case pv_schemas p key of
        Some entry \<Rightarrow> (entry, p)
      | None \<Rightarrow>
          let r = src_LoadSchema (pv_source p) schema in
          (r, if cacheable r then p\<lparr>pv_schemas := (pv_schemas p)(key \<mapsto> r)\<rparr> else p))"

definition LoadTable :: "provider \<Rightarrow> string \<Rightarrow> string \<Rightarrow> (gerror + table_meta) \<times> provider" where
  "LoadTable p schema table =
     (let key = tableKey p schema table in
      case pv_tables p key of
        Some entry \<Rightarrow> (map_sum id cloneTable entry, p)
      | None \<Rightarrow>
          let r = src_LoadTable (pv_source p) schema table in
          (map_sum id cloneTable r,
           if cacheable r then p\<lparr>pv_tables := (pv_tables p)(key \<mapsto> map_sum id cloneTable r)\<rparr>
           else p))"

definition EstimateImpact :: "provider \<Rightarrow> string \<Rightarrow> string \<Rightarrow> gerror + impact_estimate" where
  "EstimateImpact p database sql =
     (case src_EstimateImpact (pv_source p) of
        None \<Rightarrow> Inl (errorf ''metadata provider does not support impact estimation'')
      | Some estimate \<Rightarrow> estimate database sql)"

definition PutTable :: "table_meta \<Rightarrow> provider \<Rightarrow> provider" where
  "PutTable t p = p\<lparr>pv_tables := (pv_tables p)
     (tableKey p (t_Schema t) (t_Name t) \<mapsto> Inr (cloneTable t))\<rparr>"

definition PutSchema :: "schema_meta \<Rightarrow> provider \<Rightarrow> provider" where
  "PutSchema s p = p\<lparr>pv_schemas := (pv_schemas p)(schemaKey p (sch_Name s) \<mapsto> Inr s)\<rparr>"

definition DeleteSchema :: "string \<Rightarrow> provider \<Rightarrow> provider" where
  "DeleteSchema schema p =
     p\<lparr>pv_schemas := (pv_schemas p)(schemaKey p schema \<mapsto> Inl ErrMetadataNotFound)\<rparr>"

definition DeleteTable :: "string \<Rightarrow> string \<Rightarrow> provider \<Rightarrow> provider" where
  "DeleteTable schema table p =
     p\<lparr>pv_tables := (pv_tables p)(tableKey p schema table \<mapsto> Inl ErrMetadataNotFound)\<rparr>"

definition RenameTable :: "string \<Rightarrow> string \<Rightarrow> table_meta \<Rightarrow> provider \<Rightarrow> provider" where
  "RenameTable oldSchema oldTable t p = PutTable t (DeleteTable oldSchema oldTable p)"

section \<open>Keys\<close>

lemma cloneTable_id [simp]: "cloneTable t = t"
  by (simp add: cloneTable_def)

lemma map_sum_clone [simp]: "map_sum id cloneTable r = r"
  by (cases r) simp_all

lemma lower_byte_nul: "lower_byte c = CHR 0x00 \<longleftrightarrow> c = CHR 0x00"
proof
  assume "lower_byte c = CHR 0x00"
  then have "byte_val (lower_byte c) = 0" by simp
  then have "byte_val c = 0" by (auto simp: lower_byte_def split: if_splits)
  then have "byte_val c = byte_val CHR 0x00" by simp
  then show "c = CHR 0x00" by (simp only: of_char_eq_iff)
qed (simp add: lower_byte_def)

lemma nul_notin_normalize: "CHR 0x00 \<notin> set s \<Longrightarrow> CHR 0x00 \<notin> set (normalize p s)"
  by (auto simp: normalize_def strings_ToLower_def dest!: sym [of "CHR 0x00"] iffD1 [OF lower_byte_nul])

text \<open>
  The key separates schema and table by a NUL byte, which no identifier holds: two keys are equal
  exactly when both names agree after the case folding of the server.
\<close>

lemma tableKey_eq_iff:
  assumes "CHR 0x00 \<notin> set a" and "CHR 0x00 \<notin> set c"
  shows "tableKey p a b = tableKey p c d \<longleftrightarrow>
    normalize p a = normalize p c \<and> normalize p b = normalize p d"
proof -
  have split: "x @ CHR 0x00 # y = z @ CHR 0x00 # w \<longleftrightarrow> x = z \<and> y = w"
    if "CHR 0x00 \<notin> set x" "CHR 0x00 \<notin> set z" for x y z w :: string
    using that by (induction x arbitrary: z) (case_tac z; auto)+
  show ?thesis using assms by (simp add: tableKey_def split nul_notin_normalize)
qed

lemma schemaKey_eq_iff: "schemaKey p a = schemaKey p b \<longleftrightarrow> normalize p a = normalize p b"
  by (simp add: schemaKey_def)

lemma key_cong:
  "pv_lowerCase q = pv_lowerCase p \<Longrightarrow> tableKey q = tableKey p"
  "pv_lowerCase q = pv_lowerCase p \<Longrightarrow> schemaKey q = schemaKey p"
  "pv_lowerCase q = pv_lowerCase p \<Longrightarrow> normalize q = normalize p"
  by (simp_all add: tableKey_def schemaKey_def normalize_def fun_eq_iff)

lemma keys_of_update [simp]:
  "tableKey (p\<lparr>pv_tables := f\<rparr>) = tableKey p" "tableKey (p\<lparr>pv_schemas := g\<rparr>) = tableKey p"
  "schemaKey (p\<lparr>pv_tables := f\<rparr>) = schemaKey p" "schemaKey (p\<lparr>pv_schemas := g\<rparr>) = schemaKey p"
  "tableKey (p\<lparr>pv_server := v\<rparr>) = tableKey p" "schemaKey (p\<lparr>pv_server := v\<rparr>) = schemaKey p"
  by (rule key_cong, simp)+

section \<open>The contract of a table store\<close>

text \<open>
  A store of tables addressed through a key; a load may change the store, but no answer.
  \<open>steady\<close> answers are the ones a store may remember: a table, or that there is none.
\<close>

locale table_store =
  fixes key :: "'s \<Rightarrow> string \<Rightarrow> string \<Rightarrow> string"
    and load :: "'s \<Rightarrow> string \<Rightarrow> string \<Rightarrow> (gerror + table_meta) \<times> 's"
    and put :: "table_meta \<Rightarrow> 's \<Rightarrow> 's"
    and del :: "string \<Rightarrow> string \<Rightarrow> 's \<Rightarrow> 's"
  assumes key_load: "key (snd (load p a b)) = key p"
    and key_put: "key (put t p) = key p"
    and key_del: "key (del a b p) = key p"
    and load_same: "fst (load (snd (load p a b)) a b) = fst (load p a b)"
    and load_other: "key p c d \<noteq> key p a b \<Longrightarrow> fst (load (snd (load p a b)) c d) = fst (load p c d)"
    and load_steady: "key p c d = key p a b \<Longrightarrow> cacheable (fst (load p a b)) \<Longrightarrow>
      fst (load (snd (load p a b)) c d) = fst (load p a b)"
    and put_same: "key p c d = key p (t_Schema t) (t_Name t) \<Longrightarrow> fst (load (put t p) c d) = Inr t"
    and put_other: "key p c d \<noteq> key p (t_Schema t) (t_Name t) \<Longrightarrow>
      fst (load (put t p) c d) = fst (load p c d)"
    and del_same: "key p c d = key p a b \<Longrightarrow> fst (load (del a b p) c d) = Inl ErrMetadataNotFound"
    and del_other: "key p c d \<noteq> key p a b \<Longrightarrow> fst (load (del a b p) c d) = fst (load p c d)"
begin

text \<open>A rename is a delete followed by a put; the last write wins when both names coincide.\<close>

lemma rename_target:
  "key p c d = key p (t_Schema t) (t_Name t) \<Longrightarrow> fst (load (put t (del a b p)) c d) = Inr t"
  by (simp add: put_same key_del)

lemma rename_source:
  "key p c d = key p a b \<Longrightarrow> key p (t_Schema t) (t_Name t) \<noteq> key p a b \<Longrightarrow>
   fst (load (put t (del a b p)) c d) = Inl ErrMetadataNotFound"
  by (simp add: put_other key_del del_same)

lemma rename_frame:
  "key p c d \<noteq> key p a b \<Longrightarrow> key p c d \<noteq> key p (t_Schema t) (t_Name t) \<Longrightarrow>
   fst (load (put t (del a b p)) c d) = fst (load p c d)"
  by (simp add: put_other key_del del_other)

text \<open>A table that was loaded keeps answering the same until it is written.\<close>

lemma load_found_stable:
  "fst (load p a b) = Inr t \<Longrightarrow> fst (load (snd (load p c d)) a b) = Inr t \<or> key p c d = key p a b"
  by (metis load_other)

end

interpretation cache: table_store tableKey LoadTable PutTable DeleteTable
  by unfold_locales
     (auto simp: LoadTable_def PutTable_def DeleteTable_def Let_def split: option.splits if_splits)

end
