(* ===== verification/CacheFlights.thy ===== *)
theory CacheFlights
  imports SchemaCache
begin

text \<open>
  Concurrent loads through the request cache, \<^verbatim>\<open>LoadTable\<close> of \<^verbatim>\<open>internal/metadata/cache.go\<close> with its \<^verbatim>\<open>flights\<close> map. Every
  critical section under the mutex, the call of the source, and the waiting for another flight is a step of one caller; the step relation
  interleaves any number of callers. (\<^verbatim>\<open>LoadSchema\<close> is the same loop over the other map.) The sequential definition of
  \<open>SchemaCache\<close> is the specification: every interleaving gives each caller the answer of a load on its own.
\<close>

section \<open>State and steps\<close>

text \<open>Where a caller stands: before the lock, waiting for a flight, loading in its own flight, or answered.\<close>

datatype call_state = Calling | Waiting nat | Loading nat | Answered "gerror + table_meta"

record load_call =
  cl_Schema :: string
  cl_Table :: string
  cl_State :: call_state

text \<open>
  A flight is a number; \<open>fl_done\<close> holds the flights whose channel is closed. \<open>fl_loads\<close> records the keys for which the source was
  called, latest first.
\<close>

record flight_state =
  fl_cache :: provider
  fl_flights :: "string \<rightharpoonup> nat"
  fl_done :: "nat set"
  fl_next :: nat
  fl_calls :: "load_call list"
  fl_loads :: "string list"

definition state_of :: "flight_state \<Rightarrow> nat \<Rightarrow> call_state" where
  "state_of s i = cl_State (fl_calls s ! i)"

definition key_of :: "flight_state \<Rightarrow> nat \<Rightarrow> string" where
  "key_of s i = tableKey (fl_cache s) (cl_Schema (fl_calls s ! i)) (cl_Table (fl_calls s ! i))"

definition set_state :: "nat \<Rightarrow> call_state \<Rightarrow> flight_state \<Rightarrow> flight_state" where
  "set_state i st s = s\<lparr>fl_calls := (fl_calls s)[i := (fl_calls s ! i)\<lparr>cl_State := st\<rparr>]\<rparr>"

definition first_state :: "provider \<Rightarrow> (string \<times> string) list \<Rightarrow> flight_state" where
  "first_state p names = \<lparr> fl_cache = p, fl_flights = Map.empty, fl_done = {}, fl_next = 0,
     fl_calls = map (\<lambda>(a, b). \<lparr> cl_Schema = a, cl_Table = b, cl_State = Calling \<rparr>) names, fl_loads = [] \<rparr>"

text \<open>The end of a flight: the answer is cached when it may be, the flight is removed and its channel closed.\<close>

definition end_flight :: "nat \<Rightarrow> nat \<Rightarrow> gerror + table_meta \<Rightarrow> flight_state \<Rightarrow> flight_state" where
  "end_flight i f r s =
     set_state i (Answered (map_sum id cloneTable r)) (s\<lparr>
       fl_cache := (if cacheable r then (fl_cache s)\<lparr>pv_tables := (pv_tables (fl_cache s))(key_of s i \<mapsto> map_sum id cloneTable r)\<rparr>
                    else fl_cache s),
       fl_flights := (fl_flights s)(key_of s i := None), fl_done := insert f (fl_done s)\<rparr>)"

definition source_answer :: "flight_state \<Rightarrow> nat \<Rightarrow> gerror + table_meta" where
  "source_answer s i = src_LoadTable (pv_source (fl_cache s)) (cl_Schema (fl_calls s ! i)) (cl_Table (fl_calls s ! i))"

text \<open>
  \<open>cancelled\<close> are the callers whose context ends, with the error \<open>gone\<close>: one that waits stops waiting, one that loads gets the error from
  the source, or its answer when that comes first.
\<close>

inductive flight_step :: "(nat \<Rightarrow> bool) \<Rightarrow> gerror \<Rightarrow> flight_state \<Rightarrow> flight_state \<Rightarrow> bool" for cancelled gone where
  hit: "i < length (fl_calls s) \<Longrightarrow> state_of s i = Calling \<Longrightarrow> pv_tables (fl_cache s) (key_of s i) = Some entry \<Longrightarrow>
    flight_step cancelled gone s (set_state i (Answered (map_sum id cloneTable entry)) s)"
| join: "i < length (fl_calls s) \<Longrightarrow> state_of s i = Calling \<Longrightarrow> pv_tables (fl_cache s) (key_of s i) = None \<Longrightarrow>
    fl_flights s (key_of s i) = Some f \<Longrightarrow> flight_step cancelled gone s (set_state i (Waiting f) s)"
| own: "i < length (fl_calls s) \<Longrightarrow> state_of s i = Calling \<Longrightarrow> pv_tables (fl_cache s) (key_of s i) = None \<Longrightarrow>
    fl_flights s (key_of s i) = None \<Longrightarrow> flight_step cancelled gone s (set_state i (Loading (fl_next s))
      (s\<lparr>fl_flights := (fl_flights s)(key_of s i \<mapsto> fl_next s), fl_next := Suc (fl_next s), fl_loads := key_of s i # fl_loads s\<rparr>))"
| wake: "i < length (fl_calls s) \<Longrightarrow> state_of s i = Waiting f \<Longrightarrow> f \<in> fl_done s \<Longrightarrow>
    flight_step cancelled gone s (set_state i Calling s)"
| cancel: "i < length (fl_calls s) \<Longrightarrow> state_of s i = Waiting f \<Longrightarrow> cancelled i \<Longrightarrow>
    flight_step cancelled gone s (set_state i (Answered (Inl gone)) s)"
| land: "i < length (fl_calls s) \<Longrightarrow> state_of s i = Loading f \<Longrightarrow> 
    flight_step cancelled gone s (end_flight i f (source_answer s i) s)"
| abort: "i < length (fl_calls s) \<Longrightarrow> state_of s i = Loading f \<Longrightarrow> cancelled i \<Longrightarrow>
    flight_step cancelled gone s (end_flight i f (Inl gone) s)"

section \<open>Single flights\<close>

lemma set_state_simps [simp]:
  "length (fl_calls (set_state i st s)) = length (fl_calls s)" "fl_cache (set_state i st s) = fl_cache s"
  "fl_flights (set_state i st s) = fl_flights s" "fl_done (set_state i st s) = fl_done s" "fl_next (set_state i st s) = fl_next s"
  "fl_loads (set_state i st s) = fl_loads s"
  by (simp_all add: set_state_def)

lemma state_of_set [simp]: "i < length (fl_calls s) \<Longrightarrow> state_of (set_state i st s) j = (if j = i then st else state_of s j)"
  by (simp add: set_state_def state_of_def)

lemma key_of_set [simp]: "i < length (fl_calls s) \<Longrightarrow> key_of (set_state i st s) j = key_of s j"
  by (cases "j = i") (simp_all add: set_state_def key_of_def)

lemma calls_fields [simp]:
  "i < length (fl_calls s) \<Longrightarrow> cl_Schema (fl_calls (set_state i st s) ! j) = cl_Schema (fl_calls s ! j)"
  "i < length (fl_calls s) \<Longrightarrow> cl_Table (fl_calls (set_state i st s) ! j) = cl_Table (fl_calls s ! j)"
  by (cases "j = i"; simp add: set_state_def)+

lemma end_flight_simps:
  assumes "i < length (fl_calls s)"
  shows "length (fl_calls (end_flight i f r s)) = length (fl_calls s)" "fl_next (end_flight i f r s) = fl_next s"
    "fl_flights (end_flight i f r s) = (fl_flights s)(key_of s i := None)" "fl_done (end_flight i f r s) = insert f (fl_done s)"
    "fl_loads (end_flight i f r s) = fl_loads s" "key_of (end_flight i f r s) j = key_of s j"
    "cl_Schema (fl_calls (end_flight i f r s) ! j) = cl_Schema (fl_calls s ! j)" "cl_Table (fl_calls (end_flight i f r s) ! j) = cl_Table (fl_calls s ! j)"
    "state_of (end_flight i f r s) j = (if j = i then Answered r else state_of s j)"
    "fl_cache (end_flight i f r s) = (if cacheable r then (fl_cache s)\<lparr>pv_tables := (pv_tables (fl_cache s))(key_of s i \<mapsto> r)\<rparr> else fl_cache s)"
  using assms by (simp_all add: end_flight_def) (simp_all add: key_of_def state_of_def)

text \<open>
  The map of flights is the set of loads in progress: each entry belongs to one caller that is loading its key, each such caller has its
  entry, and whoever waits does so for a flight in progress on its key or for one that is over.
\<close>

definition flights_ok :: "flight_state \<Rightarrow> bool" where
  "flights_ok s \<longleftrightarrow>
     (\<forall>k f. fl_flights s k = Some f \<longrightarrow> (\<exists>i<length (fl_calls s). state_of s i = Loading f \<and> key_of s i = k) \<and> f \<notin> fl_done s) \<and>
     (\<forall>i<length (fl_calls s). \<forall>f. state_of s i = Loading f \<longrightarrow> fl_flights s (key_of s i) = Some f) \<and>
     (\<forall>i<length (fl_calls s). \<forall>j<length (fl_calls s). \<forall>f. state_of s i = Loading f \<and> state_of s j = Loading f \<longrightarrow> i = j) \<and>
     (\<forall>i<length (fl_calls s). \<forall>f. state_of s i = Waiting f \<longrightarrow> f \<in> fl_done s \<or> fl_flights s (key_of s i) = Some f) \<and>
     (\<forall>f\<in>fl_done s \<union> ran (fl_flights s). f < fl_next s)"

lemma first_state_ok: "flights_ok (first_state p names)"
  by (simp add: flights_ok_def first_state_def state_of_def case_prod_unfold)

lemma flights_okD:
  assumes "flights_ok s"
  shows flight_owner: "fl_flights s k = Some f \<Longrightarrow> \<exists>i<length (fl_calls s). state_of s i = Loading f \<and> key_of s i = k"
    and flight_open: "fl_flights s k = Some f \<Longrightarrow> f \<notin> fl_done s"
    and flight_entry: "i < length (fl_calls s) \<Longrightarrow> state_of s i = Loading f \<Longrightarrow> fl_flights s (key_of s i) = Some f"
    and flight_unique: "i < length (fl_calls s) \<Longrightarrow> j < length (fl_calls s) \<Longrightarrow> state_of s i = Loading f \<Longrightarrow> state_of s j = Loading f \<Longrightarrow> i = j"
    and flight_awaited: "i < length (fl_calls s) \<Longrightarrow> state_of s i = Waiting f \<Longrightarrow> f \<in> fl_done s \<or> fl_flights s (key_of s i) = Some f"
    and flight_bound: "f \<in> fl_done s \<union> ran (fl_flights s) \<Longrightarrow> f < fl_next s"
  using assms unfolding flights_ok_def by blast+

text \<open>A caller that is not loading may move to any state but loading, as long as it waits for a flight of its key.\<close>

lemma set_state_ok:
  assumes "flights_ok s" and "i < length (fl_calls s)" and "\<And>f. state_of s i \<noteq> Loading f" and "\<And>f. st \<noteq> Loading f"
    and "\<And>f. st = Waiting f \<Longrightarrow> fl_flights s (key_of s i) = Some f"
  shows "flights_ok (set_state i st s)"
proof -
  have "\<exists>j<length (fl_calls s). state_of (set_state i st s) j = Loading f \<and> key_of s j = k" if "fl_flights s k = Some f" for k f
  proof -
    from flight_owner [OF assms(1) that] obtain j where "j < length (fl_calls s)" "state_of s j = Loading f" "key_of s j = k" by blast
    with assms(2,3) show ?thesis by (intro exI [of _ j]) auto
  qed
  then show ?thesis using assms flight_open [OF assms(1)] flight_entry [OF assms(1)] flight_unique [OF assms(1)] flight_awaited [OF assms(1)]
      flight_bound [OF assms(1)] unfolding flights_ok_def by (auto split: if_splits)
qed

lemma own_ok:
  assumes "flights_ok s" and "i < length (fl_calls s)" and "state_of s i = Calling" and "fl_flights s (key_of s i) = None"
  shows "flights_ok (set_state i (Loading (fl_next s))
      (s\<lparr>fl_flights := (fl_flights s)(key_of s i \<mapsto> fl_next s), fl_next := Suc (fl_next s), fl_loads := key_of s i # fl_loads s\<rparr>))" (is "flights_ok ?t")
proof -
  have st: "state_of ?t j = (if j = i then Loading (fl_next s) else state_of s j)" and key: "key_of ?t j = key_of s j" for j
    using assms(2) by (simp_all add: set_state_def state_of_def key_of_def nth_list_update)
  have len: "length (fl_calls ?t) = length (fl_calls s)" by (simp add: set_state_def)
  have fresh: "state_of s j \<noteq> Loading (fl_next s)" if "j < length (fl_calls s)" for j
    using flight_entry [OF assms(1) that] flight_bound [OF assms(1), of "fl_next s"] by (auto simp: ran_def)
  have bound: "f < fl_next s" if "fl_flights s k = Some f" for f k using flight_bound [OF assms(1), of f] that by (auto simp: ran_def)
  show ?thesis
    unfolding flights_ok_def len st key
  proof (intro conjI allI impI ballI)
    fix k f
    assume "fl_flights ?t k = Some f"
    then consider "k = key_of s i" "f = fl_next s" | "k \<noteq> key_of s i" "fl_flights s k = Some f" by (auto split: if_splits)
    then show "\<exists>ia<length (fl_calls s). (if ia = i then Loading (fl_next s) else state_of s ia) = Loading f \<and> key_of s ia = k"
    proof cases
      case 2
      from flight_owner [OF assms(1) 2(2)] obtain j where "j < length (fl_calls s)" "state_of s j = Loading f" "key_of s j = k" by blast
      with assms(3) show ?thesis by (intro exI [of _ j]) auto
    qed (use assms(2) in auto)
    show "f \<notin> fl_done ?t"
      using \<open>fl_flights ?t k = Some f\<close> flight_open [OF assms(1)] flight_bound [OF assms(1), of "fl_next s"] by (auto split: if_splits)
  next
    fix j f
    assume "j < length (fl_calls s)" "(if j = i then Loading (fl_next s) else state_of s j) = Loading f"
    then show "fl_flights ?t (key_of s j) = Some f"
      using flight_entry [OF assms(1), of j f] assms(4) by (auto split: if_splits)
  next
    fix j k f
    assume "j < length (fl_calls s)" "k < length (fl_calls s)"
      "(if j = i then Loading (fl_next s) else state_of s j) = Loading f \<and> (if k = i then Loading (fl_next s) else state_of s k) = Loading f"
    then show "j = k" using flight_unique [OF assms(1), of j k f] fresh [of j] fresh [of k] by (auto split: if_splits)
  next
    fix j f
    assume "j < length (fl_calls s)" "(if j = i then Loading (fl_next s) else state_of s j) = Waiting f"
    then show "f \<in> fl_done ?t \<or> fl_flights ?t (key_of s j) = Some f"
      using flight_awaited [OF assms(1), of j f] assms(4) by (auto split: if_splits)
  next
    fix f
    assume "f \<in> fl_done ?t \<union> ran (fl_flights ?t)"
    then consider "f \<in> fl_done s" | "f = fl_next s" | k where "fl_flights s k = Some f" by (auto simp: ran_def split: if_splits)
    then show "f < fl_next ?t" using flight_bound [OF assms(1), of f] by cases (auto dest: bound)
  qed
qed

lemma land_ok:
  assumes "flights_ok s" and "i < length (fl_calls s)" and "state_of s i = Loading f"
  shows "flights_ok (end_flight i f r s)"
proof -
  note entry = flight_entry [OF assms]
  have others: "fl_flights s k \<noteq> Some f" if "k \<noteq> key_of s i" for k
    using flight_owner [OF assms(1), of k f] flight_unique [OF assms(1,2) _ assms(3)] that by blast
  show ?thesis
    unfolding flights_ok_def end_flight_simps [OF assms(2)]
  proof (intro conjI allI impI ballI)
    fix k g
    assume g: "((fl_flights s)(key_of s i := None)) k = Some g"
    then have k: "k \<noteq> key_of s i" "fl_flights s k = Some g" by (auto split: if_splits)
    from flight_owner [OF assms(1) k(2)] obtain j where "j < length (fl_calls s)" "state_of s j = Loading g" "key_of s j = k" by blast
    with k(1) show "\<exists>j<length (fl_calls s). (if j = i then Answered r else state_of s j) = Loading g \<and> key_of s j = k" by (intro exI [of _ j]) auto
    show "g \<notin> insert f (fl_done s)" using flight_open [OF assms(1) k(2)] others [OF k(1)] k(2) by auto
  next
    fix j g
    assume "j < length (fl_calls s)" "(if j = i then Answered r else state_of s j) = Loading g"
    then have j: "j \<noteq> i" "state_of s j = Loading g" "j < length (fl_calls s)" by (auto split: if_splits)
    have "key_of s j \<noteq> key_of s i"
      using flight_entry [OF assms(1) j(3,2)] entry flight_unique [OF assms(1) j(3) assms(2) j(2)] assms(3) j(1) by auto
    with flight_entry [OF assms(1) j(3,2)] show "((fl_flights s)(key_of s i := None)) (key_of s j) = Some g" by simp
  next
    fix j k g
    assume "j < length (fl_calls s)" "k < length (fl_calls s)" "(if j = i then Answered r else state_of s j) = Loading g \<and> (if k = i then Answered r else state_of s k) = Loading g"
    then show "j = k" using flight_unique [OF assms(1), of j k g] by (auto split: if_splits)
  next
    fix j g
    assume "j < length (fl_calls s)" "(if j = i then Answered r else state_of s j) = Waiting g"
    then show "g \<in> insert f (fl_done s) \<or> ((fl_flights s)(key_of s i := None)) (key_of s j) = Some g"
      using flight_awaited [OF assms(1), of j g] entry by (auto split: if_splits)
  next
    fix g
    assume "g \<in> insert f (fl_done s) \<union> ran ((fl_flights s)(key_of s i := None))"
    then show "g < fl_next s" using flight_bound [OF assms(1), of g] entry by (auto simp: ran_def split: if_splits)
  qed
qed

lemma flight_step_ok: "flight_step cancelled gone s s' \<Longrightarrow> flights_ok s \<Longrightarrow> flights_ok s'"
  by (induction rule: flight_step.induct) (auto intro!: set_state_ok own_ok land_ok)

lemma flights_reachable_ok:
  "(flight_step cancelled gone)\<^sup>*\<^sup>* (first_state p names) s \<Longrightarrow> flights_ok s"
  by (induction rule: rtranclp_induct) (auto intro: first_state_ok flight_step_ok)

section \<open>Answers\<close>

text \<open>What a load of one of the requested names with this key answers on its own.\<close>

definition lone_answer :: "provider \<Rightarrow> (string \<times> string) list \<Rightarrow> string \<Rightarrow> gerror + table_meta \<Rightarrow> bool" where
  "lone_answer p names k r \<longleftrightarrow> (\<exists>(a, b)\<in>set names. tableKey p a b = k \<and> r = fst (LoadTable p a b))"

definition answers_ok :: "(nat \<Rightarrow> bool) \<Rightarrow> gerror \<Rightarrow> provider \<Rightarrow> (string \<times> string) list \<Rightarrow> flight_state \<Rightarrow> bool" where
  "answers_ok cancelled gone p names s \<longleftrightarrow>
     pv_source (fl_cache s) = pv_source p \<and> tableKey (fl_cache s) = tableKey p \<and>
     map (\<lambda>c. (cl_Schema c, cl_Table c)) (fl_calls s) = names \<and>
     (\<forall>k entry. pv_tables (fl_cache s) k = Some entry \<longrightarrow> pv_tables p k = Some entry \<or> lone_answer p names k entry) \<and>
     (\<forall>k entry. pv_tables p k = Some entry \<longrightarrow> pv_tables (fl_cache s) k = Some entry) \<and>
     (\<forall>i<length (fl_calls s). \<forall>f. state_of s i = Loading f \<longrightarrow> pv_tables p (key_of s i) = None) \<and>
     (\<forall>i<length (fl_calls s). \<forall>r. state_of s i = Answered r \<longrightarrow> lone_answer p names (key_of s i) r \<or> cancelled i \<and> r = Inl gone)"

lemma answers_okD:
  assumes "answers_ok cancelled gone p names s"
  shows answers_source: "pv_source (fl_cache s) = pv_source p" and answers_key: "tableKey (fl_cache s) = tableKey p"
    and answers_names: "map (\<lambda>c. (cl_Schema c, cl_Table c)) (fl_calls s) = names"
    and answers_entry: "pv_tables (fl_cache s) k = Some entry \<Longrightarrow> pv_tables p k = Some entry \<or> lone_answer p names k entry"
    and answers_kept: "pv_tables p k = Some entry \<Longrightarrow> pv_tables (fl_cache s) k = Some entry"
    and answers_loading: "i < length (fl_calls s) \<Longrightarrow> state_of s i = Loading f \<Longrightarrow> pv_tables p (key_of s i) = None"
    and answers_given: "i < length (fl_calls s) \<Longrightarrow> state_of s i = Answered r \<Longrightarrow> lone_answer p names (key_of s i) r \<or> cancelled i \<and> r = Inl gone"
  using assms unfolding answers_ok_def by blast+

lemma first_state_answers: "answers_ok cancelled gone p names (first_state p names)"
  by (simp add: answers_ok_def first_state_def state_of_def case_prod_unfold o_def)

text \<open>A caller's own name is one of the names.\<close>

lemma caller_named:
  assumes "answers_ok cancelled gone p names s" and "i < length (fl_calls s)"
  shows "(cl_Schema (fl_calls s ! i), cl_Table (fl_calls s ! i)) \<in> set names"
    and "key_of s i = tableKey p (cl_Schema (fl_calls s ! i)) (cl_Table (fl_calls s ! i))"
proof -
  have "(cl_Schema (fl_calls s ! i), cl_Table (fl_calls s ! i)) \<in> set (map (\<lambda>c. (cl_Schema c, cl_Table c)) (fl_calls s))"
    using nth_mem [OF assms(2)] by (auto intro: image_eqI)
  then show "(cl_Schema (fl_calls s ! i), cl_Table (fl_calls s ! i)) \<in> set names" unfolding answers_names [OF assms(1)] .
qed (simp add: key_of_def answers_key [OF assms(1)])

lemma hit_lone:
  assumes "answers_ok cancelled gone p names s" and "i < length (fl_calls s)" and "pv_tables (fl_cache s) (key_of s i) = Some entry"
  shows "lone_answer p names (key_of s i) entry"
proof (cases "pv_tables p (key_of s i) = Some entry")
  case True
  then have "entry = fst (LoadTable p (cl_Schema (fl_calls s ! i)) (cl_Table (fl_calls s ! i)))"
    by (simp add: LoadTable_def caller_named(2) [OF assms(1,2)])
  with caller_named [OF assms(1,2)] show ?thesis by (auto simp: lone_answer_def)
next
  case False
  with answers_entry [OF assms(1,3)] show ?thesis by simp
qed

lemma land_lone:
  assumes "answers_ok cancelled gone p names s" and "i < length (fl_calls s)" and "state_of s i = Loading f"
  shows "lone_answer p names (key_of s i) (source_answer s i)"
proof -
  have "source_answer s i = fst (LoadTable p (cl_Schema (fl_calls s ! i)) (cl_Table (fl_calls s ! i)))"
    using answers_loading [OF assms] by (simp add: LoadTable_def Let_def source_answer_def caller_named(2) [OF assms(1,2)] answers_source [OF assms(1)])
  with caller_named [OF assms(1,2)] show ?thesis by (auto simp: lone_answer_def)
qed

lemma set_state_answers:
  assumes "answers_ok cancelled gone p names s" and "i < length (fl_calls s)" and "\<And>f. st \<noteq> Loading f"
    and "\<And>r. st = Answered r \<Longrightarrow> lone_answer p names (key_of s i) r \<or> cancelled i \<and> r = Inl gone"
  shows "answers_ok cancelled gone p names (set_state i st s)"
proof -
  have "map (\<lambda>c. (cl_Schema c, cl_Table c)) (fl_calls (set_state i st s)) = map (\<lambda>c. (cl_Schema c, cl_Table c)) (fl_calls s)"
    by (rule nth_equalityI) (simp_all add: assms(2))
  moreover have "pv_tables p (key_of s j) = None" if "j < length (fl_calls s)" "state_of (set_state i st s) j = Loading f" for j f
    using that answers_loading [OF assms(1), of j f] assms(2,3) by (auto split: if_splits)
  moreover have "lone_answer p names (key_of s j) r \<or> cancelled j \<and> r = Inl gone"
    if "j < length (fl_calls s)" "state_of (set_state i st s) j = Answered r" for j r
    using that answers_given [OF assms(1), of j r] assms(2,4) by (auto split: if_splits)
  ultimately show ?thesis
    using answers_okD(1-5) [OF assms(1)] unfolding answers_ok_def set_state_simps key_of_set [OF assms(2)] by blast
qed

lemma end_flight_answers:
  assumes "answers_ok cancelled gone p names s" and "i < length (fl_calls s)" and "state_of s i = Loading f"
    and "lone_answer p names (key_of s i) r \<or> cancelled i \<and> r = Inl gone \<and> \<not> cacheable r"
  shows "answers_ok cancelled gone p names (end_flight i f r s)"
proof -
  note ok = answers_okD [OF assms(1)] and new = answers_loading [OF assms(1-3)]
  have calls: "map (\<lambda>c. (cl_Schema c, cl_Table c)) (fl_calls (end_flight i f r s)) = names"
    unfolding answers_names [OF assms(1), symmetric] by (rule nth_equalityI) (simp_all add: end_flight_simps [OF assms(2)])
  have key: "tableKey (fl_cache (end_flight i f r s)) = tableKey p"
    by (rule ext)+ (simp add: end_flight_simps [OF assms(2)] answers_key [OF assms(1), symmetric] tableKey_def normalize_def)
  have entry: "pv_tables p k = Some entry \<or> lone_answer p names k entry" if "pv_tables (fl_cache (end_flight i f r s)) k = Some entry" for k entry
    using that ok(4) [of k entry] assms(4) by (auto simp: end_flight_simps [OF assms(2)] split: if_splits)
  have kept: "pv_tables (fl_cache (end_flight i f r s)) k = Some entry" if "pv_tables p k = Some entry" for k entry
    using ok(5) [OF that] that new by (auto simp: end_flight_simps [OF assms(2)])
  have given: "lone_answer p names (key_of s j) q \<or> cancelled j \<and> q = Inl gone"
    if "j < length (fl_calls s)" "state_of (end_flight i f r s) j = Answered q" for j q
    using that ok(7) [of j q] assms(4) by (auto simp: end_flight_simps [OF assms(2)] split: if_splits)
  have loading: "pv_tables p (key_of s j) = None" if "j < length (fl_calls s)" "state_of (end_flight i f r s) j = Loading g" for j g
    using that ok(6) [of j g] by (auto simp: end_flight_simps [OF assms(2)] split: if_splits)
  have "pv_source (fl_cache (end_flight i f r s)) = pv_source p" by (simp add: end_flight_simps [OF assms(2)] ok(1))
  then show ?thesis unfolding answers_ok_def end_flight_simps(1,6) [OF assms(2)] using calls key entry kept given loading by blast
qed

lemma own_answers:
  assumes "answers_ok cancelled gone p names s" and "i < length (fl_calls s)" and "pv_tables (fl_cache s) (key_of s i) = None"
  shows "answers_ok cancelled gone p names (set_state i (Loading n) (s\<lparr>fl_flights := fs, fl_next := m, fl_loads := ls\<rparr>))" (is "answers_ok _ _ _ _ ?t")
proof -
  note ok = answers_okD [OF assms(1)]
  have st: "state_of ?t j = (if j = i then Loading n else state_of s j)" and key: "key_of ?t j = key_of s j" for j
    using assms(2) by (simp_all add: set_state_def state_of_def key_of_def nth_list_update)
  have calls: "map (\<lambda>c. (cl_Schema c, cl_Table c)) (fl_calls ?t) = names"
    unfolding answers_names [OF assms(1), symmetric] by (rule nth_equalityI) (simp_all add: set_state_def nth_list_update assms(2))
  have "pv_tables p (key_of s i) = None" using ok(5) [of "key_of s i"] assms(3) by (cases "pv_tables p (key_of s i)") simp_all
  then show ?thesis
    unfolding answers_ok_def st key calls using ok by simp blast
qed

lemma flight_step_answers:
  assumes "flight_step cancelled gone s s'" and "answers_ok cancelled gone p names s" and "\<not> err_NotFound gone"
  shows "answers_ok cancelled gone p names s'"
  using assms(1)
proof cases
  case (hit i entry)
  then show ?thesis using set_state_answers [OF assms(2), of i "Answered entry"] hit_lone [OF assms(2)] by simp
next
  case (join i f)
  then show ?thesis using set_state_answers [OF assms(2), of i "Waiting f"] by simp
next
  case (own i)
  then show ?thesis using own_answers [OF assms(2)] by simp
next
  case (wake i f)
  then show ?thesis using set_state_answers [OF assms(2), of i Calling] by simp
next
  case (cancel i f)
  then show ?thesis using set_state_answers [OF assms(2), of i "Answered (Inl gone)"] by simp
next
  case (land i f)
  then show ?thesis using end_flight_answers [OF assms(2)] land_lone [OF assms(2)] by simp
next
  case (abort i f)
  then show ?thesis using end_flight_answers [OF assms(2)] assms(3) by simp
qed

lemma flights_reachable_answers:
  assumes "(flight_step cancelled gone)\<^sup>*\<^sup>* (first_state p names) s" and "\<not> err_NotFound gone"
  shows "answers_ok cancelled gone p names s"
  using assms(1)
proof (induction rule: rtranclp_induct)
  case (step s t)
  then show ?case using flight_step_answers assms(2) by blast
qed (rule first_state_answers)

section \<open>Loads\<close>

text \<open>
  A load that may be kept is made once: while it is in flight the others wait, and afterwards they find it in the cache.
\<close>

definition loads_ok :: "provider \<Rightarrow> (string \<times> string) list \<Rightarrow> string \<Rightarrow> flight_state \<Rightarrow> bool" where
  "loads_ok p names k s \<longleftrightarrow>
     count_list (fl_loads s) k = 0 \<or> count_list (fl_loads s) k = 1 \<and> (fl_flights s k \<noteq> None \<or> pv_tables (fl_cache s) k \<noteq> None)"

lemma flight_step_loads:
  assumes "flight_step (\<lambda>_. False) gone s s'" and "loads_ok p names k s" and "answers_ok (\<lambda>_. False) gone p names s"
    and "\<And>a b. (a, b) \<in> set names \<Longrightarrow> tableKey p a b = k \<Longrightarrow> cacheable (src_LoadTable (pv_source p) a b)"
  shows "loads_ok p names k s'"
  using assms(1)
proof cases
  case (land i f)
  have "cacheable (source_answer s i)" if "key_of s i = k"
    using assms(4) [OF caller_named(1) [OF assms(3) land(2)]] caller_named(2) [OF assms(3) land(2)] that
    by (simp add: source_answer_def answers_source [OF assms(3)])
  with assms(2) show ?thesis unfolding land(1) loads_ok_def by (auto simp: end_flight_simps [OF land(2)])
qed (use assms(2) in \<open>auto simp: loads_ok_def\<close>)

section \<open>Progress\<close>

text \<open>The calls without an answer, and how far each is from its flight.\<close>

definition unanswered :: "flight_state \<Rightarrow> nat set" where
  "unanswered s = {i. i < length (fl_calls s) \<and> (\<forall>r. state_of s i \<noteq> Answered r)}"

fun call_weight :: "nat set \<Rightarrow> call_state \<Rightarrow> nat" where
  "call_weight finished (Waiting f) = (if f \<in> finished then 3 else 1)"
| "call_weight finished Calling = 2"
| "call_weight finished (Loading _) = 0"
| "call_weight finished (Answered _) = 0"

definition flight_weight :: "flight_state \<Rightarrow> nat" where
  "flight_weight s = (\<Sum>i<length (fl_calls s). call_weight (fl_done s) (state_of s i))"

lemma finite_unanswered [simp]: "finite (unanswered s)"
  by (simp add: unanswered_def)

lemma answered_less:
  assumes "length (fl_calls t) = length (fl_calls s)" and "i < length (fl_calls s)" and "\<And>r. state_of s i \<noteq> Answered r"
    and "\<And>j. state_of t j = (if j = i then Answered r else state_of s j)"
  shows "card (unanswered t) < card (unanswered s)"
proof (rule psubset_card_mono)
  have "i \<in> unanswered s" "i \<notin> unanswered t" using assms by (simp_all add: unanswered_def)
  moreover have "unanswered t \<subseteq> unanswered s" using assms(1,4) by (auto simp: unanswered_def split: if_splits)
  ultimately show "unanswered t \<subset> unanswered s" by blast
qed simp

lemma moved_less:
  assumes "length (fl_calls t) = length (fl_calls s)" and "i < length (fl_calls s)" and "\<And>r. state_of s i \<noteq> Answered r" and "\<And>r. st \<noteq> Answered r"
    and "\<And>j. state_of t j = (if j = i then st else state_of s j)" and "fl_done t = fl_done s"
    and "call_weight (fl_done s) st < call_weight (fl_done s) (state_of s i)"
  shows "card (unanswered t) = card (unanswered s)" and "flight_weight t < flight_weight s"
proof -
  have "unanswered t = unanswered s" using assms(1-5) by (auto simp: unanswered_def)
  then show "card (unanswered t) = card (unanswered s)" by simp
  show "flight_weight t < flight_weight s"
    unfolding flight_weight_def assms(1,5,6) by (rule sum_strict_mono_ex1) (use assms(2,7) in auto)
qed

lemma flight_step_decreases:
  assumes "flight_step cancelled gone s s'" and "flights_ok s"
  shows "card (unanswered s') < card (unanswered s) \<or> card (unanswered s') = card (unanswered s) \<and> flight_weight s' < flight_weight s"
  using assms(1)
proof cases
  case (hit i entry)
  then show ?thesis using answered_less [of s' s i entry] by simp
next
  case (join i f)
  then have "f \<notin> fl_done s" using flight_open [OF assms(2)] by blast
  then show ?thesis using join moved_less [of s' s i "Waiting f"] by simp
next
  case (own i)
  have "state_of s' j = (if j = i then Loading (fl_next s) else state_of s j)" for j
    unfolding own(1) using own(2) by (simp add: set_state_def state_of_def nth_list_update)
  moreover have "length (fl_calls s') = length (fl_calls s)" "fl_done s' = fl_done s" by (simp_all add: own(1))
  ultimately show ?thesis using moved_less [of s' s i "Loading (fl_next s)"] own(2,3) by simp
next
  case (wake i f)
  then show ?thesis using moved_less [of s' s i Calling] by simp
next
  case (cancel i f)
  then show ?thesis using answered_less [of s' s i "Inl gone"] by simp
next
  case (land i f)
  then show ?thesis using answered_less [of s' s i "source_answer s i"] by (simp add: end_flight_simps)
next
  case (abort i f)
  then show ?thesis using answered_less [of s' s i "Inl gone"] by (simp add: end_flight_simps)
qed

lemma flight_step_exists:
  assumes "flights_ok s" and "i \<in> unanswered s"
  shows "\<exists>s'. flight_step cancelled gone s s'"
proof (cases "state_of s i")
  case Calling
  with assms(2) show ?thesis
    by (cases "pv_tables (fl_cache s) (key_of s i)"; cases "fl_flights s (key_of s i)") (auto simp: unanswered_def intro: hit join own)
next
  case (Waiting f)
  show ?thesis
  proof (cases "f \<in> fl_done s")
    case True
    with Waiting assms(2) show ?thesis by (auto simp: unanswered_def intro: wake)
  next
    case False
    with Waiting assms(2) have "fl_flights s (key_of s i) = Some f" using flight_awaited [OF assms(1)] by (auto simp: unanswered_def)
    from flight_owner [OF assms(1) this] show ?thesis by (auto intro: land)
  qed
next
  case (Loading f)
  with assms(2) show ?thesis by (auto simp: unanswered_def intro: land)
next
  case (Answered r)
  with assms(2) show ?thesis by (simp add: unanswered_def)
qed

text \<open>No run of the callers goes on for ever, so every run that goes on as long as it can answers them all.\<close>

lemma flight_step_wf: "wf {(s', s). flights_ok s \<and> flight_step cancelled gone s s'}"
proof (rule wf_subset)
  show "wf (inv_image (less_than <*lex*> less_than) (\<lambda>s. (card (unanswered s), flight_weight s)))" by (simp add: wf_lex_prod)
  show "{(s', s). flights_ok s \<and> flight_step cancelled gone s s'} \<subseteq> inv_image (less_than <*lex*> less_than) (\<lambda>s. (card (unanswered s), flight_weight s))"
    using flight_step_decreases by (auto simp: inv_image_def)
qed

lemma flights_length: "(flight_step cancelled gone)\<^sup>*\<^sup>* (first_state p names) s \<Longrightarrow> length (fl_calls s) = length names"
proof (induction rule: rtranclp_induct)
  case (step s t)
  from step(2) have "length (fl_calls t) = length (fl_calls s)" by cases (simp_all add: end_flight_simps)
  with step(3) show ?case by simp
qed (simp add: first_state_def)

section \<open>Properties\<close>

text \<open>Two callers ask for one table: the first loads it, the second waits for the flight and then finds it in the cache.\<close>

definition demo_loaded :: table_meta where
  "demo_loaded = zero_table_meta\<lparr>t_Schema := ''shop'', t_Name := ''t''\<rparr>"

definition demo_shared :: provider where
  "demo_shared = NewRequestCache \<lparr> src_LoadServerInfo = Inl ErrMetadataNotFound, src_LoadSchema = \<lambda>_. Inl ErrMetadataNotFound,
     src_LoadTable = \<lambda>a b. if b = ''t'' then Inr demo_loaded else Inl ErrMetadataNotFound, src_EstimateImpact = None \<rparr>"

definition demo_calls :: "(string \<rightharpoonup> gerror + table_meta) \<Rightarrow> (string \<rightharpoonup> nat) \<Rightarrow> nat set \<Rightarrow> nat \<Rightarrow> call_state list \<Rightarrow> string list \<Rightarrow> flight_state" where
  "demo_calls tables flights finished n states loads = \<lparr> fl_cache = demo_shared\<lparr>pv_tables := tables\<rparr>, fl_flights = flights, fl_done = finished,
     fl_next = n, fl_calls = map (\<lambda>st. \<lparr> cl_Schema = ''shop'', cl_Table = ''t'', cl_State = st \<rparr>) states, fl_loads = loads \<rparr>"

definition demo_key :: string where
  "demo_key = ''table:shop'' @ CHR 0x00 # ''t''"

definition demo_names :: "(string \<times> string) list" where
  "demo_names = [(''shop'', ''t''), (''shop'', ''t'')]"

lemmas demo_call_defs = demo_calls_def demo_shared_def NewRequestCache_def NewRequestCacheWithCaseMode_def state_of_def key_of_def
  tableKey_def normalize_def demo_key_def set_state_def end_flight_def source_answer_def

lemma demo_calls_run:
  "(flight_step cancelled gone)\<^sup>*\<^sup>* (first_state demo_shared demo_names)
     (demo_calls [demo_key \<mapsto> Inr demo_loaded] Map.empty {0} 1 [Answered (Inr demo_loaded), Answered (Inr demo_loaded)] [demo_key])"
proof -
  let ?step = "flight_step cancelled gone"
  let ?s1 = "demo_calls Map.empty [demo_key \<mapsto> 0] {} 1 [Loading 0, Calling] [demo_key]"
  let ?s2 = "demo_calls Map.empty [demo_key \<mapsto> 0] {} 1 [Loading 0, Waiting 0] [demo_key]"
  let ?s3 = "demo_calls [demo_key \<mapsto> Inr demo_loaded] Map.empty {0} 1 [Answered (Inr demo_loaded), Waiting 0] [demo_key]"
  let ?s4 = "demo_calls [demo_key \<mapsto> Inr demo_loaded] Map.empty {0} 1 [Answered (Inr demo_loaded), Calling] [demo_key]"
  have start: "first_state demo_shared demo_names = demo_calls Map.empty Map.empty {} 0 [Calling, Calling] []"
    by (simp add: first_state_def demo_names_def demo_call_defs)
  have "?step (demo_calls Map.empty Map.empty {} 0 [Calling, Calling] []) ?s1"
    using own [of 0 "demo_calls Map.empty Map.empty {} 0 [Calling, Calling] []" cancelled gone] by (simp add: demo_call_defs)
  moreover have "?step ?s1 ?s2" using join [of 1 ?s1 0 cancelled gone] by (simp add: demo_call_defs)
  moreover have "?step ?s2 ?s3" using land [of 0 ?s2 0 cancelled gone] by (simp add: demo_call_defs)
  moreover have "?step ?s3 ?s4" using wake [of 1 ?s3 0 cancelled gone] by (simp add: demo_call_defs)
  moreover have "?step ?s4 (demo_calls [demo_key \<mapsto> Inr demo_loaded] Map.empty {0} 1 [Answered (Inr demo_loaded), Answered (Inr demo_loaded)] [demo_key])"
    using hit [of 1 ?s4 "Inr demo_loaded" cancelled gone] by (simp add: demo_call_defs)
  ultimately show ?thesis unfolding start by (meson converse_rtranclp_into_rtranclp rtranclp.rtrancl_refl)
qed

text \<open>
  C29. Concurrent loads answer as sequential ones: however the callers of the cache interleave, whichever of them are cancelled, a caller that has
  its answer got the answer that a sequential load gives for one of the requested names with its key, or it is cancelled and got the
  error of its context; the error of another caller's context never reaches it.
\<close>

theorem concurrent_load_answers:
  assumes "(flight_step cancelled gone)\<^sup>*\<^sup>* (first_state p names) s" and "\<not> err_NotFound gone"
    and "i < length names" and "state_of s i = Answered r"
  shows "(\<exists>(a, b)\<in>set names. tableKey p a b = tableKey p (fst (names ! i)) (snd (names ! i)) \<and> r = fst (LoadTable p a b)) \<or>
    cancelled i \<and> r = Inl gone"
proof -
  note ok = flights_reachable_answers [OF assms(1,2)]
  have i: "i < length (fl_calls s)" using assms(3) flights_length [OF assms(1)] by simp
  have "names ! i = (cl_Schema (fl_calls s ! i), cl_Table (fl_calls s ! i))" using i answers_names [OF ok] by auto
  then show ?thesis using answers_given [OF ok i assms(4)] caller_named(2) [OF ok i] by (simp add: lone_answer_def)
qed

theorem concurrent_load_answers_witness:
  "state_of (demo_calls [demo_key \<mapsto> Inr demo_loaded] Map.empty {0} 1 [Answered (Inr demo_loaded), Answered (Inr demo_loaded)] [demo_key]) 1
     = Answered (Inr demo_loaded) \<and> (\<exists>(a, b)\<in>set demo_names. Inr demo_loaded = fst (LoadTable demo_shared a b))"
  using concurrent_load_answers [OF demo_calls_run [of "\<lambda>_. False" "errorf []"], of 1 "Inr demo_loaded"]
  by (simp add: demo_names_def demo_calls_def state_of_def)

text \<open>
  When nobody is cancelled, the source is called at most once for a key whose answers may be kept, however many callers ask for it.
\<close>

theorem concurrent_load_once:
  assumes "(flight_step (\<lambda>_. False) gone)\<^sup>*\<^sup>* (first_state p names) s" and "\<not> err_NotFound gone"
    and "\<And>a b. (a, b) \<in> set names \<Longrightarrow> tableKey p a b = k \<Longrightarrow> cacheable (src_LoadTable (pv_source p) a b)"
  shows "count_list (fl_loads s) k \<le> 1"
proof -
  have "loads_ok p names k s"
    using assms(1)
  proof (induction rule: rtranclp_induct)
    case (step s t)
    then show ?case using flight_step_loads [OF step(2,3) flights_reachable_answers [OF step(1) assms(2)]] assms(3) by blast
  qed (simp add: loads_ok_def first_state_def)
  then show ?thesis by (auto simp: loads_ok_def)
qed

theorem concurrent_load_once_witness:
  "count_list (fl_loads (demo_calls [demo_key \<mapsto> Inr demo_loaded] Map.empty {0} 1 [Answered (Inr demo_loaded), Answered (Inr demo_loaded)] [demo_key])) demo_key \<le> 1"
  by (rule concurrent_load_once [OF demo_calls_run [of "\<lambda>_. False" "errorf []"]]) (auto simp: demo_names_def demo_shared_def NewRequestCache_def NewRequestCacheWithCaseMode_def)

text \<open>
  C31. Nobody waits for ever: from every state the callers can reach, no run goes on without end, and a state in which no caller can move has
  answered all of them. In particular a flight that fails or whose owner is cancelled leaves nobody waiting.
\<close>

theorem concurrent_loads_finish:
  assumes "(flight_step cancelled gone)\<^sup>*\<^sup>* (first_state p names) s"
  shows "(\<nexists>run. run 0 = s \<and> (\<forall>n. flight_step cancelled gone (run n) (run (Suc n)))) \<and>
    ((\<nexists>s'. flight_step cancelled gone s s') \<longrightarrow> (\<forall>i<length names. \<exists>r. state_of s i = Answered r))"
proof (intro conjI impI)
  note ok = flights_reachable_ok [OF assms]
  show "\<nexists>run. run 0 = s \<and> (\<forall>n. flight_step cancelled gone (run n) (run (Suc n)))"
  proof
    assume "\<exists>run. run 0 = s \<and> (\<forall>n. flight_step cancelled gone (run n) (run (Suc n)))"
    then obtain run where run: "run 0 = s" "\<And>n. flight_step cancelled gone (run n) (run (Suc n))" by blast
    have "flights_ok (run n)" for n
    proof (induction n)
      case (Suc n)
      then show ?case using flight_step_ok [OF run(2)] by blast
    qed (simp add: run(1) ok)
    then show False using flight_step_wf [of cancelled gone] run(2) unfolding wf_iff_no_infinite_down_chain by blast
  qed
  assume "\<nexists>s'. flight_step cancelled gone s s'"
  then have "unanswered s = {}" using flight_step_exists [OF ok] by blast
  then show "\<forall>i<length names. \<exists>r. state_of s i = Answered r" using flights_length [OF assms] by (auto simp: unanswered_def)
qed

theorem concurrent_loads_finish_witness:
  "(\<nexists>run. run 0 = first_state demo_shared demo_names \<and> (\<forall>n. flight_step (\<lambda>i. i = 1) (errorf []) (run n) (run (Suc n)))) \<and>
    state_of (first_state demo_shared demo_names) 0 = Calling \<and> (\<exists>s'. flight_step (\<lambda>i. i = 1) (errorf []) (first_state demo_shared demo_names) s')"
  using concurrent_loads_finish [of "\<lambda>i. i = 1" "errorf []" demo_shared demo_names "first_state demo_shared demo_names"]
  by (simp add: state_of_def first_state_def demo_names_def) force

end
