(* ===== verification/Catalog.thy ===== *)
theory Catalog
  imports DataModel
begin

text \<open>
  \<^verbatim>\<open>internal/audit/catalog.go\<close> and \<^verbatim>\<open>internal/audit/policy.go\<close>: the rule codes, the catalog that
  gives each code its legacy key and default level, the catalog's own validation, and the policy
  of a request with its level lookup. The lemmas show that the catalog passes its validation and
  that a rule's effective level is its configured one, else its catalogued one.
\<close>

section \<open>Rule codes\<close>

definition RuleUnknownStatement :: string where "RuleUnknownStatement = ''GIP-COR-ST-001''"
definition RuleParserWarning :: string where "RuleParserWarning = ''GIP-COR-PS-001''"
definition RuleParserError :: string where "RuleParserError = ''GIP-COR-PS-002''"
definition RuleMetadataConnect :: string where "RuleMetadataConnect = ''GIP-META-CN-001''"
definition RuleTargetVersion :: string where "RuleTargetVersion = ''GIP-META-CN-002''"
definition RuleSchemaNotFound :: string where "RuleSchemaNotFound = ''GIP-META-DB-001''"
definition RuleNoDatabase :: string where "RuleNoDatabase = ''GIP-META-DB-002''"
definition RuleDDLMetadata :: string where "RuleDDLMetadata = ''GIP-DDL-MD-001''"
definition RuleTableMustHavePK :: string where "RuleTableMustHavePK = ''GIP-DDL-CT-001''"
definition RuleTableMustComment :: string where "RuleTableMustComment = ''GIP-DDL-CT-002''"
definition RuleColumnMustComment :: string where "RuleColumnMustComment = ''GIP-DDL-CT-003''"
definition RuleMaxColumnCount :: string where "RuleMaxColumnCount = ''GIP-DDL-CT-004''"
definition RuleDDLDropDatabase :: string where "RuleDDLDropDatabase = ''GIP-DDL-SF-001''"
definition RuleDDLDropTable :: string where "RuleDDLDropTable = ''GIP-DDL-SF-002''"
definition RuleDDLTruncate :: string where "RuleDDLTruncate = ''GIP-DDL-SF-003''"
definition RuleDDLForeignKey :: string where "RuleDDLForeignKey = ''GIP-DDL-SF-004''"
definition RuleDDLPartition :: string where "RuleDDLPartition = ''GIP-DDL-SF-005''"
definition RuleDDLEngine :: string where "RuleDDLEngine = ''GIP-DDL-CT-005''"
definition RuleDDLDuplicateCol :: string where "RuleDDLDuplicateCol = ''GIP-DDL-CT-006''"
definition RuleDDLDuplicateIdx :: string where "RuleDDLDuplicateIdx = ''GIP-DDL-CT-007''"
definition RuleDDLIndexColumn :: string where "RuleDDLIndexColumn = ''GIP-DDL-CT-008''"
definition RuleDDLInvalidIdentifier :: string where "RuleDDLInvalidIdentifier = ''GIP-DDL-CT-009''"
definition RuleDDLIdentifierKeyword :: string where "RuleDDLIdentifierKeyword = ''GIP-DDL-CT-010''"
definition RuleDDLIndexPrefix :: string where "RuleDDLIndexPrefix = ''GIP-DDL-CT-011''"
definition RuleDDLUniqueIndexPrefix :: string where "RuleDDLUniqueIndexPrefix = ''GIP-DDL-CT-012''"
definition RuleDDLMaxKeyParts :: string where "RuleDDLMaxKeyParts = ''GIP-DDL-CT-013''"
definition RuleDDLMaxPrimaryParts :: string where "RuleDDLMaxPrimaryParts = ''GIP-DDL-CT-014''"
definition RuleDDLMaxKeys :: string where "RuleDDLMaxKeys = ''GIP-DDL-CT-015''"
definition RuleDDLPKInteger :: string where "RuleDDLPKInteger = ''GIP-DDL-CT-016''"
definition RuleDDLAutoInteger :: string where "RuleDDLAutoInteger = ''GIP-DDL-CT-017''"
definition RuleDDLAutoUnsigned :: string where "RuleDDLAutoUnsigned = ''GIP-DDL-CT-018''"
definition RuleDDLAutoName :: string where "RuleDDLAutoName = ''GIP-DDL-CT-019''"
definition RuleDDLAutoInitial :: string where "RuleDDLAutoInitial = ''GIP-DDL-CT-020''"
definition RuleDDLMustColumns :: string where "RuleDDLMustColumns = ''GIP-DDL-CT-021''"
definition RuleDDLTableCharsetNull :: string where "RuleDDLTableCharsetNull = ''GIP-DDL-CT-022''"
definition RuleDDLTableCharsetAllow :: string where "RuleDDLTableCharsetAllow = ''GIP-DDL-CT-023''"
definition RuleDDLColumnCharset :: string where "RuleDDLColumnCharset = ''GIP-DDL-CT-024''"
definition RuleDDLBlobDefault :: string where "RuleDDLBlobDefault = ''GIP-DDL-CT-025''"
definition RuleDDLInvalidType :: string where "RuleDDLInvalidType = ''GIP-DDL-CT-026''"
definition RuleDDLJSONType :: string where "RuleDDLJSONType = ''GIP-DDL-CT-027''"
definition RuleDDLNullable :: string where "RuleDDLNullable = ''GIP-DDL-CT-028''"
definition RuleDDLTextNotNull :: string where "RuleDDLTextNotNull = ''GIP-DDL-CT-029''"
definition RuleDDLAddDefault :: string where "RuleDDLAddDefault = ''GIP-DDL-CT-030''"
definition RuleDDLDatetimeDefault :: string where "RuleDDLDatetimeDefault = ''GIP-DDL-CT-031''"
definition RuleDDLCharToVarchar :: string where "RuleDDLCharToVarchar = ''GIP-DDL-CT-032''"
definition RuleDDLTooManyTimestamps :: string where "RuleDDLTooManyTimestamps = ''GIP-DDL-CT-033''"
definition RuleDDLIndexRepeat :: string where "RuleDDLIndexRepeat = ''GIP-DDL-CT-034''"
definition RuleDDLIncorrectDatetime :: string where "RuleDDLIncorrectDatetime = ''GIP-DDL-CT-035''"
definition RuleDDLUseEnum :: string where "RuleDDLUseEnum = ''GIP-DDL-CT-036''"
definition RuleDDLUseTextBlob :: string where "RuleDDLUseTextBlob = ''GIP-DDL-CT-037''"
definition RuleDDLAlterOnce :: string where "RuleDDLAlterOnce = ''GIP-DDL-AT-001''"
definition RuleDDLCantChange :: string where "RuleDDLCantChange = ''GIP-DDL-AT-002''"
definition RuleDDLColumnPosition :: string where "RuleDDLColumnPosition = ''GIP-DDL-AT-003''"
definition RuleDDLColumnTypeChange :: string where "RuleDDLColumnTypeChange = ''GIP-DDL-AT-004''"
definition RuleDDLCantSetCharset :: string where "RuleDDLCantSetCharset = ''GIP-DDL-SF-006''"
definition RuleDDLCantSetCollation :: string where "RuleDDLCantSetCollation = ''GIP-DDL-SF-007''"
definition RuleDDLCantSetEngine :: string where "RuleDDLCantSetEngine = ''GIP-DDL-SF-008''"
definition RuleDDLView :: string where "RuleDDLView = ''GIP-DDL-SF-009''"
definition RuleDMLTableMetadata :: string where "RuleDMLTableMetadata = ''GIP-DML-MD-001''"
definition RuleDMLRequireWhere :: string where "RuleDMLRequireWhere = ''GIP-DML-SF-001''"
definition RuleDMLRequireKey :: string where "RuleDMLRequireKey = ''GIP-DML-SF-002''"
definition RuleDMLImpactEstimate :: string where "RuleDMLImpactEstimate = ''GIP-DML-IM-001''"
definition RuleDMLMaxAffected :: string where "RuleDMLMaxAffected = ''GIP-DML-IM-002''"
definition RuleDMLMaxInsert :: string where "RuleDMLMaxInsert = ''GIP-DML-IM-003''"
definition RuleDMLLimit :: string where "RuleDMLLimit = ''GIP-DML-SF-003''"
definition RuleDMLOrderBy :: string where "RuleDMLOrderBy = ''GIP-DML-SF-004''"
definition RuleDMLJoinNoOn :: string where "RuleDMLJoinNoOn = ''GIP-DML-SF-005''"
definition RuleDMLSelectStar :: string where "RuleDMLSelectStar = ''GIP-DML-SF-006''"
definition RuleDMLInsertField :: string where "RuleDMLInsertField = ''GIP-DML-SF-007''"
definition RuleDMLOrderByRand :: string where "RuleDMLOrderByRand = ''GIP-DML-SF-008''"
definition RuleDMLWrongAnd :: string where "RuleDMLWrongAnd = ''GIP-DML-SF-009''"
definition RuleDMLImplicitConversion :: string where "RuleDMLImplicitConversion = ''GIP-DML-SF-010''"
definition RuleExecutionFailed :: string where "RuleExecutionFailed = ''GIP-EXE-RN-001''"
definition RuleAuditOnly :: string where "RuleAuditOnly = ''GIP-COR-SF-001''"
definition RuleBinlogPrereq :: string where "RuleBinlogPrereq = ''GIP-BAK-BL-001''"
definition RuleBackupFailed :: string where "RuleBackupFailed = ''GIP-BAK-RN-001''"

lemmas rule_codes =
  RuleUnknownStatement_def RuleParserWarning_def RuleParserError_def
  RuleMetadataConnect_def RuleTargetVersion_def RuleSchemaNotFound_def
  RuleNoDatabase_def RuleDDLMetadata_def RuleTableMustHavePK_def
  RuleTableMustComment_def RuleColumnMustComment_def RuleMaxColumnCount_def
  RuleDDLDropDatabase_def RuleDDLDropTable_def RuleDDLTruncate_def
  RuleDDLForeignKey_def RuleDDLPartition_def RuleDDLEngine_def
  RuleDDLDuplicateCol_def RuleDDLDuplicateIdx_def RuleDDLIndexColumn_def
  RuleDDLInvalidIdentifier_def RuleDDLIdentifierKeyword_def RuleDDLIndexPrefix_def
  RuleDDLUniqueIndexPrefix_def RuleDDLMaxKeyParts_def RuleDDLMaxPrimaryParts_def
  RuleDDLMaxKeys_def RuleDDLPKInteger_def RuleDDLAutoInteger_def
  RuleDDLAutoUnsigned_def RuleDDLAutoName_def RuleDDLAutoInitial_def
  RuleDDLMustColumns_def RuleDDLTableCharsetNull_def RuleDDLTableCharsetAllow_def
  RuleDDLColumnCharset_def RuleDDLBlobDefault_def RuleDDLInvalidType_def
  RuleDDLJSONType_def RuleDDLNullable_def RuleDDLTextNotNull_def
  RuleDDLAddDefault_def RuleDDLDatetimeDefault_def RuleDDLCharToVarchar_def
  RuleDDLTooManyTimestamps_def RuleDDLIndexRepeat_def RuleDDLIncorrectDatetime_def
  RuleDDLUseEnum_def RuleDDLUseTextBlob_def RuleDDLAlterOnce_def
  RuleDDLCantChange_def RuleDDLColumnPosition_def RuleDDLColumnTypeChange_def
  RuleDDLCantSetCharset_def RuleDDLCantSetCollation_def RuleDDLCantSetEngine_def
  RuleDDLView_def RuleDMLTableMetadata_def RuleDMLRequireWhere_def
  RuleDMLRequireKey_def RuleDMLImpactEstimate_def RuleDMLMaxAffected_def
  RuleDMLMaxInsert_def RuleDMLLimit_def RuleDMLOrderBy_def
  RuleDMLJoinNoOn_def RuleDMLSelectStar_def RuleDMLInsertField_def
  RuleDMLOrderByRand_def RuleDMLWrongAnd_def RuleDMLImplicitConversion_def
  RuleExecutionFailed_def RuleAuditOnly_def RuleBinlogPrereq_def
  RuleBackupFailed_def

section \<open>The catalog\<close>

record rule_definition =
  rd_Code :: string
  rd_LegacyKey :: string
  rd_DefaultLevel :: severity
  rd_Phase :: int
  rd_Summary :: string

abbreviation rule_entry :: "string \<Rightarrow> string \<Rightarrow> severity \<Rightarrow> int \<Rightarrow> string \<Rightarrow> rule_definition" where
  "rule_entry code key level phase summary \<equiv>
     \<lparr> rd_Code = code, rd_LegacyKey = key, rd_DefaultLevel = level, rd_Phase = phase,
       rd_Summary = summary \<rparr>"

definition definitions :: "rule_definition list" where
  "definitions = [
     rule_entry RuleUnknownStatement '''' SeverityError 1
       ''Reject statement types not admitted by the audit kernel'',
     rule_entry RuleParserWarning '''' SeverityWarning 1
       ''Expose a warning returned by the SQL parser'',
     rule_entry RuleParserError '''' SeverityError 1
       ''Report SQL parser failure as an audit result'',
     rule_entry RuleMetadataConnect '''' SeverityError 2
       ''Target MySQL metadata connection failed'',
     rule_entry RuleTargetVersion '''' SeverityError 2
       ''Target server must be MySQL 5.7 or 8.0'',
     rule_entry RuleSchemaNotFound '''' SeverityError 2
       ''Selected database does not exist or is unavailable'',
     rule_entry RuleNoDatabase '''' SeverityError 2
       ''No database selected for an object statement'',
     rule_entry RuleDDLMetadata '''' SeverityError 2
       ''DDL object or schema snapshot validation failed'',
     rule_entry RuleTableMustHavePK ''er_table_must_have_pk'' SeverityWarning 2
       ''Require a primary key on CREATE TABLE'',
     rule_entry RuleTableMustComment ''er_table_must_have_comment'' SeverityWarning 2
       ''Require a table comment on CREATE TABLE'',
     rule_entry RuleColumnMustComment ''er_column_have_no_comment'' SeverityWarning 2
       ''Require comments on CREATE TABLE columns'',
     rule_entry RuleMaxColumnCount ''er_max_column_count'' SeverityWarning 2
       ''Limit the number of columns on CREATE TABLE'',
     rule_entry RuleDDLDropDatabase ''er_cant_drop_database'' SeverityError 2
       ''DROP DATABASE is disabled'',
     rule_entry RuleDDLDropTable ''er_cant_drop_table'' SeverityError 2
       ''DROP TABLE is disabled'',
     rule_entry RuleDDLTruncate ''er_cant_truncate_table'' SeverityError 2
       ''TRUNCATE TABLE is disabled'',
     rule_entry RuleDDLForeignKey ''er_foreign_key'' SeverityError 2
       ''Foreign keys are disabled'',
     rule_entry RuleDDLPartition ''er_partition_not_allowed'' SeverityError 2
       ''Partition tables are disabled'',
     rule_entry RuleDDLEngine ''er_table_engine'' SeverityError 2
       ''Require the configured table engine'',
     rule_entry RuleDDLDuplicateCol ''er_column_existed'' SeverityError 2
       ''Reject duplicate columns'',
     rule_entry RuleDDLDuplicateIdx '''' SeverityError 2
       ''Reject duplicate index names'',
     rule_entry RuleDDLIndexColumn ''er_column_not_existed'' SeverityError 2
       ''Every index column must exist'',
     rule_entry RuleDDLInvalidIdentifier ''er_invalid_ident'' SeverityError 2
       ''Reject invalid identifiers'',
     rule_entry RuleDDLIdentifierKeyword ''er_ident_use_keyword'' SeverityError 2
       ''Reject keyword identifiers'',
     rule_entry RuleDDLIndexPrefix ''er_index_name_idx_prefix'' SeverityWarning 2
       ''Require normal index name prefix'',
     rule_entry RuleDDLUniqueIndexPrefix ''er_index_name_uniq_prefix'' SeverityWarning 2
       ''Require unique index name prefix'',
     rule_entry RuleDDLMaxKeyParts ''er_too_many_key_parts'' SeverityError 2
       ''Limit index key parts'',
     rule_entry RuleDDLMaxPrimaryParts ''er_pk_too_many_parts'' SeverityError 2
       ''Limit primary key parts'',
     rule_entry RuleDDLMaxKeys ''er_too_many_keys'' SeverityWarning 2
       ''Limit indexes per table'',
     rule_entry RuleDDLPKInteger ''er_pk_cols_not_int'' SeverityWarning 2
       ''Require integer primary key columns'',
     rule_entry RuleDDLAutoInteger ''er_set_data_type_int_bigint'' SeverityWarning 2
       ''Require integer auto increment column'',
     rule_entry RuleDDLAutoUnsigned ''er_autoinc_unsigned'' SeverityWarning 2
       ''Recommend unsigned auto increment column'',
     rule_entry RuleDDLAutoName ''er_auto_incr_id_warning'' SeverityWarning 2
       ''Recommend ID auto increment column name'',
     rule_entry RuleDDLAutoInitial ''er_inc_init_err'' SeverityWarning 2
       ''Require AUTO_INCREMENT initial value one'',
     rule_entry RuleDDLMustColumns ''er_must_have_columns'' SeverityError 2
       ''Require configured table columns'',
     rule_entry RuleDDLTableCharsetNull ''er_table_charset_must_null'' SeverityError 2
       ''Reject explicit table charset'',
     rule_entry RuleDDLTableCharsetAllow ''er_table_charset_must_utf8'' SeverityError 2
       ''Require supported table charset'',
     rule_entry RuleDDLColumnCharset ''er_charset_on_column'' SeverityError 2
       ''Reject column charset or collation'',
     rule_entry RuleDDLBlobDefault ''er_blob_cant_have_default'' SeverityWarning 2
       ''Reject default on large object columns'',
     rule_entry RuleDDLInvalidType ''er_invalid_data_type'' SeverityWarning 2
       ''Reject disabled data types'',
     rule_entry RuleDDLJSONType ''er_json_type_support'' SeverityWarning 2
       ''Reject JSON when disabled'',
     rule_entry RuleDDLNullable ''er_not_allowed_nullable'' SeverityWarning 2
       ''Reject nullable columns'',
     rule_entry RuleDDLTextNotNull ''er_text_not_nullable_error'' SeverityWarning 2
       ''Reject NOT NULL text/blob columns'',
     rule_entry RuleDDLAddDefault ''er_with_default_add_column'' SeverityError 2
       ''Require defaults for added columns'',
     rule_entry RuleDDLDatetimeDefault ''er_datetime_default'' SeverityWarning 2
       ''Require DATETIME defaults'',
     rule_entry RuleDDLCharToVarchar ''er_char_to_varchar_len'' SeverityWarning 2
       ''Recommend VARCHAR for long CHAR'',
     rule_entry RuleDDLTooManyTimestamps ''er_too_much_auto_timestamp_cols'' SeverityWarning 2
       ''Limit automatic timestamp columns'',
     rule_entry RuleDDLIndexRepeat '''' SeverityWarning 2
       ''Reject redundant index leading columns'',
     rule_entry RuleDDLIncorrectDatetime ''er_incorrect_datetime_value'' SeverityError 2
       ''Reject invalid datetime literals'',
     rule_entry RuleDDLUseEnum ''er_use_enum'' SeverityError 2
       ''Reject ENUM columns'',
     rule_entry RuleDDLUseTextBlob ''er_use_text_or_blob'' SeverityWarning 2
       ''Reject text/blob columns'',
     rule_entry RuleDDLAlterOnce ''er_alter_table_once'' SeverityWarning 2
       ''Merge ALTER statements for one table'',
     rule_entry RuleDDLCantChange ''er_cant_change_column'' SeverityWarning 2
       ''Reject CHANGE COLUMN'',
     rule_entry RuleDDLColumnPosition ''er_cant_change_column_position'' SeverityWarning 2
       ''Reject column position changes'',
     rule_entry RuleDDLColumnTypeChange ''er_change_column_type'' SeverityWarning 2
       ''Report unsafe column type changes'',
     rule_entry RuleDDLCantSetCharset ''er_cant_set_charset'' SeverityError 2
       ''Reject explicit charset'',
     rule_entry RuleDDLCantSetCollation ''er_cant_set_collation'' SeverityError 2
       ''Reject explicit collation'',
     rule_entry RuleDDLCantSetEngine ''er_cant_set_engine'' SeverityError 2
       ''Reject explicit engine'',
     rule_entry RuleDDLView ''er_view_support'' SeverityError 2
       ''Reject views'',
     rule_entry RuleDMLTableMetadata '''' SeverityError 3
       ''DML table and referenced columns must exist'',
     rule_entry RuleDMLRequireWhere ''er_no_where_condition'' SeverityError 3
       ''UPDATE and DELETE require a WHERE condition'',
     rule_entry RuleDMLRequireKey '''' SeverityError 3
       ''Backup DML requires a reliable primary or unique key'',
     rule_entry RuleDMLImpactEstimate '''' SeverityError 3
       ''DML impact rows could not be estimated safely'',
     rule_entry RuleDMLMaxAffected ''er_change_too_much_rows'' SeverityError 3
       ''DML estimated rows exceed configured maximum'',
     rule_entry RuleDMLMaxInsert ''er_insert_too_much_rows'' SeverityError 3
       ''INSERT VALUES row count exceeds configured maximum'',
     rule_entry RuleDMLLimit ''er_with_limit_condition'' SeverityWarning 3
       ''UPDATE or DELETE contains LIMIT'',
     rule_entry RuleDMLOrderBy ''er_with_orderby_condition'' SeverityWarning 3
       ''UPDATE or DELETE contains ORDER BY'',
     rule_entry RuleDMLJoinNoOn ''er_join_no_on_condition'' SeverityError 3
       ''JOIN requires an ON condition'',
     rule_entry RuleDMLSelectStar ''er_select_only_star'' SeverityWarning 3
       ''SELECT star is disabled'',
     rule_entry RuleDMLInsertField ''er_with_insert_field'' SeverityWarning 3
       ''INSERT requires an explicit column list'',
     rule_entry RuleDMLOrderByRand ''er_ordery_by_rand'' SeverityError 3
       ''Reject ORDER BY RAND'',
     rule_entry RuleDMLWrongAnd ''er_wrong_and_expr'' SeverityWarning 3
       ''Reject suspicious AND expressions'',
     rule_entry RuleDMLImplicitConversion ''er_implicit_type_conversion'' SeverityError 3
       ''Reject implicit type conversions'',
     rule_entry RuleExecutionFailed '''' SeverityError 4
       ''Target SQL execution failed'',
     rule_entry RuleAuditOnly '''' SeverityError 7
       ''Audit-only service rejects execution and backup requests'',
     rule_entry RuleBinlogPrereq '''' SeverityError 5
       ''ROW/FULL binlog backup prerequisite failed'',
     rule_entry RuleBackupFailed '''' SeverityError 5
       ''ROW binlog capture, rollback generation, or backup storage failed'']"

definition RuleCatalog :: "rule_definition list" where
  "RuleCatalog = definitions"

fun find_rule :: "rule_definition list \<Rightarrow> string \<Rightarrow> rule_definition option" where
  "find_rule [] code = None"
| "find_rule (d # ds) code = (if rd_Code d = code then Some d else find_rule ds code)"

definition RuleByCode :: "string \<Rightarrow> rule_definition option" where
  "RuleByCode code = find_rule definitions code"

text \<open>\<^verbatim>\<open>ruleCodePattern\<close>: \<^verbatim>\<open>^GIP-(COR|DDL|DML|META|EXE|BAK|PRO)-[A-Z]{2}-[0-9]{3}$\<close>.\<close>

definition rule_groups :: "string list" where
  "rule_groups = [''COR'', ''DDL'', ''DML'', ''META'', ''EXE'', ''BAK'', ''PRO'']"

definition is_upper :: "char \<Rightarrow> bool" where
  "is_upper c \<longleftrightarrow> 65 \<le> byte_val c \<and> byte_val c \<le> 90"

definition code_tail_ok :: "string \<Rightarrow> bool" where
  "code_tail_ok s =
     (case s of [a, b, h, x, y, z] \<Rightarrow>
        is_upper a \<and> is_upper b \<and> h = CHR ''-'' \<and> is_digit x \<and> is_digit y \<and> is_digit z
      | _ \<Rightarrow> False)"

definition ruleCodePattern :: "string \<Rightarrow> bool" where
  "ruleCodePattern code \<longleftrightarrow>
     list_ex (\<lambda>g. strings_HasPrefix code (''GIP-'' @ g @ ''-'') \<and>
                  code_tail_ok (drop (length (''GIP-'' @ g @ ''-'')) code)) rule_groups"

text \<open>The loop of \<^verbatim>\<open>ValidateRuleCatalog\<close>; \<^const>\<open>None\<close> is a nil error.\<close>

fun validate_definitions ::
  "string set \<Rightarrow> (string \<rightharpoonup> string) \<Rightarrow> rule_definition list \<Rightarrow> gerror option" where
  "validate_definitions seenCodes seenLegacyKeys [] = None"
| "validate_definitions seenCodes seenLegacyKeys (d # ds) =
     (if \<not> ruleCodePattern (rd_Code d)
      then Some (errorf (''invalid rule code '' @ strconv_Quote (rd_Code d)))
      else if rd_Code d \<in> seenCodes
      then Some (errorf (''duplicate rule code '' @ strconv_Quote (rd_Code d)))
      else if rd_LegacyKey d = []
      then validate_definitions (insert (rd_Code d) seenCodes) seenLegacyKeys ds
      else (case seenLegacyKeys (rd_LegacyKey d) of
              Some previous \<Rightarrow> Some (errorf (''legacy key '' @ strconv_Quote (rd_LegacyKey d) @
                '' is used by '' @ previous @ '' and '' @ rd_Code d))
            | None \<Rightarrow> validate_definitions (insert (rd_Code d) seenCodes)
                (seenLegacyKeys(rd_LegacyKey d \<mapsto> rd_Code d)) ds))"

definition ValidateRuleCatalog :: "gerror option" where
  "ValidateRuleCatalog = validate_definitions {} Map.empty definitions"

section \<open>The policy\<close>

record policy =
  p_CheckPrimaryKey :: bool
  p_CheckTableComment :: bool
  p_CheckColumnComment :: bool
  p_MaxColumnCount :: int
  p_RequireDMLWhere :: bool
  p_RequireBackupKey :: bool
  p_MaxAffectedRows :: int
  p_MaxInsertRows :: int
  p_CheckDMLLimit :: bool
  p_CheckDMLOrderBy :: bool
  p_CheckInsertField :: bool
  p_AllowSelectStar :: bool
  p_AllowForeignKey :: bool
  p_AllowPartition :: bool
  p_AllowDropTable :: bool
  p_AllowDropDatabase :: bool
  p_AllowTruncate :: bool
  p_RequiredEngine :: string
  p_RuleLevels :: "string \<rightharpoonup> severity"
  p_Legacy :: "string \<rightharpoonup> string"

definition LegacyDefaults :: policy where
  "LegacyDefaults = \<lparr> p_CheckPrimaryKey = False, p_CheckTableComment = False,
     p_CheckColumnComment = False, p_MaxColumnCount = 0, p_RequireDMLWhere = True,
     p_RequireBackupKey = True, p_MaxAffectedRows = 0, p_MaxInsertRows = 0,
     p_CheckDMLLimit = False, p_CheckDMLOrderBy = False, p_CheckInsertField = False,
     p_AllowSelectStar = True, p_AllowForeignKey = False, p_AllowPartition = False,
     p_AllowDropTable = False, p_AllowDropDatabase = False, p_AllowTruncate = False,
     p_RequiredEngine = ''innodb'',
     p_RuleLevels = foldl (\<lambda>m d. m(rd_Code d \<mapsto> rd_DefaultLevel d)) Map.empty RuleCatalog,
     p_Legacy = Map.empty \<rparr>"

text \<open>Reading a Go map at a missing key gives the zero value.\<close>

definition LegacyString :: "policy \<Rightarrow> string \<Rightarrow> string" where
  "LegacyString p name = (case p_Legacy p name of None \<Rightarrow> [] | Some v \<Rightarrow> v)"

definition LegacyBool :: "policy \<Rightarrow> string \<Rightarrow> bool" where
  "LegacyBool p name \<longleftrightarrow> LegacyString p name \<in> {''1'', ''true'', ''on''}"

definition LegacyInt :: "policy \<Rightarrow> string \<Rightarrow> int" where
  "LegacyInt p name = fst (strconv_Atoi (LegacyString p name))"

definition Level :: "policy \<Rightarrow> string \<Rightarrow> severity" where
  "Level p ruleID =
     (case p_RuleLevels p ruleID of
        Some level \<Rightarrow> level
      | None \<Rightarrow> (case RuleByCode ruleID of
          Some d \<Rightarrow> rd_DefaultLevel d
        | None \<Rightarrow> SeverityWarning))"

section \<open>Facts about the catalog\<close>

lemma find_rule_SomeD: "find_rule ds code = Some d \<Longrightarrow> d \<in> set ds \<and> rd_Code d = code"
  by (induction ds) (auto split: if_splits)

lemma find_rule_None_iff: "find_rule ds code = None \<longleftrightarrow> code \<notin> rd_Code ` set ds"
  by (induction ds) auto

lemma find_rule_distinct:
  "distinct (map rd_Code ds) \<Longrightarrow> d \<in> set ds \<Longrightarrow> find_rule ds (rd_Code d) = Some d"
  by (induction ds) auto

text \<open>What the validation loop decides, from any point of its run.\<close>

lemma validate_definitions_iff:
  "validate_definitions codes keys ds = None \<longleftrightarrow>
     (\<forall>d\<in>set ds. ruleCodePattern (rd_Code d)) \<and>
     distinct (map rd_Code ds) \<and> codes \<inter> rd_Code ` set ds = {} \<and>
     distinct (filter (\<lambda>k. k \<noteq> []) (map rd_LegacyKey ds)) \<and>
     (\<forall>d\<in>set ds. rd_LegacyKey d \<noteq> [] \<longrightarrow> keys (rd_LegacyKey d) = None)"
proof (induction ds arbitrary: codes keys)
  case (Cons d ds)
  show ?case
    by (cases "rd_LegacyKey d = []"; cases "keys (rd_LegacyKey d)") (auto simp: Cons.IH rev_image_eqI)
qed simp

text \<open>Names are told apart by a hash, which is cheaper to evaluate than comparing all pairs of names.\<close>

definition name_hash :: "string \<Rightarrow> int" where
  "name_hash s = foldl (\<lambda>h c. (h * 10 + of_char c) mod 1021) 0 s"

lemma distinct_names: "distinct (map name_hash xs) \<Longrightarrow> distinct xs"
  by (simp add: distinct_map)

lemma definition_patterns: "list_all (\<lambda>d. ruleCodePattern (rd_Code d)) definitions"
  by code_simp

lemma definition_code_hashes: "distinct (map name_hash (map rd_Code definitions))"
  by code_simp

lemma definition_key_hashes: "distinct (map name_hash (filter (\<lambda>k. k \<noteq> []) (map rd_LegacyKey definitions)))"
  by code_simp

lemma definitions_valid: "ValidateRuleCatalog = None"
  using definition_patterns distinct_names [OF definition_code_hashes] distinct_names [OF definition_key_hashes]
  by (simp add: ValidateRuleCatalog_def validate_definitions_iff list_all_iff)

lemma levels_fold:
  "foldl (\<lambda>m d. m(rd_Code d \<mapsto> rd_DefaultLevel d)) m ds code =
     (case map_of (rev (map (\<lambda>d. (rd_Code d, rd_DefaultLevel d)) ds)) code of
        Some l \<Rightarrow> Some l | None \<Rightarrow> m code)"
  by (induction ds arbitrary: m) (auto simp: map_add_def split: option.splits)

lemmas definitions_facts = iffD1 [OF validate_definitions_iff definitions_valid [unfolded ValidateRuleCatalog_def]]

lemma RuleByCode_catalog: "d \<in> set definitions \<Longrightarrow> RuleByCode (rd_Code d) = Some d"
  using definitions_facts by (simp add: RuleByCode_def find_rule_distinct)

lemma LegacyDefaults_RuleLevels:
  "p_RuleLevels LegacyDefaults code = map_option rd_DefaultLevel (RuleByCode code)"
proof (cases "RuleByCode code")
  case None
  then have "code \<notin> rd_Code ` set definitions" by (simp add: RuleByCode_def find_rule_None_iff)
  then have "map_of (rev (map (\<lambda>d. (rd_Code d, rd_DefaultLevel d)) definitions)) code = None"
    by (auto simp: map_of_eq_None_iff image_image)
  with None show ?thesis by (simp add: LegacyDefaults_def RuleCatalog_def levels_fold)
next
  case (Some d)
  then have d: "d \<in> set definitions" "rd_Code d = code"
    by (auto simp: RuleByCode_def dest: find_rule_SomeD)
  let ?levels = "rev (map (\<lambda>d. (rd_Code d, rd_DefaultLevel d)) definitions)"
  have "map fst ?levels = rev (map rd_Code definitions)" by (simp add: rev_map)
  then have "distinct (map fst ?levels)" using definitions_facts by simp
  moreover have "(code, rd_DefaultLevel d) \<in> set ?levels" using d by force
  ultimately have "map_of ?levels code = Some (rd_DefaultLevel d)" by (rule map_of_is_SomeI)
  with Some show ?thesis by (simp add: LegacyDefaults_def RuleCatalog_def levels_fold)
qed

lemma catalog_levels: "RuleByCode code = Some d \<Longrightarrow> rd_DefaultLevel d \<le> SeverityError"
proof -
  have "list_all (\<lambda>d. rd_DefaultLevel d = 1 \<or> rd_DefaultLevel d = 2) definitions" by (simp add: definitions_def)
  then show "RuleByCode code = Some d \<Longrightarrow> rd_DefaultLevel d \<le> SeverityError"
    by (auto simp: RuleByCode_def list_all_iff word_le_nat_alt dest!: find_rule_SomeD)
qed

text \<open>
  Every declared code is in the catalog. \<open>catalogued\<close> stands for that, so that the proofs about
  the rules do not open the catalog.
\<close>

definition catalogued :: "string \<Rightarrow> bool" where
  "catalogued code \<longleftrightarrow> RuleByCode code \<noteq> None"

lemma definition_codes:
  "map rd_Code definitions = [
     RuleUnknownStatement, RuleParserWarning, RuleParserError,
     RuleMetadataConnect, RuleTargetVersion, RuleSchemaNotFound,
     RuleNoDatabase, RuleDDLMetadata, RuleTableMustHavePK,
     RuleTableMustComment, RuleColumnMustComment, RuleMaxColumnCount,
     RuleDDLDropDatabase, RuleDDLDropTable, RuleDDLTruncate,
     RuleDDLForeignKey, RuleDDLPartition, RuleDDLEngine,
     RuleDDLDuplicateCol, RuleDDLDuplicateIdx, RuleDDLIndexColumn,
     RuleDDLInvalidIdentifier, RuleDDLIdentifierKeyword, RuleDDLIndexPrefix,
     RuleDDLUniqueIndexPrefix, RuleDDLMaxKeyParts, RuleDDLMaxPrimaryParts,
     RuleDDLMaxKeys, RuleDDLPKInteger, RuleDDLAutoInteger,
     RuleDDLAutoUnsigned, RuleDDLAutoName, RuleDDLAutoInitial,
     RuleDDLMustColumns, RuleDDLTableCharsetNull, RuleDDLTableCharsetAllow,
     RuleDDLColumnCharset, RuleDDLBlobDefault, RuleDDLInvalidType,
     RuleDDLJSONType, RuleDDLNullable, RuleDDLTextNotNull,
     RuleDDLAddDefault, RuleDDLDatetimeDefault, RuleDDLCharToVarchar,
     RuleDDLTooManyTimestamps, RuleDDLIndexRepeat, RuleDDLIncorrectDatetime,
     RuleDDLUseEnum, RuleDDLUseTextBlob, RuleDDLAlterOnce,
     RuleDDLCantChange, RuleDDLColumnPosition, RuleDDLColumnTypeChange,
     RuleDDLCantSetCharset, RuleDDLCantSetCollation, RuleDDLCantSetEngine,
     RuleDDLView, RuleDMLTableMetadata, RuleDMLRequireWhere,
     RuleDMLRequireKey, RuleDMLImpactEstimate, RuleDMLMaxAffected,
     RuleDMLMaxInsert, RuleDMLLimit, RuleDMLOrderBy,
     RuleDMLJoinNoOn, RuleDMLSelectStar, RuleDMLInsertField,
     RuleDMLOrderByRand, RuleDMLWrongAnd, RuleDMLImplicitConversion,
     RuleExecutionFailed, RuleAuditOnly, RuleBinlogPrereq,
     RuleBackupFailed]"
  by (simp add: definitions_def)

lemma catalogued_iff: "catalogued code \<longleftrightarrow> code \<in> set (map rd_Code definitions)"
  by (auto simp: catalogued_def RuleByCode_def find_rule_None_iff)

lemma catalogued_rules [simp]:
  "catalogued RuleUnknownStatement"
  "catalogued RuleParserWarning"
  "catalogued RuleParserError"
  "catalogued RuleMetadataConnect"
  "catalogued RuleTargetVersion"
  "catalogued RuleSchemaNotFound"
  "catalogued RuleNoDatabase"
  "catalogued RuleDDLMetadata"
  "catalogued RuleTableMustHavePK"
  "catalogued RuleTableMustComment"
  "catalogued RuleColumnMustComment"
  "catalogued RuleMaxColumnCount"
  "catalogued RuleDDLDropDatabase"
  "catalogued RuleDDLDropTable"
  "catalogued RuleDDLTruncate"
  "catalogued RuleDDLForeignKey"
  "catalogued RuleDDLPartition"
  "catalogued RuleDDLEngine"
  "catalogued RuleDDLDuplicateCol"
  "catalogued RuleDDLDuplicateIdx"
  "catalogued RuleDDLIndexColumn"
  "catalogued RuleDDLInvalidIdentifier"
  "catalogued RuleDDLIdentifierKeyword"
  "catalogued RuleDDLIndexPrefix"
  "catalogued RuleDDLUniqueIndexPrefix"
  "catalogued RuleDDLMaxKeyParts"
  "catalogued RuleDDLMaxPrimaryParts"
  "catalogued RuleDDLMaxKeys"
  "catalogued RuleDDLPKInteger"
  "catalogued RuleDDLAutoInteger"
  "catalogued RuleDDLAutoUnsigned"
  "catalogued RuleDDLAutoName"
  "catalogued RuleDDLAutoInitial"
  "catalogued RuleDDLMustColumns"
  "catalogued RuleDDLTableCharsetNull"
  "catalogued RuleDDLTableCharsetAllow"
  "catalogued RuleDDLColumnCharset"
  "catalogued RuleDDLBlobDefault"
  "catalogued RuleDDLInvalidType"
  "catalogued RuleDDLJSONType"
  "catalogued RuleDDLNullable"
  "catalogued RuleDDLTextNotNull"
  "catalogued RuleDDLAddDefault"
  "catalogued RuleDDLDatetimeDefault"
  "catalogued RuleDDLCharToVarchar"
  "catalogued RuleDDLTooManyTimestamps"
  "catalogued RuleDDLIndexRepeat"
  "catalogued RuleDDLIncorrectDatetime"
  "catalogued RuleDDLUseEnum"
  "catalogued RuleDDLUseTextBlob"
  "catalogued RuleDDLAlterOnce"
  "catalogued RuleDDLCantChange"
  "catalogued RuleDDLColumnPosition"
  "catalogued RuleDDLColumnTypeChange"
  "catalogued RuleDDLCantSetCharset"
  "catalogued RuleDDLCantSetCollation"
  "catalogued RuleDDLCantSetEngine"
  "catalogued RuleDDLView"
  "catalogued RuleDMLTableMetadata"
  "catalogued RuleDMLRequireWhere"
  "catalogued RuleDMLRequireKey"
  "catalogued RuleDMLImpactEstimate"
  "catalogued RuleDMLMaxAffected"
  "catalogued RuleDMLMaxInsert"
  "catalogued RuleDMLLimit"
  "catalogued RuleDMLOrderBy"
  "catalogued RuleDMLJoinNoOn"
  "catalogued RuleDMLSelectStar"
  "catalogued RuleDMLInsertField"
  "catalogued RuleDMLOrderByRand"
  "catalogued RuleDMLWrongAnd"
  "catalogued RuleDMLImplicitConversion"
  "catalogued RuleExecutionFailed"
  "catalogued RuleAuditOnly"
  "catalogued RuleBinlogPrereq"
  "catalogued RuleBackupFailed"
  by (simp_all only: catalogued_iff definition_codes list.set insert_iff simp_thms)

end
