(* ===== verification/Snapshot.thy ===== *)
theory Snapshot
  imports SchemaCache
begin

text \<open>
  \<^verbatim>\<open>internal/metadata/snapshot.go\<close>: the request-local schema view. \<open>PrepareDDL\<close> resolves what a
  DDL statement needs before it is audited, \<open>ApplyDDL\<close> replays an admitted statement on the view,
  so that later statements of the same request are audited against its effect.

  The lemmas give a well-formedness invariant of tables (column and index names are distinct up to
  case), a refinement of the column operations of ALTER TABLE to operations on a finite map, and
  what each DDL action leaves visible in the store.
\<close>

section \<open>Helpers\<close>

definition defaultSchema :: "string \<Rightarrow> string \<Rightarrow> string" where
  "defaultSchema v f = (if v = [] then f else v)"

definition findColumn :: "table_meta \<Rightarrow> string \<Rightarrow> nat option" where
  "findColumn t n = find_pos (\<lambda>v. strings_EqualFold (col_Name v) n) (t_Columns t)"

definition findIndex :: "table_meta \<Rightarrow> string \<Rightarrow> nat option" where
  "findIndex t n = find_pos (\<lambda>v. strings_EqualFold (idx_Name v) n) (t_Indexes t)"

definition affectedTables :: "ddl_spec \<Rightarrow> table_ref list" where
  "affectedTables d =
     (case d_Action d of
        DDLAlterTable \<Rightarrow> d_Tables d | DDLTruncateTable \<Rightarrow> d_Tables d
      | DDLCreateIndex \<Rightarrow> d_Tables d | DDLDropIndex \<Rightarrow> d_Tables d
      | DDLDropTable \<Rightarrow> d_Tables d | DDLDropView \<Rightarrow> d_Tables d
      | DDLRenameTable \<Rightarrow> map rp_From (d_RenamePairs d)
      | _ \<Rightarrow> [])"

definition columnsFromTable :: "table_meta \<Rightarrow> column_spec list" where
  "columnsFromTable t = map (\<lambda>c. zero_column_spec\<lparr>
     c_Name := col_Name c, c_Type := col_ColumnType c, c_Nullable := col_Nullable c,
     c_HasComment := col_Comment c \<noteq> [], c_AutoIncrement := col_AutoIncrement c,
     c_Unsigned := col_Unsigned c, c_HasDefault := col_Default c \<noteq> None \<or> col_Nullable c,
     c_DefaultExpression := (case col_Default c of Some v \<Rightarrow> v
        | None \<Rightarrow> if col_Nullable c then ''null'' else []),
     c_Generated := col_GenerationExpression c \<noteq> [],
     c_CharacterSet := col_CharacterSet c\<rparr>) (t_Columns t)"

definition indexesFromTable :: "table_meta \<Rightarrow> index_spec list" where
  "indexesFromTable t = map (\<lambda>i. zero_index_spec\<lparr>
     i_Name := idx_Name i, i_Columns := idx_Columns i, i_Unique := idx_Unique i,
     i_Primary := idx_Primary i, i_PrefixLengths := idx_PrefixLengths i,
     i_Expressions := idx_Expressions i\<rparr>) (t_Indexes t)"

definition deriveFlags :: "ddl_spec \<Rightarrow> table_meta \<Rightarrow> ddl_spec" where
  "deriveFlags d t = d\<lparr>d_HasComment := t_Comment t \<noteq> [],
     d_HasPrimaryKey := list_ex idx_Primary (t_Indexes t) \<or> d_HasPrimaryKey d\<rparr>"

section \<open>Building a table from a CREATE TABLE projection\<close>

definition add_spec_column :: "column_spec \<Rightarrow> table_meta \<Rightarrow> table_meta" where
  "add_spec_column c t =
     (let t1 = t\<lparr>t_Columns := t_Columns t @ [zero_column_meta\<lparr>
         col_Name := c_Name c, col_ColumnType := c_Type c, col_Nullable := c_Nullable c,
         col_AutoIncrement := c_AutoIncrement c, col_Unsigned := c_Unsigned c,
         col_CharacterSet := c_CharacterSet c\<rparr>]\<rparr> in
      if c_PrimaryKey c \<and> findIndex t1 ''PRIMARY'' = None
      then t1\<lparr>t_Indexes := t_Indexes t1 @ [zero_index_meta\<lparr>
         idx_Name := ''PRIMARY'', idx_Columns := [c_Name c], idx_Unique := True,
         idx_Primary := True, idx_Visible := True\<rparr>]\<rparr>
      else t1)"

definition add_spec_index :: "index_spec \<Rightarrow> table_meta \<Rightarrow> table_meta" where
  "add_spec_index i t =
     (let index = zero_index_meta\<lparr>
         idx_Name := i_Name i, idx_Columns := i_Columns i, idx_Unique := i_Unique i,
         idx_Primary := i_Primary i, idx_PrefixLengths := i_PrefixLengths i,
         idx_Expressions := i_Expressions i, idx_Visible := True\<rparr> in
      case findIndex t (i_Name i) of
        Some position \<Rightarrow> t\<lparr>t_Indexes := (t_Indexes t)[position := index]\<rparr>
      | None \<Rightarrow> t\<lparr>t_Indexes := t_Indexes t @ [index]\<rparr>)"

definition tableFromSpec :: "ddl_spec \<Rightarrow> table_meta" where
  "tableFromSpec d =
     fold add_spec_index (d_Indexes d) (fold add_spec_column (d_Columns d)
       (zero_table_meta\<lparr>t_Schema := d_Schema d, t_Name := d_Table d, t_Engine := d_Engine d,
          t_CharacterSet := d_CharacterSet d, t_Collation := d_Collation d\<rparr>))"

section \<open>Changing a table\<close>

definition columnFromSpec :: "column_spec \<Rightarrow> column_meta" where
  "columnFromSpec c = zero_column_meta\<lparr>
     col_Name := c_Name c, col_ColumnType := c_Type c, col_Nullable := c_Nullable c,
     col_AutoIncrement := c_AutoIncrement c, col_Unsigned := c_Unsigned c,
     col_CharacterSet := c_CharacterSet c, col_Collation := c_Collation c,
     col_GenerationExpression := (if c_Generated c then ''generated'' else []),
     col_Extra := (if c_OnUpdate c then ''on update'' else []),
     col_Comment := (if c_HasComment c then ''comment'' else []),
     col_Default := (if c_HasDefault c then Some (c_DefaultExpression c) else None)\<rparr>"

definition mergeColumnSpec :: "column_meta \<Rightarrow> column_spec \<Rightarrow> column_meta" where
  "mergeColumnSpec current spec = current\<lparr>
     col_Name := c_Name spec, col_ColumnType := c_Type spec, col_Nullable := c_Nullable spec,
     col_AutoIncrement := c_AutoIncrement spec, col_Unsigned := c_Unsigned spec,
     col_Comment := (if c_HasComment spec then ''comment'' else col_Comment current),
     col_Default := (if c_HasDefault spec then Some (c_DefaultExpression spec)
        else col_Default current),
     col_CharacterSet := (if c_CharacterSet spec \<noteq> [] then c_CharacterSet spec
        else col_CharacterSet current),
     col_Collation := (if c_Collation spec \<noteq> [] then c_Collation spec else col_Collation current),
     col_GenerationExpression := (if c_Generated spec then ''generated''
        else col_GenerationExpression current),
     col_Extra := (if c_OnUpdate spec then ''on update'' else col_Extra current)\<rparr>"

definition renameColumnInIndexes :: "table_meta \<Rightarrow> string \<Rightarrow> string \<Rightarrow> table_meta" where
  "renameColumnInIndexes t oldName newName = t\<lparr>t_Indexes := map (\<lambda>i.
     i\<lparr>idx_Columns := map (\<lambda>name. if strings_EqualFold name oldName then newName else name)
        (idx_Columns i)\<rparr>) (t_Indexes t)\<rparr>"

definition drop_index_column :: "string \<Rightarrow> index_meta \<Rightarrow> index_meta" where
  "drop_index_column column index =
     (let kept = filter (\<lambda>(position, name). \<not> strings_EqualFold name column)
        (enumerate 0 (idx_Columns index)) in
      index\<lparr>idx_Columns := map snd kept,
        idx_PrefixLengths := concat (map (\<lambda>(position, name).
          if position < length (idx_PrefixLengths index) then [idx_PrefixLengths index ! position]
          else []) kept)\<rparr>)"

definition dropColumnFromIndexes :: "table_meta \<Rightarrow> string \<Rightarrow> table_meta" where
  "dropColumnFromIndexes t column = t\<lparr>t_Indexes :=
     filter (\<lambda>index. length (idx_Columns index) > 0 \<or> length (idx_Expressions index) > 0)
       (map (drop_index_column column) (t_Indexes t))\<rparr>"

definition no_column :: "string \<Rightarrow> gerror" where
  "no_column n = errorf (''column '' @ n @ '' does not exist'')"

definition has_column :: "string \<Rightarrow> gerror" where
  "has_column n = errorf (''column '' @ n @ '' already exists'')"

definition no_index :: "string \<Rightarrow> gerror" where
  "no_index n = errorf (''index '' @ n @ '' does not exist'')"

definition has_index :: "string \<Rightarrow> gerror" where
  "has_index n = errorf (''index '' @ n @ '' already exists'')"

definition add_column :: "column_spec \<Rightarrow> table_meta \<Rightarrow> gerror + table_meta" where
  "add_column c t =
     (if findColumn t (c_Name c) \<noteq> None then Inl (has_column (c_Name c))
      else Inr (t\<lparr>t_Columns := t_Columns t @ [columnFromSpec c]\<rparr>))"

definition drop_index :: "string \<Rightarrow> table_meta \<Rightarrow> gerror + table_meta" where
  "drop_index name t =
     (case findIndex t name of
        None \<Rightarrow> Inl (no_index name)
      | Some n \<Rightarrow> Inr (t\<lparr>t_Indexes := remove_at n (t_Indexes t)\<rparr>))"

definition create_index :: "index_spec \<Rightarrow> table_meta \<Rightarrow> gerror + table_meta" where
  "create_index i t =
     (if findIndex t (i_Name i) \<noteq> None then Inl (has_index (i_Name i))
      else Inr (t\<lparr>t_Indexes := t_Indexes t @ [zero_index_meta\<lparr>idx_Name := i_Name i,
        idx_Columns := i_Columns i, idx_Unique := i_Unique i, idx_Visible := True\<rparr>]\<rparr>))"

text \<open>The body of the loop over \<^verbatim>\<open>d.AlterOperations\<close>.\<close>

definition apply_alter :: "ddl_spec \<Rightarrow> alter_operation \<Rightarrow> table_meta \<Rightarrow> gerror + table_meta" where
  "apply_alter d op t =
     (case op_Action op of
        AlterAddColumns \<Rightarrow> for_each add_column (op_Columns op) t
      | AlterDropColumn \<Rightarrow>
          (case findColumn t (op_Name op) of
             None \<Rightarrow> Inl (no_column (op_Name op))
           | Some n \<Rightarrow> Inr (dropColumnFromIndexes
               (t\<lparr>t_Columns := remove_at n (t_Columns t)\<rparr>) (op_Name op)))
      | AlterModifyColumn \<Rightarrow>
          (case op_Columns op of
             [c] \<Rightarrow> (case findColumn t (c_Name c) of
                 None \<Rightarrow> Inl (no_column (c_Name c))
               | Some n \<Rightarrow> Inr (t\<lparr>t_Columns := (t_Columns t)
                   [n := mergeColumnSpec (t_Columns t ! n) c]\<rparr>))
           | _ \<Rightarrow> Inl (errorf ''invalid MODIFY COLUMN projection''))
      | AlterChangeColumn \<Rightarrow>
          (case op_Columns op of
             [c] \<Rightarrow> (case findColumn t (op_Name op) of
                 None \<Rightarrow> Inl (no_column (op_Name op))
               | Some n \<Rightarrow>
                   let oldName = col_Name (t_Columns t ! n) in
                   Inr (renameColumnInIndexes (t\<lparr>t_Columns := (t_Columns t)
                     [n := mergeColumnSpec (t_Columns t ! n) c]\<rparr>) oldName (c_Name c)))
           | _ \<Rightarrow> Inl (errorf ''invalid CHANGE COLUMN projection''))
      | AlterRenameColumn \<Rightarrow>
          (case findColumn t (op_Name op) of
             None \<Rightarrow> Inl (no_column (op_Name op))
           | Some n \<Rightarrow>
               if findColumn t (op_NewName op) \<noteq> None then Inl (has_column (op_NewName op))
               else Inr (renameColumnInIndexes (t\<lparr>t_Columns := (t_Columns t)
                 [n := (t_Columns t ! n)\<lparr>col_Name := op_NewName op\<rparr>]\<rparr>) (op_Name op) (op_NewName op)))
      | AlterAddIndex \<Rightarrow>
          (case op_Index op of
             None \<Rightarrow> Inl (errorf ''missing index projection'')
           | Some i \<Rightarrow>
               if findIndex t (i_Name i) \<noteq> None then Inl (has_index (i_Name i))
               else Inr (t\<lparr>t_Indexes := t_Indexes t @ [zero_index_meta\<lparr>idx_Name := i_Name i,
                 idx_Columns := i_Columns i, idx_Unique := i_Unique i, idx_Primary := i_Primary i,
                 idx_Visible := True\<rparr>]\<rparr>))
      | AlterDropIndex \<Rightarrow> drop_index (op_Name op) t
      | AlterDropPrimaryKey \<Rightarrow> drop_index (op_Name op) t
      | AlterRenameIndex \<Rightarrow>
          (case findIndex t (op_Name op) of
             None \<Rightarrow> Inl (no_index (op_Name op))
           | Some n \<Rightarrow>
               if findIndex t (op_NewName op) \<noteq> None then Inl (has_index (op_NewName op))
               else Inr (t\<lparr>t_Indexes := (t_Indexes t)
                 [n := (t_Indexes t ! n)\<lparr>idx_Name := op_NewName op\<rparr>]\<rparr>))
      | AlterRenameTable \<Rightarrow>
          (case op_NewTable op of
             None \<Rightarrow> Inl (errorf ''missing rename target'')
           | Some r \<Rightarrow> Inr (t\<lparr>t_Schema := defaultSchema (tr_Schema r) (t_Schema t),
               t_Name := tr_Name r\<rparr>))
      | AlterTableOptions \<Rightarrow>
          Inr (t\<lparr>t_Engine := (if d_HasEngineOption d then d_Engine d else t_Engine t),
            t_CharacterSet := (if d_HasCharsetOption d then d_CharacterSet d else t_CharacterSet t),
            t_Collation := (if d_HasCollationOption d then d_Collation d else t_Collation t)\<rparr>))"

definition applyTableDDL :: "ddl_spec \<Rightarrow> table_meta \<Rightarrow> gerror + table_meta" where
  "applyTableDDL d t =
     (if d_Action d = DDLCreateIndex then for_each create_index (d_Indexes d) t
      else if d_Action d = DDLDropIndex then for_each (\<lambda>i. drop_index (i_Name i)) (d_Indexes d) t
      else for_each (apply_alter d) (d_AlterOperations d) t)"

section \<open>Changing the store\<close>

definition renameLoaded :: "table_ref \<Rightarrow> table_ref \<Rightarrow> string \<Rightarrow> provider \<Rightarrow> gerror option \<times> provider" where
  "renameLoaded from to fallback p =
     (let fromSchema = defaultSchema (tr_Schema from) fallback;
          toSchema = defaultSchema (tr_Schema to) fromSchema in
      case LoadTable p fromSchema (tr_Name from) of
        (Inl err, p') \<Rightarrow> (Some err, p')
      | (Inr t, p') \<Rightarrow>
          (None, RenameTable fromSchema (tr_Name from) (t\<lparr>t_Schema := toSchema, t_Name := tr_Name to\<rparr>) p'))"

fun rename_pairs :: "string \<Rightarrow> rename_pair list \<Rightarrow> provider \<Rightarrow> gerror option \<times> provider" where
  "rename_pairs fallback [] p = (None, p)"
| "rename_pairs fallback (pair # pairs) p =
     (case renameLoaded (rp_From pair) (rp_To pair) fallback p of
        (Some err, p') \<Rightarrow> (Some err, p')
      | (None, p') \<Rightarrow> rename_pairs fallback pairs p')"

definition drop_tables :: "ddl_spec \<Rightarrow> provider \<Rightarrow> provider" where
  "drop_tables d p =
     fold (\<lambda>r. DeleteTable (defaultSchema (tr_Schema r) (d_Schema d)) (tr_Name r)) (d_Tables d) p"

definition alter_loaded :: "ddl_spec \<Rightarrow> provider \<Rightarrow> gerror option \<times> provider" where
  "alter_loaded d p =
     (case LoadTable p (d_Schema d) (d_Table d) of
        (Inl err, p') \<Rightarrow> (Some err, p')
      | (Inr t, p') \<Rightarrow>
          (case applyTableDDL d t of
             Inl err \<Rightarrow> (Some err, p')
           | Inr t' \<Rightarrow>
               (None, if t_Schema t \<noteq> t_Schema t' \<or> t_Name t \<noteq> t_Name t'
                      then RenameTable (t_Schema t) (t_Name t) t' p' else PutTable t' p')))"

definition ApplyDDL :: "ddl_spec option \<Rightarrow> provider \<Rightarrow> gerror option \<times> provider" where
  "ApplyDDL spec p =
     (case spec of
        None \<Rightarrow> (None, p)
      | Some d \<Rightarrow>
          if \<not> d_FullyProjected d then (None, p)
          else if d_Noop d then (None, p)
          else (case d_Action d of
            DDLCreateDatabase \<Rightarrow>
              (None, PutSchema \<lparr> sch_Name = d_Schema d, sch_CharacterSet = [], sch_Collation = [] \<rparr> p)
          | DDLDropDatabase \<Rightarrow> (None, DeleteSchema (d_Schema d) p)
          | DDLCreateTable \<Rightarrow> (None, PutTable (tableFromSpec d) p)
          | DDLCreateView \<Rightarrow> (None, PutTable (zero_table_meta\<lparr>t_Schema := d_Schema d,
              t_Name := d_Table d, t_IsView := True, t_TableType := ''VIEW''\<rparr>) p)
          | DDLDropTable \<Rightarrow> (None, drop_tables d p)
          | DDLDropView \<Rightarrow> (None, drop_tables d p)
          | DDLRenameTable \<Rightarrow> rename_pairs (d_Schema d) (d_RenamePairs d) p
          | DDLTruncateTable \<Rightarrow> (None, p)
          | DDLCreateIndex \<Rightarrow> alter_loaded d p
          | DDLDropIndex \<Rightarrow> alter_loaded d p
          | DDLAlterTable \<Rightarrow> alter_loaded d p
          | _ \<Rightarrow> (None, p)))"

section \<open>Preparing a statement\<close>

text \<open>
  \<open>PrepareDDL\<close> updates the projection through its pointer (\<^verbatim>\<open>d.Noop\<close>, and for
  \<^verbatim>\<open>CREATE TABLE ... LIKE\<close> the reference, columns, indexes and flags), also on the paths that
  return an error: the result is the error, the new projection and the store. Following a nil
  \<^verbatim>\<open>d.Reference\<close> panics.
\<close>

definition source_error :: "string \<Rightarrow> string \<Rightarrow> string \<Rightarrow> gerror \<Rightarrow> gerror" where
  "source_error what schema name err = wrapf (what @ schema @ ''.'' @ name @ '': '') err"

definition prepare_create ::
  "ddl_spec \<Rightarrow> provider \<Rightarrow> (gerror option \<times> ddl_spec \<times> provider) outcome" where
  "prepare_create d p =
     (case LoadTable p (d_Schema d) (d_Table d) of
        (Inr t, p1) \<Rightarrow>
          if d_IfNotExists d then Returns (None, d\<lparr>d_Noop := True\<rparr>, p1)
          else Returns (Some (errorf (''table '' @ d_Schema d @ ''.'' @ d_Table d @ '' already exists'')), d, p1)
      | (Inl err, p1) \<Rightarrow>
          if \<not> err_NotFound err then Returns (Some err, d, p1)
          else if \<not> d_CreateLike d then Returns (None, d, p1)
          else (case d_Reference d of
            None \<Rightarrow> Panics ''nil pointer dereference''
          | Some r0 \<Rightarrow>
              let r = (if tr_Schema r0 = [] then r0\<lparr>tr_Schema := d_Schema d\<rparr> else r0);
                  d1 = d\<lparr>d_Reference := Some r\<rparr> in
              (case LoadTable p1 (tr_Schema r) (tr_Name r) of
                 (Inl err, p2) \<Rightarrow>
                   Returns (Some (source_error ''source table '' (tr_Schema r) (tr_Name r) err), d1, p2)
               | (Inr t, p2) \<Rightarrow>
                   Returns (None, deriveFlags (d1\<lparr>d_Columns := columnsFromTable t,
                     d_Indexes := indexesFromTable t\<rparr>) t, p2))))"

fun check_rename_targets ::
  "ddl_spec \<Rightarrow> rename_pair list \<Rightarrow> provider \<Rightarrow> gerror option \<times> provider" where
  "check_rename_targets d [] p = (None, p)"
| "check_rename_targets d (pair # pairs) p =
     (let toSchema = defaultSchema (tr_Schema (rp_To pair))
            (defaultSchema (tr_Schema (rp_From pair)) (d_Schema d)) in
      case LoadTable p toSchema (tr_Name (rp_To pair)) of
        (Inr t, p') \<Rightarrow>
          (Some (errorf (''rename target '' @ toSchema @ ''.'' @ tr_Name (rp_To pair) @ '' already exists'')), p')
      | (Inl err, p') \<Rightarrow>
          if \<not> err_NotFound err then (Some err, p') else check_rename_targets d pairs p')"

fun check_affected :: "ddl_spec \<Rightarrow> table_ref list \<Rightarrow> provider \<Rightarrow> gerror option \<times> provider" where
  "check_affected d [] p = (None, p)"
| "check_affected d (r # rs) p =
     (let schema = defaultSchema (tr_Schema r) (d_Schema d) in
      case LoadTable p schema (tr_Name r) of
        (Inr t, p') \<Rightarrow> check_affected d rs p'
      | (Inl err, p') \<Rightarrow>
          if d_IfExists d \<and> err_NotFound err then check_affected d rs p'
          else (Some (source_error ''table '' schema (tr_Name r) err), p'))"

definition PrepareDDL ::
  "ddl_spec option \<Rightarrow> provider \<Rightarrow> (gerror option \<times> ddl_spec option \<times> provider) outcome" where
  "PrepareDDL spec p =
     (case spec of
        None \<Rightarrow> Returns (None, spec, p)
      | Some d \<Rightarrow>
          if \<not> d_FullyProjected d then Returns (None, spec, p)
          else if d_Action d = DDLCreateTable \<or> d_Action d = DDLCreateView
          then (case prepare_create d p of
                  Returns (err, d', p') \<Rightarrow> Returns (err, Some d', p')
                | Raises e \<Rightarrow> Raises e | Panics m \<Rightarrow> Panics m)
          else
            let (err, p1) = (if d_Action d = DDLRenameTable
                             then check_rename_targets d (d_RenamePairs d) p else (None, p)) in
            if err \<noteq> None then Returns (err, spec, p1)
            else (case check_affected d (affectedTables d) p1 of (err', p2) \<Rightarrow>
              Returns (err', spec, p2)))"

section \<open>Well-formed tables\<close>

definition col_key :: "column_meta \<Rightarrow> string" where
  "col_key c = strings_ToLower (col_Name c)"

definition idx_key :: "index_meta \<Rightarrow> string" where
  "idx_key i = strings_ToLower (idx_Name i)"

text \<open>MySQL compares column and index names without case: both are unique in a table.\<close>

definition columns_wf :: "table_meta \<Rightarrow> bool" where
  "columns_wf t \<longleftrightarrow> distinct (map col_key (t_Columns t))"

definition indexes_wf :: "table_meta \<Rightarrow> bool" where
  "indexes_wf t \<longleftrightarrow> distinct (map idx_key (t_Indexes t))"

definition table_wf :: "table_meta \<Rightarrow> bool" where
  "table_wf t \<longleftrightarrow> columns_wf t \<and> indexes_wf t"

text \<open>The columns and the indexes of a table as finite maps.\<close>

definition abs_columns :: "table_meta \<Rightarrow> string \<rightharpoonup> column_meta" where
  "abs_columns t = keyed col_key (t_Columns t)"

definition abs_indexes :: "table_meta \<Rightarrow> string \<rightharpoonup> index_meta" where
  "abs_indexes t = keyed idx_key (t_Indexes t)"

text \<open>
  CHANGE COLUMN is the one operation whose new name the code does not look up: it keeps names
  distinct only when the new name is the old one, or is free.
\<close>

definition change_safe :: "alter_operation \<Rightarrow> (string \<rightharpoonup> 'a) \<Rightarrow> bool" where
  "change_safe op m \<longleftrightarrow> (case (op_Action op, op_Columns op) of
     (AlterChangeColumn, [c]) \<Rightarrow>
       strings_EqualFold (c_Name c) (op_Name op) \<or> m (strings_ToLower (c_Name c)) = None
   | _ \<Rightarrow> True)"

section \<open>The column operations on finite maps\<close>

fun spec_add :: "column_spec list \<Rightarrow> (string \<rightharpoonup> column_meta) \<Rightarrow> (string \<rightharpoonup> column_meta) option" where
  "spec_add [] m = Some m"
| "spec_add (c # cs) m =
     (if m (strings_ToLower (c_Name c)) \<noteq> None then None
      else spec_add cs (m(strings_ToLower (c_Name c) \<mapsto> columnFromSpec c)))"

definition spec_replace ::
  "string \<Rightarrow> (column_meta \<Rightarrow> column_meta) \<Rightarrow> (string \<rightharpoonup> column_meta) \<Rightarrow> (string \<rightharpoonup> column_meta) option" where
  "spec_replace n f m =
     (case m (strings_ToLower n) of
        None \<Rightarrow> None
      | Some x \<Rightarrow> Some ((m(strings_ToLower n := None))(col_key (f x) \<mapsto> f x)))"

definition spec_alter ::
  "alter_operation \<Rightarrow> (string \<rightharpoonup> column_meta) \<Rightarrow> (string \<rightharpoonup> column_meta) option" where
  "spec_alter op m =
     (case op_Action op of
        AlterAddColumns \<Rightarrow> spec_add (op_Columns op) m
      | AlterDropColumn \<Rightarrow> (if m (strings_ToLower (op_Name op)) = None then None
          else Some (m(strings_ToLower (op_Name op) := None)))
      | AlterModifyColumn \<Rightarrow> (case op_Columns op of
          [c] \<Rightarrow> spec_replace (c_Name c) (\<lambda>x. mergeColumnSpec x c) m | _ \<Rightarrow> None)
      | AlterChangeColumn \<Rightarrow> (case op_Columns op of
          [c] \<Rightarrow> spec_replace (op_Name op) (\<lambda>x. mergeColumnSpec x c) m | _ \<Rightarrow> None)
      | AlterRenameColumn \<Rightarrow> (if m (strings_ToLower (op_NewName op)) \<noteq> None then None
          else spec_replace (op_Name op) (\<lambda>x. x\<lparr>col_Name := op_NewName op\<rparr>) m)
      | _ \<Rightarrow> Some m)"

fun spec_alters ::
  "alter_operation list \<Rightarrow> (string \<rightharpoonup> column_meta) \<Rightarrow> (string \<rightharpoonup> column_meta) option" where
  "spec_alters [] m = Some m"
| "spec_alters (op # ops) m =
     (case spec_alter op m of None \<Rightarrow> None | Some m' \<Rightarrow> spec_alters ops m')"

text \<open>Every CHANGE COLUMN of the list is safe at the point where it runs.\<close>

fun changes_safe :: "alter_operation list \<Rightarrow> (string \<rightharpoonup> column_meta) \<Rightarrow> bool" where
  "changes_safe [] m = True"
| "changes_safe (op # ops) m =
     (change_safe op m \<and> (case spec_alter op m of None \<Rightarrow> True | Some m' \<Rightarrow> changes_safe ops m'))"

section \<open>Facts about the table operations\<close>

lemma findColumn_key: "findColumn t n = find_pos (\<lambda>c. col_key c = strings_ToLower n) (t_Columns t)"
  by (simp add: findColumn_def strings_EqualFold_def col_key_def)

lemma findIndex_key: "findIndex t n = find_pos (\<lambda>i. idx_key i = strings_ToLower n) (t_Indexes t)"
  by (simp add: findIndex_def strings_EqualFold_def idx_key_def)

lemma findColumn_None: "findColumn t n = None \<longleftrightarrow> abs_columns t (strings_ToLower n) = None"
  by (auto simp: findColumn_key abs_columns_def keyed_None_iff image_iff)

lemma findIndex_None: "findIndex t n = None \<longleftrightarrow> abs_indexes t (strings_ToLower n) = None"
  by (auto simp: findIndex_key abs_indexes_def keyed_None_iff image_iff)

lemma findColumn_Some:
  assumes "findColumn t n = Some k"
  shows "k < length (t_Columns t)" "col_key (t_Columns t ! k) = strings_ToLower n"
    "abs_columns t (strings_ToLower n) = Some (t_Columns t ! k)"
  using assms find_pos_SomeD keyed_find unfolding findColumn_key abs_columns_def by fast+

lemma findIndex_Some:
  assumes "findIndex t n = Some k"
  shows "k < length (t_Indexes t)" "idx_key (t_Indexes t ! k) = strings_ToLower n"
  using assms find_pos_SomeD unfolding findIndex_key by fast+

lemma key_of_constructed [simp]:
  "col_key (columnFromSpec c) = strings_ToLower (c_Name c)"
  "col_key (mergeColumnSpec x c) = strings_ToLower (c_Name c)"
  "col_key (x\<lparr>col_Name := n\<rparr>) = strings_ToLower n"
  by (simp_all add: col_key_def columnFromSpec_def mergeColumnSpec_def)

lemma add_column_refines:
  "columns_wf t \<Longrightarrow> add_column c t = Inr t' \<Longrightarrow>
   columns_wf t' \<and> abs_columns t (strings_ToLower (c_Name c)) = None \<and>
   abs_columns t' = (abs_columns t)(strings_ToLower (c_Name c) \<mapsto> columnFromSpec c) \<and>
   t_Indexes t' = t_Indexes t"
  by (auto simp: add_column_def findColumn_None columns_wf_def abs_columns_def keyed_snoc keyed_None_iff
      split: if_splits)

lemma add_columns_refine:
  "columns_wf t \<Longrightarrow> for_each add_column cs t = Inr t' \<Longrightarrow>
   columns_wf t' \<and> spec_add cs (abs_columns t) = Some (abs_columns t') \<and> t_Indexes t' = t_Indexes t"
proof (induction cs arbitrary: t)
  case (Cons c cs)
  then obtain t1 where "add_column c t = Inr t1" "for_each add_column cs t1 = Inr t'"
    by (auto simp: sum_bind_Inr_iff)
  with Cons.IH [of t1] add_column_refines [OF Cons.prems(1)] show ?case by (simp add: fun_upd_def)
qed simp

text \<open>Replacing the column at a found position is a replacement in the map.\<close>

lemma replace_column_refines:
  assumes "columns_wf t" and "findColumn t n = Some k" and "t' = t\<lparr>t_Columns := (t_Columns t)[k := y]\<rparr>"
    and "col_key y = strings_ToLower n \<or> abs_columns t (col_key y) = None"
  shows "columns_wf t'"
    and "abs_columns t' = ((abs_columns t)(strings_ToLower n := None))(col_key y \<mapsto> y)"
  using assms findColumn_Some [OF assms(2)]
    distinct_update_key [of col_key "t_Columns t" k y] keyed_update [of col_key "t_Columns t" k y]
  by (auto simp: columns_wf_def abs_columns_def keyed_None_iff)

lemma columns_of_index_changes [simp]:
  "t_Columns (renameColumnInIndexes t a b) = t_Columns t"
  "t_Columns (dropColumnFromIndexes t a) = t_Columns t"
  by (simp_all add: renameColumnInIndexes_def dropColumnFromIndexes_def)

lemma abs_columns_cong: "t_Columns t' = t_Columns t \<Longrightarrow> abs_columns t' = abs_columns t \<and> columns_wf t' = columns_wf t"
  by (simp add: abs_columns_def columns_wf_def)

lemma drop_column_refines:
  assumes "columns_wf t" and "findColumn t n = Some k"
  shows "columns_wf (t\<lparr>t_Columns := remove_at k (t_Columns t)\<rparr>)"
    and "abs_columns (t\<lparr>t_Columns := remove_at k (t_Columns t)\<rparr>) = (abs_columns t)(strings_ToLower n := None)"
  using assms findColumn_Some [OF assms(2)]
  by (simp_all add: columns_wf_def abs_columns_def keyed_remove_at map_remove_at distinct_remove_at)

definition column_action :: "alter_action \<Rightarrow> bool" where
  "column_action a \<longleftrightarrow> a \<in> {AlterAddColumns, AlterDropColumn, AlterModifyColumn, AlterChangeColumn,
     AlterRenameColumn}"

lemma apply_alter_other_columns:
  "\<not> column_action (op_Action op) \<Longrightarrow> apply_alter d op t = Inr t' \<Longrightarrow>
   t_Columns t' = t_Columns t \<and> spec_alter op m = Some m"
  by (cases "op_Action op")
     (auto simp: column_action_def apply_alter_def spec_alter_def drop_index_def split: option.splits if_splits)

lemma apply_alter_refines:
  assumes wf: "columns_wf t" and safe: "change_safe op (abs_columns t)" and ok: "apply_alter d op t = Inr t'"
  shows "columns_wf t' \<and> spec_alter op (abs_columns t) = Some (abs_columns t')"
proof (cases "column_action (op_Action op)")
  case False
  with ok have "t_Columns t' = t_Columns t" "spec_alter op (abs_columns t) = Some (abs_columns t)"
    using apply_alter_other_columns by blast+
  with wf show ?thesis using abs_columns_cong [of t' t] by simp
next
  case True
  then consider "op_Action op = AlterAddColumns" | "op_Action op = AlterDropColumn"
    | "op_Action op = AlterModifyColumn" | "op_Action op = AlterChangeColumn"
    | "op_Action op = AlterRenameColumn" by (auto simp: column_action_def)
  then show ?thesis
  proof cases
    case 1
    with wf ok add_columns_refine show ?thesis by (simp add: apply_alter_def spec_alter_def)
  next
    case 2
    with ok obtain k where k: "findColumn t (op_Name op) = Some k"
      and t': "t' = dropColumnFromIndexes (t\<lparr>t_Columns := remove_at k (t_Columns t)\<rparr>) (op_Name op)"
      by (auto simp: apply_alter_def split: option.splits)
    from drop_column_refines [OF wf k] findColumn_Some(3) [OF k] 2
      abs_columns_cong [of t' "t\<lparr>t_Columns := remove_at k (t_Columns t)\<rparr>"] t'
    show ?thesis by (simp add: spec_alter_def)
  next
    case 3
    with ok obtain c k where c: "op_Columns op = [c]" "findColumn t (c_Name c) = Some k"
      "t' = t\<lparr>t_Columns := (t_Columns t)[k := mergeColumnSpec (t_Columns t ! k) c]\<rparr>"
      by (auto simp: apply_alter_def split: option.splits list.splits)
    from replace_column_refines [OF wf c(2) c(3)] findColumn_Some(3) [OF c(2)] 3 c(1)
    show ?thesis by (simp add: spec_alter_def spec_replace_def)
  next
    case 4
    with ok obtain c k where c: "op_Columns op = [c]" "findColumn t (op_Name op) = Some k"
      "t' = renameColumnInIndexes (t\<lparr>t_Columns := (t_Columns t)[k := mergeColumnSpec (t_Columns t ! k) c]\<rparr>)
         (col_Name (t_Columns t ! k)) (c_Name c)"
      by (auto simp: apply_alter_def Let_def split: option.splits list.splits)
    from safe 4 c(1) have "strings_ToLower (c_Name c) = strings_ToLower (op_Name op) \<or>
        abs_columns t (strings_ToLower (c_Name c)) = None"
      by (simp add: change_safe_def strings_EqualFold_def)
    with replace_column_refines [OF wf c(2) refl, of "mergeColumnSpec (t_Columns t ! k) c"]
      findColumn_Some(3) [OF c(2)] 4 c(1)
      abs_columns_cong [of t' "t\<lparr>t_Columns := (t_Columns t)[k := mergeColumnSpec (t_Columns t ! k) c]\<rparr>"] c(3)
    show ?thesis by (simp add: spec_alter_def spec_replace_def)
  next
    case 5
    with ok obtain k where k: "findColumn t (op_Name op) = Some k" "findColumn t (op_NewName op) = None"
      and t': "t' = renameColumnInIndexes (t\<lparr>t_Columns := (t_Columns t)
          [k := (t_Columns t ! k)\<lparr>col_Name := op_NewName op\<rparr>]\<rparr>) (op_Name op) (op_NewName op)"
      by (auto simp: apply_alter_def split: option.splits if_splits)
    from replace_column_refines [OF wf k(1) refl, of "(t_Columns t ! k)\<lparr>col_Name := op_NewName op\<rparr>"]
      findColumn_Some(3) [OF k(1)] k(2) 5
      abs_columns_cong [of t' "t\<lparr>t_Columns := (t_Columns t)[k := (t_Columns t ! k)\<lparr>col_Name := op_NewName op\<rparr>]\<rparr>"] t'
    show ?thesis by (simp add: spec_alter_def spec_replace_def findColumn_None)
  qed
qed

lemma alters_refine:
  "columns_wf t \<Longrightarrow> changes_safe ops (abs_columns t) \<Longrightarrow> for_each (apply_alter d) ops t = Inr t' \<Longrightarrow>
   columns_wf t' \<and> spec_alters ops (abs_columns t) = Some (abs_columns t')"
proof (induction ops arbitrary: t)
  case (Cons op ops)
  then obtain t1 where "apply_alter d op t = Inr t1" "for_each (apply_alter d) ops t1 = Inr t'"
    by (auto simp: sum_bind_Inr_iff)
  with Cons.IH [of t1] apply_alter_refines [OF Cons.prems(1), of op d t1] Cons.prems show ?case by simp
qed simp

section \<open>Index names stay distinct\<close>

lemma indexes_wf_snoc:
  "indexes_wf t \<Longrightarrow> findIndex t n = None \<Longrightarrow> idx_Name i = n \<Longrightarrow>
   indexes_wf (t\<lparr>t_Indexes := t_Indexes t @ [i]\<rparr>)"
  by (auto simp: indexes_wf_def findIndex_key idx_key_def)

lemma indexes_wf_columns [simp]:
  "indexes_wf (t\<lparr>t_Columns := cs\<rparr>) = indexes_wf t"
  "indexes_wf (t\<lparr>t_Schema := x\<rparr>) = indexes_wf t" "indexes_wf (t\<lparr>t_Name := x\<rparr>) = indexes_wf t"
  "indexes_wf (t\<lparr>t_Engine := x\<rparr>) = indexes_wf t" "indexes_wf (t\<lparr>t_CharacterSet := x\<rparr>) = indexes_wf t"
  "indexes_wf (t\<lparr>t_Collation := x\<rparr>) = indexes_wf t"
  "indexes_wf (renameColumnInIndexes t a b) = indexes_wf t"
  by (simp_all add: indexes_wf_def renameColumnInIndexes_def idx_key_def [abs_def] comp_def)

lemma distinct_map_filter_map:
  "distinct (map f xs) \<Longrightarrow> (\<And>x. f (g x) = f x) \<Longrightarrow> distinct (map f (filter P (map g xs)))"
  by (induction xs) (auto simp: image_iff)

lemma indexes_wf_drop_column: "indexes_wf t \<Longrightarrow> indexes_wf (dropColumnFromIndexes t n)"
  by (simp add: indexes_wf_def dropColumnFromIndexes_def distinct_map_filter_map idx_key_def
      drop_index_column_def Let_def)

lemma drop_index_wf: "indexes_wf t \<Longrightarrow> drop_index n t = Inr t' \<Longrightarrow> indexes_wf t'"
  by (auto simp: drop_index_def indexes_wf_def map_remove_at distinct_remove_at split: option.splits)

lemma create_index_wf: "indexes_wf t \<Longrightarrow> create_index i t = Inr t' \<Longrightarrow> indexes_wf t'"
  by (auto simp: create_index_def intro!: indexes_wf_snoc split: if_splits)

lemma add_columns_indexes: "for_each add_column cs t = Inr t' \<Longrightarrow> t_Indexes t' = t_Indexes t"
  by (erule for_each_invariant [where P = "\<lambda>u. t_Indexes u = t_Indexes t"])
     (auto simp: add_column_def split: if_splits)

lemma apply_alter_indexes_wf: "indexes_wf t \<Longrightarrow> apply_alter d op t = Inr t' \<Longrightarrow> indexes_wf t'"
proof (cases "op_Action op")
  case AlterAddColumns
  assume "indexes_wf t" "apply_alter d op t = Inr t'"
  with AlterAddColumns show ?thesis by (auto simp: apply_alter_def indexes_wf_def dest!: add_columns_indexes)
next
  case AlterRenameIndex
  assume wf: "indexes_wf t" and "apply_alter d op t = Inr t'"
  with AlterRenameIndex obtain n where n: "findIndex t (op_Name op) = Some n" "findIndex t (op_NewName op) = None"
    and t': "t' = t\<lparr>t_Indexes := (t_Indexes t)[n := (t_Indexes t ! n)\<lparr>idx_Name := op_NewName op\<rparr>]\<rparr>"
    by (auto simp: apply_alter_def split: option.splits if_splits)
  have "idx_key ((t_Indexes t ! n)\<lparr>idx_Name := op_NewName op\<rparr>) \<notin> idx_key ` set (t_Indexes t)"
    using n(2) by (auto simp: findIndex_key idx_key_def)
  with wf findIndex_Some(1) [OF n(1)] t' show ?thesis
    by (auto simp: indexes_wf_def intro!: distinct_update_key)
qed (auto simp: apply_alter_def Let_def indexes_wf_drop_column drop_index_wf
       intro: indexes_wf_snoc split: option.splits list.splits if_splits)

lemma applyTableDDL_indexes_wf:
  assumes "indexes_wf t" and "applyTableDDL d t = Inr t'"
  shows "indexes_wf t'"
proof -
  have "indexes_wf t'" if "for_each f xs t = Inr t'" and "\<And>x t t'. indexes_wf t \<Longrightarrow> f x t = Inr t' \<Longrightarrow> indexes_wf t'"
    for f :: "'b \<Rightarrow> table_meta \<Rightarrow> gerror + table_meta" and xs
    using for_each_invariant [OF that(1), of indexes_wf] that(2) assms(1) by blast
  note each = this
  from assms(2) show ?thesis
    by (auto simp: applyTableDDL_def split: if_splits
        intro: each [OF _ create_index_wf] each [OF _ drop_index_wf] each [OF _ apply_alter_indexes_wf])
qed

lemma add_spec_column_indexes_wf: "indexes_wf t \<Longrightarrow> indexes_wf (add_spec_column c t)"
  by (auto simp: add_spec_column_def Let_def findIndex_key indexes_wf_def idx_key_def)

lemma add_spec_index_wf: "indexes_wf t \<Longrightarrow> indexes_wf (add_spec_index i t)"
proof (cases "findIndex t (i_Name i)")
  case (Some n)
  assume "indexes_wf t"
  with Some findIndex_Some [OF Some] show ?thesis
    by (auto simp: add_spec_index_def Let_def indexes_wf_def idx_key_def intro!: distinct_update_key)
qed (auto simp: add_spec_index_def Let_def intro: indexes_wf_snoc)

lemma tableFromSpec_indexes_wf: "indexes_wf (tableFromSpec d)"
proof -
  have inv: "indexes_wf (fold f xs t)" if "indexes_wf t" and "\<And>x t. indexes_wf t \<Longrightarrow> indexes_wf (f x t)"
    for f :: "'b \<Rightarrow> table_meta \<Rightarrow> table_meta" and xs t
    using that by (induction xs arbitrary: t) auto
  show ?thesis unfolding tableFromSpec_def
    by (intro inv add_spec_index_wf add_spec_column_indexes_wf) (simp add: indexes_wf_def zero_table_meta_def)
qed

lemma tableFromSpec_columns:
  "map col_Name (t_Columns (tableFromSpec d)) = map c_Name (d_Columns d)"
proof -
  have idx: "t_Columns (fold add_spec_index is t) = t_Columns t" for "is" t
    by (induction "is" arbitrary: t) (auto simp: add_spec_index_def Let_def split: option.splits)
  have col: "map col_Name (t_Columns (fold add_spec_column cs t)) = map col_Name (t_Columns t) @ map c_Name cs" for cs t
    by (induction cs arbitrary: t) (auto simp: add_spec_column_def Let_def zero_column_meta_def)
  show ?thesis by (simp add: tableFromSpec_def idx col zero_table_meta_def)
qed

lemma tableFromSpec_name [simp]:
  "t_Schema (tableFromSpec d) = d_Schema d" "t_Name (tableFromSpec d) = d_Table d"
proof -
  have idx: "t_Schema (fold add_spec_index is t) = t_Schema t \<and> t_Name (fold add_spec_index is t) = t_Name t" for "is" t
    by (induction "is" arbitrary: t) (auto simp: add_spec_index_def Let_def split: option.splits)
  have col: "t_Schema (fold add_spec_column cs t) = t_Schema t \<and> t_Name (fold add_spec_column cs t) = t_Name t" for cs t
    by (induction cs arbitrary: t) (auto simp: add_spec_column_def Let_def)
  show "t_Schema (tableFromSpec d) = d_Schema d" "t_Name (tableFromSpec d) = d_Table d"
    by (simp_all add: tableFromSpec_def idx col zero_table_meta_def)
qed

section \<open>Dropping a column\<close>

lemma filter_enumerate: "map snd (filter (\<lambda>(k, x). P x) (enumerate n xs)) = filter P xs"
  by (induction xs arbitrary: n) auto

lemma drop_index_column_columns:
  "idx_Columns (drop_index_column column i) = filter (\<lambda>n. \<not> strings_EqualFold n column) (idx_Columns i)"
  by (simp add: drop_index_column_def Let_def filter_enumerate)

text \<open>The prefix lengths stay aligned with the columns they belong to.\<close>

lemma prefix_pairs:
  "length ls = length xs \<Longrightarrow> length ls + n \<le> length all \<Longrightarrow> drop n all = ls @ rest \<Longrightarrow>
   zip (map snd (filter (\<lambda>(k, x). P x) (enumerate n xs)))
       (concat (map (\<lambda>(k, x). if k < length all then [all ! k] else []) (filter (\<lambda>(k, x). P x) (enumerate n xs))))
     = filter (P \<circ> fst) (zip xs ls)"
proof (induction xs arbitrary: n ls)
  case (Cons x xs)
  then obtain l ls' where ls: "ls = l # ls'" by (cases ls) auto
  with Cons.prems have "all ! n = l" "n < length all" "drop (Suc n) all = ls' @ rest"
    by (auto simp: nth_via_drop simp flip: drop_Suc tl_drop) (metis append_Cons list.sel(3) tl_drop drop_Suc)
  with Cons.IH [of ls' "Suc n"] Cons.prems ls show ?case by auto
qed simp

lemma drop_index_column_prefixes:
  assumes "length (idx_PrefixLengths i) = length (idx_Columns i)"
  shows "zip (idx_Columns (drop_index_column column i)) (idx_PrefixLengths (drop_index_column column i)) =
    filter (\<lambda>(n, l). \<not> strings_EqualFold n column) (zip (idx_Columns i) (idx_PrefixLengths i))"
  using prefix_pairs [where P = "\<lambda>n. \<not> strings_EqualFold n column" and n = 0 and ls = "idx_PrefixLengths i"
      and xs = "idx_Columns i" and all = "idx_PrefixLengths i" and rest = "[]"] assms
  by (simp add: drop_index_column_def Let_def comp_def case_prod_unfold)

section \<open>What a statement leaves visible in the store\<close>

text \<open>Two stores give the same answers for every name whose key is not in \<open>K\<close>.\<close>

definition agree_off :: "string set \<Rightarrow> provider \<Rightarrow> provider \<Rightarrow> bool" where
  "agree_off K p p' \<longleftrightarrow> tableKey p' = tableKey p \<and>
     (\<forall>c d. tableKey p c d \<notin> K \<longrightarrow> fst (LoadTable p' c d) = fst (LoadTable p c d))"

lemma agree_off_refl [simp]: "agree_off K p p"
  by (simp add: agree_off_def)

lemma agree_off_trans: "agree_off K p q \<Longrightarrow> agree_off L q r \<Longrightarrow> agree_off (K \<union> L) p r"
  by (simp add: agree_off_def)

lemma agree_off_mono: "agree_off K p q \<Longrightarrow> K \<subseteq> L \<Longrightarrow> agree_off L p q"
  by (auto simp: agree_off_def)

lemma agree_off_load: "agree_off {tableKey p a b} p (snd (LoadTable p a b))"
  by (simp add: agree_off_def cache.key_load cache.load_other)

lemma agree_off_put: "agree_off {tableKey p (t_Schema t) (t_Name t)} p (PutTable t p)"
  by (simp add: agree_off_def cache.key_put cache.put_other)

lemma agree_off_del: "agree_off {tableKey p a b} p (DeleteTable a b p)"
  by (simp add: agree_off_def cache.key_del cache.del_other)

lemma agree_off_rename:
  "agree_off {tableKey p a b, tableKey p (t_Schema t) (t_Name t)} p (RenameTable a b t p)"
  using agree_off_trans [OF agree_off_del agree_off_put, of p a b t]
  by (simp add: RenameTable_def cache.key_del insert_commute)

lemma agree_off_schemas: "pv_tables p' = pv_tables p \<Longrightarrow> pv_source p' = pv_source p \<Longrightarrow>
    pv_lowerCase p' = pv_lowerCase p \<Longrightarrow> agree_off K p p'"
  using key_cong(1) [of p' p] by (auto simp: agree_off_def LoadTable_def Let_def split: option.split)

subsection \<open>Rename\<close>

definition rename_keys :: "provider \<Rightarrow> string \<Rightarrow> rename_pair \<Rightarrow> string set" where
  "rename_keys p fallback pair =
     (let fromSchema = defaultSchema (tr_Schema (rp_From pair)) fallback;
          toSchema = defaultSchema (tr_Schema (rp_To pair)) fromSchema in
      {tableKey p fromSchema (tr_Name (rp_From pair)), tableKey p toSchema (tr_Name (rp_To pair))})"

lemma renameLoaded_frame:
  assumes "renameLoaded from to fallback p = (err, p')"
  shows "agree_off (rename_keys p fallback \<lparr> rp_From = from, rp_To = to \<rparr>) p p'"
proof (cases "LoadTable p (defaultSchema (tr_Schema from) fallback) (tr_Name from)")
  case (Pair r q)
  then have load: "agree_off {tableKey p (defaultSchema (tr_Schema from) fallback) (tr_Name from)} p q"
    using agree_off_load by (metis snd_conv)
  then have key: "tableKey q = tableKey p" by (simp add: agree_off_def)
  show ?thesis
  proof (cases r)
    case (Inl e)
    with Pair assms load show ?thesis
      by (auto simp: renameLoaded_def rename_keys_def Let_def elim: agree_off_mono)
  next
    case (Inr t)
    let ?fs = "defaultSchema (tr_Schema from) fallback"
    let ?t = "t\<lparr>t_Schema := defaultSchema (tr_Schema to) ?fs, t_Name := tr_Name to\<rparr>"
    from Inr Pair assms have "p' = RenameTable ?fs (tr_Name from) ?t q"
      by (simp add: renameLoaded_def Let_def)
    with agree_off_trans [OF load agree_off_rename [of q ?fs "tr_Name from" ?t]] show ?thesis
      by (auto simp: rename_keys_def Let_def key elim!: agree_off_mono)
  qed
qed

lemma renameLoaded_moves:
  assumes "renameLoaded from to fallback p = (None, p')"
    and "fs = defaultSchema (tr_Schema from) fallback" and "ts = defaultSchema (tr_Schema to) fs"
  shows "\<exists>t. fst (LoadTable p fs (tr_Name from)) = Inr t \<and>
      fst (LoadTable p' ts (tr_Name to)) = Inr (t\<lparr>t_Schema := ts, t_Name := tr_Name to\<rparr>) \<and>
      (tableKey p ts (tr_Name to) \<noteq> tableKey p fs (tr_Name from) \<longrightarrow>
         fst (LoadTable p' fs (tr_Name from)) = Inl ErrMetadataNotFound)"
proof -
  obtain r q where load: "LoadTable p fs (tr_Name from) = (r, q)" by (cases "LoadTable p fs (tr_Name from)")
  with assms obtain t where t: "r = Inr t"
    and p': "p' = RenameTable fs (tr_Name from) (t\<lparr>t_Schema := ts, t_Name := tr_Name to\<rparr>) q"
    by (cases r) (auto simp: renameLoaded_def Let_def)
  have key: "tableKey q = tableKey p" using load cache.key_load by (metis snd_conv)
  let ?t = "t\<lparr>t_Schema := ts, t_Name := tr_Name to\<rparr>"
  have "fst (LoadTable p' ts (tr_Name to)) = Inr ?t"
    unfolding p' RenameTable_def by (rule cache.rename_target) simp
  moreover have "fst (LoadTable p' fs (tr_Name from)) = Inl ErrMetadataNotFound"
    if "tableKey p ts (tr_Name to) \<noteq> tableKey p fs (tr_Name from)"
    unfolding p' RenameTable_def by (rule cache.rename_source) (use that in \<open>simp_all add: key\<close>)
  ultimately show ?thesis using load t by auto
qed

lemma rename_pairs_frame:
  "rename_pairs fallback pairs p = (err, p') \<Longrightarrow> agree_off (\<Union>(rename_keys p fallback ` set pairs)) p p'"
proof (induction pairs arbitrary: p)
  case (Cons pair pairs)
  obtain e q where step: "renameLoaded (rp_From pair) (rp_To pair) fallback p = (e, q)"
    by (cases "renameLoaded (rp_From pair) (rp_To pair) fallback p")
  from renameLoaded_frame [OF this] have one: "agree_off (rename_keys p fallback pair) p q"
    by (simp add: rename_keys_def)
  then have key: "rename_keys q = rename_keys p" by (simp add: agree_off_def rename_keys_def fun_eq_iff)
  show ?case
  proof (cases e)
    case None
    with Cons step have "agree_off (\<Union>(rename_keys q fallback ` set pairs)) q p'" by simp
    from agree_off_trans [OF one this] show ?thesis by (simp add: key)
  next
    case (Some _)
    with Cons.prems step one show ?thesis by (auto elim: agree_off_mono)
  qed
qed simp

subsection \<open>Drop, create, alter\<close>

lemma drop_tables_frame:
  "agree_off ((\<lambda>r. tableKey p (defaultSchema (tr_Schema r) (d_Schema d)) (tr_Name r)) ` set (d_Tables d)) p (drop_tables d p)"
proof -
  have "agree_off ((\<lambda>r. tableKey p (defaultSchema (tr_Schema r) s) (tr_Name r)) ` set rs) p
      (fold (\<lambda>r. DeleteTable (defaultSchema (tr_Schema r) s) (tr_Name r)) rs p)" for rs s p
  proof (induction rs arbitrary: p)
    case (Cons r rs)
    let ?q = "DeleteTable (defaultSchema (tr_Schema r) s) (tr_Name r) p"
    from agree_off_trans [OF agree_off_del [of p "defaultSchema (tr_Schema r) s" "tr_Name r"] Cons.IH [of ?q]]
    show ?case by (simp add: cache.key_del)
  qed simp
  then show ?thesis by (simp add: drop_tables_def)
qed

lemma drop_tables_gone:
  assumes "r \<in> set (d_Tables d)"
  shows "fst (LoadTable (drop_tables d p) (defaultSchema (tr_Schema r) (d_Schema d)) (tr_Name r)) = Inl ErrMetadataNotFound"
proof -
  let ?k = "\<lambda>p r. tableKey p (defaultSchema (tr_Schema r) (d_Schema d)) (tr_Name r)"
  let ?del = "\<lambda>r. DeleteTable (defaultSchema (tr_Schema r) (d_Schema d)) (tr_Name r)"
  have "fst (LoadTable (fold ?del rs p) c e) = Inl ErrMetadataNotFound"
    if "tableKey p c e \<in> ?k p ` set rs \<or> fst (LoadTable p c e) = Inl ErrMetadataNotFound" for rs p c e
    using that
  proof (induction rs arbitrary: p)
    case (Cons x rs)
    then show ?case
      by (cases "tableKey p c e = ?k p x") (auto simp: cache.key_del cache.del_same cache.del_other)
  qed simp
  then show ?thesis using assms unfolding drop_tables_def by blast
qed

lemma alter_loaded_visible:
  assumes "fst (LoadTable p (d_Schema d) (d_Table d)) = Inr t" and "applyTableDDL d t = Inr t'"
    and "alter_loaded d p = (err, p')"
  shows "err = None" and "tableKey p c e = tableKey p (t_Schema t') (t_Name t') \<Longrightarrow> fst (LoadTable p' c e) = Inr t'"
    and "tableKey p c e = tableKey p (t_Schema t) (t_Name t) \<Longrightarrow>
      tableKey p (t_Schema t') (t_Name t') \<noteq> tableKey p (t_Schema t) (t_Name t) \<Longrightarrow>
      fst (LoadTable p' c e) = Inl ErrMetadataNotFound"
proof -
  obtain q where q: "LoadTable p (d_Schema d) (d_Table d) = (Inr t, q)"
    using assms(1) by (cases "LoadTable p (d_Schema d) (d_Table d)") auto
  have key: "tableKey q = tableKey p" using q cache.key_load by (metis snd_conv)
  from q assms(2,3) show "err = None" by (simp add: alter_loaded_def)
  from q assms(2,3) have p': "p' = (if t_Schema t \<noteq> t_Schema t' \<or> t_Name t \<noteq> t_Name t'
      then RenameTable (t_Schema t) (t_Name t) t' q else PutTable t' q)" by (simp add: alter_loaded_def)
  show "fst (LoadTable p' c e) = Inr t'" if "tableKey p c e = tableKey p (t_Schema t') (t_Name t')"
    using that unfolding p' by (auto simp: RenameTable_def cache.put_same cache.key_del key)
  show "fst (LoadTable p' c e) = Inl ErrMetadataNotFound"
    if "tableKey p c e = tableKey p (t_Schema t) (t_Name t)"
      "tableKey p (t_Schema t') (t_Name t') \<noteq> tableKey p (t_Schema t) (t_Name t)"
    using that unfolding p' by (auto simp: RenameTable_def key intro!: cache.rename_source)
qed

definition alter_keys :: "provider \<Rightarrow> ddl_spec \<Rightarrow> string set" where
  "alter_keys p d = {tableKey p (d_Schema d) (d_Table d)} \<union>
     (case fst (LoadTable p (d_Schema d) (d_Table d)) of
        Inl _ \<Rightarrow> {}
      | Inr t \<Rightarrow> {tableKey p (t_Schema t) (t_Name t)} \<union>
          (case applyTableDDL d t of Inl _ \<Rightarrow> {} | Inr t' \<Rightarrow> {tableKey p (t_Schema t') (t_Name t')}))"

lemma alter_loaded_frame:
  assumes "alter_loaded d p = (err, p')"
  shows "agree_off (alter_keys p d) p p'"
proof -
  obtain r q where q: "LoadTable p (d_Schema d) (d_Table d) = (r, q)"
    by (cases "LoadTable p (d_Schema d) (d_Table d)")
  have load: "agree_off {tableKey p (d_Schema d) (d_Table d)} p q" using q agree_off_load by (metis snd_conv)
  then have key: "tableKey q = tableKey p" by (simp add: agree_off_def)
  show ?thesis
  proof (cases r)
    case (Inl e)
    with q assms load show ?thesis by (simp add: alter_loaded_def alter_keys_def)
  next
    case (Inr t)
    show ?thesis
    proof (cases "applyTableDDL d t")
      case (Inl e)
      with Inr q assms load show ?thesis by (auto simp: alter_loaded_def alter_keys_def elim: agree_off_mono)
    next
      case (Inr t')
      with \<open>r = Inr t\<close> q assms have "p' = (if t_Schema t \<noteq> t_Schema t' \<or> t_Name t \<noteq> t_Name t'
          then RenameTable (t_Schema t) (t_Name t) t' q else PutTable t' q)" by (simp add: alter_loaded_def)
      then have "agree_off {tableKey q (t_Schema t) (t_Name t), tableKey q (t_Schema t') (t_Name t')} q p'"
        using agree_off_rename [of q "t_Schema t" "t_Name t" t'] agree_off_put [of q t']
        by (auto elim: agree_off_mono)
      from agree_off_trans [OF load this] show ?thesis using q \<open>r = Inr t\<close> Inr
        by (auto simp: key alter_keys_def elim: agree_off_mono)
    qed
  qed
qed

text \<open>The keys that the DDL statement may change.\<close>

definition ddl_keys :: "provider \<Rightarrow> ddl_spec \<Rightarrow> string set" where
  "ddl_keys p d =
     (if d_Action d \<in> {DDLCreateTable, DDLCreateView} then {tableKey p (d_Schema d) (d_Table d)}
      else if d_Action d \<in> {DDLDropTable, DDLDropView}
      then (\<lambda>r. tableKey p (defaultSchema (tr_Schema r) (d_Schema d)) (tr_Name r)) ` set (d_Tables d)
      else if d_Action d = DDLRenameTable then \<Union>(rename_keys p (d_Schema d) ` set (d_RenamePairs d))
      else if d_Action d \<in> {DDLCreateIndex, DDLDropIndex, DDLAlterTable} then alter_keys p d
      else {})"

lemma ApplyDDL_agree: "ApplyDDL (Some d) p = (err, p') \<Longrightarrow> agree_off (ddl_keys p d) p p'"
  using agree_off_put [of p "tableFromSpec d"] drop_tables_frame [of p d]
    agree_off_put [of p "zero_table_meta\<lparr>t_Schema := d_Schema d, t_Name := d_Table d, t_IsView := True, t_TableType := ''VIEW''\<rparr>"]
  by (cases "d_Action d")
     (auto simp: ApplyDDL_def ddl_keys_def PutSchema_def DeleteSchema_def zero_table_meta_def
       intro: agree_off_schemas rename_pairs_frame alter_loaded_frame split: if_splits)

section \<open>Preparing reads only\<close>

definition extends :: "provider \<Rightarrow> provider \<Rightarrow> bool" where
  "extends p p' \<longleftrightarrow> pv_tables p \<subseteq>\<^sub>m pv_tables p' \<and> pv_schemas p' = pv_schemas p \<and>
     pv_source p' = pv_source p \<and> pv_lowerCase p' = pv_lowerCase p"

lemma extends_refl [simp]: "extends p p"
  by (simp add: extends_def)

lemma extends_trans: "extends p q \<Longrightarrow> extends q r \<Longrightarrow> extends p r"
  by (auto simp: extends_def intro: map_le_trans)

lemma LoadTable_extends: "LoadTable p a b = (r, p') \<Longrightarrow> extends p p'"
  by (auto simp: LoadTable_def Let_def extends_def map_le_def split: option.splits if_splits)

lemma check_rename_targets_extends: "check_rename_targets d pairs p = (err, p') \<Longrightarrow> extends p p'"
  by (induction d pairs p rule: check_rename_targets.induct)
     (auto simp: Let_def split: prod.splits sum.splits if_splits dest: LoadTable_extends intro: extends_trans)

lemma check_affected_extends: "check_affected d rs p = (err, p') \<Longrightarrow> extends p p'"
  by (induction d rs p rule: check_affected.induct)
     (auto simp: Let_def split: prod.splits sum.splits if_splits dest: LoadTable_extends intro: extends_trans)

lemma prepare_create_extends: "prepare_create d p = Returns (err, d', p') \<Longrightarrow> extends p p'"
  by (auto simp: prepare_create_def Let_def dest!: LoadTable_extends intro: extends_trans
      split: prod.splits sum.splits if_splits option.splits)

lemma PrepareDDL_extends: "PrepareDDL spec p = Returns (err, spec', p') \<Longrightarrow> extends p p'"
  by (auto simp: PrepareDDL_def Let_def split: option.splits if_splits outcome.splits prod.splits
      dest: prepare_create_extends check_rename_targets_extends check_affected_extends intro: extends_trans)

section \<open>Properties\<close>

text \<open>A table of the target server, for the witnesses.\<close>

definition users_table :: table_meta where
  "users_table = zero_table_meta\<lparr>t_Schema := ''app'', t_Name := ''users'',
     t_Columns := [zero_column_meta\<lparr>col_Name := ''id'', col_ColumnType := ''bigint''\<rparr>,
       zero_column_meta\<lparr>col_Name := ''Name'', col_ColumnType := ''varchar(64)''\<rparr>],
     t_Indexes := [zero_index_meta\<lparr>idx_Name := ''PRIMARY'', idx_Columns := [''id''], idx_Unique := True,
         idx_Primary := True, idx_PrefixLengths := [0]\<rparr>,
       zero_index_meta\<lparr>idx_Name := ''ix_name'', idx_Columns := [''Name'', ''id''],
         idx_PrefixLengths := [10, 0]\<rparr>]\<rparr>"

definition users_source :: metadata_source where
  "users_source = \<lparr> src_LoadServerInfo = Inl (errorf ''offline''),
     src_LoadSchema = (\<lambda>s. Inl ErrMetadataNotFound),
     src_LoadTable = (\<lambda>s t. if s = ''app'' \<and> t = ''users'' then Inr users_table else Inl ErrMetadataNotFound),
     src_EstimateImpact = None \<rparr>"

definition alter_op :: "alter_action \<Rightarrow> string \<Rightarrow> string \<Rightarrow> column_spec list \<Rightarrow> alter_operation" where
  "alter_op a name newName cols = \<lparr> op_Action = a, op_Name = name, op_NewName = newName,
     op_Columns = cols, op_Index = None, op_NewTable = None \<rparr>"

definition alter_users :: "alter_operation list \<Rightarrow> ddl_spec" where
  "alter_users ops = (zero_ddl_spec DDLAlterTable)\<lparr>d_Schema := ''app'', d_Table := ''users'',
     d_FullyProjected := True, d_AlterOperations := ops\<rparr>"

lemmas snapshot_example = users_table_def users_source_def alter_op_def alter_users_def zero_defs
  go_defs strings_EqualFold_def

text \<open>
  C13. An accepted ALTER TABLE keeps the column names and the index names of the table distinct up
  to case, and its effect on the columns is the effect of its operations, in order, on a finite
  map from folded names to columns (add, remove, replace, rename). A CHANGE COLUMN is assumed to
  rename to a free name or to its own.
\<close>

theorem applyTableDDL_refines:
  assumes "table_wf t" and "d_Action d = DDLAlterTable"
    and "changes_safe (d_AlterOperations d) (abs_columns t)" and "applyTableDDL d t = Inr t'"
  shows "table_wf t' \<and> spec_alters (d_AlterOperations d) (abs_columns t) = Some (abs_columns t')"
proof -
  have "for_each (apply_alter d) (d_AlterOperations d) t = Inr t'"
    using assms(2,4) by (simp add: applyTableDDL_def)
  with alters_refine [of t "d_AlterOperations d" d t'] applyTableDDL_indexes_wf [of t d t'] assms
  show ?thesis by (simp add: table_wf_def)
qed

definition users_altered :: table_meta where
  "users_altered = users_table\<lparr>
     t_Columns := [zero_column_meta\<lparr>col_Name := ''label'', col_ColumnType := ''varchar(64)''\<rparr>],
     t_Indexes := [zero_index_meta\<lparr>idx_Name := ''ix_name'', idx_Columns := [''label''],
         idx_PrefixLengths := [10]\<rparr>]\<rparr>"

lemma users_altered_run:
  "applyTableDDL (alter_users [alter_op AlterDropColumn ''ID'' [] [], alter_op AlterRenameColumn ''name'' ''label'' []])
     users_table = Inr users_altered"
  by (simp add: snapshot_example users_altered_def applyTableDDL_def apply_alter_def findColumn_def
      remove_at_def dropColumnFromIndexes_def drop_index_column_def renameColumnInIndexes_def)

theorem applyTableDDL_refines_witness:
  "table_wf users_altered \<and>
   spec_alters [alter_op AlterDropColumn ''ID'' [] [], alter_op AlterRenameColumn ''name'' ''label'' []]
     (abs_columns users_table) = Some (abs_columns users_altered)"
proof -
  let ?ops = "[alter_op AlterDropColumn ''ID'' [] [], alter_op AlterRenameColumn ''name'' ''label'' []]"
  have "table_wf users_table"
    by (simp add: table_wf_def columns_wf_def indexes_wf_def col_key_def idx_key_def users_table_def
        zero_defs go_defs)
  moreover have "changes_safe ?ops (abs_columns users_table)"
    by (simp add: change_safe_def alter_op_def split: option.split)
  ultimately show ?thesis using applyTableDDL_refines [OF _ _ _ users_altered_run]
    by (simp add: alter_users_def zero_defs)
qed

text \<open>
  After DROP COLUMN the table has no column of that name, no index mentions it, and no index is
  left with neither a column nor an expression.
\<close>

theorem drop_column_leaves_no_reference:
  assumes "columns_wf t" and "op_Action op = AlterDropColumn" and "apply_alter d op t = Inr t'"
  shows "findColumn t' (op_Name op) = None \<and>
    (\<forall>i\<in>set (t_Indexes t'). (\<forall>n\<in>set (idx_Columns i). \<not> strings_EqualFold n (op_Name op)) \<and>
       (idx_Columns i \<noteq> [] \<or> idx_Expressions i \<noteq> []))"
proof -
  have "change_safe op (abs_columns t)" using assms(2) by (simp add: change_safe_def)
  with apply_alter_refines [OF assms(1) _ assms(3)] assms(2)
  have "abs_columns t' = (abs_columns t)(strings_ToLower (op_Name op) := None)"
    by (auto simp: spec_alter_def split: if_splits)
  then have "findColumn t' (op_Name op) = None" by (simp add: findColumn_None)
  moreover obtain u where "t' = dropColumnFromIndexes u (op_Name op)"
    using assms(2,3) by (auto simp: apply_alter_def split: option.splits)
  ultimately show ?thesis by (auto simp: dropColumnFromIndexes_def drop_index_column_columns)
qed

theorem drop_column_leaves_no_reference_witness:
  "apply_alter (alter_users []) (alter_op AlterDropColumn ''ID'' [] []) users_table =
     Inr (users_table\<lparr>t_Columns := tl (t_Columns users_table),
       t_Indexes := [zero_index_meta\<lparr>idx_Name := ''ix_name'', idx_Columns := [''Name''], idx_PrefixLengths := [10]\<rparr>]\<rparr>) \<and>
   findColumn (users_table\<lparr>t_Columns := tl (t_Columns users_table),
       t_Indexes := [zero_index_meta\<lparr>idx_Name := ''ix_name'', idx_Columns := [''Name''], idx_PrefixLengths := [10]\<rparr>]\<rparr>) ''ID'' = None"
proof -
  have run: "apply_alter (alter_users []) (alter_op AlterDropColumn ''ID'' [] []) users_table =
     Inr (users_table\<lparr>t_Columns := tl (t_Columns users_table),
       t_Indexes := [zero_index_meta\<lparr>idx_Name := ''ix_name'', idx_Columns := [''Name''], idx_PrefixLengths := [10]\<rparr>]\<rparr>)"
    by (simp add: snapshot_example apply_alter_def findColumn_def
      remove_at_def dropColumnFromIndexes_def drop_index_column_def)
  show ?thesis using run drop_column_leaves_no_reference [OF _ _ run]
    by (simp add: columns_wf_def col_key_def alter_op_def users_table_def zero_defs go_defs)
qed



text \<open>
  A table created by an admitted CREATE TABLE is what later statements of the request read,
  under every spelling the server identifies with its name.
\<close>

theorem ApplyDDL_create_visible:
  assumes "d_FullyProjected d" and "\<not> d_Noop d" and "d_Action d = DDLCreateTable"
    and "tableKey p c e = tableKey p (d_Schema d) (d_Table d)"
  shows "fst (LoadTable (snd (ApplyDDL (Some d) p)) c e) = Inr (tableFromSpec d) \<and>
    map col_Name (t_Columns (tableFromSpec d)) = map c_Name (d_Columns d) \<and> indexes_wf (tableFromSpec d)"
  using assms by (simp add: ApplyDDL_def cache.put_same tableFromSpec_columns tableFromSpec_indexes_wf)

theorem ApplyDDL_create_visible_witness:
  "map col_Name (t_Columns (case fst (LoadTable (snd (ApplyDDL (Some ((zero_ddl_spec DDLCreateTable)\<lparr>
      d_Schema := ''app'', d_Table := ''Logs'', d_FullyProjected := True,
      d_Columns := [zero_column_spec\<lparr>c_Name := ''id''\<rparr>]\<rparr>))
      (NewRequestCacheWithCaseMode users_source True))) ''app'' ''logs'') of Inr t \<Rightarrow> t)) = [''id'']"
proof -
  let ?d = "(zero_ddl_spec DDLCreateTable)\<lparr>d_Schema := ''app'', d_Table := ''Logs'', d_FullyProjected := True,
      d_Columns := [zero_column_spec\<lparr>c_Name := ''id''\<rparr>]\<rparr>"
  let ?p = "NewRequestCacheWithCaseMode users_source True"
  have "tableKey ?p ''app'' ''logs'' = tableKey ?p (d_Schema ?d) (d_Table ?d)"
    by (simp add: tableKey_def normalize_def NewRequestCacheWithCaseMode_def zero_defs go_defs)
  then show ?thesis using ApplyDDL_create_visible [of ?d ?p "''app''" "''logs''"]
    by (simp add: zero_defs)
qed

text \<open>
  After an admitted DROP TABLE or DROP VIEW, every listed table reads as not found, so a later
  statement that uses it is rejected.
\<close>

theorem ApplyDDL_drop_visible:
  assumes "d_FullyProjected d" and "\<not> d_Noop d" and "d_Action d \<in> {DDLDropTable, DDLDropView}"
    and "r \<in> set (d_Tables d)"
  shows "fst (LoadTable (snd (ApplyDDL (Some d) p)) (defaultSchema (tr_Schema r) (d_Schema d)) (tr_Name r)) =
    Inl ErrMetadataNotFound"
  using assms drop_tables_gone [OF assms(4)] by (auto simp: ApplyDDL_def)

theorem ApplyDDL_drop_visible_witness:
  "fst (LoadTable (snd (ApplyDDL (Some ((zero_ddl_spec DDLDropTable)\<lparr>d_Schema := ''app'', d_FullyProjected := True,
      d_Tables := [\<lparr> tr_Schema = [], tr_Name = ''users'', tr_Alias = [] \<rparr>]\<rparr>)) (NewRequestCache users_source)))
     ''app'' ''users'') = Inl ErrMetadataNotFound"
  using ApplyDDL_drop_visible [of "(zero_ddl_spec DDLDropTable)\<lparr>d_Schema := ''app'', d_FullyProjected := True,
      d_Tables := [\<lparr> tr_Schema = [], tr_Name = ''users'', tr_Alias = [] \<rparr>]\<rparr>"
      "\<lparr> tr_Schema = [], tr_Name = ''users'', tr_Alias = [] \<rparr>" "NewRequestCache users_source"]
  by (simp add: zero_defs defaultSchema_def)

text \<open>
  An admitted RENAME TABLE pair moves the table: the new name reads the old structure under its
  new name, and the old name, when it is another one, reads as not found.
\<close>

theorem ApplyDDL_rename_visible:
  assumes "d_FullyProjected d" and "\<not> d_Noop d" and "d_Action d = DDLRenameTable"
    and "d_RenamePairs d = [pair]" and "ApplyDDL (Some d) p = (None, p')"
    and "fs = defaultSchema (tr_Schema (rp_From pair)) (d_Schema d)"
    and "ts = defaultSchema (tr_Schema (rp_To pair)) fs"
  shows "\<exists>t. fst (LoadTable p fs (tr_Name (rp_From pair))) = Inr t \<and>
      fst (LoadTable p' ts (tr_Name (rp_To pair))) = Inr (t\<lparr>t_Schema := ts, t_Name := tr_Name (rp_To pair)\<rparr>) \<and>
      (tableKey p ts (tr_Name (rp_To pair)) \<noteq> tableKey p fs (tr_Name (rp_From pair)) \<longrightarrow>
         fst (LoadTable p' fs (tr_Name (rp_From pair))) = Inl ErrMetadataNotFound)"
proof (rule renameLoaded_moves [OF _ assms(6,7)])
  show "renameLoaded (rp_From pair) (rp_To pair) (d_Schema d) p = (None, p')"
    using assms(1-5) by (auto simp: ApplyDDL_def split: prod.splits option.splits)
qed

definition rename_users :: ddl_spec where
  "rename_users = (zero_ddl_spec DDLRenameTable)\<lparr>d_Schema := ''app'', d_FullyProjected := True,
     d_RenamePairs := [\<lparr> rp_From = \<lparr> tr_Schema = [], tr_Name = ''users'', tr_Alias = [] \<rparr>,
       rp_To = \<lparr> tr_Schema = [], tr_Name = ''people'', tr_Alias = [] \<rparr> \<rparr>]\<rparr>"

theorem ApplyDDL_rename_visible_witness:
  "fst (LoadTable (snd (ApplyDDL (Some rename_users) (NewRequestCache users_source))) ''app'' ''users'') =
     Inl ErrMetadataNotFound"
proof -
  let ?p = "NewRequestCache users_source"
  have "fst (ApplyDDL (Some rename_users) ?p) = None"
    by (simp add: ApplyDDL_def rename_users_def zero_ddl_spec_def renameLoaded_def defaultSchema_def
        LoadTable_def NewRequestCache_def NewRequestCacheWithCaseMode_def users_source_def Let_def)
  then obtain p' where run: "ApplyDDL (Some rename_users) ?p = (None, p')" by (metis prod.collapse)
  from ApplyDDL_rename_visible [OF _ _ _ _ run refl refl] run show ?thesis
    by (auto simp: rename_users_def zero_ddl_spec_def defaultSchema_def tableKey_def normalize_def
        NewRequestCache_def NewRequestCacheWithCaseMode_def)
qed

text \<open>
  An admitted ALTER TABLE, CREATE INDEX or DROP INDEX replaces the table in the view by the
  altered one, under the name it has afterwards.
\<close>

theorem ApplyDDL_alter_visible:
  assumes "d_FullyProjected d" and "\<not> d_Noop d" and "d_Action d \<in> {DDLCreateIndex, DDLDropIndex, DDLAlterTable}"
    and "fst (LoadTable p (d_Schema d) (d_Table d)) = Inr t" and "applyTableDDL d t = Inr t'"
    and "ApplyDDL (Some d) p = (err, p')"
  shows "err = None \<and> fst (LoadTable p' (t_Schema t') (t_Name t')) = Inr t'"
proof -
  have "alter_loaded d p = (err, p')" using assms(1-3,6) by (auto simp: ApplyDDL_def)
  from alter_loaded_visible [OF assms(4,5) this] show ?thesis by simp
qed

theorem ApplyDDL_alter_visible_witness:
  "fst (LoadTable (snd (ApplyDDL (Some (alter_users [alter_op AlterDropColumn ''ID'' [] [],
      alter_op AlterRenameColumn ''name'' ''label'' []])) (NewRequestCache users_source)))
     (t_Schema users_altered) (t_Name users_altered)) = Inr users_altered"
proof -
  let ?d = "alter_users [alter_op AlterDropColumn ''ID'' [] [], alter_op AlterRenameColumn ''name'' ''label'' []]"
  let ?p = "NewRequestCache users_source"
  have load: "fst (LoadTable ?p (d_Schema ?d) (d_Table ?d)) = Inr users_table"
    by (simp add: LoadTable_def NewRequestCache_def NewRequestCacheWithCaseMode_def users_source_def Let_def
        alter_users_def zero_ddl_spec_def)
  from ApplyDDL_alter_visible [OF _ _ _ load users_altered_run surjective_pairing] show ?thesis
    by (simp add: alter_users_def zero_ddl_spec_def)
qed

text \<open>
  \<open>PrepareDDL\<close> never mutates the snapshot: every table entry stays what it was, no schema entry
  changes, and the only additions are answers of the server.
\<close>

theorem PrepareDDL_reads_only:
  assumes "PrepareDDL spec p = Returns (err, spec', p')"
  shows "pv_tables p \<subseteq>\<^sub>m pv_tables p' \<and> pv_schemas p' = pv_schemas p"
  using PrepareDDL_extends [OF assms] by (simp add: extends_def)

theorem PrepareDDL_reads_only_witness:
  "\<exists>p'. PrepareDDL (Some rename_users) (NewRequestCache users_source) = Returns (None, Some rename_users, p') \<and>
     pv_schemas p' = Map.empty"
proof -
  let ?p = "NewRequestCache users_source"
  have "\<exists>p'. PrepareDDL (Some rename_users) ?p = Returns (None, Some rename_users, p')"
    by (simp add: PrepareDDL_def rename_users_def zero_ddl_spec_def affectedTables_def defaultSchema_def
        LoadTable_def NewRequestCache_def NewRequestCacheWithCaseMode_def users_source_def Let_def tableKey_def
        normalize_def)
  then obtain p' where run: "PrepareDDL (Some rename_users) ?p = Returns (None, Some rename_users, p')" ..
  with PrepareDDL_reads_only [OF run] show ?thesis
    by (simp add: NewRequestCache_def NewRequestCacheWithCaseMode_def)
qed

text \<open>
  CHANGE COLUMN does not look its new name up: renaming a column to the name of another one is
  accepted, and leaves two columns of the same name in the view.
\<close>

theorem change_column_duplicates:
  "\<exists>t'. applyTableDDL (alter_users [alter_op AlterChangeColumn ''id'' []
       [zero_column_spec\<lparr>c_Name := ''name'', c_Type := ''bigint''\<rparr>]]) users_table = Inr t' \<and>
     map col_Name (t_Columns t') = [''name'', ''Name''] \<and> \<not> columns_wf t'"
  by (simp add: applyTableDDL_def apply_alter_def findColumn_def renameColumnInIndexes_def columns_wf_def
      col_key_def mergeColumnSpec_def snapshot_example)

definition two_tables :: metadata_source where
  "two_tables = users_source\<lparr>src_LoadTable := (\<lambda>s t.
     if s = ''app'' \<and> t \<in> {''a'', ''b''} then Inr (zero_table_meta\<lparr>t_Schema := s, t_Name := t, t_Comment := t\<rparr>)
     else Inl ErrMetadataNotFound)\<rparr>"

abbreviation app_table :: "string \<Rightarrow> table_ref" where
  "app_table n \<equiv> \<lparr> tr_Schema = ''app'', tr_Name = n, tr_Alias = [] \<rparr>"

definition swap_tables :: ddl_spec where
  "swap_tables = (zero_ddl_spec DDLRenameTable)\<lparr>d_Schema := ''app'', d_FullyProjected := True,
     d_RenamePairs := [\<lparr> rp_From = app_table ''a'', rp_To = app_table ''tmp'' \<rparr>,
       \<lparr> rp_From = app_table ''b'', rp_To = app_table ''a'' \<rparr>,
       \<lparr> rp_From = app_table ''tmp'', rp_To = app_table ''b'' \<rparr>]\<rparr>"

text \<open>
  The swap \<^verbatim>\<open>RENAME TABLE a TO tmp, b TO a, tmp TO b\<close>, which MySQL runs pair by pair from
  left to right, is refused: \<open>PrepareDDL\<close> looks every target up before the statement. \<open>ApplyDDL\<close>,
  which does go pair by pair, would replay it without an error and exchange the two tables.
\<close>

theorem swap_rename_refused:
  "(case PrepareDDL (Some swap_tables) (NewRequestCache two_tables) of
      Returns (err, _, _) \<Rightarrow> err = Some (errorf ''rename target app.a already exists'') | _ \<Rightarrow> False) \<and>
   fst (ApplyDDL (Some swap_tables) (NewRequestCache two_tables)) = None \<and>
   map_sum id t_Comment (fst (LoadTable (snd (ApplyDDL (Some swap_tables) (NewRequestCache two_tables))) ''app'' ''a'')) =
     Inr ''b'' \<and>
   map_sum id t_Comment (fst (LoadTable (snd (ApplyDDL (Some swap_tables) (NewRequestCache two_tables))) ''app'' ''b'')) =
     Inr ''a''"
  by (simp add: PrepareDDL_def ApplyDDL_def swap_tables_def zero_ddl_spec_def two_tables_def users_source_def
      defaultSchema_def LoadTable_def NewRequestCache_def NewRequestCacheWithCaseMode_def Let_def tableKey_def
      normalize_def renameLoaded_def RenameTable_def PutTable_def DeleteTable_def zero_table_meta_def)

end
