(* ===== verification/RulesDdl.thy ===== *)
theory RulesDdl
  imports Catalog Snapshot
begin

text \<open>
  The audit context of \<^verbatim>\<open>internal/audit/audit.go\<close> and the rules of
  \<^verbatim>\<open>internal/audit/rules/core.go\<close>, \<^verbatim>\<open>ddl_create_table.go\<close> and \<^verbatim>\<open>ddl_safety.go\<close>.

  A rule maps a context and a statement to its issues, in the order the code appends them, and the
  context it leaves: rules read metadata through the request cache, and one counts the ALTER
  statements it has seen. The metadata provider of a context is never nil, since
  \<^verbatim>\<open>Session.Audit\<close>, the only place that builds one, installs the cache. The locale
  \<open>audit_rule\<close> states what every rule promises to the engine.
\<close>

section \<open>Context and issues\<close>

record audit_context =
  a_Request :: request_options
  a_Database :: string
  a_Metadata :: provider
  a_Policy :: policy
  a_Server :: server_info
  a_SeenAlterTables :: "string \<rightharpoonup> int"

type_synonym rule = "audit_context \<Rightarrow> statement \<Rightarrow> audit_issue list \<times> audit_context"

definition levelIssue :: "statement \<Rightarrow> string \<Rightarrow> severity \<Rightarrow> string \<Rightarrow> audit_issue" where
  "levelIssue s code level msg = \<lparr> iss_RuleID = code, iss_LegacyKey = [], iss_Code = 0,
     iss_Level = level, iss_Message = msg, iss_Sequence = s_Sequence s \<rparr>"

definition errorIssue :: "statement \<Rightarrow> string \<Rightarrow> string \<Rightarrow> audit_issue" where
  "errorIssue s code msg = levelIssue s code SeverityError msg"

text \<open>The closure \<^verbatim>\<open>add\<close> of the rules, and the helper \<^verbatim>\<open>issue\<close>: the level is the policy's.\<close>

definition policyIssue :: "audit_context \<Rightarrow> statement \<Rightarrow> string \<Rightarrow> string \<Rightarrow> audit_issue" where
  "policyIssue a s code msg = levelIssue s code (Level (a_Policy a) code) msg"

definition issue :: "audit_context \<Rightarrow> statement \<Rightarrow> string \<Rightarrow> string \<Rightarrow> audit_issue list" where
  "issue a s code msg = [policyIssue a s code msg]"

definition report :: "bool \<Rightarrow> 'a \<Rightarrow> 'a list" where
  "report c x = (if c then [x] else [])"

section \<open>core.go\<close>

definition KnownStatement_Check :: rule where
  "KnownStatement_Check a s =
     (report (\<not> s_Supported s) (errorIssue s RuleUnknownStatement
        ''the statement is not supported by the current goInception Plus audit projection''), a)"

section \<open>ddl\_create\_table.go\<close>

text \<open>\<^verbatim>\<open>appliesToCreateTable\<close>: the projection the rule looks at, if it applies.\<close>

definition appliesToCreateTable :: "statement \<Rightarrow> ddl_spec option" where
  "appliesToCreateTable s = (if s_Kind s = StatementCreateTable then s_DDL s else None)"

definition RequirePrimaryKey_Check :: rule where
  "RequirePrimaryKey_Check a s =
     (case appliesToCreateTable s of
        None \<Rightarrow> ([], a)
      | Some d \<Rightarrow>
          if \<not> p_CheckPrimaryKey (a_Policy a) \<or> d_HasPrimaryKey d then ([], a)
          else (issue a s RuleTableMustHavePK
            (''Table '' @ [CHR 0x27] @ d_Table d @ [CHR 0x27] @ '' must have a primary key.''), a))"

definition RequireTableComment_Check :: rule where
  "RequireTableComment_Check a s =
     (case appliesToCreateTable s of
        None \<Rightarrow> ([], a)
      | Some d \<Rightarrow>
          if \<not> p_CheckTableComment (a_Policy a) \<or> d_HasComment d then ([], a)
          else (issue a s RuleTableMustComment
            (''Table '' @ [CHR 0x27] @ d_Table d @ [CHR 0x27] @ '' must have a comment.''), a))"

definition RequireColumnComments_Check :: rule where
  "RequireColumnComments_Check a s =
     (case appliesToCreateTable s of
        None \<Rightarrow> ([], a)
      | Some d \<Rightarrow>
          if \<not> p_CheckColumnComment (a_Policy a) then ([], a)
          else
            let missing = map c_Name (filter (\<lambda>c. \<not> c_HasComment c) (d_Columns d)) in
            if length missing = 0 then ([], a)
            else (issue a s RuleColumnMustComment
              (''Columns must have comments: '' @ strings_Join missing '', '' @ ''.''), a))"

definition LimitColumnCount_Check :: rule where
  "LimitColumnCount_Check a s =
     (let limit = p_MaxColumnCount (a_Policy a) in
      case appliesToCreateTable s of
        None \<Rightarrow> ([], a)
      | Some d \<Rightarrow>
          if limit \<le> 0 \<or> int (length (d_Columns d)) \<le> limit then ([], a)
          else (issue a s RuleMaxColumnCount
            (''Table '' @ [CHR 0x27] @ d_Table d @ [CHR 0x27] @ '' has too many columns (limit '' @
             strconv_Itoa limit @ '', current '' @ strconv_Itoa (int (length (d_Columns d))) @ '').''), a))"

section \<open>ddl\_safety.go\<close>

definition hasExpressionIndex :: "ddl_spec \<Rightarrow> bool" where
  "hasExpressionIndex d \<longleftrightarrow>
     list_ex (\<lambda>i. length (i_Expressions i) > 0) (d_Indexes d) \<or>
     list_ex (\<lambda>op. case op_Index op of None \<Rightarrow> False | Some i \<Rightarrow> length (i_Expressions i) > 0)
       (d_AlterOperations d)"

text \<open>
  One component of the version: the digits between the outermost digits must be a number, else the
  component stays 0.
\<close>

definition version_part :: "string \<Rightarrow> int" where
  "version_part part =
     (case strconv_Atoi (strings_TrimRightFunc (\<lambda>c. \<not> is_digit c)
             (strings_TrimLeftFunc (\<lambda>c. \<not> is_digit c) part)) of
        (n, ok) \<Rightarrow> if ok then n else 0)"

fun lex_less :: "int list \<Rightarrow> int list \<Rightarrow> bool" where
  "lex_less (x # xs) (y # ys) = (if x \<noteq> y then x < y else lex_less xs ys)"
| "lex_less _ _ = False"

definition versionLessThan :: "string \<Rightarrow> int \<Rightarrow> int \<Rightarrow> int \<Rightarrow> bool" where
  "versionLessThan value major minor patch =
     (let parts = strings_SplitN value CHR ''.'' 4 in
      if length parts < 2 then False
      else let vals = map (\<lambda>i. if i < length parts then version_part (parts ! i) else 0) [0, 1, 2] in
        lex_less vals [major, minor, patch])"

text \<open>The loops over columns and indexes; \<open>seen\<close> is the map of the loop.\<close>

fun duplicate_columns :: "audit_context \<Rightarrow> statement \<Rightarrow> string set \<Rightarrow> column_spec list \<Rightarrow> audit_issue list" where
  "duplicate_columns a s seen [] = []"
| "duplicate_columns a s seen (c # cs) =
     report (strings_ToLower (c_Name c) \<in> seen)
       (policyIssue a s RuleDDLDuplicateCol (''duplicate column '' @ c_Name c))
     @ duplicate_columns a s (insert (strings_ToLower (c_Name c)) seen) cs"

fun check_index_specs ::
  "audit_context \<Rightarrow> statement \<Rightarrow> string set \<Rightarrow> string set \<Rightarrow> index_spec list \<Rightarrow> audit_issue list" where
  "check_index_specs a s columns seen [] = []"
| "check_index_specs a s columns seen (i # is) =
     report (strings_ToLower (i_Name i) \<in> seen)
       (policyIssue a s RuleDDLDuplicateIdx (''duplicate index '' @ i_Name i))
     @ concat (map (\<lambda>name. report (strings_ToLower name \<notin> columns)
         (policyIssue a s RuleDDLIndexColumn
            (''index '' @ i_Name i @ '' references missing column '' @ name))) (i_Columns i))
     @ check_index_specs a s columns (insert (strings_ToLower (i_Name i)) seen) is"

definition create_table_issues :: "audit_context \<Rightarrow> statement \<Rightarrow> ddl_spec \<Rightarrow> audit_issue list" where
  "create_table_issues a s d =
     (let required = strings_TrimSpace (p_RequiredEngine (a_Policy a));
          columns = (\<lambda>c. strings_ToLower (c_Name c)) ` set (d_Columns d) in
      report (required \<noteq> [] \<and> d_Engine d \<noteq> [] \<and> \<not> strings_EqualFold required (d_Engine d))
        (policyIssue a s RuleDDLEngine
           (''table engine must be '' @ required @ '', got '' @ d_Engine d))
      @ duplicate_columns a s {} (d_Columns d)
      @ check_index_specs a s columns {} (d_Indexes d))"

definition DDLSafety_issues :: "audit_context \<Rightarrow> statement \<Rightarrow> ddl_spec \<Rightarrow> audit_issue list" where
  "DDLSafety_issues a s d =
     (let pol = a_Policy a; version = srv_Version (a_Server a) in
      (case d_Action d of
         DDLDropDatabase \<Rightarrow> report (\<not> p_AllowDropDatabase pol)
           (policyIssue a s RuleDDLDropDatabase ''DROP DATABASE is disabled'')
       | DDLDropTable \<Rightarrow> report (\<not> p_AllowDropTable pol)
           (policyIssue a s RuleDDLDropTable ''DROP TABLE is disabled'')
       | DDLTruncateTable \<Rightarrow> report (\<not> p_AllowTruncate pol)
           (policyIssue a s RuleDDLTruncate ''TRUNCATE TABLE is disabled'')
       | _ \<Rightarrow> [])
      @ report (d_HasForeignKey d \<and> \<not> p_AllowForeignKey pol)
          (policyIssue a s RuleDDLForeignKey ''foreign keys are disabled'')
      @ report (d_Partitioned d \<and> \<not> p_AllowPartition pol)
          (policyIssue a s RuleDDLPartition ''partition tables are disabled'')
      @ (if versionLessThan version 8 0 0 then
           report (strings_HasPrefix (strings_ToLower (d_Collation d)) ''utf8mb4_0900_'')
             (policyIssue a s RuleTargetVersion ''utf8mb4_0900 collations require MySQL 8.0'')
           @ concat (map (\<lambda>op. report (op_Action op = AlterRenameColumn)
               (policyIssue a s RuleTargetVersion ''ALTER TABLE RENAME COLUMN requires MySQL 8.0''))
               (d_AlterOperations d))
         else [])
      @ report (hasExpressionIndex d \<and> versionLessThan version 8 0 13)
          (policyIssue a s RuleTargetVersion ''functional indexes require MySQL 8.0.13 or newer'')
      @ (if d_Action d \<noteq> DDLCreateTable then [] else create_table_issues a s d))"

definition DDLSafety_Check :: rule where
  "DDLSafety_Check a s =
     (case s_DDL s of None \<Rightarrow> ([], a) | Some d \<Rightarrow> (DDLSafety_issues a s d, a))"

section \<open>The contract of a rule\<close>

text \<open>
  An issue is well formed for a statement under a policy when it carries the statement's sequence
  number, a catalogued code, and either the level the policy gives that code or Error.
\<close>

definition issue_ok :: "policy \<Rightarrow> statement \<Rightarrow> audit_issue \<Rightarrow> bool" where
  "issue_ok pol s i \<longleftrightarrow> iss_Sequence i = s_Sequence s \<and> RuleByCode (iss_RuleID i) \<noteq> None \<and>
     (iss_Level i = Level pol (iss_RuleID i) \<or> iss_Level i = SeverityError)"

text \<open>What a rule may change of the context: it may load metadata and count.\<close>

definition context_step :: "audit_context \<Rightarrow> audit_context \<Rightarrow> bool" where
  "context_step a a' \<longleftrightarrow> a_Request a' = a_Request a \<and> a_Database a' = a_Database a \<and>
     a_Policy a' = a_Policy a \<and> a_Server a' = a_Server a \<and> extends (a_Metadata a) (a_Metadata a')"

lemma context_step_refl [simp]: "context_step a a"
  by (simp add: context_step_def)

lemma context_step_trans: "context_step a b \<Longrightarrow> context_step b c \<Longrightarrow> context_step a c"
  by (auto simp: context_step_def intro: extends_trans)

locale audit_rule =
  fixes check :: rule
  assumes issues_ok: "i \<in> set (fst (check a s)) \<Longrightarrow> issue_ok (a_Policy a) s i"
    and keeps_context: "context_step a (snd (check a s))"

section \<open>Facts\<close>

lemma set_report [simp]: "set (report c x) = (if c then {x} else {})"
  unfolding report_def by (cases c) simp_all

lemma issue_ok_policyIssue [simp]: "issue_ok (a_Policy a) s (policyIssue a s code msg) \<longleftrightarrow> catalogued code"
  by (simp add: issue_ok_def policyIssue_def levelIssue_def catalogued_def)

lemma issue_ok_errorIssue [simp]: "issue_ok pol s (errorIssue s code msg) \<longleftrightarrow> catalogued code"
  by (simp add: issue_ok_def errorIssue_def levelIssue_def catalogued_def)

lemma issue_ok_levelIssue: "issue_ok pol s (levelIssue s code (Level pol code) msg) \<longleftrightarrow> catalogued code"
  by (simp add: issue_ok_def levelIssue_def catalogued_def)

interpretation known_statement: audit_rule KnownStatement_Check
  by unfold_locales (auto simp: KnownStatement_Check_def split: if_splits)

interpretation primary_key: audit_rule RequirePrimaryKey_Check
  by unfold_locales (auto simp: RequirePrimaryKey_Check_def issue_def split: option.splits if_splits)

interpretation table_comment: audit_rule RequireTableComment_Check
  by unfold_locales (auto simp: RequireTableComment_Check_def issue_def split: option.splits if_splits)

interpretation column_comments: audit_rule RequireColumnComments_Check
  by unfold_locales (auto simp: RequireColumnComments_Check_def issue_def Let_def split: option.splits if_splits)

interpretation column_count: audit_rule LimitColumnCount_Check
  by unfold_locales (auto simp: LimitColumnCount_Check_def issue_def Let_def split: option.splits if_splits)

text \<open>For the longer rules, all issues at once: the collections simplify piece by piece.\<close>

lemma list_all_report [simp]: "list_all P (report c x) \<longleftrightarrow> (c \<longrightarrow> P x)"
  by (simp add: report_def)

lemma list_all_concat_map: "list_all P (concat (map f xs)) \<longleftrightarrow> (\<forall>x\<in>set xs. list_all P (f x))"
  by (auto simp: list_all_iff)

lemma duplicate_columns_ok: "list_all (issue_ok (a_Policy a) s) (duplicate_columns a s seen cs)"
  by (induction cs arbitrary: seen) simp_all

lemma check_index_specs_ok: "list_all (issue_ok (a_Policy a) s) (check_index_specs a s cols seen xs)"
  by (induction xs arbitrary: seen) (simp_all add: list_all_concat_map)

lemma create_table_issues_ok: "list_all (issue_ok (a_Policy a) s) (create_table_issues a s d)"
  by (simp add: create_table_issues_def Let_def duplicate_columns_ok check_index_specs_ok)

lemma DDLSafety_issues_ok: "list_all (issue_ok (a_Policy a) s) (DDLSafety_issues a s d)"
  by (cases "d_Action d")
     (simp_all add: DDLSafety_issues_def Let_def create_table_issues_ok list_all_concat_map)

interpretation ddl_safety: audit_rule DDLSafety_Check
  by unfold_locales (auto simp: DDLSafety_Check_def intro: DDLSafety_issues_ok [THEN list_all_iff [THEN iffD1], rule_format] split: option.splits)

section \<open>What a clean CREATE TABLE guarantees\<close>

lemma report_Nil [simp]: "report c x = [] \<longleftrightarrow> \<not> c"
  by (simp add: report_def)

lemma duplicate_columns_Nil_iff:
  "duplicate_columns a s seen cs = [] \<longleftrightarrow>
     distinct (map (\<lambda>c. strings_ToLower (c_Name c)) cs) \<and>
     seen \<inter> (\<lambda>c. strings_ToLower (c_Name c)) ` set cs = {}"
  by (induction cs arbitrary: seen) auto

lemma check_index_specs_Nil_iff:
  "check_index_specs a s cols seen xs = [] \<longleftrightarrow>
     distinct (map (\<lambda>i. strings_ToLower (i_Name i)) xs) \<and>
     seen \<inter> (\<lambda>i. strings_ToLower (i_Name i)) ` set xs = {} \<and>
     (\<forall>i\<in>set xs. \<forall>n\<in>set (i_Columns i). strings_ToLower n \<in> cols)"
  by (induction xs arbitrary: seen) auto

lemma create_table_issues_Nil_iff:
  "create_table_issues a s d = [] \<longleftrightarrow>
     \<not> (strings_TrimSpace (p_RequiredEngine (a_Policy a)) \<noteq> [] \<and> d_Engine d \<noteq> [] \<and>
        \<not> strings_EqualFold (strings_TrimSpace (p_RequiredEngine (a_Policy a))) (d_Engine d)) \<and>
     distinct (map (\<lambda>c. strings_ToLower (c_Name c)) (d_Columns d)) \<and>
     distinct (map (\<lambda>i. strings_ToLower (i_Name i)) (d_Indexes d)) \<and>
     (\<forall>i\<in>set (d_Indexes d). \<forall>n\<in>set (i_Columns i).
        strings_ToLower n \<in> (\<lambda>c. strings_ToLower (c_Name c)) ` set (d_Columns d))"
  by (simp only: create_table_issues_def Let_def duplicate_columns_Nil_iff check_index_specs_Nil_iff
      append_is_Nil_conv report_Nil Int_empty_left simp_thms)

lemma tableFromSpec_columns_wf:
  "distinct (map (\<lambda>c. strings_ToLower (c_Name c)) (d_Columns d)) \<Longrightarrow> columns_wf (tableFromSpec d)"
proof -
  have "map col_key (t_Columns (tableFromSpec d)) = map strings_ToLower (map col_Name (t_Columns (tableFromSpec d)))"
    by (simp add: col_key_def)
  also have "\<dots> = map (\<lambda>c. strings_ToLower (c_Name c)) (d_Columns d)"
    by (simp only: tableFromSpec_columns map_map comp_def)
  finally show "distinct (map (\<lambda>c. strings_ToLower (c_Name c)) (d_Columns d)) \<Longrightarrow> columns_wf (tableFromSpec d)"
    by (simp add: columns_wf_def)
qed

section \<open>Versions\<close>

lemma SplitN_dot:
  "CHR ''.'' \<notin> set x \<Longrightarrow> strings_SplitN (x @ CHR ''.'' # rest) CHR ''.'' (Suc (Suc n)) =
     x # strings_SplitN rest CHR ''.'' (Suc n)"
  by (simp add: takeWhile_append dropWhile_append)

lemma SplitN_no_dot: "CHR ''.'' \<notin> set x \<Longrightarrow> strings_SplitN x CHR ''.'' (Suc n) = [x]"
  by (cases n) simp_all

lemma SplitN_4: "strings_SplitN s sep 4 = strings_SplitN s sep (Suc (Suc (Suc (Suc 0))))"
  by (simp add: numeral_eq_Suc)

lemma digits_no_dot: "CHR ''.'' \<notin> set (nat_string n)"
  using nat_string_digits [of n] by (auto simp: is_digit_def)

lemma version_part_digits:
  assumes "n < 2 ^ 63" and "\<forall>c\<in>set suf. \<not> is_digit c"
  shows "version_part (nat_string n @ suf) = int n"
proof -
  have d: "\<forall>c\<in>set (nat_string n). is_digit c" by (rule nat_string_digits)
  have left: "strings_TrimLeftFunc (\<lambda>c. \<not> is_digit c) (nat_string n @ suf) = nat_string n @ suf"
    using d by (cases "nat_string n") (simp_all add: strings_TrimLeftFunc_def)
  have "dropWhile (\<lambda>c. \<not> is_digit c) (rev (nat_string n)) = rev (nat_string n)"
    using d last_in_set [OF nat_string_nonempty, of n] by (simp add: dropWhile_eq_self_iff hd_rev)
  then have "strings_TrimRightFunc (\<lambda>c. \<not> is_digit c) (nat_string n @ suf) = nat_string n"
    using assms(2) by (simp add: strings_TrimRightFunc_def dropWhile_append)
  moreover have "strconv_Atoi (nat_string n) = (int n, True)"
    using strconv_Atoi_Itoa [of "int n"] assms(1) by (simp add: strconv_Itoa_def)
  ultimately show ?thesis by (simp add: version_part_def left)
qed

text \<open>
  A version \<^verbatim>\<open>a.b.c\<close>, with or without a suffix that holds neither digits nor dots (such as
  \<^verbatim>\<open>-log\<close>), is compared with the wanted version as a triple of numbers, lexicographically.
\<close>

theorem versionLessThan_release:
  assumes "a < 2 ^ 63" and "b < 2 ^ 63" and "c < 2 ^ 63"
    and "\<forall>x\<in>set suf. \<not> is_digit x \<and> x \<noteq> CHR ''.''"
  shows "versionLessThan (nat_string a @ ''.'' @ nat_string b @ ''.'' @ nat_string c @ suf) x y z \<longleftrightarrow>
    int a < x \<or> int a = x \<and> (int b < y \<or> int b = y \<and> int c < z)"
proof -
  let ?v = "nat_string a @ ''.'' @ nat_string b @ ''.'' @ nat_string c @ suf"
  have "CHR ''.'' \<notin> set (nat_string c @ suf)" using assms(4) digits_no_dot by auto
  then have "strings_SplitN ?v CHR ''.'' 4 = [nat_string a, nat_string b, nat_string c @ suf]"
    by (simp only: SplitN_4 append_Cons append_Nil SplitN_dot [OF digits_no_dot] SplitN_no_dot not_False_eq_True)
  moreover have "version_part (nat_string a) = int a" "version_part (nat_string b) = int b"
    "version_part (nat_string c @ suf) = int c"
    using version_part_digits [of _ "[]"] version_part_digits [of c suf] assms by auto
  ultimately show ?thesis by (auto simp: versionLessThan_def Let_def)
qed

theorem versionLessThan_release_witness:
  "versionLessThan ''8.0.11-log'' 8 0 13 \<and> \<not> versionLessThan ''8.0.13-log'' 8 0 13 \<and> versionLessThan ''5.7.44-log'' 8 0 0"
proof -
  have lit: "nat_string 8 = ''8''" "nat_string 0 = ''0''" "nat_string 11 = ''11''" "nat_string 13 = ''13''"
    "nat_string 5 = ''5''" "nat_string 7 = ''7''" "nat_string 44 = ''44''"
    by (simp_all add: go_defs)
  have "\<forall>x\<in>set ''-log''. \<not> is_digit x \<and> x \<noteq> CHR ''.''" by (simp add: is_digit_def)
  from versionLessThan_release [OF _ _ _ this, of 8 0 11 8 0 13] versionLessThan_release [OF _ _ _ this, of 8 0 13 8 0 13]
    versionLessThan_release [OF _ _ _ this, of 5 7 44 8 0 0]
  show ?thesis by (simp add: lit)
qed

text \<open>
  A vendor suffix with digits is misread: for \<^verbatim>\<open>8.0.30-22\<close> (a Percona Server version) the
  third component is taken as 0, so the server counts as older than 8.0.13 and a statement with a
  functional index is reported although the server supports it.
\<close>

theorem vendor_suffix_misread:
  "version_part ''30-22'' = 0 \<and> versionLessThan ''8.0.30-22'' 8 0 13"
  by (simp add: versionLessThan_def version_part_def Let_def SplitN_4 go_defs)

text \<open>
  C36. A CREATE TABLE that the structural rule does not object to becomes a well-formed table of the
  schema view: its columns are distinct up to case, and every column an index names exists.
\<close>

theorem clean_create_table_wf:
  assumes "s_DDL s = Some d" and "d_Action d = DDLCreateTable" and "fst (DDLSafety_Check a s) = []"
  shows "table_wf (tableFromSpec d) \<and>
    (\<forall>i\<in>set (d_Indexes d). \<forall>n\<in>set (i_Columns i). findColumn (tableFromSpec d) n \<noteq> None)"
proof -
  have clean: "create_table_issues a s d = []"
    using assms by (simp add: DDLSafety_Check_def DDLSafety_issues_def Let_def)
  then have "table_wf (tableFromSpec d)"
    by (simp add: create_table_issues_Nil_iff table_wf_def tableFromSpec_columns_wf tableFromSpec_indexes_wf)
  moreover have "findColumn (tableFromSpec d) n \<noteq> None"
    if "i \<in> set (d_Indexes d)" "n \<in> set (i_Columns i)" for i n
  proof -
    from clean that have "strings_ToLower n \<in> strings_ToLower ` set (map c_Name (d_Columns d))"
      unfolding create_table_issues_Nil_iff by (simp add: image_image)
    then have "strings_ToLower n \<in> strings_ToLower ` set (map col_Name (t_Columns (tableFromSpec d)))"
      by (simp only: tableFromSpec_columns)
    then show ?thesis by (auto simp: findColumn_def strings_EqualFold_def)
  qed
  ultimately show ?thesis by blast
qed

definition plain_context :: "metadata_source \<Rightarrow> policy \<Rightarrow> request_options \<Rightarrow> audit_context" where
  "plain_context src pol req = \<lparr> a_Request = req, a_Database = ''app'', a_Metadata = NewRequestCache src,
     a_Policy = pol, a_Server = \<lparr> srv_Version = ''8.0.36'', srv_SQLMode = [], srv_LowerCaseTableNames = 0,
       srv_CharacterSetServer = ''utf8mb4'', srv_CollationServer = [], srv_ExplicitDefaultsForTimestamp = True \<rparr>,
     a_SeenAlterTables = Map.empty \<rparr>"

definition create_logs :: statement where
  "create_logs = (zero_statement StatementCreateTable)\<lparr>s_Sequence := 1, s_Supported := True,
     s_DDL := Some ((zero_ddl_spec DDLCreateTable)\<lparr>d_Schema := ''app'', d_Table := ''logs'', d_FullyProjected := True,
       d_Columns := [zero_column_spec\<lparr>c_Name := ''Id'', c_Type := ''bigint''\<rparr>],
       d_Indexes := [zero_index_spec\<lparr>i_Name := ''PRIMARY'', i_Columns := [''id''], i_Primary := True\<rparr>]\<rparr>)\<rparr>"

theorem clean_create_table_wf_witness:
  "findColumn (tableFromSpec (the (s_DDL create_logs))) ''id'' \<noteq> None"
proof -
  let ?a = "\<lambda>req. plain_context users_source LegacyDefaults req"
  have "fst (DDLSafety_Check (?a req) create_logs) = []" for req
    by (simp add: DDLSafety_Check_def create_logs_def zero_statement_def zero_ddl_spec_def DDLSafety_issues_def
        create_table_issues_Nil_iff Let_def hasExpressionIndex_def zero_index_spec_def zero_column_spec_def
        plain_context_def LegacyDefaults_def versionLessThan_def SplitN_4 version_part_def go_defs)
  from clean_create_table_wf [OF _ _ this] show ?thesis
    by (simp add: create_logs_def zero_statement_def zero_ddl_spec_def zero_index_spec_def)
qed

end
