(* ===== verification/RulesDml.thy ===== *)
theory RulesDml
  imports RulesDdl
begin

text \<open>
  \<^verbatim>\<open>internal/audit/rules/dml.go\<close> with the type helpers \<^verbatim>\<open>baseType\<close> and \<^verbatim>\<open>isIntegerType\<close> of
  \<^verbatim>\<open>legacy_ddl.go\<close> that it calls: the safety rule for INSERT, UPDATE, DELETE and SELECT. The
  rule loads every table of the statement through the request cache, so its loop threads the
  context.
\<close>

section \<open>Types\<close>

definition baseType :: "string \<Rightarrow> string" where
  "baseType value = takeWhile (\<lambda>c. c \<noteq> CHR '' '' \<and> c \<noteq> CHR ''('') (strings_ToLower (strings_TrimSpace value))"

definition isIntegerType :: "string \<Rightarrow> bool" where
  "isIntegerType v \<longleftrightarrow> v \<in> {''tinyint'', ''smallint'', ''mediumint'', ''int'', ''integer'', ''bigint''}"

definition implicitConversion :: "string \<Rightarrow> literal_kind \<Rightarrow> bool" where
  "implicitConversion columnType kind =
     (let base = baseType columnType;
          stringLiteral = kind \<in> {LiteralString, LiteralBinary, LiteralTemporal, LiteralDuration, LiteralJSON};
          numericLiteral = kind \<in> {LiteralSignedInteger, LiteralUnsignedInteger, LiteralFloat,
            LiteralDecimal, LiteralBoolean} in
      if kind = LiteralUnknown \<or> kind = LiteralNull then False
      else if isIntegerType base \<or> base \<in> {''decimal'', ''float'', ''double'', ''real'', ''bit''}
      then stringLiteral
      else if base \<in> {''date'', ''time'', ''datetime'', ''timestamp'', ''char'', ''binary'', ''varchar'',
          ''varbinary'', ''enum'', ''set'', ''tinyblob'', ''tinytext'', ''blob'', ''text'', ''mediumblob'',
          ''mediumtext'', ''longblob'', ''longtext'', ''json'', ''geometry''}
      then numericLiteral
      else False)"

section \<open>Columns and keys\<close>

definition hasColumn :: "table_meta \<Rightarrow> string \<Rightarrow> bool" where
  "hasColumn t n \<longleftrightarrow> list_ex (\<lambda>c. strings_EqualFold (col_Name c) n) (t_Columns t)"

text \<open>A key column is usable when the first column of that name is not nullable.\<close>

definition key_column_ok :: "table_meta \<Rightarrow> string \<Rightarrow> bool" where
  "key_column_ok t name =
     (case find (\<lambda>c. strings_EqualFold (col_Name c) name) (t_Columns t) of
        None \<Rightarrow> False | Some c \<Rightarrow> \<not> col_Nullable c)"

definition hasReliableKey :: "table_meta \<Rightarrow> bool" where
  "hasReliableKey t \<longleftrightarrow> list_ex (\<lambda>i.
     (idx_Primary i \<and> length (idx_Columns i) > 0) \<or>
     (idx_Unique i \<and> length (idx_Columns i) \<noteq> 0 \<and> list_all (key_column_ok t) (idx_Columns i)))
     (t_Indexes t)"

text \<open>
  The unqualified case of \<^verbatim>\<open>resolveComparisonColumn\<close>: every match in the referenced tables, each
  table name taken once. A name missing from the map reads as a table without columns.
\<close>

fun comparison_matches ::
  "string \<Rightarrow> (string \<rightharpoonup> table_meta) \<Rightarrow> string set \<Rightarrow> table_ref list \<Rightarrow> (column_meta \<times> string) list" where
  "comparison_matches name tables seen [] = []"
| "comparison_matches name tables seen (r # rs) =
     (let key = strings_ToLower (tr_Name r) in
      if key \<in> seen then comparison_matches name tables seen rs
      else map (\<lambda>c. (c, tr_Name r))
             (filter (\<lambda>c. strings_EqualFold (col_Name c) name)
               (case tables key of None \<Rightarrow> [] | Some t \<Rightarrow> t_Columns t))
           @ comparison_matches name tables (insert key seen) rs)"

definition resolveComparisonColumn ::
  "column_ref \<Rightarrow> table_ref list \<Rightarrow> (string \<rightharpoonup> table_meta) \<Rightarrow> (column_meta \<times> string) option" where
  "resolveComparisonColumn ref refs tables =
     (if cr_Table ref \<noteq> [] then
        (case tables (strings_ToLower (cr_Table ref)) of
           None \<Rightarrow> None
         | Some t \<Rightarrow> map_option (\<lambda>c. (c, cr_Table ref))
             (find (\<lambda>c. strings_EqualFold (col_Name c) (cr_Name ref)) (t_Columns t)))
      else (case comparison_matches (cr_Name ref) tables {} refs of
              [m] \<Rightarrow> Some m
            | _ \<Rightarrow> None))"

section \<open>The rule\<close>

abbreviation is_update_or_delete :: "statement \<Rightarrow> bool" where
  "is_update_or_delete s \<equiv> s_Kind s = StatementUpdate \<or> s_Kind s = StatementDelete"

text \<open>The checks on the statement alone.\<close>

definition dml_statement_issues :: "audit_context \<Rightarrow> statement \<Rightarrow> dml_spec \<Rightarrow> audit_issue list" where
  "dml_statement_issues a s m =
     (let pol = a_Policy a in
      report (m_UsesCTE m \<and> strings_HasPrefix (strings_TrimSpace (srv_Version (a_Server a))) ''5.7'')
        (errorIssue s RuleTargetVersion ''common table expressions require MySQL 8.0'')
      @ report (is_update_or_delete s \<and> p_RequireDMLWhere pol \<and> \<not> m_HasWhere m)
        (policyIssue a s RuleDMLRequireWhere ''UPDATE and DELETE must contain a WHERE condition'')
      @ report (p_MaxAffectedRows pol > 0 \<and> m_EstimatedRows m > p_MaxAffectedRows pol)
        (policyIssue a s RuleDMLMaxAffected (''estimated affected rows '' @ strconv_Itoa (m_EstimatedRows m) @
           '' exceed limit '' @ strconv_Itoa (p_MaxAffectedRows pol)))
      @ report (s_Kind s = StatementInsert \<and> p_MaxInsertRows pol > 0 \<and> m_ValueRows m > p_MaxInsertRows pol)
        (policyIssue a s RuleDMLMaxInsert (''INSERT rows '' @ strconv_Itoa (m_ValueRows m) @
           '' exceed limit '' @ strconv_Itoa (p_MaxInsertRows pol)))
      @ report (is_update_or_delete s \<and> p_CheckDMLLimit pol \<and> m_HasLimit m)
        (policyIssue a s RuleDMLLimit ''UPDATE and DELETE must not contain LIMIT'')
      @ report (is_update_or_delete s \<and> p_CheckDMLOrderBy pol \<and> m_HasOrderBy m)
        (policyIssue a s RuleDMLOrderBy ''UPDATE and DELETE must not contain ORDER BY'')
      @ report (m_HasJoinWithoutOn m)
        (policyIssue a s RuleDMLJoinNoOn ''JOIN must contain an ON condition'')
      @ report (s_Kind s = StatementSelect \<and> \<not> p_AllowSelectStar pol \<and> m_HasSelectStar m)
        (policyIssue a s RuleDMLSelectStar ''SELECT * is disabled'')
      @ report (s_Kind s = StatementInsert \<and> p_CheckInsertField pol \<and> length (m_Columns m) = 0)
        (policyIssue a s RuleDMLInsertField ''INSERT requires an explicit column list'')
      @ report (m_OrderByRand m)
        (policyIssue a s RuleDMLOrderByRand ''ORDER BY RAND() is disabled'')
      @ report (m_WrongAndExpr m)
        (policyIssue a s RuleDMLWrongAnd ''suspicious AND expression in assignment or predicate''))"

definition missing_column :: "statement \<Rightarrow> table_ref \<Rightarrow> string \<Rightarrow> audit_issue" where
  "missing_column s r c = errorIssue s RuleDMLTableMetadata
     (''column '' @ c @ '' does not exist in '' @ tr_Schema r @ ''.'' @ tr_Name r)"

definition needs_key :: "statement \<Rightarrow> nat \<Rightarrow> bool" where
  "needs_key s pos \<longleftrightarrow> is_update_or_delete s \<or> (s_Kind s = StatementInsert \<and> pos = 0)"

text \<open>The checks on one loaded table \<open>t\<close>, the one at position \<open>pos\<close> of the statement.\<close>

definition dml_table_issues ::
  "audit_context \<Rightarrow> statement \<Rightarrow> dml_spec \<Rightarrow> nat \<Rightarrow> table_ref \<Rightarrow> table_meta \<Rightarrow> audit_issue list" where
  "dml_table_issues a s m pos r t =
     (if pos = 0 \<and> length (m_Assignments m) = 0
      then concat (map (\<lambda>c. report (\<not> hasColumn t c) (missing_column s r c)) (m_Columns m)) else [])
     @ concat (map (\<lambda>c.
         report (\<not> (cr_Table c \<noteq> [] \<and> \<not> strings_EqualFold (cr_Table c) (tr_Name r) \<and>
                     \<not> strings_EqualFold (cr_Table c) (tr_Alias r)) \<and>
                 \<not> (cr_Schema c \<noteq> [] \<and> \<not> strings_EqualFold (cr_Schema c) (tr_Schema r)) \<and>
                 \<not> hasColumn t (cr_Name c))
           (missing_column s r (cr_Name c))) (m_Assignments m))
     @ report (opt_Backup (a_Request a) \<and> p_RequireBackupKey (a_Policy a) \<and> needs_key s pos \<and> \<not> hasReliableKey t)
         (errorIssue s RuleDMLRequireKey (''table '' @ tr_Schema r @ ''.'' @ tr_Name r @
            '' has no reliable primary or non-null unique key for ROW binlog rollback''))"

definition load_failure :: "statement \<Rightarrow> table_ref \<Rightarrow> gerror \<Rightarrow> audit_issue" where
  "load_failure s r err = errorIssue s RuleDMLTableMetadata
     (if err_NotFound err then ''table '' @ tr_Schema r @ ''.'' @ tr_Name r @ '' does not exist''
      else ''load table '' @ tr_Schema r @ ''.'' @ tr_Name r @ '': '' @ err_Error err)"

definition note_table :: "table_ref \<Rightarrow> table_meta \<Rightarrow> (string \<rightharpoonup> table_meta) \<Rightarrow> string \<rightharpoonup> table_meta" where
  "note_table r t tables =
     (let tables1 = tables(strings_ToLower (tr_Name r) \<mapsto> t) in
      if tr_Alias r \<noteq> [] then tables1(strings_ToLower (tr_Alias r) \<mapsto> t) else tables1)"

fun dml_tables ::
  "statement \<Rightarrow> dml_spec \<Rightarrow> nat \<Rightarrow> table_ref list \<Rightarrow> (string \<rightharpoonup> table_meta) \<Rightarrow> audit_context \<Rightarrow>
   audit_issue list \<times> (string \<rightharpoonup> table_meta) \<times> audit_context" where
  "dml_tables s m pos [] tables a = ([], tables, a)"
| "dml_tables s m pos (r # rs) tables a =
     (if tr_Schema r = [] then
        (case dml_tables s m (Suc pos) rs tables a of (out, tables', a') \<Rightarrow>
           (errorIssue s RuleNoDatabase ''No database selected.'' # out, tables', a'))
      else (case LoadTable (a_Metadata a) (tr_Schema r) (tr_Name r) of
        (Inl err, p) \<Rightarrow>
          (case dml_tables s m (Suc pos) rs tables (a\<lparr>a_Metadata := p\<rparr>) of (out, tables', a') \<Rightarrow>
             (load_failure s r err # out, tables', a'))
      | (Inr t, p) \<Rightarrow>
          (case dml_tables s m (Suc pos) rs (note_table r t tables) (a\<lparr>a_Metadata := p\<rparr>) of (out, tables', a') \<Rightarrow>
             (dml_table_issues a s m pos r t @ out, tables', a'))))"

definition comparison_issues ::
  "audit_context \<Rightarrow> statement \<Rightarrow> dml_spec \<Rightarrow> (string \<rightharpoonup> table_meta) \<Rightarrow> audit_issue list" where
  "comparison_issues a s m tables =
     concat (map (\<lambda>comparison.
       case resolveComparisonColumn (cmp_Column comparison) (m_Tables m) tables of
         None \<Rightarrow> []
       | Some (column, table) \<Rightarrow>
           report (implicitConversion (col_ColumnType column) (cmp_LiteralKind comparison))
             (policyIssue a s RuleDMLImplicitConversion (''implicit type conversion is not allowed for '' @
                table @ ''.'' @ col_Name column @ '' ('' @ col_ColumnType column @ '')'')))
       (m_Comparisons m))"

definition DMLSafety_Check :: rule where
  "DMLSafety_Check a s =
     (case s_DML s of
        None \<Rightarrow> ([], a)
      | Some m \<Rightarrow>
          (case dml_tables s m 0 (m_Tables m) Map.empty a of (out, tables, a') \<Rightarrow>
             (dml_statement_issues a s m @ out
              @ (if LegacyBool (a_Policy a) ''check_implicit_type_conversion''
                 then comparison_issues a s m tables else []), a')))"

section \<open>The rule keeps the contract\<close>

lemma dml_statement_issues_ok: "list_all (issue_ok (a_Policy a) s) (dml_statement_issues a s m)"
  by (simp add: dml_statement_issues_def Let_def)

lemma dml_table_issues_ok: "list_all (issue_ok pol s) (dml_table_issues a s m pos r t)"
  by (simp add: dml_table_issues_def missing_column_def list_all_concat_map)

lemma comparison_issues_ok: "list_all (issue_ok (a_Policy a) s) (comparison_issues a s m tables)"
  by (simp add: comparison_issues_def list_all_concat_map split: option.split)

lemma metadata_step: "LoadTable (a_Metadata a) x y = (r, p) \<Longrightarrow> context_step a (a\<lparr>a_Metadata := p\<rparr>)"
  by (simp add: context_step_def LoadTable_extends)

lemma dml_tables_ok:
  "dml_tables s m pos rs tables a = (out, tables', a') \<Longrightarrow>
   list_all (issue_ok pol s) out \<and> context_step a a'"
proof (induction rs arbitrary: pos tables a out)
  case (Cons r rs)
  show ?case
  proof (cases "tr_Schema r = []")
    case True
    with Cons.prems Cons.IH [of "Suc pos" tables a] show ?thesis by (auto split: prod.splits)
  next
    case False
    obtain x p where load: "LoadTable (a_Metadata a) (tr_Schema r) (tr_Name r) = (x, p)"
      by (cases "LoadTable (a_Metadata a) (tr_Schema r) (tr_Name r)")
    from metadata_step [OF load] have step: "context_step a (a\<lparr>a_Metadata := p\<rparr>)" .
    with False load Cons.prems Cons.IH [of "Suc pos" _ "a\<lparr>a_Metadata := p\<rparr>"] show ?thesis
      by (cases x) (auto simp: dml_table_issues_ok load_failure_def split: prod.splits
          intro: context_step_trans)
  qed
qed simp

interpretation dml_safety: audit_rule DMLSafety_Check
proof unfold_locales
  fix i a s
  show "context_step a (snd (DMLSafety_Check a s))"
    by (auto simp: DMLSafety_Check_def split: option.split prod.split dest: dml_tables_ok)
  assume "i \<in> set (fst (DMLSafety_Check a s))"
  moreover have "list_all (issue_ok (a_Policy a) s) (fst (DMLSafety_Check a s))"
    by (auto simp: DMLSafety_Check_def dml_statement_issues_ok comparison_issues_ok split: option.split prod.split
        dest: dml_tables_ok)
  ultimately show "issue_ok (a_Policy a) s i" by (simp add: list_all_iff)
qed

section \<open>What a clean DML statement guarantees\<close>

lemma LoadTable_caches:
  "LoadTable p x y = (Inr t, p') \<Longrightarrow> pv_tables p' (tableKey p x y) = Some (Inr t) \<and> tableKey p' = tableKey p"
  by (auto simp: LoadTable_def Let_def split: option.splits if_splits)

lemma dml_table_issues_errors: "i \<in> set (dml_table_issues a s m pos r t) \<Longrightarrow> iss_Level i = SeverityError"
  by (auto simp: dml_table_issues_def missing_column_def errorIssue_def levelIssue_def split: if_splits)

text \<open>The table reference at position \<open>k\<close> was loaded, is still in the store, and passed its checks.\<close>

definition table_passed :: "statement \<Rightarrow> dml_spec \<Rightarrow> nat \<Rightarrow> table_ref \<Rightarrow> audit_context \<Rightarrow> audit_context \<Rightarrow> bool" where
  "table_passed s m k r a a' \<longleftrightarrow> tr_Schema r \<noteq> [] \<and>
     (\<exists>t. pv_tables (a_Metadata a') (tableKey (a_Metadata a) (tr_Schema r) (tr_Name r)) = Some (Inr t) \<and>
        dml_table_issues a s m k r t = [])"

lemma table_passed_later:
  "context_step a b \<Longrightarrow> table_passed s m k r b c \<Longrightarrow> table_passed s m k r a c"
proof -
  assume step: "context_step a b"
  then have "tableKey (a_Metadata b) = tableKey (a_Metadata a)"
    using key_cong(1) [of "a_Metadata b" "a_Metadata a"] by (simp add: context_step_def extends_def)
  moreover have "dml_table_issues b s m k r t = dml_table_issues a s m k r t" for t
    using step by (simp add: dml_table_issues_def context_step_def)
  ultimately show "table_passed s m k r b c \<Longrightarrow> table_passed s m k r a c" by (simp add: table_passed_def)
qed

lemma table_passed_extends:
  "table_passed s m k r a b \<Longrightarrow> context_step b c \<Longrightarrow> table_passed s m k r a c"
  unfolding table_passed_def context_step_def extends_def map_le_def by (metis domI)

lemma dml_tables_clean:
  "dml_tables s m pos rs tables a = (out, tables', a') \<Longrightarrow> \<forall>i\<in>set out. iss_Level i \<noteq> SeverityError \<Longrightarrow>
   k < length rs \<Longrightarrow> table_passed s m (pos + k) (rs ! k) a a'"
proof (induction rs arbitrary: pos tables a out k)
  case (Cons r rs)
  have schema: "tr_Schema r \<noteq> []"
    using Cons.prems(1,2) by (auto simp: errorIssue_def levelIssue_def split: prod.splits)
  obtain x p where load: "LoadTable (a_Metadata a) (tr_Schema r) (tr_Name r) = (x, p)"
    by (cases "LoadTable (a_Metadata a) (tr_Schema r) (tr_Name r)")
  have "\<exists>t. x = Inr t"
    using Cons.prems(1,2) schema load
    by (cases x) (auto simp: load_failure_def errorIssue_def levelIssue_def split: prod.splits)
  then obtain t where x: "x = Inr t" ..
  let ?b = "a\<lparr>a_Metadata := p\<rparr>"
  obtain out' where rest: "dml_tables s m (Suc pos) rs (note_table r t tables) ?b = (out', tables', a')"
    and out: "out = dml_table_issues a s m pos r t @ out'"
    using Cons.prems(1) schema load x by (auto split: prod.splits)
  have head: "dml_table_issues a s m pos r t = []"
    using Cons.prems(2) dml_table_issues_errors [of _ a s m pos r t] out
    by (cases "dml_table_issues a s m pos r t") auto
  show ?case
  proof (cases k)
    case 0
    from load x have "table_passed s m pos r a ?b"
      using LoadTable_caches [of "a_Metadata a"] schema head by (auto simp: table_passed_def)
    from table_passed_extends [OF this] dml_tables_ok [OF rest] 0 show ?thesis by simp
  next
    case (Suc j)
    with Cons.IH [OF rest, of j] Cons.prems(2,3) out have "table_passed s m (Suc pos + j) (rs ! j) ?b a'" by simp
    from table_passed_later [OF metadata_step [OF load] this] Suc show ?thesis by simp
  qed
qed simp

lemma column_checks:
  assumes "dml_table_issues a s m 0 r t = []" and "m_Assignments m = []" and "c \<in> set (m_Columns m)"
  shows "hasColumn t c"
  using assms by (auto simp: dml_table_issues_def)

lemma key_check:
  "dml_table_issues a s m k r t = [] \<Longrightarrow> opt_Backup (a_Request a) \<Longrightarrow> p_RequireBackupKey (a_Policy a) \<Longrightarrow>
   needs_key s k \<Longrightarrow> hasReliableKey t"
  by (auto simp: dml_table_issues_def)

text \<open>
  C37. A DML statement that the rule lets pass (no Error issue) names only tables that have a schema
  and exist in the view; an UPDATE or DELETE with backup only touches tables with a reliable key.
\<close>

theorem DMLSafety_clean:
  assumes "s_DML s = Some m" and "DMLSafety_Check a s = (out, a')"
    and "\<forall>i\<in>set out. iss_Level i \<noteq> SeverityError" and "r \<in> set (m_Tables m)"
  shows "tr_Schema r \<noteq> [] \<and>
    (\<exists>t. pv_tables (a_Metadata a') (tableKey (a_Metadata a) (tr_Schema r) (tr_Name r)) = Some (Inr t) \<and>
       (opt_Backup (a_Request a) \<and> p_RequireBackupKey (a_Policy a) \<and>
        (s_Kind s = StatementUpdate \<or> s_Kind s = StatementDelete) \<longrightarrow> hasReliableKey t))"
proof -
  obtain out' tables b where run0: "dml_tables s m 0 (m_Tables m) Map.empty a = (out', tables, b)"
    by (metis prod_cases3)
  with assms(1,2) have "b = a'" and sub: "set out' \<subseteq> set out" by (auto simp: DMLSafety_Check_def)
  with run0 have run: "dml_tables s m 0 (m_Tables m) Map.empty a = (out', tables, a')" by simp
  obtain k where k: "k < length (m_Tables m)" "m_Tables m ! k = r"
    using assms(4) by (auto simp: in_set_conv_nth)
  with dml_tables_clean [OF run _ k(1)] assms(3) sub have "table_passed s m k r a a'" by auto
  then obtain t where "tr_Schema r \<noteq> []"
    "pv_tables (a_Metadata a') (tableKey (a_Metadata a) (tr_Schema r) (tr_Name r)) = Some (Inr t)"
    "dml_table_issues a s m k r t = []" by (auto simp: table_passed_def)
  with key_check [of a s m k r t] show ?thesis by (auto simp: needs_key_def)
qed

definition sample_backup :: request_options where
  "sample_backup = \<lparr> opt_Target = \<lparr> tgt_Host = ''db1'', tgt_Port = 3306, tgt_User = ''root'',
       tgt_Password = [], tgt_Database = ''app'', tgt_SQLMode = [], tgt_Version = [], tgt_SQLSafeUpdates = 0,
       tgt_LockWaitTimeout = 0, tgt_DefaultCharset = [] \<rparr>,
     opt_Check = True, opt_Execute = True, opt_Backup = True, opt_IgnoreWarnings = False,
     opt_SleepMillis = 0, opt_SleepRows = 0, opt_TraceID = [] \<rparr>"

definition delete_users :: "bool \<Rightarrow> statement" where
  "delete_users hasWhere = (zero_statement StatementDelete)\<lparr>s_Sequence := 1, s_Supported := True, s_Database := ''app'',
     s_DML := Some (zero_dml_spec\<lparr>m_Tables := [app_table ''users''], m_HasWhere := hasWhere, m_FullyProjected := True\<rparr>)\<rparr>"

lemma delete_users_run:
  "\<exists>a'. DMLSafety_Check (plain_context users_source LegacyDefaults req) (delete_users True) = ([], a')"
  by (simp add: DMLSafety_Check_def delete_users_def zero_statement_def zero_dml_spec_def plain_context_def
      LoadTable_def NewRequestCache_def NewRequestCacheWithCaseMode_def users_source_def Let_def LegacyDefaults_def
      dml_table_issues_def dml_statement_issues_def LegacyBool_def LegacyString_def hasReliableKey_def users_table_def
      zero_index_meta_def zero_column_meta_def zero_table_meta_def report_def)

theorem DMLSafety_clean_witness:
  "\<exists>a' t. DMLSafety_Check (plain_context users_source LegacyDefaults sample_backup) (delete_users True) = ([], a') \<and>
     pv_tables (a_Metadata a') (tableKey (NewRequestCache users_source) ''app'' ''users'') = Some (Inr t) \<and> hasReliableKey t"
proof -
  let ?a = "plain_context users_source LegacyDefaults sample_backup"
  obtain a' where run: "DMLSafety_Check ?a (delete_users True) = ([], a')" using delete_users_run by blast
  have "s_DML (delete_users True) = Some (the (s_DML (delete_users True)))"
    "app_table ''users'' \<in> set (m_Tables (the (s_DML (delete_users True))))"
    by (simp_all add: delete_users_def zero_statement_def zero_dml_spec_def)
  from DMLSafety_clean [OF this(1) run _ this(2)] run show ?thesis
    by (auto simp: plain_context_def LegacyDefaults_def sample_backup_def delete_users_def zero_statement_def)
qed

lemma where_issue:
  assumes "s_DML s = Some m" and "is_update_or_delete s"
    and "p_RequireDMLWhere (a_Policy a)" and "\<not> m_HasWhere m"
  shows "policyIssue a s RuleDMLRequireWhere ''UPDATE and DELETE must contain a WHERE condition'' \<in>
    set (fst (DMLSafety_Check a s))"
proof -
  have "policyIssue a s RuleDMLRequireWhere ''UPDATE and DELETE must contain a WHERE condition'' \<in>
      set (dml_statement_issues a s m)" using assms by (simp add: dml_statement_issues_def Let_def)
  then show ?thesis using assms(1) by (auto simp: DMLSafety_Check_def split: prod.split)
qed

text \<open>
  An UPDATE or DELETE without a WHERE condition is reported, at the level the policy gives the
  rule, whenever the policy requires WHERE.
\<close>

theorem DMLSafety_requires_where:
  assumes "s_DML s = Some m" and "s_Kind s = StatementUpdate \<or> s_Kind s = StatementDelete"
    and "p_RequireDMLWhere (a_Policy a)" and "\<not> m_HasWhere m"
  shows "\<exists>i\<in>set (fst (DMLSafety_Check a s)). iss_RuleID i = RuleDMLRequireWhere \<and>
    iss_Level i = Level (a_Policy a) RuleDMLRequireWhere \<and> iss_Sequence i = s_Sequence s"
  using where_issue [OF assms] by (rule bexI [rotated]) (simp add: policyIssue_def levelIssue_def)

theorem DMLSafety_requires_where_witness:
  "\<exists>i\<in>set (fst (DMLSafety_Check (plain_context users_source LegacyDefaults sample_backup) (delete_users False))).
     iss_RuleID i = RuleDMLRequireWhere \<and> iss_Level i = SeverityError"
proof -
  let ?a = "plain_context users_source LegacyDefaults sample_backup"
  have "Level LegacyDefaults RuleDMLRequireWhere = SeverityError" by code_simp
  with DMLSafety_requires_where [of "delete_users False" "the (s_DML (delete_users False))" ?a] show ?thesis
    by (auto simp: delete_users_def zero_statement_def zero_dml_spec_def plain_context_def LegacyDefaults_def)
qed

end
