(* ===== verification/SqlText.thy ===== *)
theory SqlText
  imports GoPrelude
begin

text \<open>
  How the generated SQL text is read back. The server writes SQL by concatenation, in the rollback
  generator, the execution engine, the backup store and the metadata provider. \<open>sql_lex\<close> is the
  reading of such a text by MySQL's lexer in its default mode (backslash escapes, double quotes are not
  identifiers), for the tokens these texts use. The relation \<open>lexes\<close> composes: a text that lexes
  to some tokens does so in every context that continues with a delimiter. The locale
  \<open>identifier_quoter\<close> is the contract of the four functions that quote an identifier.
\<close>

section \<open>Tokens\<close>

datatype token =
    TIdent string
  | TString string
  | THex string
  | TWord string
  | TPunct char

text \<open>The escape sequences of a MySQL string literal, without the backslash.\<close>

definition unescape :: "char \<Rightarrow> string" where
  "unescape c =
     (if c = CHR ''0'' then [CHR 0x00] else if c = CHR ''b'' then [CHR 0x08]
      else if c = CHR ''n'' then [CHR 0x0A] else if c = CHR ''r'' then [CHR 0x0D]
      else if c = CHR ''t'' then [CHR 0x09] else if c = CHR ''Z'' then [CHR 0x1A]
      else if c = CHR ''%'' \<or> c = CHR ''_'' then [CHR 0x5C, c] else [c])"

fun read_quoted :: "char \<Rightarrow> bool \<Rightarrow> string \<Rightarrow> (string \<times> string) option" where
  "read_quoted q esc [] = None"
| "read_quoted q esc [c] = (if c = q then Some ([], []) else None)"
| "read_quoted q esc (c # d # cs) =
     (if c = q then
        (if d = q then map_option (apfst (Cons q)) (read_quoted q esc cs) else Some ([], d # cs))
      else if esc \<and> c = CHR 0x5C then map_option (apfst ((@) (unescape d))) (read_quoted q esc cs)
      else map_option (apfst (Cons c)) (read_quoted q esc (d # cs)))"

definition hex_value :: "char \<Rightarrow> nat option" where
  "hex_value c =
     (if is_digit c then Some (byte_val c - 48)
      else if 65 \<le> byte_val c \<and> byte_val c \<le> 70 then Some (byte_val c - 55)
      else if 97 \<le> byte_val c \<and> byte_val c \<le> 102 then Some (byte_val c - 87) else None)"

fun read_hex :: "string \<Rightarrow> (string \<times> string) option" where
  "read_hex (c # d # cs) =
     (if c = CHR 0x27 then Some ([], d # cs)
      else (case (hex_value c, hex_value d) of
        (Some h, Some l) \<Rightarrow> map_option (apfst (Cons (char_of (16 * h + l)))) (read_hex cs)
      | _ \<Rightarrow> None))"
| "read_hex [c] = (if c = CHR 0x27 then Some ([], []) else None)"
| "read_hex [] = None"

definition is_word :: "char \<Rightarrow> bool" where
  "is_word c \<longleftrightarrow> is_letter c \<or> is_digit c \<or> c = CHR ''_'' \<or> c = CHR ''.'' \<or> c = CHR ''-'' \<or> c = CHR ''+''"

lemma read_quoted_shorter: "read_quoted q esc s = Some (v, rest) \<Longrightarrow> length rest < length s"
  by (induction q esc s arbitrary: v rest rule: read_quoted.induct) (fastforce split: if_splits)+

lemma read_hex_shorter: "read_hex s = Some (v, rest) \<Longrightarrow> length rest < length s"
  by (induction s arbitrary: v rest rule: read_hex.induct) (fastforce split: if_splits option.splits)+

function sql_lex :: "string \<Rightarrow> token list option" where
  "sql_lex [] = Some []"
| "sql_lex (c # cs) =
     (if is_space c then sql_lex cs
      else if c = CHR 0x60 then
        (case read_quoted c False cs of None \<Rightarrow> None | Some (v, rest) \<Rightarrow> map_option (Cons (TIdent v)) (sql_lex rest))
      else if c = CHR 0x27 then
        (case read_quoted c True cs of None \<Rightarrow> None | Some (v, rest) \<Rightarrow> map_option (Cons (TString v)) (sql_lex rest))
      else if c = CHR ''X'' \<and> (\<exists>ds. cs = CHR 0x27 # ds) then
        (case read_hex (tl cs) of None \<Rightarrow> None | Some (v, rest) \<Rightarrow> map_option (Cons (THex v)) (sql_lex rest))
      else if is_word c \<and> c \<noteq> CHR ''.'' then
        map_option (Cons (TWord (c # takeWhile is_word cs))) (sql_lex (dropWhile is_word cs))
      else map_option (Cons (TPunct c)) (sql_lex cs))"
  by pat_completeness auto

termination sql_lex
  by (relation "measure length")
    (auto simp: le_imp_less_Suc length_dropWhile_le dest!: read_quoted_shorter read_hex_shorter)

declare sql_lex.simps [simp del]

section \<open>Composition\<close>

text \<open>A delimiter ends every token; the text of a token is read the same whatever follows the delimiter.\<close>

definition delimiter :: "char \<Rightarrow> bool" where
  "delimiter c \<longleftrightarrow> c \<in> {CHR '' '', CHR '','', CHR '')'', CHR ''('', CHR ''='', CHR '';''}"

definition stops :: "string \<Rightarrow> bool" where
  "stops s \<longleftrightarrow> (case s of [] \<Rightarrow> True | c # _ \<Rightarrow> delimiter c)"

definition lexes :: "string \<Rightarrow> token list \<Rightarrow> bool" where
  "lexes s ts \<longleftrightarrow> (\<forall>rest. stops rest \<longrightarrow> sql_lex (s @ rest) = map_option ((@) ts) (sql_lex rest))"

lemma stops_simps [simp]: "stops []" "stops (c # s) \<longleftrightarrow> delimiter c"
  by (simp_all add: stops_def)

lemma delimiter_simps [simp]:
  "delimiter CHR '' ''" "delimiter CHR '',''" "delimiter CHR '')''" "delimiter CHR ''(''" "delimiter CHR ''=''"
  "delimiter CHR '';''" "\<not> delimiter CHR 0x60" "\<not> delimiter CHR 0x27" "\<not> delimiter CHR ''.''"
  by (simp_all add: delimiter_def)

lemma delimiter_word: "delimiter c \<Longrightarrow> \<not> is_word c"
  by (auto simp: delimiter_def is_word_def is_letter_def is_digit_def)

lemma lexesD: "lexes s ts \<Longrightarrow> sql_lex s = Some ts"
  by (auto simp: lexes_def sql_lex.simps dest: spec [of _ "[]"])

lemma map_option_append: "map_option ((@) xs) (map_option ((@) ys) m) = map_option ((@) (xs @ ys)) m"
  by (cases m) simp_all

lemma map_option_prefix [simp]:
  "map_option ((@) []) m = m"
  "map_option ((@) (x # xs)) m = map_option (Cons x) (map_option ((@) xs) m)"
  by (cases m; simp)+

lemma lexes_Nil [simp, intro]: "lexes [] []"
  by (simp add: lexes_def)

lemma lexes_append:
  assumes "lexes a ts" and "lexes b us" and "stops b"
  shows "lexes (a @ b) (ts @ us)"
  unfolding lexes_def
proof (intro allI impI)
  fix rest assume "stops rest"
  then have "stops (b @ rest)" using assms(3) by (cases b) simp_all
  with assms(1,2) \<open>stops rest\<close> show "sql_lex ((a @ b) @ rest) = map_option ((@) (ts @ us)) (sql_lex rest)"
    by (simp add: lexes_def map_option_append)
qed

lemma lexes_space: "lexes b us \<Longrightarrow> lexes (CHR '' '' # b) us"
  by (simp add: lexes_def sql_lex.simps(2) is_space_def)

lemma sql_lex_delimiter:
  assumes "delimiter c" and "c \<noteq> CHR '' ''"
  shows "sql_lex (c # cs) = map_option (Cons (TPunct c)) (sql_lex cs)"
proof -
  have "\<not> is_space c \<and> c \<noteq> CHR 0x60 \<and> c \<noteq> CHR 0x27 \<and> c \<noteq> CHR ''X''"
    using assms by (auto simp: delimiter_def is_space_def)
  with delimiter_word [OF assms(1)] show ?thesis by (simp add: sql_lex.simps(2))
qed

lemma lexes_punct: "delimiter c \<Longrightarrow> c \<noteq> CHR '' '' \<Longrightarrow> lexes b us \<Longrightarrow> lexes (c # b) (TPunct c # us)"
  by (simp add: lexes_def sql_lex_delimiter)

lemma stops_word: "stops rest \<Longrightarrow> takeWhile is_word rest = [] \<and> dropWhile is_word rest = rest"
  by (cases rest) (simp_all add: delimiter_word)

lemma takeWhile_stops:
  "list_all is_word w \<Longrightarrow> stops rest \<Longrightarrow> takeWhile is_word (w @ rest) = w \<and> dropWhile is_word (w @ rest) = rest"
  by (induction w) (simp_all add: stops_word)

lemma lexes_word:
  assumes "w \<noteq> []" "list_all is_word w" "hd w \<noteq> CHR ''.''"
  shows "lexes w [TWord w]"
proof -
  obtain c cs where w: "w = c # cs" using assms(1) by (cases w) auto
  have c: "\<not> is_space c" "c \<noteq> CHR 0x60" "c \<noteq> CHR 0x27" "is_word c" "c \<noteq> CHR ''.''"
    using assms w by (auto simp: is_word_def is_space_def is_letter_def is_digit_def)
  have quote: "\<not> is_word CHR 0x27" by (simp add: is_word_def is_letter_def is_digit_def)
  show ?thesis unfolding lexes_def
  proof (intro allI impI)
    fix rest assume stop: "stops rest"
    have "\<nexists>ds. cs @ rest = CHR 0x27 # ds"
      using assms(2) w stop quote by (cases cs) (auto simp: stops_def split: list.splits)
    then show "sql_lex (w @ rest) = map_option ((@) [TWord w]) (sql_lex rest)"
      using c w takeWhile_stops [of cs rest] assms(2) stop by (simp add: sql_lex.simps(2))
  qed
qed

section \<open>String and hexadecimal literals\<close>

lemma read_quoted_end: "rest = [] \<or> hd rest \<noteq> q \<Longrightarrow> read_quoted q esc (q # rest) = Some ([], rest)"
  by (cases rest) auto

lemma stops_not: "stops rest \<Longrightarrow> \<not> delimiter q \<Longrightarrow> rest = [] \<or> hd rest \<noteq> q"
  by (cases rest) auto

lemma read_quoted_plain:
  "rest = [] \<or> hd rest \<noteq> q \<Longrightarrow> \<not> esc \<or> CHR 0x5C \<notin> set v \<Longrightarrow>
   read_quoted q esc (strings_ReplaceAll v q [q, q] @ q # rest) = Some (v, rest)"
proof (induction v)
  case Nil
  then show ?case by (simp add: strings_ReplaceAll_def read_quoted_end)
next
  case (Cons c cs)
  obtain d ds where tail: "strings_ReplaceAll cs q [q, q] @ q # rest = d # ds"
    by (cases "strings_ReplaceAll cs q [q, q]") auto
  from Cons tail show ?case by (auto simp: strings_ReplaceAll_def)
qed


lemma read_quoted_escaped:
  "rest = [] \<or> hd rest \<noteq> q \<Longrightarrow> q \<noteq> CHR 0x5C \<Longrightarrow>
   read_quoted q True (strings_ReplaceAll (strings_ReplaceAll v (CHR 0x5C) [CHR 0x5C, CHR 0x5C]) q [q, q] @ q # rest) = Some (v, rest)"
proof (induction v)
  case Nil
  then show ?case by (simp add: strings_ReplaceAll_def read_quoted_end)
next
  case (Cons c cs)
  let ?tail = "strings_ReplaceAll (strings_ReplaceAll cs (CHR 0x5C) [CHR 0x5C, CHR 0x5C]) q [q, q] @ q # rest"
  obtain d ds where tail: "?tail = d # ds" by (cases "?tail") auto
  have "unescape CHR 0x5C = [CHR 0x5C]" by (simp add: unescape_def)
  with Cons tail show ?case by (auto simp: strings_ReplaceAll_def)
qed

lemma lexes_quoted_string:
  "CHR 0x5C \<notin> set v \<Longrightarrow> lexes ([CHR 0x27] @ strings_ReplaceAll v (CHR 0x27) [CHR 0x27, CHR 0x27] @ [CHR 0x27]) [TString v]"
  by (simp add: lexes_def sql_lex.simps(2) is_space_def read_quoted_plain stops_not)

lemma lexes_escaped_string:
  "lexes ([CHR 0x27] @ strings_ReplaceAll (strings_ReplaceAll v (CHR 0x5C) [CHR 0x5C, CHR 0x5C]) (CHR 0x27) [CHR 0x27, CHR 0x27]
     @ [CHR 0x27]) [TString v]"
  by (simp add: lexes_def sql_lex.simps(2) is_space_def read_quoted_escaped stops_not)

lemma hex_digit_upper: "d < 16 \<Longrightarrow> hex_value (upper_byte (hex_digit d)) = Some d \<and> upper_byte (hex_digit d) \<noteq> CHR 0x27"
  by (auto simp: hex_digit_def digit_char_def upper_byte_def hex_value_def is_digit_def dest!: arg_cong [where f = byte_val])

section \<open>Identifiers\<close>

text \<open>
  The contract of a function that quotes an identifier: what it writes is read back as that
  identifier, unless a backtick follows.
\<close>

locale identifier_quoter =
  fixes q :: "string \<Rightarrow> string"
  assumes starts: "\<exists>cs. q v = CHR 0x60 # cs"
    and read_back: "rest = [] \<or> hd rest \<noteq> CHR 0x60 \<Longrightarrow> read_quoted CHR 0x60 False (tl (q v) @ rest) = Some (v, rest)"
begin

lemma sql_lex_quoted: "rest = [] \<or> hd rest \<noteq> CHR 0x60 \<Longrightarrow> sql_lex (q v @ rest) = map_option (Cons (TIdent v)) (sql_lex rest)"
  using starts [of v] read_back [of rest v] by (auto simp: sql_lex.simps(2) is_space_def)

lemma lexes_quoted: "lexes (q v) [TIdent v]"
  by (simp add: lexes_def sql_lex_quoted stops_not)

lemma lexes_qualified: "lexes (q s @ ''.'' @ q t) [TIdent s, TPunct CHR ''.'', TIdent t]"
proof -
  have "sql_lex (''.'' @ x) = map_option (Cons (TPunct CHR ''.'')) (sql_lex x)" for x
    by (simp add: sql_lex.simps(2) is_space_def)
  then have dot: "sql_lex (CHR ''.'' # x) = map_option (Cons (TPunct CHR ''.'')) (sql_lex x)" for x by simp
  show ?thesis
    by (auto simp: lexes_def sql_lex_quoted stops_not dot)
qed

lemma quoted_inject: "q v = q w \<Longrightarrow> v = w"
  by (drule arg_cong [where f = sql_lex], unfold lexesD [OF lexes_quoted]) simp

lemma qualified_inject: "q s @ ''.'' @ q t = q s' @ ''.'' @ q t' \<Longrightarrow> s = s' \<and> t = t'"
  by (drule arg_cong [where f = sql_lex], unfold lexesD [OF lexes_qualified]) simp

end

text \<open>All four quoting functions are this one text.\<close>

definition backquoted :: "string \<Rightarrow> string" where
  "backquoted v = [CHR 0x60] @ strings_ReplaceAll v (CHR 0x60) [CHR 0x60, CHR 0x60] @ [CHR 0x60]"

lemma backquoted_quoter: "identifier_quoter backquoted"
  by unfold_locales (simp_all add: backquoted_def read_quoted_plain)

section \<open>Lists of items\<close>

fun join_tokens :: "token list \<Rightarrow> token list list \<Rightarrow> token list" where
  "join_tokens sep [] = []"
| "join_tokens sep [x] = x"
| "join_tokens sep (x # y # ys) = x @ sep @ join_tokens sep (y # ys)"

lemma lexes_join:
  assumes sep: "\<And>b us. lexes b us \<Longrightarrow> lexes (sep @ b) (seps @ us)" "\<And>b. stops (sep @ b)"
    and items: "list_all2 lexes xs tss"
  shows "lexes (strings_Join xs sep) (join_tokens seps tss)"
  using items
proof (induction xs arbitrary: tss)
  case (Cons x xs)
  then obtain ts tss' where tss: "tss = ts # tss'" "lexes x ts" "list_all2 lexes xs tss'" by (auto simp: list_all2_Cons1)
  show ?case
  proof (cases xs)
    case (Cons y ys)
    with tss obtain us uss where "tss' = us # uss" by (auto simp: list_all2_Cons1)
    with Cons tss Cons.IH show ?thesis by (auto intro!: lexes_append sep)
  qed (use tss in simp)
qed simp

end
