(* ===== verification/Rollback.thy ===== *)
theory Rollback
  imports RulesDml SqlText
begin

text \<open>
  The rollback SQL of row changes, \<^verbatim>\<open>internal/rollback/generator.go\<close>, and the data of
  \<^verbatim>\<open>internal/backup/backup.go\<close>. A row image is a list of Go values of dynamic type
  (\<^verbatim>\<open>[]any\<close>): the datatype \<open>go_value\<close> has one constructor per case of the type switch, integers at
  their width. A float carries its two renderings, \<^verbatim>\<open>FormatFloat(x, 'g', -1, bits)\<close> and
  \<^verbatim>\<open>fmt.Sprint(x)\<close>; a value of any other type its \<^verbatim>\<open>fmt.Sprint\<close> text.
\<close>

section \<open>Row changes and backup operations\<close>

datatype change_type = ChangeInsert | ChangeUpdate | ChangeDelete | ChangeOther string

record go_time =
  tm_year :: nat
  tm_month :: nat
  tm_day :: nat
  tm_hour :: nat
  tm_min :: nat
  tm_sec :: nat
  tm_nsec :: nat
  tm_String :: string

datatype go_value =
    VNil
  | VBytes string
  | VString string
  | VTime go_time
  | VBool bool
  | VInt "64 word" | VInt8 "8 word" | VInt16 "16 word" | VInt32 "32 word" | VInt64 "64 word"
  | VUint "64 word" | VUint8 "8 word" | VUint16 "16 word" | VUint32 "32 word" | VUint64 "64 word"
  | VFloat32 string string
  | VFloat64 string string
  | VOther string

record row_change =
  ch_Sequence :: int
  ch_Type :: change_type
  ch_Table :: table_meta
  ch_Before :: "go_value list"
  ch_After :: "go_value list"

record backup_target =
  bt_Host :: string
  bt_Port :: "16 word"
  bt_User :: string
  bt_Password :: string

record binlog_position =
  bp_File :: string
  bp_Position :: "32 word"

record rollback_record =
  rb_Schema :: string
  rb_Table :: string
  rb_SQL :: string

record operation =
  bo_OPID :: string
  bo_Statement :: statement
  bo_Source :: target_options
  bo_Start :: binlog_position
  bo_End :: binlog_position
  bo_ThreadID :: "32 word"
  bo_Schema :: string
  bo_Table :: string
  bo_Rollbacks :: "rollback_record list"

section \<open>Literals\<close>

definition quoteIdent :: "string \<Rightarrow> string" where
  "quoteIdent v = [CHR 0x60] @ strings_ReplaceAll v (CHR 0x60) [CHR 0x60, CHR 0x60] @ [CHR 0x60]"

text \<open>\<^verbatim>\<open>hex.EncodeToString\<close>.\<close>

definition hex_EncodeToString :: "string \<Rightarrow> string" where
  "hex_EncodeToString b = concat (map (\<lambda>c. [hex_digit (byte_val c div 16), hex_digit (byte_val c mod 16)]) b)"

definition hex_literal :: "string \<Rightarrow> string" where
  "hex_literal b = ''X'' @ [CHR 0x27] @ strings_ToUpper (hex_EncodeToString b) @ [CHR 0x27]"

text \<open>
  \<^verbatim>\<open>Time.Format("2006-01-02 15:04:05.999999")\<close>: zero-padded fields; the fraction is cut to six digits,
  its trailing zeros removed, and the point with them when nothing is left.
\<close>

definition pad_digits :: "nat \<Rightarrow> nat \<Rightarrow> string" where
  "pad_digits w n = replicate (w - length (nat_string n)) CHR ''0'' @ nat_string n"

definition time_fraction :: "nat \<Rightarrow> string" where
  "time_fraction nsec =
     (let digits = strings_TrimRightFunc (\<lambda>c. c = CHR ''0'') (pad_digits 6 (nsec div 1000)) in
      if digits = [] then [] else ''.'' @ digits)"

definition time_Format :: "go_time \<Rightarrow> string" where
  "time_Format t = pad_digits 4 (tm_year t) @ ''-'' @ pad_digits 2 (tm_month t) @ ''-'' @ pad_digits 2 (tm_day t)
     @ '' '' @ pad_digits 2 (tm_hour t) @ '':'' @ pad_digits 2 (tm_min t) @ '':'' @ pad_digits 2 (tm_sec t)
     @ time_fraction (tm_nsec t)"

definition single_quoted :: "string \<Rightarrow> string" where
  "single_quoted s = [CHR 0x27] @ strings_ReplaceAll s (CHR 0x27) [CHR 0x27, CHR 0x27] @ [CHR 0x27]"

fun literal :: "go_value \<Rightarrow> string" where
  "literal VNil = ''NULL''"
| "literal (VBytes b) = hex_literal b"
| "literal (VString s) = single_quoted (strings_ReplaceAll s (CHR 0x5C) [CHR 0x5C, CHR 0x5C])"
| "literal (VTime t) = [CHR 0x27] @ time_Format t @ [CHR 0x27]"
| "literal (VBool b) = (if b then ''1'' else ''0'')"
| "literal (VInt w) = strconv_Itoa (sint w)"
| "literal (VInt8 w) = strconv_Itoa (sint w)"
| "literal (VInt16 w) = strconv_Itoa (sint w)"
| "literal (VInt32 w) = strconv_Itoa (sint w)"
| "literal (VInt64 w) = strconv_Itoa (sint w)"
| "literal (VUint w) = nat_string (unat w)"
| "literal (VUint8 w) = nat_string (unat w)"
| "literal (VUint16 w) = nat_string (unat w)"
| "literal (VUint32 w) = nat_string (unat w)"
| "literal (VUint64 w) = nat_string (unat w)"
| "literal (VFloat32 g v) = g"
| "literal (VFloat64 g v) = g"
| "literal (VOther s) = single_quoted s"

text \<open>\<^verbatim>\<open>fmt.Sprint\<close> of one value.\<close>

fun fmt_Sprint :: "go_value \<Rightarrow> string" where
  "fmt_Sprint VNil = ''<nil>''"
| "fmt_Sprint (VBytes b) = ''['' @ strings_Join (map (\<lambda>c. nat_string (byte_val c)) b) '' '' @ '']''"
| "fmt_Sprint (VString s) = s"
| "fmt_Sprint (VTime t) = tm_String t"
| "fmt_Sprint (VBool b) = strconv_FormatBool b"
| "fmt_Sprint (VFloat32 g v) = v"
| "fmt_Sprint (VFloat64 g v) = v"
| "fmt_Sprint (VOther s) = s"
| "fmt_Sprint v = literal v"

definition binary_kind :: "string \<Rightarrow> bool" where
  "binary_kind kind \<longleftrightarrow> strings_Contains kind ''binary'' \<or> strings_Contains kind ''blob'' \<or> strings_HasPrefix kind ''bit''"

definition decimal_kind :: "string \<Rightarrow> bool" where
  "decimal_kind kind \<longleftrightarrow> strings_Contains kind ''decimal'' \<or> strings_Contains kind ''numeric''"

definition float_kind :: "string \<Rightarrow> bool" where
  "float_kind kind \<longleftrightarrow> strings_Contains kind ''float'' \<or> strings_Contains kind ''double''"

definition literalColumn :: "column_meta \<Rightarrow> go_value \<Rightarrow> string" where
  "literalColumn column v =
     (if v = VNil then ''NULL''
      else
        let kind = strings_ToLower (col_ColumnType column); isBinary = binary_kind kind in
        case v of
          VBytes b \<Rightarrow>
            if isBinary then hex_literal b
            else if decimal_kind kind \<or> float_kind kind then b
            else literal (VString b)
        | VString s \<Rightarrow>
            if isBinary then hex_literal s
            else if decimal_kind kind then fmt_Sprint v
            else literal v
        | _ \<Rightarrow> if decimal_kind kind then fmt_Sprint v else literal v)"

section \<open>Statements\<close>

definition nonNullIndex :: "table_meta \<Rightarrow> index_meta \<Rightarrow> bool" where
  "nonNullIndex t index \<longleftrightarrow> idx_Columns index \<noteq> [] \<and>
     list_all (\<lambda>name. case find (\<lambda>c. strings_EqualFold (col_Name c) name) (t_Columns t) of
                        None \<Rightarrow> False | Some column \<Rightarrow> \<not> col_Nullable column) (idx_Columns index)"

definition row_key :: "table_meta \<Rightarrow> index_meta option" where
  "row_key t =
     (case find idx_Primary (t_Indexes t) of
        Some key \<Rightarrow> Some key
      | None \<Rightarrow> find (\<lambda>i. idx_Unique i \<and> nonNullIndex t i) (t_Indexes t))"

definition key_part :: "table_meta \<Rightarrow> go_value list \<Rightarrow> string \<Rightarrow> gerror + string" where
  "key_part t row name =
     (case find_pos (\<lambda>c. strings_EqualFold (col_Name c) name) (t_Columns t) of
        None \<Rightarrow> Inl (errorf (''key column '' @ name @ '' is absent from FULL row image''))
      | Some pos \<Rightarrow>
          if pos \<ge> length row then Inl (errorf (''key column '' @ name @ '' is absent from FULL row image''))
          else if row ! pos = VNil then Inr (quoteIdent name @ '' IS NULL'')
          else Inr (quoteIdent name @ ''='' @ literalColumn (t_Columns t ! pos) (row ! pos)))"

definition keyWhere :: "table_meta \<Rightarrow> go_value list \<Rightarrow> gerror + string" where
  "keyWhere t row =
     (case row_key t of
        None \<Rightarrow> Inl (errorf ''no reliable primary or unique key'')
      | Some key \<Rightarrow>
          if idx_Columns key = [] then Inl (errorf ''no reliable primary or unique key'')
          else sum_bind (for_each (\<lambda>name parts. sum_bind (key_part t row name) (\<lambda>p. Inr (parts @ [p]))) (idx_Columns key) [])
            (\<lambda>parts. Inr (strings_Join parts '' AND '')))"

definition insertSQL :: "table_meta \<Rightarrow> go_value list \<Rightarrow> gerror + string" where
  "insertSQL t row =
     (if length row \<noteq> length (t_Columns t) then Inl (errorf ''row image column count mismatch'')
      else
        let cols = map (\<lambda>c. quoteIdent (col_Name c)) (t_Columns t);
            vals = map2 literalColumn (t_Columns t) row in
        Inr (''INSERT INTO '' @ quoteIdent (t_Schema t) @ ''.'' @ quoteIdent (t_Name t) @
          '' ('' @ strings_Join cols '','' @ '') VALUES ('' @ strings_Join vals '','' @ '');''))"

definition deleteSQL :: "table_meta \<Rightarrow> go_value list \<Rightarrow> gerror + string" where
  "deleteSQL t row =
     sum_bind (keyWhere t row) (\<lambda>cond.
       Inr (''DELETE FROM '' @ quoteIdent (t_Schema t) @ ''.'' @ quoteIdent (t_Name t) @
         '' WHERE '' @ cond @ '' LIMIT 1;''))"

definition updateSQL :: "table_meta \<Rightarrow> go_value list \<Rightarrow> go_value list \<Rightarrow> gerror + string" where
  "updateSQL t before after =
     (if length before \<noteq> length (t_Columns t) \<or> length after \<noteq> length (t_Columns t)
      then Inl (errorf ''row image column count mismatch'')
      else
        let sets = map2 (\<lambda>c v. quoteIdent (col_Name c) @ ''='' @ literalColumn c v) (t_Columns t) before in
        sum_bind (keyWhere t after) (\<lambda>cond.
          Inr (''UPDATE '' @ quoteIdent (t_Schema t) @ ''.'' @ quoteIdent (t_Name t) @
            '' SET '' @ strings_Join sets '','' @ '' WHERE '' @ cond @ '' LIMIT 1;'')))"

definition Generate :: "row_change \<Rightarrow> gerror + string" where
  "Generate change =
     (if t_Columns (ch_Table change) = [] then Inl (errorf ''table metadata has no columns'')
      else (case ch_Type change of
        ChangeInsert \<Rightarrow> deleteSQL (ch_Table change) (ch_After change)
      | ChangeDelete \<Rightarrow> insertSQL (ch_Table change) (ch_Before change)
      | ChangeUpdate \<Rightarrow> updateSQL (ch_Table change) (ch_Before change) (ch_After change)
      | ChangeOther s \<Rightarrow> Inl (errorf (''unsupported row change '' @ strconv_Quote s))))"

section \<open>Identifiers and literals are read back\<close>

interpretation row_ident: identifier_quoter quoteIdent
  using backquoted_quoter unfolding backquoted_def [abs_def] quoteIdent_def [abs_def] .

lemma read_hex_encoded:
  "read_hex (strings_ToUpper (hex_EncodeToString b) @ CHR 0x27 # rest) = Some (b, rest)"
proof (induction b)
  case Nil
  then show ?case by (cases rest) (simp_all add: strings_ToUpper_def hex_EncodeToString_def)
next
  case (Cons c cs)
  have "byte_val c div 16 < 16" "byte_val c mod 16 < 16"
    using less_mult_imp_div_less [of "byte_val c" 16 16] by simp_all
  note this [THEN hex_digit_upper]
  moreover have "char_of (16 * (byte_val c div 16) + byte_val c mod 16 :: nat) = c" by simp
  ultimately show ?case using Cons by (simp add: strings_ToUpper_def hex_EncodeToString_def)
qed

lemma lexes_hex: "lexes (hex_literal b) [THex b]"
  by (simp add: lexes_def hex_literal_def sql_lex.simps(2) is_space_def read_hex_encoded)

lemma single_quoted_escaped:
  "lexes (single_quoted (strings_ReplaceAll s (CHR 0x5C) [CHR 0x5C, CHR 0x5C])) [TString s]"
  unfolding single_quoted_def by (rule lexes_escaped_string)

lemma single_quoted_plain: "CHR 0x5C \<notin> set s \<Longrightarrow> lexes (single_quoted s) [TString s]"
  unfolding single_quoted_def by (rule lexes_quoted_string)

end
