(* ===== verification/Capture.thy ===== *)
theory Capture
  imports Rollback
begin

text \<open>
  Capturing the row changes of one statement from the binary log,
  \<^verbatim>\<open>internal/backup/binlogmysql/capture.go\<close>. The replication client (package go-mysql) is a parameter:
  \<open>binlog_library\<close> has the functions of it that the code calls. A stream delivers finitely many
  events before the read deadline; \<open>bs_Error\<close> is the error of the call after the last one.
\<close>

section \<open>Binlog positions\<close>

text \<open>
  The result of a query: the column names and the rows, each of which may fail to be read.
\<close>

record query_rows =
  qr_columns :: "gerror + string list"
  qr_rows :: "(gerror + go_value list) list"

definition asString :: "go_value \<Rightarrow> string" where
  "asString v = (case v of VBytes b \<Rightarrow> b | VString s \<Rightarrow> s | _ \<Rightarrow> fmt_Sprint v)"

text \<open>
  \<^verbatim>\<open>fmt.Sscan\<close> of a decimal \<^verbatim>\<open>uint32\<close>: leading space is skipped, the digits are read, what follows is
  left. (The base prefixes that \<^verbatim>\<open>Sscan\<close> also accepts are not written by the server.)
\<close>

definition Sscan_uint32 :: "string \<Rightarrow> gerror + 32 word" where
  "Sscan_uint32 text =
     (let tok = takeWhile is_digit (dropWhile is_space text) in
      if dropWhile is_space text = [] then Inl (errorf ''unexpected EOF'')
      else if tok = [] then Inl (errorf ''expected integer'')
      else (case strconv_ParseUint tok 32 of
        NumOk n \<Rightarrow> Inr (of_nat n)
      | _ \<Rightarrow> Inl (errorf (''unsigned integer overflow on token '' @ tok))))"

text \<open>The verb \<^verbatim>\<open>%T\<close> on the types a driver returns.\<close>

definition go_type_name :: "go_value \<Rightarrow> string" where
  "go_type_name v =
     (case v of VNil \<Rightarrow> ''<nil>'' | VTime _ \<Rightarrow> ''time.Time'' | VBool _ \<Rightarrow> ''bool'' | VFloat64 _ _ \<Rightarrow> ''float64''
      | VFloat32 _ _ \<Rightarrow> ''float32'' | VInt _ \<Rightarrow> ''int'' | VInt8 _ \<Rightarrow> ''int8'' | VInt16 _ \<Rightarrow> ''int16'' | VInt32 _ \<Rightarrow> ''int32''
      | VUint _ \<Rightarrow> ''uint'' | VUint8 _ \<Rightarrow> ''uint8'' | VUint16 _ \<Rightarrow> ''uint16'' | VUint32 _ \<Rightarrow> ''uint32'' | _ \<Rightarrow> ''other'')"

definition scan_position :: "go_value \<Rightarrow> gerror + 32 word" where
  "scan_position v =
     (case v of
        VInt64 w \<Rightarrow> Inr (ucast w)
      | VUint64 w \<Rightarrow> Inr (ucast w)
      | VBytes b \<Rightarrow> Sscan_uint32 b
      | VString s \<Rightarrow> Sscan_uint32 s
      | _ \<Rightarrow> Inl (errorf (''unsupported binlog position type '' @ go_type_name v)))"

definition MasterPosition :: "gerror + query_rows \<Rightarrow> gerror + binlog_position" where
  "MasterPosition query =
     sum_bind query (\<lambda>rows.
     sum_bind (qr_columns rows) (\<lambda>cols.
       case qr_rows rows of
         [] \<Rightarrow> Inl (errorf ''SHOW MASTER STATUS returned no row'')
       | row # _ \<Rightarrow> sum_bind row (\<lambda>vals.
           if length vals < 2
           then Inl (errorf (''SHOW MASTER STATUS returned '' @ nat_string (length vals) @ '' columns''))
           else sum_bind (scan_position (vals ! 1)) (\<lambda>pos.
             Inr \<lparr> bp_File = asString (vals ! 0), bp_Position = pos \<rparr>))))"

text \<open>\<^verbatim>\<open>Validate\<close>: the argument is the row of \<^verbatim>\<open>SELECT @@log_bin, UPPER(@@binlog_format), UPPER(@@binlog_row_image)\<close>.\<close>

definition Validate :: "gerror + (string \<times> string \<times> string) \<Rightarrow> gerror option" where
  "Validate query =
     (case query of
        Inl err \<Rightarrow> Some (wrapf ''read binlog prerequisites: '' err)
      | Inr (enabled, format, rowImage) \<Rightarrow>
          if enabled \<noteq> ''1'' \<and> \<not> strings_EqualFold enabled ''ON'' then Some (errorf ''log_bin must be ON'')
          else if format \<noteq> ''ROW'' then Some (errorf ''binlog_format must be ROW'')
          else if rowImage \<noteq> ''FULL'' then Some (errorf ''binlog_row_image must be FULL'')
          else None)"

section \<open>Events\<close>

record rows_event =
  re_Table :: "(string \<times> string) option"
  re_ColumnCount :: "64 word"
  re_Rows :: "go_value list list"

datatype event_type =
    ROTATE_EVENT | QUERY_EVENT | XID_EVENT | WRITE_ROWS_EVENT | DELETE_ROWS_EVENT | UPDATE_ROWS_EVENT | OTHER_EVENT

datatype event_body = RotateBody string "64 word" | QueryBody "32 word" | RowsBody rows_event | OtherBody

record binlog_event =
  ev_LogPos :: "32 word"
  ev_Type :: event_type
  ev_Body :: event_body

record binlog_stream =
  bs_Events :: "binlog_event list"
  bs_Error :: gerror

record binlog_library =
  lib_Rand :: "gerror + 32 word"
  lib_StartSync :: "32 word \<Rightarrow> binlog_position \<Rightarrow> gerror + binlog_stream"
  lib_Compare :: "binlog_position \<Rightarrow> binlog_position \<Rightarrow> int"
  lib_String :: "binlog_position \<Rightarrow> string"

fun update_changes :: "table_meta \<Rightarrow> go_value list list \<Rightarrow> row_change list" where
  "update_changes meta (b # a # rows) =
     \<lparr> ch_Sequence = 0, ch_Type = ChangeUpdate, ch_Table = meta, ch_Before = b, ch_After = a \<rparr> # update_changes meta rows"
| "update_changes meta _ = []"

definition rowChanges ::
  "(string \<Rightarrow> string \<Rightarrow> gerror + table_meta) \<Rightarrow> change_type \<Rightarrow> rows_event \<Rightarrow> gerror + row_change list" where
  "rowChanges load kind e =
     (case re_Table e of
        None \<Rightarrow> Inl (errorf ''row event has no TABLE_MAP'')
      | Some (schema, table) \<Rightarrow>
          (case load schema table of
             Inl err \<Rightarrow> Inl (wrapf (''load row event metadata '' @ schema @ ''.'' @ table @ '': '') err)
           | Inr meta \<Rightarrow>
               if of_nat (length (t_Columns meta)) \<noteq> re_ColumnCount e
               then Inl (errorf (''FULL row image mismatch for '' @ schema @ ''.'' @ table @ '': metadata='' @
                      nat_string (length (t_Columns meta)) @ '' binlog='' @ nat_string (unat (re_ColumnCount e))))
               else if kind = ChangeUpdate then
                 (if length (re_Rows e) mod 2 \<noteq> 0 then Inl (errorf ''UPDATE row image has odd row count'')
                  else Inr (update_changes meta (re_Rows e)))
               else Inr (map (\<lambda>row. \<lparr> ch_Sequence = 0, ch_Type = kind, ch_Table = meta,
                      ch_Before = (if kind = ChangeInsert then [] else row),
                      ch_After = (if kind = ChangeInsert then row else []) \<rparr>) (re_Rows e))))"

section \<open>Collecting\<close>

record collect_state =
  cs_current :: binlog_position
  cs_thread :: "32 word"
  cs_changes :: "row_change list"

definition advance :: "binlog_event \<Rightarrow> collect_state \<Rightarrow> collect_state" where
  "advance e st =
     (let st1 = (if ev_LogPos e > 0 then st\<lparr>cs_current := (cs_current st)\<lparr>bp_Position := ev_LogPos e\<rparr>\<rparr> else st) in
      case (ev_Type e, ev_Body e) of
        (ROTATE_EVENT, RotateBody name pos) \<Rightarrow> st1\<lparr>cs_current := \<lparr> bp_File = name, bp_Position = ucast pos \<rparr>\<rparr>
      | _ \<Rightarrow> st1)"

definition collect_rows ::
  "(string \<Rightarrow> string \<Rightarrow> gerror + table_meta) \<Rightarrow> 32 word \<Rightarrow> change_type \<Rightarrow> event_body \<Rightarrow> collect_state \<Rightarrow> gerror + collect_state" where
  "collect_rows load threadID kind body st =
     (if cs_thread st = threadID
      then (case body of
        RowsBody re \<Rightarrow> sum_bind (rowChanges load kind re) (\<lambda>v. Inr (st\<lparr>cs_changes := cs_changes st @ v\<rparr>))
      | _ \<Rightarrow> Inr st)
      else Inr st)"

definition collect_event ::
  "(string \<Rightarrow> string \<Rightarrow> gerror + table_meta) \<Rightarrow> 32 word \<Rightarrow> binlog_event \<Rightarrow> collect_state \<Rightarrow> gerror + collect_state" where
  "collect_event load threadID e st0 =
     (let st = advance e st0 in
      case ev_Type e of
        QUERY_EVENT \<Rightarrow> Inr (case ev_Body e of QueryBody proxy \<Rightarrow> st\<lparr>cs_thread := proxy\<rparr> | _ \<Rightarrow> st)
      | XID_EVENT \<Rightarrow> Inr (st\<lparr>cs_thread := 0\<rparr>)
      | WRITE_ROWS_EVENT \<Rightarrow> collect_rows load threadID ChangeInsert (ev_Body e) st
      | DELETE_ROWS_EVENT \<Rightarrow> collect_rows load threadID ChangeDelete (ev_Body e) st
      | UPDATE_ROWS_EVENT \<Rightarrow> collect_rows load threadID ChangeUpdate (ev_Body e) st
      | _ \<Rightarrow> Inr st)"

fun collect_loop ::
  "binlog_library \<Rightarrow> (string \<Rightarrow> string \<Rightarrow> gerror + table_meta) \<Rightarrow> binlog_position \<Rightarrow> 32 word \<Rightarrow> gerror \<Rightarrow>
   binlog_event list \<Rightarrow> collect_state \<Rightarrow> gerror + collect_state" where
  "collect_loop lib load stop threadID err [] st =
     Inl (wrapf (''read binlog event at '' @ lib_String lib (cs_current st) @ '': '') err)"
| "collect_loop lib load stop threadID err (e # es) st =
     sum_bind (collect_event load threadID e st) (\<lambda>st'.
       if lib_Compare lib (cs_current st') stop \<ge> 0 then Inr st'
       else collect_loop lib load stop threadID err es st')"

definition Collect_changes ::
  "binlog_library \<Rightarrow> (string \<Rightarrow> string \<Rightarrow> gerror + table_meta) \<Rightarrow> binlog_position \<Rightarrow> binlog_position \<Rightarrow> 32 word \<Rightarrow> int
   \<Rightarrow> gerror + row_change list" where
  "Collect_changes lib load start stop threadID expected =
     (if start = stop \<or> expected = 0 then Inr []
      else
        sum_bind (lib_Rand lib) (\<lambda>rand.
        let serverID = (if rand < 100 then rand + 100 else rand) in
        case lib_StartSync lib serverID start of
          Inl err \<Rightarrow> Inl (wrapf ''start binlog sync: '' err)
        | Inr stream \<Rightarrow>
            sum_bind (collect_loop lib load stop threadID (bs_Error stream) (bs_Events stream)
                \<lparr> cs_current = start, cs_thread = 0, cs_changes = [] \<rparr>) (\<lambda>st.
              if int (length (cs_changes st)) \<noteq> expected
              then Inl (errorf (''ROW binlog incomplete: captured_rows='' @ nat_string (length (cs_changes st)) @
                     '' affected_rows='' @ strconv_Itoa expected))
              else Inr (cs_changes st))))"

section \<open>What is collected\<close>

text \<open>
  The declarative reading: a row event belongs to the connection named by the last query event
  before it, unless that transaction has been committed in between.
\<close>

fun owner_after :: "binlog_event \<Rightarrow> 32 word \<Rightarrow> 32 word" where
  "owner_after e owner =
     (case ev_Type e of
        QUERY_EVENT \<Rightarrow> (case ev_Body e of QueryBody proxy \<Rightarrow> proxy | _ \<Rightarrow> owner)
      | XID_EVENT \<Rightarrow> 0
      | _ \<Rightarrow> owner)"

fun rows_kind :: "event_type \<Rightarrow> change_type option" where
  "rows_kind WRITE_ROWS_EVENT = Some ChangeInsert"
| "rows_kind DELETE_ROWS_EVENT = Some ChangeDelete"
| "rows_kind UPDATE_ROWS_EVENT = Some ChangeUpdate"
| "rows_kind _ = None"

fun owned_rows :: "32 word \<Rightarrow> 32 word \<Rightarrow> binlog_event list \<Rightarrow> (change_type \<times> rows_event) list" where
  "owned_rows threadID owner [] = []"
| "owned_rows threadID owner (e # es) =
     (case (rows_kind (ev_Type e), ev_Body e) of
        (Some kind, RowsBody re) \<Rightarrow> if owner = threadID then [(kind, re)] else []
      | _ \<Rightarrow> []) @ owned_rows threadID (owner_after e owner) es"

definition changes_of :: "(string \<Rightarrow> string \<Rightarrow> gerror + table_meta) \<Rightarrow> change_type \<times> rows_event \<Rightarrow> row_change list" where
  "changes_of load kr = (case rowChanges load (fst kr) (snd kr) of Inr v \<Rightarrow> v | Inl _ \<Rightarrow> [])"

lemma advance_keeps [simp]: "cs_thread (advance e st) = cs_thread st" "cs_changes (advance e st) = cs_changes st"
  by (simp_all add: advance_def Let_def split: event_type.split event_body.split)

lemma collect_rows_step:
  "collect_rows load tid kind body st = Inr st' \<Longrightarrow> cs_thread st' = cs_thread st \<and>
   cs_changes st' = cs_changes st @ concat (map (changes_of load)
     (case body of RowsBody re \<Rightarrow> if cs_thread st = tid then [(kind, re)] else [] | _ \<Rightarrow> []))"
  by (auto simp: collect_rows_def changes_of_def sum_bind_Inr_iff split: if_splits event_body.splits)

declare owner_after.simps [simp del]

lemma collect_event_rows:
  "rows_kind (ev_Type e) = Some kind \<Longrightarrow>
   collect_event load tid e st = collect_rows load tid kind (ev_Body e) (advance e st) \<and> owner_after e owner = owner"
  by (cases "ev_Type e") (simp_all add: collect_event_def owner_after.simps Let_def)

lemma collect_event_other:
  "rows_kind (ev_Type e) = None \<Longrightarrow> collect_event load tid e st = Inr st' \<Longrightarrow>
   cs_thread st' = owner_after e (cs_thread st) \<and> cs_changes st' = cs_changes st"
  by (cases "ev_Type e") (auto simp: collect_event_def owner_after.simps Let_def split: event_body.split)

lemma collect_event_step:
  assumes "collect_event load tid e st = Inr st'"
  shows "cs_thread st' = owner_after e (cs_thread st)"
    and "cs_changes st' = cs_changes st @ concat (map (changes_of load) (owned_rows tid (cs_thread st) [e]))"
proof -
  have "cs_thread st' = owner_after e (cs_thread st) \<and>
    cs_changes st' = cs_changes st @ concat (map (changes_of load) (owned_rows tid (cs_thread st) [e]))"
  proof (cases "rows_kind (ev_Type e)")
    case None
    with collect_event_other [OF None assms] show ?thesis by simp
  next
    case (Some kind)
    note rows = collect_event_rows [OF Some]
    from collect_rows_step [of load tid kind "ev_Body e" "advance e st" st'] assms Some rows show ?thesis
      by (simp split: event_body.split)
  qed
  then show "cs_thread st' = owner_after e (cs_thread st)"
    and "cs_changes st' = cs_changes st @ concat (map (changes_of load) (owned_rows tid (cs_thread st) [e]))" by blast+
qed

lemma owned_rows_Cons: "owned_rows tid owner (e # es) = owned_rows tid owner [e] @ owned_rows tid (owner_after e owner) es"
  by simp

lemma collect_loop_rows:
  "collect_loop lib load stop tid err es st = Inr st' \<Longrightarrow>
   \<exists>used rest. es = used @ rest \<and> used \<noteq> [] \<and>
     cs_changes st' = cs_changes st @ concat (map (changes_of load) (owned_rows tid (cs_thread st) used)) \<and>
     lib_Compare lib (cs_current st') stop \<ge> 0"
proof (induction es arbitrary: st)
  case (Cons e es)
  then obtain st1 where e: "collect_event load tid e st = Inr st1" by (auto simp: sum_bind_Inr_iff)
  note step = collect_event_step [OF e]
  show ?case
  proof (cases "lib_Compare lib (cs_current st1) stop \<ge> 0")
    case True
    with Cons.prems e have "st' = st1" by simp
    with True step(2) show ?thesis by (intro exI [of _ "[e]"] exI [of _ es]) simp
  next
    case False
    with Cons.prems e have "collect_loop lib load stop tid err es st1 = Inr st'" by simp
    from Cons.IH [OF this] obtain used rest where "es = used @ rest" "used \<noteq> []"
      "cs_changes st' = cs_changes st1 @ concat (map (changes_of load) (owned_rows tid (cs_thread st1) used))"
      "lib_Compare lib (cs_current st') stop \<ge> 0" by blast
    with step show ?thesis
      by (intro exI [of _ "e # used"] exI [of _ rest]) (simp add: owned_rows_Cons [of tid "cs_thread st" e used] del: owned_rows.simps(2))
  qed
qed simp

definition opens_owner :: "32 word \<Rightarrow> binlog_event \<Rightarrow> bool" where
  "opens_owner tid e \<longleftrightarrow> ev_Type e = QUERY_EVENT \<and> ev_Body e = QueryBody tid"

definition changes_owner :: "binlog_event \<Rightarrow> bool" where
  "changes_owner e \<longleftrightarrow> ev_Type e = XID_EVENT \<or> (ev_Type e = QUERY_EVENT \<and> (\<exists>p. ev_Body e = QueryBody p))"

lemma owner_after_cases: "\<not> changes_owner e \<Longrightarrow> owner_after e owner = owner"
  by (auto simp: changes_owner_def owner_after.simps split: event_type.split event_body.split)

lemma owner_after_opens: "changes_owner e \<Longrightarrow> owner_after e owner = tid \<Longrightarrow> tid \<noteq> 0 \<Longrightarrow> opens_owner tid e"
  by (auto simp: changes_owner_def opens_owner_def owner_after.simps)

lemma owner_run:
  "fold owner_after pre 0 = tid \<Longrightarrow> tid \<noteq> 0 \<Longrightarrow>
   \<exists>p q mid. pre = p @ q # mid \<and> opens_owner tid q \<and> (\<forall>m\<in>set mid. \<not> changes_owner m)"
proof (induction pre rule: rev_induct)
  case (snoc e pre)
  show ?case
  proof (cases "changes_owner e")
    case True
    with snoc.prems owner_after_opens show ?thesis by (intro exI [of _ pre] exI [of _ e] exI [of _ "[]"]) simp
  next
    case False
    with snoc obtain p q mid where "pre = p @ q # mid" "opens_owner tid q" "\<forall>m\<in>set mid. \<not> changes_owner m"
      by (auto simp: owner_after_cases)
    with False show ?thesis by (intro exI [of _ p] exI [of _ q] exI [of _ "mid @ [e]"]) simp
  qed
qed simp

lemma owned_rows_in:
  "(kind, re) \<in> set (owned_rows tid owner es) \<Longrightarrow>
   \<exists>pre e post. es = pre @ e # post \<and> rows_kind (ev_Type e) = Some kind \<and> ev_Body e = RowsBody re \<and> fold owner_after pre owner = tid"
proof (induction es arbitrary: owner)
  case (Cons e es)
  then consider "rows_kind (ev_Type e) = Some kind" "ev_Body e = RowsBody re" "owner = tid"
    | "(kind, re) \<in> set (owned_rows tid (owner_after e owner) es)"
    by (auto split: option.splits event_body.splits if_splits)
  then show ?case
  proof cases
    case 1
    then show ?thesis by (intro exI [of _ "[]"] exI [of _ e] exI [of _ es]) simp
  next
    case 2
    from Cons.IH [OF this] obtain pre e' post where "es = pre @ e' # post" "rows_kind (ev_Type e') = Some kind"
      "ev_Body e' = RowsBody re" "fold owner_after pre (owner_after e owner) = tid" by blast
    then show ?thesis by (intro exI [of _ "e # pre"] exI [of _ e'] exI [of _ post]) simp
  qed
qed simp


section \<open>A stream for the witness\<close>

definition demo_table :: table_meta where
  "demo_table = zero_table_meta\<lparr>t_Schema := ''app'', t_Name := ''log'', t_Columns := [zero_column_meta\<lparr>col_Name := ''id''\<rparr>]\<rparr>"

definition demo_rows :: "nat \<Rightarrow> event_body" where
  "demo_rows n = RowsBody \<lparr> re_Table = Some (''app'', ''log''), re_ColumnCount = 1, re_Rows = [[VInt64 (of_nat n)]] \<rparr>"

definition demo_events :: "binlog_event list" where
  "demo_events =
     [\<lparr> ev_LogPos = 10, ev_Type = QUERY_EVENT, ev_Body = QueryBody 9 \<rparr>,
      \<lparr> ev_LogPos = 20, ev_Type = WRITE_ROWS_EVENT, ev_Body = demo_rows 1 \<rparr>,
      \<lparr> ev_LogPos = 30, ev_Type = XID_EVENT, ev_Body = OtherBody \<rparr>,
      \<lparr> ev_LogPos = 40, ev_Type = QUERY_EVENT, ev_Body = QueryBody 7 \<rparr>,
      \<lparr> ev_LogPos = 50, ev_Type = WRITE_ROWS_EVENT, ev_Body = demo_rows 2 \<rparr>,
      \<lparr> ev_LogPos = 60, ev_Type = XID_EVENT, ev_Body = OtherBody \<rparr>]"

definition demo_library :: binlog_library where
  "demo_library = \<lparr> lib_Rand = Inr 5,
     lib_StartSync = (\<lambda>server pos. Inr \<lparr> bs_Events = demo_events, bs_Error = errorf ''timeout'' \<rparr>),
     lib_Compare = (\<lambda>a b. uint (bp_Position a) - uint (bp_Position b)), lib_String = bp_File \<rparr>"

definition demo_change :: row_change where
  "demo_change = \<lparr> ch_Sequence = 0, ch_Type = ChangeInsert, ch_Table = demo_table, ch_Before = [], ch_After = [VInt64 2] \<rparr>"

lemma demo_collect:
  "Collect_changes demo_library (\<lambda>s t. Inr demo_table) \<lparr> bp_File = ''b.1'', bp_Position = 4 \<rparr> \<lparr> bp_File = ''b.1'', bp_Position = 60 \<rparr> 7 1
     = Inr [demo_change]"
  by (simp add: Collect_changes_def demo_library_def demo_events_def demo_rows_def collect_event_def advance_def Let_def
      collect_rows_def rowChanges_def demo_table_def zero_table_meta_def demo_change_def)


end
