(* ===== verification/GoIO.thy ===== *)
theory GoIO
  imports GoPrelude
begin

text \<open>
  Sequencing of calls that change the outside world (the target server, the backup server) and may
  fail. A computation maps the world to an outcome and the world afterwards; \<open>io_bind\<close> is
  \<^verbatim>\<open>x, err := f(); if err != nil { return err }\<close>, \<open>io_each\<close> a loop whose body returns on the first
  error. The world is a type parameter: the theorems hold for every server.
\<close>

type_synonym ('w, 'a) io = "'w \<Rightarrow> 'a outcome \<times> 'w"

definition io_return :: "'a \<Rightarrow> ('w, 'a) io" where
  "io_return x w = (Returns x, w)"

definition io_raise :: "gerror \<Rightarrow> ('w, 'a) io" where
  "io_raise err w = (Raises err, w)"

definition io_panic :: "string \<Rightarrow> ('w, 'a) io" where
  "io_panic msg w = (Panics msg, w)"

definition io_bind :: "('w, 'a) io \<Rightarrow> ('a \<Rightarrow> ('w, 'b) io) \<Rightarrow> ('w, 'b) io" where
  "io_bind m f w =
     (case m w of
        (Returns x, w') \<Rightarrow> f x w'
      | (Raises err, w') \<Rightarrow> (Raises err, w')
      | (Panics msg, w') \<Rightarrow> (Panics msg, w'))"

definition io_call :: "('w \<Rightarrow> (gerror + 'a) \<times> 'w) \<Rightarrow> ('w, 'a) io" where
  "io_call f w = (case f w of (Inr x, w') \<Rightarrow> (Returns x, w') | (Inl err, w') \<Rightarrow> (Raises err, w'))"

fun io_each :: "('a \<Rightarrow> ('w, unit) io) \<Rightarrow> 'a list \<Rightarrow> ('w, unit) io" where
  "io_each f [] = io_return ()"
| "io_each f (x # xs) = io_bind (f x) (\<lambda>_. io_each f xs)"

lemma io_apply:
  "io_return x w = (Returns x, w)" "io_raise err w = (Raises err, w)" "io_panic msg w = (Panics msg, w)"
  by (simp_all add: io_return_def io_raise_def io_panic_def)

lemma io_bind_simps [simp]:
  "io_bind (io_return x) f = f x" "io_bind (io_raise err) f = io_raise err" "io_bind (io_panic msg) f = io_panic msg"
  "io_bind m io_return = m"
  by (auto simp: fun_eq_iff io_bind_def io_apply split: prod.split outcome.split)

lemma io_bind_assoc: "io_bind (io_bind m f) g = io_bind m (\<lambda>x. io_bind (f x) g)"
  by (auto simp: fun_eq_iff io_bind_def io_apply split: prod.split outcome.split)

lemma io_bind_unit [simp]: "io_bind m (\<lambda>_. io_return ()) = m"
  by (auto simp: fun_eq_iff io_bind_def io_apply split: prod.split outcome.split)

lemma io_bind_Returns: "io_bind m f w = (Returns y, w'') \<longleftrightarrow> (\<exists>x w'. m w = (Returns x, w') \<and> f x w' = (Returns y, w''))"
  by (auto simp: io_bind_def split: prod.split outcome.split)

lemma io_bind_Panics:
  "io_bind m f w = (Panics msg, w'') \<longleftrightarrow>
   m w = (Panics msg, w'') \<or> (\<exists>x w'. m w = (Returns x, w') \<and> f x w' = (Panics msg, w''))"
  by (auto simp: io_bind_def split: prod.split outcome.split)

lemma io_call_Panics [simp]: "io_call f w \<noteq> (Panics msg, w')"
  by (auto simp: io_call_def split: prod.split sum.split)

lemma io_each_append: "io_each f (xs @ ys) = io_bind (io_each f xs) (\<lambda>_. io_each f ys)"
  by (induction xs) (simp_all add: io_bind_assoc)

lemma io_each_map: "io_each f (map g xs) = io_each (\<lambda>x. f (g x)) xs"
  by (induction xs) simp_all

lemma io_each_filter: "io_each (\<lambda>x. if P x then f x else io_return ()) xs = io_each f (filter P xs)"
  by (induction xs) simp_all

lemma io_bind_world [simp]: "snd (io_bind m (\<lambda>x. io_return (f x)) w) = snd (m w)"
  by (auto simp: io_bind_def io_apply split: prod.split outcome.split)

lemma io_bind_cases:
  "m w = (Returns x, w1) \<Longrightarrow> io_bind m f w = f x w1"
  "m w = (Raises err, w1) \<Longrightarrow> io_bind m f w = (Raises err, w1)"
  "m w = (Panics msg, w1) \<Longrightarrow> io_bind m f w = (Panics msg, w1)"
  by (simp_all add: io_bind_def)

text \<open>A computation that cannot panic.\<close>

definition io_safe :: "('w, 'a) io \<Rightarrow> bool" where
  "io_safe m \<longleftrightarrow> (\<forall>w msg w'. m w \<noteq> (Panics msg, w'))"

lemma io_safeI [intro]:
  "io_safe (io_return x)" "io_safe (io_raise err)" "io_safe (io_call f)"
  "io_safe m \<Longrightarrow> (\<And>x. io_safe (g x)) \<Longrightarrow> io_safe (io_bind m g)"
  by (auto simp: io_safe_def io_bind_Panics io_apply)

lemma io_safe_each: "(\<And>x. x \<in> set xs \<Longrightarrow> io_safe (f x)) \<Longrightarrow> io_safe (io_each f xs)"
  by (induction xs) (auto intro!: io_safeI)

end
