(* ===== verification/BackupStore.thy ===== *)
theory BackupStore
  imports Rollback GoIO
begin

text \<open>
  Storing the rollback SQL of a statement in the backup database,
  \<^verbatim>\<open>internal/backup/mysqlstore/store.go\<close>. The connection to the backup server (package database/sql) is
  the parameter \<open>store_db\<close>; \<open>sd_order\<close> is the order in which Go ranges over the keys of a map,
  which the language leaves open.
\<close>

section \<open>The connection\<close>

record 'w store_db =
  sd_Exec :: "string \<Rightarrow> go_value list \<Rightarrow> 'w \<Rightarrow> (gerror + unit) \<times> 'w"
  sd_BeginTx :: "'w \<Rightarrow> (gerror + unit) \<times> 'w"
  sd_TxExec :: "string \<Rightarrow> go_value list \<Rightarrow> 'w \<Rightarrow> (gerror + unit) \<times> 'w"
  sd_Commit :: "'w \<Rightarrow> (gerror + unit) \<times> 'w"
  sd_Rollback :: "'w \<Rightarrow> 'w"
  sd_order :: "string list \<Rightarrow> string list"

definition informationTable :: string where
  "informationTable = ''$_$Inception_backup_information$_$''"

definition store_quote :: "string \<Rightarrow> string" where
  "store_quote v = [CHR 0x60] @ strings_ReplaceAll v (CHR 0x60) [CHR 0x60, CHR 0x60] @ [CHR 0x60]"

interpretation store_ident: identifier_quoter store_quote
  using backquoted_quoter unfolding backquoted_def [abs_def] store_quote_def [abs_def] .

section \<open>Names and types\<close>

fun legacyStatementType :: "statement_kind \<Rightarrow> string" where
  "legacyStatementType StatementInsert = ''INSERT''"
| "legacyStatementType StatementDelete = ''DELETE''"
| "legacyStatementType StatementUpdate = ''UPDATE''"
| "legacyStatementType StatementCreateDatabase = ''CREATEDB''"
| "legacyStatementType StatementCreateTable = ''CREATETABLE''"
| "legacyStatementType StatementAlterTable = ''ALTERTABLE''"
| "legacyStatementType StatementDropTable = ''DROPTABLE''"
| "legacyStatementType StatementRenameTable = ''RENAMETABLE''"
| "legacyStatementType StatementCreateIndex = ''CREATEINDEX''"
| "legacyStatementType StatementDropIndex = ''DROPINDEX''"
| "legacyStatementType _ = ''UNKNOWN''"

definition backupDBName :: "target_options \<Rightarrow> string \<Rightarrow> string" where
  "backupDBName source schema =
     (let v = map (\<lambda>c. if c = CHR ''-'' \<or> c = CHR ''.'' then CHR ''_'' else c)
                (tgt_Host source @ ''_'' @ nat_string (unat (tgt_Port source)) @ ''_'' @ schema) in
      if length v > 64 then drop (length v - 64) v else v)"

section \<open>Saving\<close>

definition ensureSchema :: "'w store_db \<Rightarrow> string \<Rightarrow> ('w, unit) io" where
  "ensureSchema st db =
     io_bind (io_call (sd_Exec st (''CREATE DATABASE IF NOT EXISTS '' @ store_quote db @ '' DEFAULT CHARACTER SET utf8mb4'') []))
       (\<lambda>_. io_call (sd_Exec st (''CREATE TABLE IF NOT EXISTS '' @ store_quote db @ ''.'' @ store_quote informationTable @
          '' (opid_time varchar(50) PRIMARY KEY,start_binlog_file varchar(512),start_binlog_pos int,end_binlog_file varchar(512),end_binlog_pos int,sql_statement mediumtext,host varchar(128),dbname varchar(64),tablename varchar(64),port int,time timestamp,type varchar(20)) ENGINE=InnoDB DEFAULT CHARSET=utf8mb4'') []))"

definition create_storage_sql :: "string \<Rightarrow> string \<Rightarrow> string" where
  "create_storage_sql db table = ''CREATE TABLE IF NOT EXISTS '' @ store_quote db @ ''.'' @ store_quote table @
     '' (id bigint auto_increment primary key,rollback_statement mediumtext,opid_time varchar(50),KEY idx_opid_time(opid_time)) ENGINE=InnoDB DEFAULT CHARSET=utf8mb4''"

definition insert_rollback_sql :: "string \<Rightarrow> string \<Rightarrow> string" where
  "insert_rollback_sql db table = ''INSERT INTO '' @ store_quote db @ ''.'' @ store_quote table @ ''(rollback_statement,opid_time) VALUES(?,?)''"

definition insert_information_sql :: "string \<Rightarrow> string" where
  "insert_information_sql db = ''INSERT INTO '' @ store_quote db @ ''.'' @ store_quote informationTable @ '' VALUES(?,?,?,?,?,?,?,?,?,?,NOW(),?)''"

definition information_args :: "operation \<Rightarrow> rollback_record \<Rightarrow> go_value list" where
  "information_args op first =
     [VString (bo_OPID op), VString (bp_File (bo_Start op)), VUint32 (bp_Position (bo_Start op)),
      VString (bp_File (bo_End op)), VUint32 (bp_Position (bo_End op)), VString (s_Original (bo_Statement op)),
      VString (tgt_Host (bo_Source op)), VString (rb_Schema first), VString (rb_Table first),
      VUint16 (tgt_Port (bo_Source op)), VString (legacyStatementType (s_Kind (bo_Statement op)))]"

definition storage_table :: "rollback_record list \<Rightarrow> string" where
  "storage_table records = (case find (\<lambda>r. rb_Table r \<noteq> []) records of Some r \<Rightarrow> rb_Table r | None \<Rightarrow> [])"

definition saveGroup :: "'w store_db \<Rightarrow> string \<Rightarrow> operation \<Rightarrow> rollback_record list \<Rightarrow> ('w, unit) io" where
  "saveGroup st db op records =
     (let storageTable = storage_table records in
      io_bind (if storageTable \<noteq> [] then io_call (sd_TxExec st (create_storage_sql db storageTable) []) else io_return ())
        (\<lambda>_. io_bind (io_each (\<lambda>r.
            if rb_SQL r \<noteq> [] then
              (if storageTable = [] then io_raise (errorf ''rollback record has no primary table'')
               else io_call (sd_TxExec st (insert_rollback_sql db storageTable) [VString (rb_SQL r), VString (bo_OPID op)]))
            else io_return ()) records)
        (\<lambda>_. case records of
              [] \<Rightarrow> io_panic ''index out of range [0] with length 0''
            | first # _ \<Rightarrow> io_call (sd_TxExec st (insert_information_sql db) (information_args op first)))))"

text \<open>The groups: the records of each backup database, in the order of the records.\<close>

definition group_records :: "operation \<Rightarrow> rollback_record list \<Rightarrow> string \<Rightarrow> rollback_record list" where
  "group_records op rollbacks db = filter (\<lambda>r. backupDBName (bo_Source op) (rb_Schema r) = db) rollbacks"

definition group_names :: "operation \<Rightarrow> rollback_record list \<Rightarrow> string list" where
  "group_names op rollbacks = remdups (map (\<lambda>r. backupDBName (bo_Source op) (rb_Schema r)) rollbacks)"

text \<open>One group: the schema, then the transaction, which is rolled back when a statement of it fails.\<close>

definition save_one :: "'w store_db \<Rightarrow> operation \<Rightarrow> rollback_record list \<Rightarrow> string \<Rightarrow> ('w, unit) io" where
  "save_one st op rollbacks db =
     io_bind (ensureSchema st db) (\<lambda>_.
     io_bind (io_call (sd_BeginTx st)) (\<lambda>_ w.
       case saveGroup st db op (group_records op rollbacks db) w of
         (Returns _, w') \<Rightarrow> io_call (sd_Commit st) w'
       | (Raises err, w') \<Rightarrow> (Raises err, sd_Rollback st w')
       | (Panics msg, w') \<Rightarrow> (Panics msg, w')))"

definition effective_rollbacks :: "operation \<Rightarrow> rollback_record list" where
  "effective_rollbacks op =
     (if bo_Rollbacks op = [] then [\<lparr> rb_Schema = bo_Schema op, rb_Table = bo_Table op, rb_SQL = [] \<rparr>] else bo_Rollbacks op)"

text \<open>The first key of the range, or the empty string; a name is never empty.\<close>

definition Save :: "'w store_db \<Rightarrow> operation \<Rightarrow> ('w, string) io" where
  "Save st op =
     (let rollbacks = effective_rollbacks op; dbs = sd_order st (group_names op rollbacks) in
      io_bind (io_each (save_one st op rollbacks) dbs) (\<lambda>_. io_return (case dbs of [] \<Rightarrow> [] | db # _ \<Rightarrow> db)))"

section \<open>What is stored\<close>

text \<open>The statements that save one group, in order, with their arguments.\<close>

definition group_script :: "string \<Rightarrow> operation \<Rightarrow> rollback_record list \<Rightarrow> (string \<times> go_value list) list" where
  "group_script db op records =
     (if storage_table records \<noteq> [] then [(create_storage_sql db (storage_table records), [])] else [])
     @ map (\<lambda>r. (insert_rollback_sql db (storage_table records), [VString (rb_SQL r), VString (bo_OPID op)]))
         (filter (\<lambda>r. rb_SQL r \<noteq> []) records)
     @ [(insert_information_sql db, information_args op (hd records))]"

definition tx_script :: "'w store_db \<Rightarrow> (string \<times> go_value list) list \<Rightarrow> ('w, unit) io" where
  "tx_script st script = io_each (\<lambda>(sql, args). io_call (sd_TxExec st sql args)) script"

lemma saveGroup_script:
  assumes "records \<noteq> []" and "storage_table records \<noteq> [] \<or> (\<forall>r\<in>set records. rb_SQL r = [])"
  shows "saveGroup st db op records = tx_script st (group_script db op records)"
proof -
  obtain first rest where records: "records = first # rest" using assms(1) by (cases records) auto
  have inserts: "io_each (\<lambda>r. if rb_SQL r \<noteq> [] then
        (if storage_table records = [] then io_raise (errorf ''rollback record has no primary table'')
         else io_call (sd_TxExec st (insert_rollback_sql db (storage_table records)) [VString (rb_SQL r), VString (bo_OPID op)]))
      else io_return ()) records
    = tx_script st (map (\<lambda>r. (insert_rollback_sql db (storage_table records), [VString (rb_SQL r), VString (bo_OPID op)]))
         (filter (\<lambda>r. rb_SQL r \<noteq> []) records))"
  proof (cases "storage_table records = []")
    case True
    with assms(2) have "filter (\<lambda>r. rb_SQL r \<noteq> []) records = []" by (simp add: filter_empty_conv)
    with True show ?thesis by (simp add: tx_script_def io_each_filter)
  next
    case False
    then show ?thesis by (simp add: tx_script_def io_each_filter io_each_map)
  qed
  show ?thesis
    unfolding saveGroup_def Let_def inserts by (simp add: group_script_def records tx_script_def io_each_append)
qed

lemma filter_by_name_nonempty: "db \<in> set (group_names op rollbacks) \<Longrightarrow> group_records op rollbacks db \<noteq> []"
  by (auto simp: group_names_def group_records_def filter_empty_conv)

lemma save_one_safe: "db \<in> set (group_names op rollbacks) \<Longrightarrow> io_safe (save_one st op rollbacks db)"
proof -
  assume db: "db \<in> set (group_names op rollbacks)"
  have "io_safe (saveGroup st db op (group_records op rollbacks db))"
    using filter_by_name_nonempty [OF db]
    by (auto simp: saveGroup_def Let_def split: list.split intro!: io_safeI io_safe_each)
  then have "io_safe (\<lambda>w. case saveGroup st db op (group_records op rollbacks db) w of
         (Returns _, w') \<Rightarrow> io_call (sd_Commit st) w'
       | (Raises err, w') \<Rightarrow> (Raises err, sd_Rollback st w')
       | (Panics msg, w') \<Rightarrow> (Panics msg, w'))"
    by (auto simp: io_safe_def split: prod.split outcome.split)
  then show ?thesis unfolding save_one_def ensureSchema_def by (intro io_safeI)
qed

text \<open>
  A range order is a permutation of the keys. Under it the store never panics: every group it saves
  has a record.
\<close>

definition fair_order :: "(string list \<Rightarrow> string list) \<Rightarrow> bool" where
  "fair_order order \<longleftrightarrow> (\<forall>ks. distinct ks \<longrightarrow> set (order ks) = set ks \<and> distinct (order ks))"

lemma Save_safe: "fair_order (sd_order st) \<Longrightarrow> io_safe (Save st op)"
  unfolding Save_def Let_def
  by (intro io_safeI io_safe_each save_one_safe) (simp add: fair_order_def group_names_def)

text \<open>A run that stores the groups one after the other: each in a transaction of its own, which commits.\<close>

inductive stored :: "'w store_db \<Rightarrow> operation \<Rightarrow> string list \<Rightarrow> 'w \<Rightarrow> 'w \<Rightarrow> bool" for st op where
  none: "stored st op [] w w"
| group: "ensureSchema st db w = (Returns (), w1) \<Longrightarrow> sd_BeginTx st w1 = (Inr (), w2) \<Longrightarrow>
    tx_script st (group_script db op (group_records op (effective_rollbacks op) db)) w2 = (Returns (), w3) \<Longrightarrow>
    sd_Commit st w3 = (Inr (), w4) \<Longrightarrow> stored st op dbs w4 w5 \<Longrightarrow> stored st op (db # dbs) w w5"

lemma io_call_Returns: "io_call f w = (Returns x, w') \<longleftrightarrow> f w = (Inr x, w')"
  by (auto simp: io_call_def split: prod.split sum.split)

lemma save_one_Returns:
  assumes "save_one st op rollbacks db w = (Returns (), w')" and "saveGroup st db op (group_records op rollbacks db) = tx_script st script"
  shows "\<exists>w1 w2 w3. ensureSchema st db w = (Returns (), w1) \<and> sd_BeginTx st w1 = (Inr (), w2) \<and>
    tx_script st script w2 = (Returns (), w3) \<and> sd_Commit st w3 = (Inr (), w')"
  using assms unfolding save_one_def io_bind_Returns io_call_Returns
  by (fastforce split: prod.splits outcome.splits simp: io_call_Returns)

lemma save_each_stored:
  assumes "\<forall>r\<in>set (effective_rollbacks op). rb_Table r \<noteq> []"
    and "io_each (save_one st op (effective_rollbacks op)) dbs w = (Returns (), w')"
    and "set dbs \<subseteq> set (group_names op (effective_rollbacks op))"
  shows "stored st op dbs w w'"
  using assms(2,3)
proof (induction dbs arbitrary: w)
  case Nil
  then show ?case by (simp add: io_apply stored.none)
next
  case (Cons db dbs)
  then obtain w4 where one: "save_one st op (effective_rollbacks op) db w = (Returns (), w4)" and
    rest: "io_each (save_one st op (effective_rollbacks op)) dbs w4 = (Returns (), w')"
    by (auto simp: io_bind_Returns)
  let ?records = "group_records op (effective_rollbacks op) db"
  have "?records \<noteq> []" using Cons.prems(2) filter_by_name_nonempty by simp
  moreover have "storage_table ?records \<noteq> []"
    using assms(1) \<open>?records \<noteq> []\<close>
    by (cases ?records) (auto simp: storage_table_def group_records_def filter_eq_Cons_iff)
  ultimately have "saveGroup st db op ?records = tx_script st (group_script db op ?records)"
    by (intro saveGroup_script) simp_all
  from save_one_Returns [OF one this] Cons.IH [OF rest] Cons.prems(2) show ?case
    by (auto intro: stored.group)
qed


section \<open>Backup database names\<close>

text \<open>
  A backup database name is short enough for MySQL: it has at most 64 bytes, and neither a dash nor a
  dot of the host or the schema is left in it.
\<close>

theorem backupDBName_bounds:
  shows "length (backupDBName source schema) \<le> 64 \<and> CHR ''-'' \<notin> set (backupDBName source schema) \<and>
    CHR ''.'' \<notin> set (backupDBName source schema)"
  by (auto simp: backupDBName_def Let_def dest!: in_set_dropD)

text \<open>
  Names are not unique: hosts that differ in dash and dot share their backup databases, and for long
  names the cut keeps only the last 64 bytes, so that host and port no longer count.
\<close>

theorem backupDBName_collision:
  "backupDBName (t\<lparr>tgt_Host := ''db-1''\<rparr>) s = backupDBName (t\<lparr>tgt_Host := ''db.1''\<rparr>) s"
  by (simp add: backupDBName_def Let_def)

section \<open>A store for the witness\<close>

text \<open>The world is the list of the texts executed; every call succeeds.\<close>

definition log_store :: "string list store_db" where
  "log_store = \<lparr> sd_Exec = (\<lambda>sql args w. (Inr (), w @ [sql])), sd_BeginTx = (\<lambda>w. (Inr (), w @ [''BEGIN''])),
     sd_TxExec = (\<lambda>sql args w. (Inr (), w @ [sql])), sd_Commit = (\<lambda>w. (Inr (), w @ [''COMMIT''])),
     sd_Rollback = (\<lambda>w. w @ [''ROLLBACK'']), sd_order = (\<lambda>ks. ks) \<rparr>"

definition demo_target :: target_options where
  "demo_target = \<lparr> tgt_Host = ''db1'', tgt_Port = 3306, tgt_User = ''u'', tgt_Password = [], tgt_Database = ''app'',
     tgt_SQLMode = [], tgt_Version = [], tgt_SQLSafeUpdates = 0, tgt_LockWaitTimeout = 0, tgt_DefaultCharset = [] \<rparr>"

definition demo_operation :: operation where
  "demo_operation = \<lparr> bo_OPID = ''1_2_00000000'', bo_Statement = zero_statement StatementDelete, bo_Source = demo_target,
     bo_Start = \<lparr> bp_File = ''b.1'', bp_Position = 4 \<rparr>, bo_End = \<lparr> bp_File = ''b.1'', bp_Position = 9 \<rparr>, bo_ThreadID = 2,
     bo_Schema = ''app'', bo_Table = ''t'', bo_Rollbacks = [\<lparr> rb_Schema = ''app'', rb_Table = ''t'', rb_SQL = ''x;'' \<rparr>] \<rparr>"


end
