(* ===== verification/ExecEngine.thy ===== *)
theory ExecEngine
  imports Capture BackupStore Catalog
begin

text \<open>
  Executing the statements of an admitted request on the target server and backing their effects up,
  \<^verbatim>\<open>internal/execution/mysql/engine.go\<close>. The connection to the target, the clock and the replication
  client are the parameter \<open>exec_env\<close>; the world \<open>'w\<close> holds the target and the backup server. Queries
  read the world, \<open>ee_Exec\<close> changes it. \<open>RowsAffected\<close> is an option, for its own error.
\<close>

record 'w exec_env =
  ee_Conn :: "'w \<Rightarrow> (gerror + unit) \<times> 'w"
  ee_Exec :: "string \<Rightarrow> go_value list \<Rightarrow> 'w \<Rightarrow> (gerror + int option) \<times> 'w"
  ee_BinlogVariables :: "'w \<Rightarrow> gerror + (string \<times> string \<times> string)"
  ee_OpenStore :: "backup_target \<Rightarrow> gerror + 'w store_db"
  ee_PingStore :: "'w \<Rightarrow> gerror option"
  ee_ConnectionID :: "'w \<Rightarrow> gerror + 64 word"
  ee_MasterStatus :: "'w \<Rightarrow> gerror + query_rows"
  ee_Query :: "string \<Rightarrow> 'w \<Rightarrow> gerror + query_rows"
  ee_Binlog :: "'w \<Rightarrow> binlog_library"
  ee_LoadTable :: "'w \<Rightarrow> string \<Rightarrow> string \<Rightarrow> gerror + table_meta"
  ee_Now :: "'w \<Rightarrow> int"
  ee_Wait :: "int \<Rightarrow> 'w \<Rightarrow> bool \<times> 'w"

section \<open>Texts\<close>

definition exec_quote :: "string \<Rightarrow> string" where
  "exec_quote v = [CHR 0x60] @ strings_ReplaceAll v (CHR 0x60) [CHR 0x60, CHR 0x60] @ [CHR 0x60]"

interpretation exec_ident: identifier_quoter exec_quote
  using backquoted_quoter unfolding backquoted_def [abs_def] exec_quote_def [abs_def] .

definition qualified_name :: "string \<Rightarrow> string \<Rightarrow> string" where
  "qualified_name schema table = (if schema = [] then exec_quote table else exec_quote schema @ ''.'' @ exec_quote table)"

definition statementObject :: "statement \<Rightarrow> string \<times> string" where
  "statementObject s =
     (case s_DDL s of
        Some d \<Rightarrow> (d_Schema d, d_Table d)
      | None \<Rightarrow> (case s_DML s of
          None \<Rightarrow> (s_Database s, ''statement'')
        | Some m \<Rightarrow> (case m_Tables m of
            [] \<Rightarrow> (s_Database s, ''statement'')
          | r # _ \<Rightarrow> (tr_Schema r, tr_Name r))))"

definition opid_text :: "int \<Rightarrow> 32 word \<Rightarrow> int \<Rightarrow> string" where
  "opid_text unix threadID sequence = strconv_Itoa unix @ ''_'' @ nat_string (unat threadID) @ ''_'' @ fmt_08d (sequence - 1)"

section \<open>Session settings\<close>

definition charset_char :: "char \<Rightarrow> bool" where
  "charset_char c \<longleftrightarrow> c = CHR ''_'' \<or> is_letter c \<or> is_digit c"

definition exec_setting :: "'w exec_env \<Rightarrow> bool \<Rightarrow> string \<Rightarrow> go_value list \<Rightarrow> ('w, unit) io" where
  "exec_setting env wanted sql args =
     (if wanted then io_bind (io_call (ee_Exec env sql args)) (\<lambda>_. io_return ()) else io_return ())"

definition configureSession :: "'w exec_env \<Rightarrow> target_options \<Rightarrow> ('w, unit) io" where
  "configureSession env options =
     io_bind (exec_setting env (strings_TrimSpace (tgt_SQLMode options) \<noteq> []) ''SET SESSION sql_mode = ?'' [VString (tgt_SQLMode options)])
       (\<lambda>_. io_bind (exec_setting env (tgt_SQLSafeUpdates options \<ge> 0) ''SET SESSION sql_safe_updates = ?'' [VInt (of_int (tgt_SQLSafeUpdates options))])
       (\<lambda>_. io_bind (exec_setting env (tgt_LockWaitTimeout options \<ge> 0) ''SET SESSION lock_wait_timeout = ?'' [VInt (of_int (tgt_LockWaitTimeout options))])
       (\<lambda>_. let charset = strings_TrimSpace (tgt_DefaultCharset options) in
         if charset = [] then io_return ()
         else if \<not> list_all charset_char charset then io_raise (errorf (''invalid default charset '' @ strconv_Quote charset))
         else exec_setting env True (''SET NAMES '' @ charset) [])))"

text \<open>\<^verbatim>\<open>executionDelay\<close>: whether to go on. Go's remainder truncates towards zero; the index is not negative.\<close>

definition executionDelay :: "'w exec_env \<Rightarrow> request_options \<Rightarrow> nat \<Rightarrow> 'w \<Rightarrow> bool \<times> 'w" where
  "executionDelay env options zeroBasedIndex w =
     (if opt_SleepMillis options \<le> 0 \<or> opt_SleepRows options \<le> 0 \<or> int zeroBasedIndex mod opt_SleepRows options \<noteq> 0
      then (True, w)
      else ee_Wait env (opt_SleepMillis options * 1000000) w)"

section \<open>Rollback of DDL statements\<close>

definition showCreate :: "'w exec_env \<Rightarrow> 'w \<Rightarrow> string \<Rightarrow> string \<Rightarrow> gerror + string" where
  "showCreate env w schema table =
     sum_bind (ee_Query env (''SHOW CREATE TABLE '' @ qualified_name schema table) w) (\<lambda>rows.
       case qr_rows rows of
         [] \<Rightarrow> Inl (errorf ''sql: no rows in result set'')
       | row # _ \<Rightarrow> sum_bind row (\<lambda>vals.
           case vals of
             [name, create] \<Rightarrow> Inr (asString create)
           | _ \<Rightarrow> Inl (errorf (''sql: expected '' @ nat_string (length vals) @ '' destination arguments in Scan, not 2''))))"

fun drop_table_rollbacks :: "'w exec_env \<Rightarrow> 'w \<Rightarrow> string \<Rightarrow> table_ref list \<Rightarrow> gerror + rollback_record list" where
  "drop_table_rollbacks env w fallback [] = Inr []"
| "drop_table_rollbacks env w fallback (t # ts) =
     (let schema = (if tr_Schema t = [] then fallback else tr_Schema t) in
      sum_bind (showCreate env w schema (tr_Name t)) (\<lambda>create.
      sum_bind (drop_table_rollbacks env w fallback ts) (\<lambda>out.
        Inr (\<lparr> rb_Schema = schema, rb_Table = tr_Name t, rb_SQL = create @ '';'' \<rparr> # out))))"

definition alter_record :: "ddl_spec \<Rightarrow> string \<Rightarrow> rollback_record" where
  "alter_record d action = \<lparr> rb_Schema = d_Schema d, rb_Table = d_Table d,
     rb_SQL = ''ALTER TABLE '' @ qualified_name (d_Schema d) (d_Table d) @ action @ '';'' \<rparr>"

text \<open>The records of one operation; an index that is nil is dereferenced.\<close>

definition alter_rollback :: "ddl_spec \<Rightarrow> alter_operation \<Rightarrow> rollback_record list outcome" where
  "alter_rollback d op =
     (case op_Action op of
        AlterAddColumns \<Rightarrow> Returns (map (\<lambda>c. alter_record d ('' DROP COLUMN '' @ exec_quote (c_Name c))) (rev (op_Columns op)))
      | AlterAddIndex \<Rightarrow> (case op_Index op of
          None \<Rightarrow> Panics ''invalid memory address or nil pointer dereference''
        | Some i \<Rightarrow> Returns [alter_record d ('' DROP INDEX '' @ exec_quote (i_Name i))])
      | AlterRenameColumn \<Rightarrow>
          Returns [alter_record d ('' RENAME COLUMN '' @ exec_quote (op_NewName op) @ '' TO '' @ exec_quote (op_Name op))]
      | a \<Rightarrow> Raises (errorf (''backup does not support lossless rollback for ALTER action '' @ alter_action_string a)))"

fun alter_rollbacks :: "ddl_spec \<Rightarrow> alter_operation list \<Rightarrow> rollback_record list outcome" where
  "alter_rollbacks d [] = Returns []"
| "alter_rollbacks d (op # ops) =
     (case alter_rollback d op of
        Returns here \<Rightarrow> (case alter_rollbacks d ops of Returns rest \<Rightarrow> Returns (here @ rest) | Raises err \<Rightarrow> Raises err | Panics m \<Rightarrow> Panics m)
      | Raises err \<Rightarrow> Raises err
      | Panics m \<Rightarrow> Panics m)"

definition outcome_of :: "gerror + 'a \<Rightarrow> 'a outcome" where
  "outcome_of r = (case r of Inl err \<Rightarrow> Raises err | Inr x \<Rightarrow> Returns x)"

definition prepareDDLRollback :: "'w exec_env \<Rightarrow> 'w \<Rightarrow> statement \<Rightarrow> rollback_record list outcome" where
  "prepareDDLRollback env w s =
     (case s_DDL s of
        None \<Rightarrow> Returns []
      | Some d \<Rightarrow> (case d_Action d of
          DDLCreateDatabase \<Rightarrow>
            Returns [\<lparr> rb_Schema = d_Schema d, rb_Table = ''database'', rb_SQL = ''DROP DATABASE '' @ exec_quote (d_Schema d) @ '';'' \<rparr>]
        | DDLDropDatabase \<Rightarrow> Raises (errorf ''DROP DATABASE cannot be recovered losslessly from ROW binlog'')
        | DDLCreateTable \<Rightarrow>
            Returns [\<lparr> rb_Schema = d_Schema d, rb_Table = d_Table d, rb_SQL = ''DROP TABLE '' @ qualified_name (d_Schema d) (d_Table d) @ '';'' \<rparr>]
        | DDLDropTable \<Rightarrow> outcome_of (drop_table_rollbacks env w (d_Schema d) (d_Tables d))
        | DDLRenameTable \<Rightarrow> Returns (map (\<lambda>p. \<lparr> rb_Schema = tr_Schema (rp_To p), rb_Table = tr_Name (rp_To p),
              rb_SQL = ''RENAME TABLE '' @ qualified_name (tr_Schema (rp_To p)) (tr_Name (rp_To p)) @ '' TO '' @
                qualified_name (tr_Schema (rp_From p)) (tr_Name (rp_From p)) @ '';'' \<rparr>) (d_RenamePairs d))
        | DDLCreateIndex \<Rightarrow> (case d_Indexes d of
            [] \<Rightarrow> Panics ''index out of range [0] with length 0''
          | i # _ \<Rightarrow> Returns [\<lparr> rb_Schema = d_Schema d, rb_Table = d_Table d,
              rb_SQL = ''DROP INDEX '' @ exec_quote (i_Name i) @ '' ON '' @ qualified_name (d_Schema d) (d_Table d) @ '';'' \<rparr>])
        | DDLDropIndex \<Rightarrow> Raises (errorf ''DROP INDEX rollback requires full index definition and is not yet supported'')
        | DDLAlterTable \<Rightarrow> alter_rollbacks d (rev (d_AlterOperations d))
        | DDLTruncateTable \<Rightarrow> Raises (errorf ''TRUNCATE cannot be recovered from ROW binlog'')
        | a \<Rightarrow> Raises (errorf (''backup rollback is not implemented for '' @ ddl_action_string a))))"

section \<open>One statement\<close>

text \<open>
  A step yields the result and whether the loop goes on. \<open>index\<close> is the number of results before
  this one.
\<close>

type_synonym step_result = "execution_result \<times> bool"

definition new_result :: "statement \<Rightarrow> execution_result" where
  "new_result s = zero_execution_result\<lparr>res_Sequence := s_Sequence s\<rparr>"

definition executed_result :: "execution_result \<Rightarrow> int \<Rightarrow> int option \<Rightarrow> execution_result" where
  "executed_result r duration rows =
     r\<lparr>res_Duration := duration, res_AffectedRows := (case rows of Some n \<Rightarrow> n | None \<Rightarrow> 0), res_Executed := True\<rparr>"

definition failed_step :: "execution_result \<Rightarrow> string \<Rightarrow> gerror \<Rightarrow> step_result" where
  "failed_step r rule err = (r\<lparr>res_RuleID := rule, res_Error := err_Error err\<rparr>, False)"

definition finish_step :: "'w exec_env \<Rightarrow> request_options \<Rightarrow> nat \<Rightarrow> execution_result \<Rightarrow> ('w, step_result) io" where
  "finish_step env options index r w = (case executionDelay env options index w of (go, w') \<Rightarrow> (Returns (r, go), w'))"

definition execute_plain :: "'w exec_env \<Rightarrow> request_options \<Rightarrow> nat \<Rightarrow> statement \<Rightarrow> ('w, step_result) io" where
  "execute_plain env options index s w =
     (let startTime = ee_Now env w; r = new_result s in
      case ee_Exec env (s_Normalized s) [] w of
        (Inl err, w1) \<Rightarrow> (Returns (failed_step (r\<lparr>res_Duration := ee_Now env w1 - startTime\<rparr>) [] err), w1)
      | (Inr rows, w1) \<Rightarrow> finish_step env options index (executed_result r (ee_Now env w1 - startTime) rows) w1)"

text \<open>
  The rollback records of a DML statement: the captured changes, each with its generated SQL. The
  errors of \<^verbatim>\<open>Generate\<close> have a text, so the test on the text after the loop is the test on the error.
\<close>

fun generate_rollbacks :: "row_change list \<Rightarrow> gerror + rollback_record list" where
  "generate_rollbacks [] = Inr []"
| "generate_rollbacks (ch # chs) =
     sum_bind (Generate ch) (\<lambda>sql. sum_bind (generate_rollbacks chs) (\<lambda>out.
       Inr (\<lparr> rb_Schema = t_Schema (ch_Table ch), rb_Table = t_Name (ch_Table ch), rb_SQL = sql \<rparr> # out)))"

definition statement_rollbacks ::
  "'w exec_env \<Rightarrow> 'w \<Rightarrow> statement \<Rightarrow> binlog_position \<Rightarrow> binlog_position \<Rightarrow> 32 word \<Rightarrow> int \<Rightarrow> rollback_record list \<Rightarrow>
   gerror + rollback_record list" where
  "statement_rollbacks env w s start stop threadID affected ddlSQL =
     (if s_DML s \<noteq> None
      then sum_bind (Collect_changes (ee_Binlog env w) (ee_LoadTable env w) start stop threadID affected) generate_rollbacks
      else Inr ddlSQL)"

definition backup_operation ::
  "request_options \<Rightarrow> statement \<Rightarrow> string \<Rightarrow> binlog_position \<Rightarrow> binlog_position \<Rightarrow> 32 word \<Rightarrow> rollback_record list \<Rightarrow> operation" where
  "backup_operation options s opid start stop threadID rollbacks =
     \<lparr> bo_OPID = opid, bo_Statement = s, bo_Source = opt_Target options, bo_Start = start, bo_End = stop,
       bo_ThreadID = threadID, bo_Schema = fst (statementObject s), bo_Table = snd (statementObject s), bo_Rollbacks = rollbacks \<rparr>"

text \<open>After a successful execution under backup: the end position, the rollback records, the store.\<close>

definition backup_statement ::
  "'w exec_env \<Rightarrow> 'w store_db \<Rightarrow> request_options \<Rightarrow> 32 word \<Rightarrow> nat \<Rightarrow> statement \<Rightarrow> int \<Rightarrow> binlog_position \<Rightarrow>
   rollback_record list \<Rightarrow> execution_result \<Rightarrow> ('w, step_result) io" where
  "backup_statement env store options threadID index s startTime start ddlSQL r w =
     (case MasterPosition (ee_MasterStatus env w) of
        Inl err \<Rightarrow> (Returns (failed_step r RuleBackupFailed err), w)
      | Inr stop \<Rightarrow>
          let opid = opid_text (startTime div 1000000000) threadID (s_Sequence s) in
          case statement_rollbacks env w s start stop threadID (res_AffectedRows r) ddlSQL of
            Inl err \<Rightarrow> (Returns (failed_step r RuleBackupFailed err), w)
          | Inr rollbacks \<Rightarrow>
              (case Save store (backup_operation options s opid start stop threadID rollbacks) w of
                 (Raises err, w1) \<Rightarrow>
                   (Returns (failed_step (r\<lparr>res_BackupDuration := ee_Now env w1 - ee_Now env w\<rparr>) RuleBackupFailed err), w1)
               | (Panics msg, w1) \<Rightarrow> (Panics msg, w1)
               | (Returns dbName, w1) \<Rightarrow> finish_step env options index
                   (r\<lparr>res_BackupDuration := ee_Now env w1 - ee_Now env w, res_SequenceID := opid,
                      res_BackupDatabase := dbName, res_BackupCompleted := True\<rparr>) w1))"

definition execute_with_backup ::
  "'w exec_env \<Rightarrow> 'w store_db \<Rightarrow> request_options \<Rightarrow> 32 word \<Rightarrow> nat \<Rightarrow> statement \<Rightarrow> ('w, step_result) io" where
  "execute_with_backup env store options threadID index s w =
     (let startTime = ee_Now env w; r = new_result s in
      case MasterPosition (ee_MasterStatus env w) of
        Inl err \<Rightarrow> (Returns (failed_step r RuleBinlogPrereq err), w)
      | Inr start \<Rightarrow>
          (case prepareDDLRollback env w s of
             Raises err \<Rightarrow> (Returns (failed_step r RuleBackupFailed err), w)
           | Panics msg \<Rightarrow> (Panics msg, w)
           | Returns ddlSQL \<Rightarrow>
               (case ee_Exec env (s_Normalized s) [] w of
                  (Inl err, w1) \<Rightarrow> (Returns (failed_step (r\<lparr>res_Duration := ee_Now env w1 - startTime\<rparr>) [] err), w1)
                | (Inr rows, w1) \<Rightarrow>
                    backup_statement env store options threadID index s startTime start ddlSQL
                      (executed_result r (ee_Now env w1 - startTime) rows) w1)))"

section \<open>The loop\<close>

text \<open>The second argument is the store and the connection identifier of a request with backup.\<close>

definition execute_one ::
  "'w exec_env \<Rightarrow> ('w store_db \<times> 32 word) option \<Rightarrow> request_options \<Rightarrow> nat \<Rightarrow> statement \<Rightarrow> ('w, step_result) io" where
  "execute_one env bk options index s =
     (case bk of
        None \<Rightarrow> execute_plain env options index s
      | Some (store, threadID) \<Rightarrow>
          if s_Kind s = StatementUse \<or> s_Kind s = StatementSelect then execute_plain env options index s
          else execute_with_backup env store options threadID index s)"

fun execute_loop ::
  "'w exec_env \<Rightarrow> ('w store_db \<times> 32 word) option \<Rightarrow> request_options \<Rightarrow> nat \<Rightarrow> statement list \<Rightarrow> ('w, execution_result list) io" where
  "execute_loop env bk options index [] = io_return []"
| "execute_loop env bk options index (s # ss) =
     io_bind (execute_one env bk options index s) (\<lambda>(r, go).
       if go then io_bind (execute_loop env bk options (Suc index) ss) (\<lambda>rs. io_return (r # rs)) else io_return [r])"

definition first_failure :: "string \<Rightarrow> string \<Rightarrow> execution_result list" where
  "first_failure rule message = [zero_execution_result\<lparr>res_Sequence := 1, res_RuleID := rule, res_Error := message\<rparr>]"

definition open_backup :: "'w exec_env \<Rightarrow> backup_target \<Rightarrow> 'w \<Rightarrow> string + ('w store_db \<times> 32 word)" where
  "open_backup env target w =
     (case Validate (ee_BinlogVariables env w) of
        Some err \<Rightarrow> Inl (err_Error err)
      | None \<Rightarrow>
          if bt_Host target = [] \<or> bt_Port target = 0 \<or> bt_User target = []
          then Inl ''backup MySQL host, port, and user are required''
          else (case ee_OpenStore env target of
            Inl err \<Rightarrow> Inl (err_Error err)
          | Inr store \<Rightarrow> (case ee_PingStore env w of
              Some err \<Rightarrow> Inl (''connect backup MySQL: '' @ err_Error err)
            | None \<Rightarrow> (case ee_ConnectionID env w of
                Inl err \<Rightarrow> Inl (err_Error err)
              | Inr ident \<Rightarrow> Inr (store, ucast ident)))))"

definition Execute ::
  "'w exec_env \<Rightarrow> backup_target \<Rightarrow> request_options \<Rightarrow> statement list \<Rightarrow> ('w, execution_result list) io" where
  "Execute env target options statements w =
     (case ee_Conn env w of
        (Inl err, w1) \<Rightarrow> (Returns (first_failure [] (err_Error err)), w1)
      | (Inr _, w1) \<Rightarrow>
          (case configureSession env (opt_Target options) w1 of
             (Raises err, w2) \<Rightarrow> (Returns (first_failure RuleExecutionFailed (''configure target session: '' @ err_Error err)), w2)
           | (Panics msg, w2) \<Rightarrow> (Panics msg, w2)
           | (Returns _, w2) \<Rightarrow>
               if opt_Backup options
               then (case open_backup env target w2 of
                 Inl message \<Rightarrow> (Returns (first_failure RuleBinlogPrereq message), w2)
               | Inr bk \<Rightarrow> execute_loop env (Some bk) options 0 statements w2)
               else execute_loop env None options 0 statements w2))"

end
