(* ===== verification/AlterRollback.thy ===== *)
theory AlterRollback
  imports ExecEngine
begin

text \<open>
  The rollback of an ALTER TABLE restores the table. The engine writes the rollback as text
  (\<^verbatim>\<open>prepareDDLRollback\<close>); \<open>undo_alters\<close> are the same operations as projections, and the schema
  snapshot (\<^verbatim>\<open>applyTableDDL\<close>) is their meaning.
\<close>

section \<open>The undoing operations\<close>

definition drop_column_op :: "string \<Rightarrow> alter_operation" where
  "drop_column_op n = alter_op AlterDropColumn n [] []"

definition drop_index_op :: "string \<Rightarrow> alter_operation" where
  "drop_index_op n = alter_op AlterDropIndex n [] []"

definition rename_column_op :: "string \<Rightarrow> string \<Rightarrow> alter_operation" where
  "rename_column_op a b = alter_op AlterRenameColumn a b []"

definition undo_alter :: "alter_operation \<Rightarrow> alter_operation list" where
  "undo_alter op =
     (case op_Action op of
        AlterAddColumns \<Rightarrow> map (\<lambda>c. drop_column_op (c_Name c)) (rev (op_Columns op))
      | AlterAddIndex \<Rightarrow> [drop_index_op (case op_Index op of Some i \<Rightarrow> i_Name i | None \<Rightarrow> [])]
      | _ \<Rightarrow> [rename_column_op (op_NewName op) (op_Name op)])"

definition undo_alters :: "alter_operation list \<Rightarrow> alter_operation list" where
  "undo_alters ops = concat (map undo_alter (rev ops))"

fun undo_text :: "alter_operation \<Rightarrow> string" where
  "undo_text u =
     (case op_Action u of
        AlterDropColumn \<Rightarrow> '' DROP COLUMN '' @ exec_quote (op_Name u)
      | AlterDropIndex \<Rightarrow> '' DROP INDEX '' @ exec_quote (op_Name u)
      | _ \<Rightarrow> '' RENAME COLUMN '' @ exec_quote (op_Name u) @ '' TO '' @ exec_quote (op_NewName u))"

lemmas undo_op_defs = drop_column_op_def drop_index_op_def rename_column_op_def alter_op_def

definition undoable_op :: "alter_operation \<Rightarrow> bool" where
  "undoable_op op \<longleftrightarrow> op_Action op = AlterAddColumns \<or> (op_Action op = AlterAddIndex \<and> op_Index op \<noteq> None) \<or>
     op_Action op = AlterRenameColumn"

lemma alter_rollback_text:
  "undoable_op op \<Longrightarrow> alter_rollback d op = Returns (map (\<lambda>u. alter_record d (undo_text u)) (undo_alter op))"
  by (auto simp: undoable_op_def alter_rollback_def undo_alter_def undo_op_defs comp_def)

lemma alter_rollbacks_text:
  "\<forall>op\<in>set ops. undoable_op op \<Longrightarrow>
   alter_rollbacks d ops = Returns (map (\<lambda>u. alter_record d (undo_text u)) (concat (map undo_alter ops)))"
  by (induction ops) (simp_all add: alter_rollback_text)

section \<open>Tables that an operation and its undoing leave alone\<close>

definition named_column :: "table_meta \<Rightarrow> string \<Rightarrow> bool" where
  "named_column t n \<longleftrightarrow> (\<exists>c\<in>set (t_Columns t). col_key c = strings_ToLower n)"

definition index_inv :: "table_meta \<Rightarrow> index_meta \<Rightarrow> bool" where
  "index_inv t i \<longleftrightarrow> (\<forall>n\<in>set (idx_Columns i). n = [] \<or> named_column t n) \<and>
     (idx_Columns i \<noteq> [] \<or> idx_Expressions i \<noteq> []) \<and> length (idx_PrefixLengths i) \<le> length (idx_Columns i)"

definition restore_inv :: "table_meta \<Rightarrow> bool" where
  "restore_inv t \<longleftrightarrow> columns_wf t \<and> (\<forall>i\<in>set (t_Indexes t). index_inv t i)"

text \<open>
  What an operation must satisfy: names are not empty, an added index names columns of the table, and
  a renamed column is written as it is spelled in the table and in its indexes.
\<close>

definition op_spelled :: "table_meta \<Rightarrow> alter_operation \<Rightarrow> bool" where
  "op_spelled t op \<longleftrightarrow>
     (case op_Action op of
        AlterAddColumns \<Rightarrow> (\<forall>c\<in>set (op_Columns op). c_Name c \<noteq> [])
      | AlterAddIndex \<Rightarrow> (case op_Index op of None \<Rightarrow> False
          | Some i \<Rightarrow> i_Columns i \<noteq> [] \<and> (\<forall>n\<in>set (i_Columns i). n = [] \<or> named_column t n))
      | AlterRenameColumn \<Rightarrow> op_Name op \<noteq> [] \<and> op_NewName op \<noteq> [] \<and>
          (\<forall>c\<in>set (t_Columns t). strings_EqualFold (col_Name c) (op_Name op) \<longrightarrow> col_Name c = op_Name op) \<and>
          (\<forall>i\<in>set (t_Indexes t). \<forall>n\<in>set (idx_Columns i). strings_EqualFold n (op_Name op) \<longrightarrow> n = op_Name op)
      | _ \<Rightarrow> False)"

fun ops_spelled :: "ddl_spec \<Rightarrow> alter_operation list \<Rightarrow> table_meta \<Rightarrow> bool" where
  "ops_spelled d [] t \<longleftrightarrow> True"
| "ops_spelled d (op # ops) t \<longleftrightarrow> op_spelled t op \<and>
     (case apply_alter d op t of Inl _ \<Rightarrow> True | Inr t' \<Rightarrow> ops_spelled d ops t')"

lemma findColumn_absent: "findColumn t n = None \<longleftrightarrow> \<not> named_column t n"
  by (simp add: findColumn_key named_column_def)

lemma named_column_fold: "strings_EqualFold n m \<Longrightarrow> named_column t n = named_column t m"
  by (simp add: named_column_def strings_EqualFold_def)

lemma EqualFold_Nil [simp]: "strings_EqualFold [] n \<longleftrightarrow> n = []"
  by (auto simp: strings_EqualFold_def strings_ToLower_def)

lemma find_pos_snoc: "\<forall>x\<in>set xs. \<not> P x \<Longrightarrow> P y \<Longrightarrow> find_pos P (xs @ [y]) = Some (length xs)"
  by (induction xs) auto

lemma remove_at_last [simp]: "remove_at (length xs) (xs @ [y]) = xs"
  by (simp add: remove_at_def)

lemma enumerate_lookup:
  "concat (map (\<lambda>(k, x). if k < length all then [all ! k] else []) (enumerate n xs)) = take (length xs) (drop n all)"
proof (induction xs arbitrary: n)
  case (Cons x xs)
  then show ?case
    by (cases "n < length all") (simp_all add: Cons_nth_drop_Suc [symmetric])
qed simp

lemma drop_index_column_id:
  assumes "\<forall>n\<in>set (idx_Columns i). \<not> strings_EqualFold n column" and "length (idx_PrefixLengths i) \<le> length (idx_Columns i)"
  shows "drop_index_column column i = i"
proof -
  have "filter (\<lambda>(position, name). \<not> strings_EqualFold name column) (enumerate 0 (idx_Columns i)) = enumerate 0 (idx_Columns i)"
    using assms(1) by (auto simp: filter_id_conv in_set_enumerate_eq)
  with enumerate_lookup [of "idx_PrefixLengths i" 0 "idx_Columns i"] assms(2) show ?thesis
    by (simp add: drop_index_column_def)
qed

lemma dropColumnFromIndexes_id:
  assumes "\<forall>i\<in>set (t_Indexes t). index_inv t i" and "\<not> named_column t column" and "column \<noteq> []"
  shows "dropColumnFromIndexes t column = t"
proof -
  have "drop_index_column column i = i \<and> (idx_Columns i \<noteq> [] \<or> idx_Expressions i \<noteq> [])" if "i \<in> set (t_Indexes t)" for i
  proof -
    have inv: "index_inv t i" using assms(1) that by blast
    have "\<not> strings_EqualFold n column" if "n \<in> set (idx_Columns i)" for n
      using inv that assms(2,3) named_column_fold [of n column t] by (auto simp: index_inv_def)
    with drop_index_column_id inv show ?thesis by (simp add: index_inv_def)
  qed
  then have "map (drop_index_column column) (t_Indexes t) = t_Indexes t"
    "filter (\<lambda>index. length (idx_Columns index) > 0 \<or> length (idx_Expressions index) > 0) (t_Indexes t) = t_Indexes t"
    by (auto simp: map_idI filter_id_conv)
  then show ?thesis by (simp add: dropColumnFromIndexes_def)
qed

section \<open>Each operation is undone\<close>

lemma index_inv_columns: "index_inv t i \<Longrightarrow> (\<And>n. named_column t n \<Longrightarrow> named_column t' n) \<Longrightarrow> index_inv t' i"
  by (auto simp: index_inv_def)

lemma add_column_undone:
  assumes "restore_inv t" and "add_column c t = Inr t'" and "c_Name c \<noteq> []"
  shows "restore_inv t' \<and> apply_alter d (drop_column_op (c_Name c)) t' = Inr t"
proof -
  have free: "\<not> named_column t (c_Name c)" and
    t': "t' = t\<lparr>t_Columns := t_Columns t @ [columnFromSpec c]\<rparr>"
    using assms(2) by (auto simp: add_column_def findColumn_absent split: if_splits)
  have key: "col_key (columnFromSpec c) = strings_ToLower (c_Name c)" by (simp add: col_key_def columnFromSpec_def)
  have "findColumn t' (c_Name c) = Some (length (t_Columns t))"
    unfolding findColumn_key t' using free key by (auto simp: named_column_def intro: find_pos_snoc)
  moreover have "dropColumnFromIndexes t (c_Name c) = t"
    using dropColumnFromIndexes_id assms(1,3) free by (simp add: restore_inv_def)
  moreover have "t\<lparr>t_Columns := t_Columns t\<rparr> = t" by simp
  moreover have "restore_inv t'"
    using assms(1) free key index_inv_columns [of t _ t'] by (auto simp: restore_inv_def columns_wf_def named_column_def t')
  ultimately show ?thesis by (simp add: apply_alter_def undo_op_defs t')
qed

lemma add_columns_undone:
  "restore_inv t \<Longrightarrow> for_each add_column cs t = Inr t' \<Longrightarrow> \<forall>c\<in>set cs. c_Name c \<noteq> [] \<Longrightarrow>
   restore_inv t' \<and> for_each (apply_alter d) (map (\<lambda>c. drop_column_op (c_Name c)) (rev cs)) t' = Inr t"
proof (induction cs arbitrary: t)
  case (Cons c cs)
  then obtain t1 where t1: "add_column c t = Inr t1" "for_each add_column cs t1 = Inr t'" by (auto simp: sum_bind_Inr_iff)
  with add_column_undone [OF Cons.prems(1) t1(1), of d] Cons.prems(3) have "restore_inv t1" "apply_alter d (drop_column_op (c_Name c)) t1 = Inr t"
    by auto
  with Cons.IH [OF this(1) t1(2)] Cons.prems(3) show ?case by (simp add: for_each_append)
qed simp

lemma add_index_undone:
  assumes "restore_inv t" and "op_Action op = AlterAddIndex" and "op_spelled t op" and "apply_alter d op t = Inr t'"
  shows "restore_inv t' \<and> for_each (apply_alter d') (undo_alter op) t' = Inr t"
proof -
  obtain i where i: "op_Index op = Some i" using assms(2,3) by (auto simp: op_spelled_def split: option.splits)
  let ?i = "zero_index_meta\<lparr>idx_Name := i_Name i, idx_Columns := i_Columns i, idx_Unique := i_Unique i,
     idx_Primary := i_Primary i, idx_Visible := True\<rparr>"
  have free: "findIndex t (i_Name i) = None" and t': "t' = t\<lparr>t_Indexes := t_Indexes t @ [?i]\<rparr>"
    using assms(2,4) i by (auto simp: apply_alter_def split: if_splits)
  have "findIndex t' (i_Name i) = Some (length (t_Indexes t))"
    unfolding findIndex_key t' using free by (auto simp: findIndex_key idx_key_def intro: find_pos_snoc)
  moreover have "t\<lparr>t_Indexes := t_Indexes t\<rparr> = t" by simp
  moreover have "index_inv t' ?i"
    using assms(2,3) i by (simp add: op_spelled_def index_inv_def named_column_def t' zero_index_meta_def)
  moreover have "index_inv t' j" if "index_inv t j" for j using that by (rule index_inv_columns) (simp add: named_column_def t')
  ultimately show ?thesis
    using assms(1,2) i by (auto simp: restore_inv_def columns_wf_def undo_alter_def undo_op_defs apply_alter_def drop_index_def t')
qed

lemma rename_list_undone:
  assumes "\<forall>n\<in>set ns. strings_EqualFold n a \<longrightarrow> n = a" and "\<forall>n\<in>set ns. \<not> strings_EqualFold n b"
  shows "map (\<lambda>n. if strings_EqualFold n b then a else n) (map (\<lambda>n. if strings_EqualFold n a then b else n) ns) = ns"
proof -
  have "strings_EqualFold b b" by (simp add: strings_EqualFold_def)
  with assms show ?thesis by (induction ns) auto
qed

lemma rename_column_undone:
  assumes inv: "restore_inv t" and act: "op_Action op = AlterRenameColumn" and spelled: "op_spelled t op"
    and run: "apply_alter d op t = Inr t'"
  shows "restore_inv t' \<and> for_each (apply_alter d') (undo_alter op) t' = Inr t"
proof -
  let ?a = "op_Name op" and ?b = "op_NewName op"
  obtain n where n: "findColumn t ?a = Some n" and free: "\<not> named_column t ?b" and
    t': "t' = renameColumnInIndexes (t\<lparr>t_Columns := (t_Columns t)[n := (t_Columns t ! n)\<lparr>col_Name := ?b\<rparr>]\<rparr>) ?a ?b"
    using act run by (auto simp: apply_alter_def findColumn_absent split: option.splits if_splits)
  have pos: "n < length (t_Columns t)" "col_key (t_Columns t ! n) = strings_ToLower ?a"
    using find_pos_SomeD [OF n [unfolded findColumn_key]] by auto
  have names: "?b \<noteq> []" "col_Name (t_Columns t ! n) = ?a"
    using spelled act pos by (auto simp: op_spelled_def col_key_def strings_EqualFold_def)
  have cols: "t_Columns t' = (t_Columns t)[n := (t_Columns t ! n)\<lparr>col_Name := ?b\<rparr>]" by (simp add: t' renameColumnInIndexes_def)
  have wf: "distinct (map col_key (t_Columns t))" using inv by (simp add: restore_inv_def columns_wf_def)
  have key: "col_key ((t_Columns t ! n)\<lparr>col_Name := ?b\<rparr>) = strings_ToLower ?b" by (simp add: col_key_def)
  have other: "col_key (t_Columns t ! j) \<noteq> strings_ToLower ?b" if "j < length (t_Columns t)" for j
    using free that by (auto simp: named_column_def)
  have same: "j = n" if "j < length (t_Columns t)" "col_key (t_Columns t ! j) = strings_ToLower ?a" for j
    using wf that pos by (metis distinct_conv_nth length_map nth_map)
  have keys: "map col_key (t_Columns t') = (map col_key (t_Columns t))[n := strings_ToLower ?b]" by (simp add: cols map_update key)
  have "strings_ToLower ?b \<notin> set (map col_key (t_Columns t))" using free by (auto simp: named_column_def)
  with wf keys have wf': "distinct (map col_key (t_Columns t'))" by (simp add: distinct_list_update)
  have found: "findColumn t' ?b = Some n"
  proof -
    obtain m where m: "findColumn t' ?b = Some m"
      using pos key by (cases "findColumn t' ?b") (auto simp: findColumn_absent named_column_def cols set_conv_nth nth_list_update)
    from find_pos_SomeD [OF this [unfolded findColumn_key]] have "m < length (t_Columns t)" "col_key (t_Columns t' ! m) = strings_ToLower ?b"
      by (auto simp: cols)
    with other [of m] have "m = n" by (cases "m = n") (auto simp: cols)
    with m show ?thesis by simp
  qed
  have gone: "findColumn t' ?a = None"
  proof -
    have ab: "strings_ToLower ?a \<noteq> strings_ToLower ?b" using other [of n] pos by auto
    show ?thesis unfolding findColumn_absent named_column_def
    proof
      assume "\<exists>c\<in>set (t_Columns t'). col_key c = strings_ToLower ?a"
      then obtain i where i: "i < length (t_Columns t)" "col_key (t_Columns t' ! i) = strings_ToLower ?a"
        by (auto simp: in_set_conv_nth cols)
      show False
      proof (cases "i = n")
        case True
        with i key pos ab show False by (simp add: cols)
      next
        case False
        with i same [of i] show False by (simp add: cols)
      qed
    qed
  qed
  have keep: "named_column t' m" if m: "named_column t m" "\<not> strings_EqualFold m ?a" for m
  proof -
    obtain j where j: "j < length (t_Columns t)" "col_key (t_Columns t ! j) = strings_ToLower m"
      using m(1) by (auto simp: named_column_def in_set_conv_nth)
    with m(2) pos have "j \<noteq> n" by (auto simp: strings_EqualFold_def)
    then have "t_Columns t' ! j = t_Columns t ! j" by (simp add: cols)
    moreover have "t_Columns t' ! j \<in> set (t_Columns t')" using j(1) by (intro nth_mem) (simp add: cols)
    ultimately show ?thesis using j(2) unfolding named_column_def by force
  qed
  have new: "named_column t' ?b" using found findColumn_absent [of t' ?b] by simp
  have idx: "(strings_EqualFold m ?a \<longrightarrow> m = ?a) \<and> \<not> strings_EqualFold m ?b" if i: "i \<in> set (t_Indexes t)" "m \<in> set (idx_Columns i)" for i m
  proof -
    have "m = [] \<or> named_column t m" using inv i by (auto simp: restore_inv_def index_inv_def)
    then have "\<not> strings_EqualFold m ?b" using names(1) free named_column_fold [of m ?b t] by auto
    moreover have "strings_EqualFold m ?a \<longrightarrow> m = ?a" using spelled act i by (simp add: op_spelled_def)
    ultimately show ?thesis by simp
  qed
  have "index_inv t' (i\<lparr>idx_Columns := map (\<lambda>m. if strings_EqualFold m ?a then ?b else m) (idx_Columns i)\<rparr>)" if "i \<in> set (t_Indexes t)" for i
    using that inv keep new by (auto simp: restore_inv_def index_inv_def)
  then have "restore_inv t'" using wf' by (auto simp: restore_inv_def columns_wf_def t' renameColumnInIndexes_def)
  moreover have "map (\<lambda>i. i\<lparr>idx_Columns := map (\<lambda>m. if strings_EqualFold m ?b then ?a else m) (idx_Columns i)\<rparr>) (t_Indexes t') = t_Indexes t"
    using rename_list_undone [of _ ?a ?b] idx by (auto simp: t' renameColumnInIndexes_def comp_def intro!: map_idI)
  moreover have "(t_Columns t')[n := (t_Columns t' ! n)\<lparr>col_Name := ?a\<rparr>] = t_Columns t"
  proof -
    have "(t_Columns t ! n)\<lparr>col_Name := ?a\<rparr> = t_Columns t ! n" using names(2) by (cases "t_Columns t ! n") simp
    with pos show ?thesis by (simp add: cols)
  qed
  ultimately show ?thesis
    using act found gone by (simp add: undo_alter_def undo_op_defs apply_alter_def) (simp add: renameColumnInIndexes_def t')
qed

lemma op_undone:
  assumes "restore_inv t" and "op_spelled t op" and "apply_alter d op t = Inr t'"
  shows "restore_inv t' \<and> undoable_op op \<and> for_each (apply_alter d') (undo_alter op) t' = Inr t"
proof -
  consider "op_Action op = AlterAddColumns" | "op_Action op = AlterAddIndex" "op_Index op \<noteq> None" | "op_Action op = AlterRenameColumn"
    using assms(2) by (auto simp: op_spelled_def split: alter_action.splits option.splits)
  then show ?thesis
  proof cases
    case 1
    with assms add_columns_undone [of t "op_Columns op" t' d'] show ?thesis
      by (simp add: apply_alter_def op_spelled_def undo_alter_def undoable_op_def)
  next
    case 2
    with assms add_index_undone show ?thesis by (simp add: undoable_op_def)
  next
    case 3
    with assms rename_column_undone show ?thesis by (simp add: undoable_op_def)
  qed
qed

lemma ops_undone:
  "restore_inv t \<Longrightarrow> ops_spelled d ops t \<Longrightarrow> for_each (apply_alter d) ops t = Inr t' \<Longrightarrow>
   (\<forall>op\<in>set ops. undoable_op op) \<and> for_each (apply_alter d') (undo_alters ops) t' = Inr t"
proof (induction ops arbitrary: t)
  case (Cons op ops)
  then obtain t1 where t1: "apply_alter d op t = Inr t1" "for_each (apply_alter d) ops t1 = Inr t'" by (auto simp: sum_bind_Inr_iff)
  from op_undone [OF Cons.prems(1) _ t1(1), of d'] Cons.prems(2) have
    "restore_inv t1" "undoable_op op" "for_each (apply_alter d') (undo_alter op) t1 = Inr t" by auto
  with Cons.IH [OF this(1) _ t1(2)] Cons.prems(2) t1(1) show ?case by (simp add: undo_alters_def for_each_append)
qed (simp add: undo_alters_def)


definition rollback_ops :: "alter_operation list" where
  "rollback_ops = [alter_op AlterAddColumns [] [] [zero_column_spec\<lparr>c_Name := ''age''\<rparr>], alter_op AlterRenameColumn ''Name'' ''label'' []]"


end
