(* ===== verification/Config.thy ===== *)
theory Config
  imports Catalog "HOL-Library.Char_ord" "HOL-Library.List_Lexorder" "HOL-Library.AList"
begin

text \<open>
  The configuration: \<^verbatim>\<open>config/config.go\<close>, \<^verbatim>\<open>config/legacy.go\<close> and
  \<^verbatim>\<open>config/runtime.go\<close>. A configuration file is decoded over the defaults, normalised and
  validated; the audit policy is computed from it; the management commands change it while the server runs.

  The TOML decoder and the environment are parameters. The Go maps are association lists with
  distinct keys; where the order of an iteration shows (the message of \<open>Validate\<close>), the order is a parameter.
\<close>

section \<open>The configuration file (config.go)\<close>

record server_config =
  sv_Host :: string
  sv_Port :: int
  sv_MaxConnections :: int
  sv_MaxAllowedPacket :: int
  sv_ReadTimeout :: int
  sv_WriteTimeout :: int
  sv_IdleTimeout :: int
  sv_ShutdownTimeout :: int
  sv_AuditTimeout :: int
  sv_AuditOnly :: bool

record observability_config =
  ob_Enabled :: bool
  ob_Host :: string
  ob_Port :: int

record auth_config =
  au_Username :: string
  au_Password :: string
  au_PasswordEnv :: string

record log_config =
  lg_Level :: string
  lg_Format :: string

record inc =
  inc_LegacyBackupHost :: string
  inc_LegacyBackupPort :: int
  inc_LegacyBackupUser :: string
  inc_LegacyBackupPassword :: string
  inc_CheckIndexColumnRepeat :: bool
  inc_CheckIdentifier :: bool
  inc_CheckIdentifierLower :: bool
  inc_EnableIdentifierKeyword :: bool
  inc_EnableSetCharset :: bool
  inc_EnableSetCollation :: bool
  inc_EnableSetEngine :: bool
  inc_CheckPrimaryKey :: bool
  inc_CheckTableComment :: bool
  inc_CheckColumnComment :: bool
  inc_EnableColumnCharset :: bool
  inc_EnableBlobType :: bool
  inc_EnableJSONType :: bool
  inc_MaxKeyParts :: int
  inc_MaxPrimaryKeyParts :: int
  inc_MaxKeys :: int
  inc_CheckAutoIncrementDataType :: bool
  inc_CheckDMLWhere :: bool
  inc_MaxColumnCount :: int
  inc_MaxUpdateRows :: int
  inc_MaxInsertRows :: int
  inc_CheckDMLLimit :: bool
  inc_CheckDMLOrderBy :: bool
  inc_CheckInsertField :: bool
  inc_EnableSelectStar :: bool
  inc_EnableForeignKey :: bool
  inc_EnablePartition :: bool
  inc_EnableDropTable :: bool
  inc_EnableDropDatabase :: bool
  inc_EnableTruncate :: bool
  inc_RequiredEngine :: string
  inc_CheckImplicitTypeConversion :: bool
  inc_IndexPrefix :: string
  inc_UniqueIndexPrefix :: string
  inc_TablePrefix :: string
  inc_ExplainRule :: string
  inc_SQLMode :: string
  inc_SQLSafeUpdates :: int
  inc_LockWaitTimeout :: int
  inc_SkipGrantTable :: bool
  inc_SupportCharset :: string
  inc_SupportEngine :: string
  inc_Language :: string
  inc_GeneralLog :: bool
  inc_DefaultCharset :: string
  inc_LegacyMaxAllowedPacket :: int
  inc_MustHaveColumns :: string
  inc_CustomKeywords :: "string list"
  inc_CheckColumnTypeChange :: bool
  inc_CheckIndexPrefix :: bool
  inc_EnableNullable :: bool
  inc_EnableEnumSetBit :: bool
  inc_EnableTimestampType :: bool
  inc_EnableAutoIncrementUnsigned :: bool
  inc_EnablePKColumnsOnlyInt :: bool
  inc_CheckTimestampCount :: bool
  inc_MaxCharLength :: int

record inc_level =
  lvl_AlterTableOnce :: int
  lvl_AutoIncrIDWarning :: int
  lvl_AutoIncUnsigned :: int
  lvl_BlobCantHaveDefault :: int
  lvl_CantChangeColumn :: int
  lvl_CantChangeColumnPosition :: int
  lvl_CantSetCharset :: int
  lvl_CantSetCollation :: int
  lvl_CantSetEngine :: int
  lvl_ChangeColumnType :: int
  lvl_TableMustHavePK :: int
  lvl_TableMustHaveComment :: int
  lvl_ColumnMustHaveComment :: int
  lvl_ColumnMustHaveCommentAlias :: int
  lvl_MaxColumnCount :: int
  lvl_NoWhereCondition :: int
  lvl_ChangeTooMuchRows :: int
  lvl_InsertTooMuchRows :: int
  lvl_WithLimitCondition :: int
  lvl_WithOrderByCondition :: int
  lvl_JoinNoOnCondition :: int
  lvl_SelectOnlyStar :: int
  lvl_InsertField :: int
  lvl_InsertFieldAlias :: int
  lvl_CharToVarcharLen :: int
  lvl_CharsetOnColumn :: int
  lvl_DatetimeDefault :: int
  lvl_ForeignKey :: int
  lvl_IdentifierKeyword :: int
  lvl_ImplicitTypeConversion :: int
  lvl_AutoIncrementInitial :: int
  lvl_IncorrectDatetimeValue :: int
  lvl_IndexNamePrefix :: int
  lvl_UniqueIndexNamePrefix :: int
  lvl_JSONTypeSupport :: int
  lvl_MustHaveColumns :: int
  lvl_NotAllowedNullable :: int
  lvl_OrderByRand :: int
  lvl_PartitionNotAllowed :: int
  lvl_PrimaryKeyColumnsNotInt :: int
  lvl_PrimaryKeyTooManyParts :: int
  lvl_AutoIncrementIntegerType :: int
  lvl_TableCharsetMustNull :: int
  lvl_TableCharsetMustUTF8 :: int
  lvl_TextNotNullable :: int
  lvl_TooManyKeyParts :: int
  lvl_TooManyKeys :: int
  lvl_TooManyAutoTimestampCols :: int
  lvl_UseEnum :: int
  lvl_UseTextOrBlob :: int
  lvl_ViewSupport :: int
  lvl_WithDefaultAddColumn :: int
  lvl_WrongAndExpression :: int
  lvl_InvalidDataType :: int
  lvl_InvalidIdentifier :: int

record backup_config =
  bc_Host :: string
  bc_Port :: int
  bc_User :: string
  bc_Password :: string
  bc_PasswordEnv :: string

record config =
  cf_Server :: server_config
  cf_Auth :: auth_config
  cf_Log :: log_config
  cf_Inc :: inc
  cf_IncLevel :: inc_level
  cf_Rules :: "(string \<times> int) list"
  cf_Backup :: backup_config
  cf_Observability :: observability_config

definition default_inc :: inc where
  "default_inc = \<lparr>
     inc_LegacyBackupHost = [], inc_LegacyBackupPort = 0, inc_LegacyBackupUser = [], inc_LegacyBackupPassword = [],
     inc_CheckIndexColumnRepeat = False, inc_CheckIdentifier = False, inc_CheckIdentifierLower = False,
     inc_EnableIdentifierKeyword = False, inc_EnableSetCharset = False, inc_EnableSetCollation = False,
     inc_EnableSetEngine = True, inc_CheckPrimaryKey = False, inc_CheckTableComment = False,
     inc_CheckColumnComment = False, inc_EnableColumnCharset = False, inc_EnableBlobType = False,
     inc_EnableJSONType = False, inc_MaxKeyParts = 5, inc_MaxPrimaryKeyParts = 3, inc_MaxKeys = 10,
     inc_CheckAutoIncrementDataType = False, inc_CheckDMLWhere = True, inc_MaxColumnCount = 100, inc_MaxUpdateRows = 0,
     inc_MaxInsertRows = 0, inc_CheckDMLLimit = False, inc_CheckDMLOrderBy = False, inc_CheckInsertField = False,
     inc_EnableSelectStar = False, inc_EnableForeignKey = False, inc_EnablePartition = False,
     inc_EnableDropTable = False, inc_EnableDropDatabase = False, inc_EnableTruncate = False,
     inc_RequiredEngine = ''innodb'', inc_CheckImplicitTypeConversion = False, inc_IndexPrefix = [],
     inc_UniqueIndexPrefix = [], inc_TablePrefix = [], inc_ExplainRule = ''first'', inc_SQLMode = [],
     inc_SQLSafeUpdates = (-1), inc_LockWaitTimeout = (-1), inc_SkipGrantTable = True,
     inc_SupportCharset = ''utf8,utf8mb4'', inc_SupportEngine = ''innodb'', inc_Language = [], inc_GeneralLog = False,
     inc_DefaultCharset = ''utf8mb4'', inc_LegacyMaxAllowedPacket = 0, inc_MustHaveColumns = [],
     inc_CustomKeywords = [], inc_CheckColumnTypeChange = False, inc_CheckIndexPrefix = False,
     inc_EnableNullable = True, inc_EnableEnumSetBit = False, inc_EnableTimestampType = True,
     inc_EnableAutoIncrementUnsigned = False, inc_EnablePKColumnsOnlyInt = False, inc_CheckTimestampCount = True,
     inc_MaxCharLength = 0 \<rparr>"

definition default_inc_level :: inc_level where
  "default_inc_level = \<lparr>
     lvl_AlterTableOnce = 1, lvl_AutoIncrIDWarning = 0, lvl_AutoIncUnsigned = 0, lvl_BlobCantHaveDefault = 1,
     lvl_CantChangeColumn = 0, lvl_CantChangeColumnPosition = 1, lvl_CantSetCharset = 2, lvl_CantSetCollation = 2,
     lvl_CantSetEngine = 2, lvl_ChangeColumnType = 1, lvl_TableMustHavePK = 2, lvl_TableMustHaveComment = 1,
     lvl_ColumnMustHaveComment = 2, lvl_ColumnMustHaveCommentAlias = 0, lvl_MaxColumnCount = 1,
     lvl_NoWhereCondition = 2, lvl_ChangeTooMuchRows = 2, lvl_InsertTooMuchRows = 1, lvl_WithLimitCondition = 1,
     lvl_WithOrderByCondition = 2, lvl_JoinNoOnCondition = 2, lvl_SelectOnlyStar = 1, lvl_InsertField = 1,
     lvl_InsertFieldAlias = 0, lvl_CharToVarcharLen = 1, lvl_CharsetOnColumn = 2, lvl_DatetimeDefault = 1,
     lvl_ForeignKey = 2, lvl_IdentifierKeyword = 2, lvl_ImplicitTypeConversion = 2, lvl_AutoIncrementInitial = 1,
     lvl_IncorrectDatetimeValue = 2, lvl_IndexNamePrefix = 1, lvl_UniqueIndexNamePrefix = 1, lvl_JSONTypeSupport = 1,
     lvl_MustHaveColumns = 2, lvl_NotAllowedNullable = 1, lvl_OrderByRand = 2, lvl_PartitionNotAllowed = 1,
     lvl_PrimaryKeyColumnsNotInt = 1, lvl_PrimaryKeyTooManyParts = 2, lvl_AutoIncrementIntegerType = 1,
     lvl_TableCharsetMustNull = 2, lvl_TableCharsetMustUTF8 = 2, lvl_TextNotNullable = 1, lvl_TooManyKeyParts = 2,
     lvl_TooManyKeys = 1, lvl_TooManyAutoTimestampCols = 1, lvl_UseEnum = 2, lvl_UseTextOrBlob = 1,
     lvl_ViewSupport = 2, lvl_WithDefaultAddColumn = 2, lvl_WrongAndExpression = 1, lvl_InvalidDataType = 1,
     lvl_InvalidIdentifier = 2 \<rparr>"

text \<open>Durations are nanoseconds.\<close>

definition time_Second :: int where
  "time_Second = 1000000000"

definition Defaults :: config where
  "Defaults = \<lparr>
     cf_Server = \<lparr> sv_Host = ''0.0.0.0'', sv_Port = 4000, sv_MaxConnections = 200, sv_MaxAllowedPacket = 16 * 2 ^ 20,
       sv_ReadTimeout = 30 * time_Second, sv_WriteTimeout = 30 * time_Second, sv_IdleTimeout = 10 * 60 * time_Second,
       sv_ShutdownTimeout = 15 * time_Second, sv_AuditTimeout = 30 * time_Second, sv_AuditOnly = False \<rparr>,
     cf_Auth = \<lparr> au_Username = [], au_Password = [], au_PasswordEnv = [] \<rparr>,
     cf_Log = \<lparr> lg_Level = ''info'', lg_Format = ''text'' \<rparr>,
     cf_Inc = default_inc, cf_IncLevel = default_inc_level, cf_Rules = [],
     cf_Backup = \<lparr> bc_Host = [], bc_Port = 3306, bc_User = [], bc_Password = [], bc_PasswordEnv = [] \<rparr>,
     cf_Observability = \<lparr> ob_Enabled = False, ob_Host = ''127.0.0.1'', ob_Port = 4001 \<rparr> \<rparr>"

section \<open>Legacy names (legacy.go)\<close>

text \<open>
  A pointer to a level is the pair of its reader and its writer.
\<close>

record level_ref =
  lr_get :: "inc_level \<Rightarrow> int"
  lr_set :: "int \<Rightarrow> inc_level \<Rightarrow> inc_level"

definition levelBindings :: "(string \<times> level_ref) list" where
  "levelBindings = [
     (''er_alter_table_once'', \<lparr> lr_get = lvl_AlterTableOnce, lr_set = (\<lambda>x. lvl_AlterTableOnce_update (\<lambda>_. x)) \<rparr>),
     (''er_auto_incr_id_warning'', \<lparr> lr_get = lvl_AutoIncrIDWarning, lr_set = (\<lambda>x. lvl_AutoIncrIDWarning_update (\<lambda>_. x)) \<rparr>),
     (''er_autoinc_unsigned'', \<lparr> lr_get = lvl_AutoIncUnsigned, lr_set = (\<lambda>x. lvl_AutoIncUnsigned_update (\<lambda>_. x)) \<rparr>),
     (''er_blob_cant_have_default'', \<lparr> lr_get = lvl_BlobCantHaveDefault, lr_set = (\<lambda>x. lvl_BlobCantHaveDefault_update (\<lambda>_. x)) \<rparr>),
     (''er_cant_change_column'', \<lparr> lr_get = lvl_CantChangeColumn, lr_set = (\<lambda>x. lvl_CantChangeColumn_update (\<lambda>_. x)) \<rparr>),
     (''er_cant_change_column_position'', \<lparr> lr_get = lvl_CantChangeColumnPosition, lr_set = (\<lambda>x. lvl_CantChangeColumnPosition_update (\<lambda>_. x)) \<rparr>),
     (''er_cant_set_charset'', \<lparr> lr_get = lvl_CantSetCharset, lr_set = (\<lambda>x. lvl_CantSetCharset_update (\<lambda>_. x)) \<rparr>),
     (''er_cant_set_collation'', \<lparr> lr_get = lvl_CantSetCollation, lr_set = (\<lambda>x. lvl_CantSetCollation_update (\<lambda>_. x)) \<rparr>),
     (''er_cant_set_engine'', \<lparr> lr_get = lvl_CantSetEngine, lr_set = (\<lambda>x. lvl_CantSetEngine_update (\<lambda>_. x)) \<rparr>),
     (''er_change_column_type'', \<lparr> lr_get = lvl_ChangeColumnType, lr_set = (\<lambda>x. lvl_ChangeColumnType_update (\<lambda>_. x)) \<rparr>),
     (''er_change_too_much_rows'', \<lparr> lr_get = lvl_ChangeTooMuchRows, lr_set = (\<lambda>x. lvl_ChangeTooMuchRows_update (\<lambda>_. x)) \<rparr>),
     (''er_char_to_varchar_len'', \<lparr> lr_get = lvl_CharToVarcharLen, lr_set = (\<lambda>x. lvl_CharToVarcharLen_update (\<lambda>_. x)) \<rparr>),
     (''er_charset_on_column'', \<lparr> lr_get = lvl_CharsetOnColumn, lr_set = (\<lambda>x. lvl_CharsetOnColumn_update (\<lambda>_. x)) \<rparr>),
     (''er_column_have_no_comment'', \<lparr> lr_get = lvl_ColumnMustHaveComment, lr_set = (\<lambda>x. lvl_ColumnMustHaveComment_update (\<lambda>_. x)) \<rparr>),
     (''er_datetime_default'', \<lparr> lr_get = lvl_DatetimeDefault, lr_set = (\<lambda>x. lvl_DatetimeDefault_update (\<lambda>_. x)) \<rparr>),
     (''er_foreign_key'', \<lparr> lr_get = lvl_ForeignKey, lr_set = (\<lambda>x. lvl_ForeignKey_update (\<lambda>_. x)) \<rparr>),
     (''er_ident_use_keyword'', \<lparr> lr_get = lvl_IdentifierKeyword, lr_set = (\<lambda>x. lvl_IdentifierKeyword_update (\<lambda>_. x)) \<rparr>),
     (''er_implicit_type_conversion'', \<lparr> lr_get = lvl_ImplicitTypeConversion, lr_set = (\<lambda>x. lvl_ImplicitTypeConversion_update (\<lambda>_. x)) \<rparr>),
     (''er_inc_init_err'', \<lparr> lr_get = lvl_AutoIncrementInitial, lr_set = (\<lambda>x. lvl_AutoIncrementInitial_update (\<lambda>_. x)) \<rparr>),
     (''er_incorrect_datetime_value'', \<lparr> lr_get = lvl_IncorrectDatetimeValue, lr_set = (\<lambda>x. lvl_IncorrectDatetimeValue_update (\<lambda>_. x)) \<rparr>),
     (''er_index_name_idx_prefix'', \<lparr> lr_get = lvl_IndexNamePrefix, lr_set = (\<lambda>x. lvl_IndexNamePrefix_update (\<lambda>_. x)) \<rparr>),
     (''er_index_name_uniq_prefix'', \<lparr> lr_get = lvl_UniqueIndexNamePrefix, lr_set = (\<lambda>x. lvl_UniqueIndexNamePrefix_update (\<lambda>_. x)) \<rparr>),
     (''er_insert_too_much_rows'', \<lparr> lr_get = lvl_InsertTooMuchRows, lr_set = (\<lambda>x. lvl_InsertTooMuchRows_update (\<lambda>_. x)) \<rparr>),
     (''er_invalid_data_type'', \<lparr> lr_get = lvl_InvalidDataType, lr_set = (\<lambda>x. lvl_InvalidDataType_update (\<lambda>_. x)) \<rparr>),
     (''er_invalid_ident'', \<lparr> lr_get = lvl_InvalidIdentifier, lr_set = (\<lambda>x. lvl_InvalidIdentifier_update (\<lambda>_. x)) \<rparr>),
     (''er_join_no_on_condition'', \<lparr> lr_get = lvl_JoinNoOnCondition, lr_set = (\<lambda>x. lvl_JoinNoOnCondition_update (\<lambda>_. x)) \<rparr>),
     (''er_json_type_support'', \<lparr> lr_get = lvl_JSONTypeSupport, lr_set = (\<lambda>x. lvl_JSONTypeSupport_update (\<lambda>_. x)) \<rparr>),
     (''er_must_have_columns'', \<lparr> lr_get = lvl_MustHaveColumns, lr_set = (\<lambda>x. lvl_MustHaveColumns_update (\<lambda>_. x)) \<rparr>),
     (''er_no_where_condition'', \<lparr> lr_get = lvl_NoWhereCondition, lr_set = (\<lambda>x. lvl_NoWhereCondition_update (\<lambda>_. x)) \<rparr>),
     (''er_not_allowed_nullable'', \<lparr> lr_get = lvl_NotAllowedNullable, lr_set = (\<lambda>x. lvl_NotAllowedNullable_update (\<lambda>_. x)) \<rparr>),
     (''er_ordery_by_rand'', \<lparr> lr_get = lvl_OrderByRand, lr_set = (\<lambda>x. lvl_OrderByRand_update (\<lambda>_. x)) \<rparr>),
     (''er_partition_not_allowed'', \<lparr> lr_get = lvl_PartitionNotAllowed, lr_set = (\<lambda>x. lvl_PartitionNotAllowed_update (\<lambda>_. x)) \<rparr>),
     (''er_pk_cols_not_int'', \<lparr> lr_get = lvl_PrimaryKeyColumnsNotInt, lr_set = (\<lambda>x. lvl_PrimaryKeyColumnsNotInt_update (\<lambda>_. x)) \<rparr>),
     (''er_pk_too_many_parts'', \<lparr> lr_get = lvl_PrimaryKeyTooManyParts, lr_set = (\<lambda>x. lvl_PrimaryKeyTooManyParts_update (\<lambda>_. x)) \<rparr>),
     (''er_select_only_star'', \<lparr> lr_get = lvl_SelectOnlyStar, lr_set = (\<lambda>x. lvl_SelectOnlyStar_update (\<lambda>_. x)) \<rparr>),
     (''er_set_data_type_int_bigint'', \<lparr> lr_get = lvl_AutoIncrementIntegerType, lr_set = (\<lambda>x. lvl_AutoIncrementIntegerType_update (\<lambda>_. x)) \<rparr>),
     (''er_table_charset_must_null'', \<lparr> lr_get = lvl_TableCharsetMustNull, lr_set = (\<lambda>x. lvl_TableCharsetMustNull_update (\<lambda>_. x)) \<rparr>),
     (''er_table_charset_must_utf8'', \<lparr> lr_get = lvl_TableCharsetMustUTF8, lr_set = (\<lambda>x. lvl_TableCharsetMustUTF8_update (\<lambda>_. x)) \<rparr>),
     (''er_table_must_have_comment'', \<lparr> lr_get = lvl_TableMustHaveComment, lr_set = (\<lambda>x. lvl_TableMustHaveComment_update (\<lambda>_. x)) \<rparr>),
     (''er_table_must_have_pk'', \<lparr> lr_get = lvl_TableMustHavePK, lr_set = (\<lambda>x. lvl_TableMustHavePK_update (\<lambda>_. x)) \<rparr>),
     (''er_text_not_nullable_error'', \<lparr> lr_get = lvl_TextNotNullable, lr_set = (\<lambda>x. lvl_TextNotNullable_update (\<lambda>_. x)) \<rparr>),
     (''er_too_many_key_parts'', \<lparr> lr_get = lvl_TooManyKeyParts, lr_set = (\<lambda>x. lvl_TooManyKeyParts_update (\<lambda>_. x)) \<rparr>),
     (''er_too_many_keys'', \<lparr> lr_get = lvl_TooManyKeys, lr_set = (\<lambda>x. lvl_TooManyKeys_update (\<lambda>_. x)) \<rparr>),
     (''er_too_much_auto_timestamp_cols'', \<lparr> lr_get = lvl_TooManyAutoTimestampCols, lr_set = (\<lambda>x. lvl_TooManyAutoTimestampCols_update (\<lambda>_. x)) \<rparr>),
     (''er_use_enum'', \<lparr> lr_get = lvl_UseEnum, lr_set = (\<lambda>x. lvl_UseEnum_update (\<lambda>_. x)) \<rparr>),
     (''er_use_text_or_blob'', \<lparr> lr_get = lvl_UseTextOrBlob, lr_set = (\<lambda>x. lvl_UseTextOrBlob_update (\<lambda>_. x)) \<rparr>),
     (''er_view_support'', \<lparr> lr_get = lvl_ViewSupport, lr_set = (\<lambda>x. lvl_ViewSupport_update (\<lambda>_. x)) \<rparr>),
     (''er_with_default_add_column'', \<lparr> lr_get = lvl_WithDefaultAddColumn, lr_set = (\<lambda>x. lvl_WithDefaultAddColumn_update (\<lambda>_. x)) \<rparr>),
     (''er_with_insert_field'', \<lparr> lr_get = lvl_InsertField, lr_set = (\<lambda>x. lvl_InsertField_update (\<lambda>_. x)) \<rparr>),
     (''er_with_limit_condition'', \<lparr> lr_get = lvl_WithLimitCondition, lr_set = (\<lambda>x. lvl_WithLimitCondition_update (\<lambda>_. x)) \<rparr>),
     (''er_with_orderby_condition'', \<lparr> lr_get = lvl_WithOrderByCondition, lr_set = (\<lambda>x. lvl_WithOrderByCondition_update (\<lambda>_. x)) \<rparr>),
     (''er_wrong_and_expr'', \<lparr> lr_get = lvl_WrongAndExpression, lr_set = (\<lambda>x. lvl_WrongAndExpression_update (\<lambda>_. x)) \<rparr>)]"

definition legacyLevelRule :: "(string \<times> string) list" where
  "legacyLevelRule = [
     (''er_alter_table_once'', RuleDDLAlterOnce), (''er_auto_incr_id_warning'', RuleDDLAutoName),
     (''er_autoinc_unsigned'', RuleDDLAutoUnsigned), (''er_blob_cant_have_default'', RuleDDLBlobDefault),
     (''er_cant_change_column'', RuleDDLCantChange), (''er_cant_change_column_position'', RuleDDLColumnPosition),
     (''er_cant_set_charset'', RuleDDLCantSetCharset), (''er_cant_set_collation'', RuleDDLCantSetCollation),
     (''er_cant_set_engine'', RuleDDLCantSetEngine), (''er_change_column_type'', RuleDDLColumnTypeChange),
     (''er_change_too_much_rows'', RuleDMLMaxAffected), (''er_char_to_varchar_len'', RuleDDLCharToVarchar),
     (''er_charset_on_column'', RuleDDLColumnCharset), (''er_column_have_no_comment'', RuleColumnMustComment),
     (''er_datetime_default'', RuleDDLDatetimeDefault), (''er_foreign_key'', RuleDDLForeignKey),
     (''er_ident_use_keyword'', RuleDDLIdentifierKeyword),
     (''er_implicit_type_conversion'', RuleDMLImplicitConversion), (''er_inc_init_err'', RuleDDLAutoInitial),
     (''er_incorrect_datetime_value'', RuleDDLIncorrectDatetime), (''er_index_name_idx_prefix'', RuleDDLIndexPrefix),
     (''er_index_name_uniq_prefix'', RuleDDLUniqueIndexPrefix), (''er_insert_too_much_rows'', RuleDMLMaxInsert),
     (''er_invalid_data_type'', RuleDDLInvalidType), (''er_invalid_ident'', RuleDDLInvalidIdentifier),
     (''er_join_no_on_condition'', RuleDMLJoinNoOn), (''er_json_type_support'', RuleDDLJSONType),
     (''er_must_have_columns'', RuleDDLMustColumns), (''er_no_where_condition'', RuleDMLRequireWhere),
     (''er_not_allowed_nullable'', RuleDDLNullable), (''er_ordery_by_rand'', RuleDMLOrderByRand),
     (''er_partition_not_allowed'', RuleDDLPartition), (''er_pk_cols_not_int'', RuleDDLPKInteger),
     (''er_pk_too_many_parts'', RuleDDLMaxPrimaryParts), (''er_select_only_star'', RuleDMLSelectStar),
     (''er_set_data_type_int_bigint'', RuleDDLAutoInteger), (''er_table_charset_must_null'', RuleDDLTableCharsetNull),
     (''er_table_charset_must_utf8'', RuleDDLTableCharsetAllow),
     (''er_table_must_have_comment'', RuleTableMustComment), (''er_table_must_have_pk'', RuleTableMustHavePK),
     (''er_text_not_nullable_error'', RuleDDLTextNotNull), (''er_too_many_key_parts'', RuleDDLMaxKeyParts),
     (''er_too_many_keys'', RuleDDLMaxKeys), (''er_too_much_auto_timestamp_cols'', RuleDDLTooManyTimestamps),
     (''er_use_enum'', RuleDDLUseEnum), (''er_use_text_or_blob'', RuleDDLUseTextBlob),
     (''er_view_support'', RuleDDLView), (''er_with_default_add_column'', RuleDDLAddDefault),
     (''er_with_insert_field'', RuleDMLInsertField), (''er_with_limit_condition'', RuleDMLLimit),
     (''er_with_orderby_condition'', RuleDMLOrderBy), (''er_wrong_and_expr'', RuleDMLWrongAnd)]"

definition legacyVariables :: "inc \<Rightarrow> (string \<times> string) list" where
  "legacyVariables v = [
     (''check_index_column_repeat'', strconv_FormatBool (inc_CheckIndexColumnRepeat v)),
     (''check_identifier'', strconv_FormatBool (inc_CheckIdentifier v)),
     (''check_identifier_lower'', strconv_FormatBool (inc_CheckIdentifierLower v)),
     (''enable_identifer_keyword'', strconv_FormatBool (inc_EnableIdentifierKeyword v)),
     (''enable_set_charset'', strconv_FormatBool (inc_EnableSetCharset v)),
     (''enable_set_collation'', strconv_FormatBool (inc_EnableSetCollation v)),
     (''enable_set_engine'', strconv_FormatBool (inc_EnableSetEngine v)),
     (''check_primary_key'', strconv_FormatBool (inc_CheckPrimaryKey v)),
     (''check_table_comment'', strconv_FormatBool (inc_CheckTableComment v)),
     (''check_column_comment'', strconv_FormatBool (inc_CheckColumnComment v)),
     (''enable_foreign_key'', strconv_FormatBool (inc_EnableForeignKey v)),
     (''enable_partition_table'', strconv_FormatBool (inc_EnablePartition v)),
     (''enable_drop_table'', strconv_FormatBool (inc_EnableDropTable v)),
     (''enable_drop_database'', strconv_FormatBool (inc_EnableDropDatabase v)),
     (''enable_truncate_table'', strconv_FormatBool (inc_EnableTruncate v)),
     (''required_engine'', strings_ToLower (inc_RequiredEngine v)),
     (''enable_column_charset'', strconv_FormatBool (inc_EnableColumnCharset v)),
     (''enable_blob_type'', strconv_FormatBool (inc_EnableBlobType v)),
     (''enable_json_type'', strconv_FormatBool (inc_EnableJSONType v)),
     (''max_key_parts'', strconv_Itoa (inc_MaxKeyParts v)),
     (''max_primary_key_parts'', strconv_Itoa (inc_MaxPrimaryKeyParts v)),
     (''max_keys'', strconv_Itoa (inc_MaxKeys v)),
     (''check_autoincrement_datatype'', strconv_FormatBool (inc_CheckAutoIncrementDataType v)),
     (''check_dml_where'', strconv_FormatBool (inc_CheckDMLWhere v)),
     (''check_dml_limit'', strconv_FormatBool (inc_CheckDMLLimit v)),
     (''check_dml_orderby'', strconv_FormatBool (inc_CheckDMLOrderBy v)),
     (''check_implicit_type_conversion'', strconv_FormatBool (inc_CheckImplicitTypeConversion v)),
     (''index_prefix'', inc_IndexPrefix v), (''max_column_count'', strconv_Itoa (inc_MaxColumnCount v)),
     (''max_update_rows'', strconv_Itoa (inc_MaxUpdateRows v)),
     (''max_insert_rows'', strconv_Itoa (inc_MaxInsertRows v)),
     (''check_insert_field'', strconv_FormatBool (inc_CheckInsertField v)),
     (''enable_select_star'', strconv_FormatBool (inc_EnableSelectStar v)),
     (''uniq_index_prefix'', inc_UniqueIndexPrefix v), (''table_prefix'', inc_TablePrefix v),
     (''explain_rule'', strings_ToLower (inc_ExplainRule v)), (''sql_mode'', inc_SQLMode v),
     (''sql_safe_updates'', strconv_Itoa (inc_SQLSafeUpdates v)),
     (''lock_wait_timeout'', strconv_Itoa (inc_LockWaitTimeout v)),
     (''skip_grant_table'', strconv_FormatBool (inc_SkipGrantTable v)),
     (''support_charset'', strings_ToLower (inc_SupportCharset v)),
     (''support_engine'', strings_ToLower (inc_SupportEngine v)), (''lang'', inc_Language v),
     (''general_log'', strconv_FormatBool (inc_GeneralLog v)),
     (''default_charset'', strings_ToLower (inc_DefaultCharset v)), (''must_have_columns'', inc_MustHaveColumns v),
     (''custom_keywords'', strings_Join (inc_CustomKeywords v) '',''),
     (''check_column_type_change'', strconv_FormatBool (inc_CheckColumnTypeChange v)),
     (''check_index_prefix'', strconv_FormatBool (inc_CheckIndexPrefix v)),
     (''enable_nullable'', strconv_FormatBool (inc_EnableNullable v)),
     (''enable_enum_set_bit'', strconv_FormatBool (inc_EnableEnumSetBit v)),
     (''enable_timestamp_type'', strconv_FormatBool (inc_EnableTimestampType v)),
     (''enable_autoincrement_unsigned'', strconv_FormatBool (inc_EnableAutoIncrementUnsigned v)),
     (''enable_pk_columns_only_int'', strconv_FormatBool (inc_EnablePKColumnsOnlyInt v)),
     (''check_timestamp_count'', strconv_FormatBool (inc_CheckTimestampCount v)),
     (''max_char_length'', strconv_Itoa (inc_MaxCharLength v))]"

section \<open>Loading (config.go)\<close>

text \<open>
  What the code reads of the decoder's \<^verbatim>\<open>toml.MetaData\<close>: which keys the file defines, and the keys no
  field took.
\<close>

record toml_meta =
  tm_IsDefined :: "string list \<Rightarrow> bool"
  tm_Undecoded :: "string list"

definition alias_level ::
  "toml_meta \<Rightarrow> string \<Rightarrow> string \<Rightarrow> (inc_level \<Rightarrow> int) \<Rightarrow> (inc_level \<Rightarrow> int) \<Rightarrow> (int \<Rightarrow> inc_level \<Rightarrow> inc_level)
   \<Rightarrow> config \<Rightarrow> gerror + config" where
  "alias_level meta name alias get get_alias put c =
     (if \<not> tm_IsDefined meta [''inc_level'', alias] then Inr c
      else if tm_IsDefined meta [''inc_level'', name] \<and> get (cf_IncLevel c) \<noteq> get_alias (cf_IncLevel c)
      then Inl (errorf (''conflicting inc_level aliases '' @ name @ '' and '' @ alias))
      else Inr (c\<lparr>cf_IncLevel := put (get_alias (cf_IncLevel c)) (cf_IncLevel c)\<rparr>))"

definition legacy_backup :: "config \<Rightarrow> gerror + config" where
  "legacy_backup c =
     (if inc_LegacyBackupHost (cf_Inc c) = [] then Inr c
      else if bc_Host (cf_Backup c) \<noteq> [] then Inl (errorf ''legacy inc.backup_* conflicts with [backup]'')
      else Inr (c\<lparr>cf_Backup := (cf_Backup c)\<lparr>bc_Host := inc_LegacyBackupHost (cf_Inc c), bc_Port := inc_LegacyBackupPort (cf_Inc c),
             bc_User := inc_LegacyBackupUser (cf_Inc c), bc_Password := inc_LegacyBackupPassword (cf_Inc c)\<rparr>\<rparr>))"

definition normalizeLegacyConfig :: "config \<Rightarrow> toml_meta \<Rightarrow> gerror + config" where
  "normalizeLegacyConfig c meta =
     sum_bind (alias_level meta ''er_column_have_no_comment'' ''er_column_must_have_comment'' lvl_ColumnMustHaveComment
       lvl_ColumnMustHaveCommentAlias (\<lambda>x. lvl_ColumnMustHaveComment_update (\<lambda>_. x)) c) (\<lambda>c.
     sum_bind (alias_level meta ''er_with_insert_field'' ''er_insert_field'' lvl_InsertField
       lvl_InsertFieldAlias (\<lambda>x. lvl_InsertField_update (\<lambda>_. x)) c) (\<lambda>c.
     sum_bind (legacy_backup c) (\<lambda>c.
       Inr (if tm_IsDefined meta [''inc'', ''max_allowed_packet''] \<and> \<not> tm_IsDefined meta [''server'', ''max_allowed_packet'']
            then c\<lparr>cf_Server := (cf_Server c)\<lparr>sv_MaxAllowedPacket := inc_LegacyMaxAllowedPacket (cf_Inc c)\<rparr>\<rparr> else c))))"

definition problem :: "bool \<Rightarrow> string \<Rightarrow> string list" where
  "problem bad message = (if bad then [message] else [])"

definition server_problems :: "server_config \<Rightarrow> string list" where
  "server_problems s =
     problem (strings_TrimSpace (sv_Host s) = []) ''server.host is required'' @
     problem (sv_Port s < 1 \<or> sv_Port s > 65535) ''server.port must be 1..65535'' @
     problem (sv_MaxConnections s < 1) ''server.max_connections must be positive'' @
     problem (sv_MaxAllowedPacket s < 1024 \<or> sv_MaxAllowedPacket s > 2 ^ 30) ''server.max_allowed_packet must be 1KiB..1GiB'' @
     problem (sv_ReadTimeout s \<le> 0 \<or> sv_WriteTimeout s \<le> 0 \<or> sv_IdleTimeout s \<le> 0 \<or> sv_ShutdownTimeout s \<le> 0)
       ''all server timeouts must be positive'' @
     problem (sv_AuditTimeout s \<le> 0) ''server.audit_timeout must be positive''"

definition log_problems :: "log_config \<Rightarrow> string list" where
  "log_problems l =
     problem (lg_Level l \<notin> {''debug'', ''info'', ''warn'', ''error''}) ''log.level must be debug, info, warn, or error'' @
     problem (lg_Format l \<notin> {''text'', ''json''}) ''log.format must be text or json''"

definition observability_problems :: "config \<Rightarrow> string list" where
  "observability_problems c =
     (let o' = cf_Observability c; s = cf_Server c in
      if \<not> ob_Enabled o' then []
      else
        problem (strings_TrimSpace (ob_Host o') = [] \<or> ob_Port o' < 1 \<or> ob_Port o' > 65535) ''observability requires host and port 1..65535'' @
        problem (ob_Port o' = sv_Port s \<and> ob_Host o' = sv_Host s) ''observability and MySQL protocol addresses must differ'')"

definition auth_problems :: "auth_config \<Rightarrow> string list" where
  "auth_problems a =
     problem (strings_TrimSpace (au_Username a) = []) ''auth.username is required'' @
     problem ((au_Password a = []) = (au_PasswordEnv a = [])) ''exactly one of auth.password or auth.password_env is required''"

text \<open>\<open>names\<close> and \<open>codes\<close> are the keys of the two maps in the order of the iterations.\<close>

definition level_problems :: "string list \<Rightarrow> inc_level \<Rightarrow> string list" where
  "level_problems names lv =
     concat (map (\<lambda>name. case map_of levelBindings name of
         None \<Rightarrow> []
       | Some ref \<Rightarrow> problem (lr_get ref lv < 0 \<or> lr_get ref lv > 2) (''inc_level.'' @ name @ '' must be 0, 1, or 2'')) names)"

definition rule_problems :: "string list \<Rightarrow> (string \<times> int) list \<Rightarrow> string list" where
  "rule_problems codes rules =
     concat (map (\<lambda>code. case map_of rules code of
         None \<Rightarrow> []
       | Some v \<Rightarrow>
           if RuleByCode code = None then [''rules.'' @ code @ '' is not a registered GIP RuleID'']
           else problem (v < 0 \<or> v > 2) (''rules.'' @ code @ '' must be 0, 1, or 2'')) codes)"

definition inc_problems :: "inc \<Rightarrow> string list" where
  "inc_problems i =
     problem (inc_ExplainRule i \<noteq> ''first'' \<and> inc_ExplainRule i \<noteq> ''max'') ''inc.explain_rule must be first or max'' @
     problem (inc_SQLSafeUpdates i < -1 \<or> inc_SQLSafeUpdates i > 1) ''inc.sql_safe_updates must be -1, 0, or 1'' @
     problem (inc_LockWaitTimeout i < -1) ''inc.lock_wait_timeout must be -1 or non-negative''"

definition backup_problems :: "backup_config \<Rightarrow> string list" where
  "backup_problems b =
     (if bc_Host b = [] then []
      else
        problem (bc_Port b < 1 \<or> bc_Port b > 65535 \<or> bc_User b = []) ''backup host requires valid port and user'' @
        problem ((bc_Password b = []) = (bc_PasswordEnv b = [])) ''backup requires exactly one password source'')"

definition Validate_config :: "(string list \<Rightarrow> string list) \<Rightarrow> config \<Rightarrow> gerror option" where
  "Validate_config order c =
     (let problems = server_problems (cf_Server c) @ log_problems (cf_Log c) @ observability_problems c @ auth_problems (cf_Auth c) @
        level_problems (order (map fst levelBindings)) (cf_IncLevel c) @ rule_problems (order (map fst (cf_Rules c))) (cf_Rules c) @
        inc_problems (cf_Inc c) @ backup_problems (cf_Backup c) in
      if problems \<noteq> [] then Some (errorf (''configuration validation failed: '' @ strings_Join problems ''; '')) else None)"

definition Load ::
  "(string list \<Rightarrow> string list) \<Rightarrow> (string \<Rightarrow> config \<Rightarrow> gerror + config \<times> toml_meta) \<Rightarrow> string \<Rightarrow> gerror + config" where
  "Load order decode path =
     sum_bind (decode path Defaults) (\<lambda>(c, meta).
     sum_bind (normalizeLegacyConfig c meta) (\<lambda>c.
       if tm_Undecoded meta \<noteq> []
       then Inl (errorf (''unknown or unsupported configuration keys: '' @ strings_Join (tm_Undecoded meta) '', ''))
       else (case Validate_config order c of Some err \<Rightarrow> Inl err | None \<Rightarrow> Inr c)))"

definition secret :: "(string \<rightharpoonup> string) \<Rightarrow> string \<Rightarrow> string \<Rightarrow> string \<Rightarrow> gerror + string" where
  "secret environ v env name =
     (if env = [] then Inr v
      else (case environ env of
          Some (x # xs) \<Rightarrow> Inr (x # xs)
        | _ \<Rightarrow> Inl (errorf (name @ '' password environment variable '' @ env @ '' is empty''))))"

definition AuthPassword :: "(string \<rightharpoonup> string) \<Rightarrow> config \<Rightarrow> gerror + string" where
  "AuthPassword environ c = secret environ (au_Password (cf_Auth c)) (au_PasswordEnv (cf_Auth c)) ''auth''"

section \<open>The policy (config.go)\<close>

definition severity_of :: "int \<Rightarrow> severity" where
  "severity_of v = word_of_int v"

definition set_levels :: "inc_level \<Rightarrow> (string \<rightharpoonup> severity) \<Rightarrow> (string \<rightharpoonup> severity)" where
  "set_levels lv m =
     foldl (\<lambda>m (name, ref). case map_of legacyLevelRule name of
         None \<Rightarrow> m
       | Some code \<Rightarrow> if code \<noteq> [] then m(code \<mapsto> severity_of (lr_get ref lv)) else m) m levelBindings"

definition set_rules :: "(string \<times> int) list \<Rightarrow> (string \<rightharpoonup> severity) \<Rightarrow> (string \<rightharpoonup> severity)" where
  "set_rules rules m = foldl (\<lambda>m (code, v). m(code \<mapsto> severity_of v)) m rules"

definition Policy :: "config \<Rightarrow> policy" where
  "Policy c = (let i = cf_Inc c; p = LegacyDefaults in
     p\<lparr>p_CheckPrimaryKey := inc_CheckPrimaryKey i,
       p_CheckTableComment := inc_CheckTableComment i,
       p_CheckColumnComment := inc_CheckColumnComment i,
       p_RequireDMLWhere := inc_CheckDMLWhere i,
       p_MaxColumnCount := inc_MaxColumnCount i,
       p_MaxAffectedRows := inc_MaxUpdateRows i,
       p_MaxInsertRows := inc_MaxInsertRows i,
       p_CheckDMLLimit := inc_CheckDMLLimit i,
       p_CheckDMLOrderBy := inc_CheckDMLOrderBy i,
       p_CheckInsertField := inc_CheckInsertField i,
       p_AllowSelectStar := inc_EnableSelectStar i,
       p_AllowForeignKey := inc_EnableForeignKey i,
       p_AllowPartition := inc_EnablePartition i,
       p_AllowDropTable := inc_EnableDropTable i,
       p_AllowDropDatabase := inc_EnableDropDatabase i,
       p_AllowTruncate := inc_EnableTruncate i,
       p_RequiredEngine := strings_ToLower (inc_RequiredEngine i),
       p_Legacy := foldl (\<lambda>m (name, v). m(name \<mapsto> v)) (p_Legacy p) (legacyVariables i),
       p_RuleLevels := set_rules (cf_Rules c) (set_levels (cf_IncLevel c) (p_RuleLevels p))\<rparr>)"

section \<open>The running configuration (runtime.go)\<close>

text \<open>
  Every operation holds the lock of the runtime, so the operations are functions of the configuration it
  guards. \<open>setIncByTag\<close> walks the fields of the structure by reflection: \<open>inc_fields\<close> is the list of
  their tags, kinds and writers, in the order of the declaration.
\<close>

record variable =
  va_Name :: string
  va_Value :: string

record level_row =
  le_Name :: string
  le_Desc :: string
  le_Value :: int

definition maskSecret :: "string \<Rightarrow> string" where
  "maskSecret v = (if v = [] then [] else ''******'')"

definition variable_table :: "config \<Rightarrow> (string \<times> string) list" where
  "variable_table c =
     (let i = cf_Inc c; b = cf_Backup c in
      foldl (\<lambda>m (k, v). AList.update k v m) (legacyVariables i)
       [(''max_column_count'', strconv_Itoa (inc_MaxColumnCount i)), (''max_update_rows'', strconv_Itoa (inc_MaxUpdateRows i)),
        (''max_insert_rows'', strconv_Itoa (inc_MaxInsertRows i)), (''check_insert_field'', strconv_FormatBool (inc_CheckInsertField i)),
        (''enable_select_star'', strconv_FormatBool (inc_EnableSelectStar i)),
        (''backup_host'', bc_Host b), (''backup_port'', strconv_Itoa (bc_Port b)), (''backup_user'', bc_User b),
        (''backup_password'', maskSecret (bc_Password b)), (''max_allowed_packet'', strconv_Itoa (sv_MaxAllowedPacket (cf_Server c)))])"

definition Variables :: "config \<Rightarrow> variable list" where
  "Variables c = sort_key va_Name (map (\<lambda>(k, v). \<lparr> va_Name = k, va_Value = v \<rparr>) (variable_table c))"

definition level_row_of :: "config \<Rightarrow> string \<Rightarrow> level_ref \<Rightarrow> level_row" where
  "level_row_of c name ref =
     (let code = (case map_of legacyLevelRule name of Some code \<Rightarrow> code | None \<Rightarrow> []) in
      \<lparr> le_Name = name, le_Desc = (case RuleByCode code of Some d \<Rightarrow> rd_Summary d | None \<Rightarrow> name),
        le_Value = (if code \<noteq> [] then uint (Level (Policy c) code) else lr_get ref (cf_IncLevel c)) \<rparr>)"

definition Levels :: "config \<Rightarrow> level_row list" where
  "Levels c = sort_key le_Name (map (\<lambda>(name, ref). level_row_of c name ref) levelBindings)"

datatype inc_field =
    BoolField "bool \<Rightarrow> inc \<Rightarrow> inc"
  | IntField "int \<Rightarrow> inc \<Rightarrow> inc"
  | StringField "string \<Rightarrow> inc \<Rightarrow> inc"
  | SliceField "string list \<Rightarrow> inc \<Rightarrow> inc"

definition inc_fields :: "(string \<times> inc_field) list" where
  "inc_fields = [
     (''backup_host'', StringField (\<lambda>x. inc_LegacyBackupHost_update (\<lambda>_. x))),
     (''backup_port'', IntField (\<lambda>x. inc_LegacyBackupPort_update (\<lambda>_. x))),
     (''backup_user'', StringField (\<lambda>x. inc_LegacyBackupUser_update (\<lambda>_. x))),
     (''backup_password'', StringField (\<lambda>x. inc_LegacyBackupPassword_update (\<lambda>_. x))),
     (''check_index_column_repeat'', BoolField (\<lambda>x. inc_CheckIndexColumnRepeat_update (\<lambda>_. x))),
     (''check_identifier'', BoolField (\<lambda>x. inc_CheckIdentifier_update (\<lambda>_. x))),
     (''check_identifier_lower'', BoolField (\<lambda>x. inc_CheckIdentifierLower_update (\<lambda>_. x))),
     (''enable_identifer_keyword'', BoolField (\<lambda>x. inc_EnableIdentifierKeyword_update (\<lambda>_. x))),
     (''enable_set_charset'', BoolField (\<lambda>x. inc_EnableSetCharset_update (\<lambda>_. x))),
     (''enable_set_collation'', BoolField (\<lambda>x. inc_EnableSetCollation_update (\<lambda>_. x))),
     (''enable_set_engine'', BoolField (\<lambda>x. inc_EnableSetEngine_update (\<lambda>_. x))),
     (''check_primary_key'', BoolField (\<lambda>x. inc_CheckPrimaryKey_update (\<lambda>_. x))),
     (''check_table_comment'', BoolField (\<lambda>x. inc_CheckTableComment_update (\<lambda>_. x))),
     (''check_column_comment'', BoolField (\<lambda>x. inc_CheckColumnComment_update (\<lambda>_. x))),
     (''enable_column_charset'', BoolField (\<lambda>x. inc_EnableColumnCharset_update (\<lambda>_. x))),
     (''enable_blob_type'', BoolField (\<lambda>x. inc_EnableBlobType_update (\<lambda>_. x))),
     (''enable_json_type'', BoolField (\<lambda>x. inc_EnableJSONType_update (\<lambda>_. x))),
     (''max_key_parts'', IntField (\<lambda>x. inc_MaxKeyParts_update (\<lambda>_. x))),
     (''max_primary_key_parts'', IntField (\<lambda>x. inc_MaxPrimaryKeyParts_update (\<lambda>_. x))),
     (''max_keys'', IntField (\<lambda>x. inc_MaxKeys_update (\<lambda>_. x))),
     (''check_autoincrement_datatype'', BoolField (\<lambda>x. inc_CheckAutoIncrementDataType_update (\<lambda>_. x))),
     (''check_dml_where'', BoolField (\<lambda>x. inc_CheckDMLWhere_update (\<lambda>_. x))),
     (''max_column_count'', IntField (\<lambda>x. inc_MaxColumnCount_update (\<lambda>_. x))),
     (''max_update_rows'', IntField (\<lambda>x. inc_MaxUpdateRows_update (\<lambda>_. x))),
     (''max_insert_rows'', IntField (\<lambda>x. inc_MaxInsertRows_update (\<lambda>_. x))),
     (''check_dml_limit'', BoolField (\<lambda>x. inc_CheckDMLLimit_update (\<lambda>_. x))),
     (''check_dml_orderby'', BoolField (\<lambda>x. inc_CheckDMLOrderBy_update (\<lambda>_. x))),
     (''check_insert_field'', BoolField (\<lambda>x. inc_CheckInsertField_update (\<lambda>_. x))),
     (''enable_select_star'', BoolField (\<lambda>x. inc_EnableSelectStar_update (\<lambda>_. x))),
     (''enable_foreign_key'', BoolField (\<lambda>x. inc_EnableForeignKey_update (\<lambda>_. x))),
     (''enable_partition_table'', BoolField (\<lambda>x. inc_EnablePartition_update (\<lambda>_. x))),
     (''enable_drop_table'', BoolField (\<lambda>x. inc_EnableDropTable_update (\<lambda>_. x))),
     (''enable_drop_database'', BoolField (\<lambda>x. inc_EnableDropDatabase_update (\<lambda>_. x))),
     (''enable_truncate_table'', BoolField (\<lambda>x. inc_EnableTruncate_update (\<lambda>_. x))),
     (''required_engine'', StringField (\<lambda>x. inc_RequiredEngine_update (\<lambda>_. x))),
     (''check_implicit_type_conversion'', BoolField (\<lambda>x. inc_CheckImplicitTypeConversion_update (\<lambda>_. x))),
     (''index_prefix'', StringField (\<lambda>x. inc_IndexPrefix_update (\<lambda>_. x))),
     (''uniq_index_prefix'', StringField (\<lambda>x. inc_UniqueIndexPrefix_update (\<lambda>_. x))),
     (''table_prefix'', StringField (\<lambda>x. inc_TablePrefix_update (\<lambda>_. x))),
     (''explain_rule'', StringField (\<lambda>x. inc_ExplainRule_update (\<lambda>_. x))),
     (''sql_mode'', StringField (\<lambda>x. inc_SQLMode_update (\<lambda>_. x))),
     (''sql_safe_updates'', IntField (\<lambda>x. inc_SQLSafeUpdates_update (\<lambda>_. x))),
     (''lock_wait_timeout'', IntField (\<lambda>x. inc_LockWaitTimeout_update (\<lambda>_. x))),
     (''skip_grant_table'', BoolField (\<lambda>x. inc_SkipGrantTable_update (\<lambda>_. x))),
     (''support_charset'', StringField (\<lambda>x. inc_SupportCharset_update (\<lambda>_. x))),
     (''support_engine'', StringField (\<lambda>x. inc_SupportEngine_update (\<lambda>_. x))),
     (''lang'', StringField (\<lambda>x. inc_Language_update (\<lambda>_. x))),
     (''general_log'', BoolField (\<lambda>x. inc_GeneralLog_update (\<lambda>_. x))),
     (''default_charset'', StringField (\<lambda>x. inc_DefaultCharset_update (\<lambda>_. x))),
     (''max_allowed_packet'', IntField (\<lambda>x. inc_LegacyMaxAllowedPacket_update (\<lambda>_. x))),
     (''must_have_columns'', StringField (\<lambda>x. inc_MustHaveColumns_update (\<lambda>_. x))),
     (''custom_keywords'', SliceField (\<lambda>x. inc_CustomKeywords_update (\<lambda>_. x))),
     (''check_column_type_change'', BoolField (\<lambda>x. inc_CheckColumnTypeChange_update (\<lambda>_. x))),
     (''check_index_prefix'', BoolField (\<lambda>x. inc_CheckIndexPrefix_update (\<lambda>_. x))),
     (''enable_nullable'', BoolField (\<lambda>x. inc_EnableNullable_update (\<lambda>_. x))),
     (''enable_enum_set_bit'', BoolField (\<lambda>x. inc_EnableEnumSetBit_update (\<lambda>_. x))),
     (''enable_timestamp_type'', BoolField (\<lambda>x. inc_EnableTimestampType_update (\<lambda>_. x))),
     (''enable_autoincrement_unsigned'', BoolField (\<lambda>x. inc_EnableAutoIncrementUnsigned_update (\<lambda>_. x))),
     (''enable_pk_columns_only_int'', BoolField (\<lambda>x. inc_EnablePKColumnsOnlyInt_update (\<lambda>_. x))),
     (''check_timestamp_count'', BoolField (\<lambda>x. inc_CheckTimestampCount_update (\<lambda>_. x))),
     (''max_char_length'', IntField (\<lambda>x. inc_MaxCharLength_update (\<lambda>_. x)))]"

definition bad_argument :: "string \<Rightarrow> gerror" where
  "bad_argument name = errorf (''Incorrect argument type to variable '' @ [CHR 39] @ name @ [CHR 39])"

definition setBool :: "string \<Rightarrow> string \<Rightarrow> gerror + bool" where
  "setBool name v =
     (let low = strings_ToLower v in
      if low \<in> {''1'', ''on'', ''true''} then Inr True
      else if low \<in> {''0'', ''off'', ''false''} then Inr False
      else Inl (bad_argument name))"

definition trim_quotes :: "string \<Rightarrow> string" where
  "trim_quotes v = strings_Trim v [CHR 39, CHR 34]"

definition slice_parts :: "string \<Rightarrow> string list" where
  "slice_parts text =
     filter (\<lambda>p. p \<noteq> []) (map (\<lambda>part. trim_quotes (strings_TrimSpace part)) (strings_Split (strings_Trim text ''[]'') CHR '',''))"

definition set_field :: "inc_field \<Rightarrow> string \<Rightarrow> string \<Rightarrow> inc \<Rightarrow> gerror + inc" where
  "set_field f name text i =
     (case f of
        BoolField put \<Rightarrow> sum_bind (setBool name text) (\<lambda>v. Inr (put v i))
      | IntField put \<Rightarrow> (case strconv_Atoi text of (v, ok) \<Rightarrow> if ok then Inr (put v i) else Inl (bad_argument name))
      | StringField put \<Rightarrow> Inr (put (trim_quotes text) i)
      | SliceField put \<Rightarrow> Inr (put (slice_parts text) i))"

definition setIncByTag :: "inc \<Rightarrow> string \<Rightarrow> string \<Rightarrow> gerror + inc" where
  "setIncByTag i name0 text =
     (let name = (if name0 = ''er_sql_no_where'' then ''check_dml_where'' else name0) in
      case map_of inc_fields name of
        Some f \<Rightarrow> set_field f name text i
      | None \<Rightarrow> Inl (errorf (''invalid variable '' @ strconv_Quote name)))"

definition validateIncRuntime :: "inc \<Rightarrow> gerror option" where
  "validateIncRuntime i =
     (if inc_ExplainRule i \<noteq> ''first'' \<and> inc_ExplainRule i \<noteq> ''max'' then Some (errorf ''inc.explain_rule must be first or max'')
      else if inc_SQLSafeUpdates i < -1 \<or> inc_SQLSafeUpdates i > 1 then Some (errorf ''inc.sql_safe_updates must be -1, 0, or 1'')
      else if inc_LockWaitTimeout i < -1 then Some (errorf ''inc.lock_wait_timeout must be -1 or non-negative'')
      else if inc_MaxColumnCount i < 0 \<or> inc_MaxUpdateRows i < 0 \<or> inc_MaxInsertRows i < 0 \<or> inc_MaxKeyParts i < 0 \<or>
        inc_MaxPrimaryKeyParts i < 0 \<or> inc_MaxKeys i < 0 then Some (errorf ''numeric audit limits must be non-negative'')
      else None)"

definition set_candidate :: "config \<Rightarrow> string \<Rightarrow> string \<Rightarrow> gerror + config" where
  "set_candidate c name v =
     (if name = ''backup_host'' then Inr (c\<lparr>cf_Backup := (cf_Backup c)\<lparr>bc_Host := trim_quotes v\<rparr>\<rparr>)
      else if name = ''backup_user'' then Inr (c\<lparr>cf_Backup := (cf_Backup c)\<lparr>bc_User := trim_quotes v\<rparr>\<rparr>)
      else if name = ''backup_password'' then Inr (c\<lparr>cf_Backup := (cf_Backup c)\<lparr>bc_Password := trim_quotes v, bc_PasswordEnv := []\<rparr>\<rparr>)
      else if name = ''backup_port'' then
        (case strconv_Atoi v of (n, ok) \<Rightarrow> if ok then Inr (c\<lparr>cf_Backup := (cf_Backup c)\<lparr>bc_Port := n\<rparr>\<rparr>) else Inl (bad_argument name))
      else if name = ''max_allowed_packet'' then
        (case strconv_Atoi v of (n, ok) \<Rightarrow> if ok then Inr (c\<lparr>cf_Server := (cf_Server c)\<lparr>sv_MaxAllowedPacket := n\<rparr>\<rparr>) else Inl (bad_argument name))
      else sum_bind (setIncByTag (cf_Inc c) name v) (\<lambda>i. Inr (c\<lparr>cf_Inc := i\<rparr>)))"

definition SetVariable :: "config \<Rightarrow> string \<Rightarrow> string \<Rightarrow> gerror + config" where
  "SetVariable c name v =
     sum_bind (set_candidate c (strings_ToLower (strings_TrimSpace name)) v) (\<lambda>candidate.
       case validateIncRuntime (cf_Inc candidate) of Some err \<Rightarrow> Inl err | None \<Rightarrow> Inr candidate)"

definition canonicalLevelAlias :: "string \<Rightarrow> string" where
  "canonicalLevelAlias name =
     (if name = ''er_column_must_have_comment'' then ''er_column_have_no_comment''
      else if name = ''er_insert_field'' then ''er_with_insert_field''
      else if name = ''er_sql_no_where'' then ''er_no_where_condition''
      else name)"

definition SetLevel :: "config \<Rightarrow> string \<Rightarrow> int \<Rightarrow> gerror + config" where
  "SetLevel c name v =
     (if v < 0 \<or> v > 2 then Inl (errorf ''level must be 0, 1, or 2'')
      else
        let code = strings_ToUpper (strings_TrimSpace name) in
        if strings_HasPrefix code ''GIP-'' then
          (if RuleByCode code = None then Inl (errorf (''invalid rule ID '' @ strconv_Quote name))
           else Inr (c\<lparr>cf_Rules := AList.update code v (cf_Rules c)\<rparr>))
        else
          let name = canonicalLevelAlias (strings_ToLower (strings_TrimSpace name)) in
          case map_of levelBindings name of
            None \<Rightarrow> Inl (errorf (''invalid level variable '' @ strconv_Quote name))
          | Some ref \<Rightarrow>
              let write = c\<lparr>cf_IncLevel := lr_set ref v (cf_IncLevel c)\<rparr> in
              (case map_of legacyLevelRule name of
                 Some code \<Rightarrow>
                   if code \<noteq> [] \<and> map_of (cf_Rules c) code \<noteq> None then Inr (c\<lparr>cf_Rules := AList.update code v (cf_Rules c)\<rparr>)
                   else Inr write
               | None \<Rightarrow> Inr write))"

end
