(* ===== verification/GoRegexp.thy ===== *)
theory GoRegexp
  imports GoPrelude
begin

text \<open>
  The part of Go's \<^verbatim>\<open>regexp\<close> package the server uses. Every expression of the program is anchored at both
  ends, repeats only single characters and folds the case of its literals. A match is the first of the
  backtracking search, where an alternative prefers its left branch, a greedy repetition the longest text
  and a lazy one the shortest; the submatches are those of that match.
\<close>

datatype re =
    Lit string
  | One "char \<Rightarrow> bool"
  | Many0 "char \<Rightarrow> bool"
  | Many1 "char \<Rightarrow> bool"
  | Lazy1 "char \<Rightarrow> bool"
  | Seq re re
  | Alt re re
  | Opt re
  | Cap nat re

text \<open>The rest of the text and the submatches, for every way to match a prefix, in the order of preference.\<close>

fun matches :: "re \<Rightarrow> string \<Rightarrow> (string \<times> (nat \<times> string) list) list" where
  "matches (Lit l) s = (if strings_EqualFold (take (length l) s) l then [(drop (length l) s, [])] else [])"
| "matches (One p) s = (case s of [] \<Rightarrow> [] | c # cs \<Rightarrow> if p c then [(cs, [])] else [])"
| "matches (Many0 p) s = map (\<lambda>k. (drop k s, [])) (rev [0..<Suc (length (takeWhile p s))])"
| "matches (Many1 p) s = map (\<lambda>k. (drop k s, [])) (rev [1..<Suc (length (takeWhile p s))])"
| "matches (Lazy1 p) s = map (\<lambda>k. (drop k s, [])) [1..<Suc (length (takeWhile p s))]"
| "matches (Seq a b) s = concat (map (\<lambda>(r, cs). map (\<lambda>(r', cs'). (r', cs @ cs')) (matches b r)) (matches a s))"
| "matches (Alt a b) s = matches a s @ matches b s"
| "matches (Opt a) s = matches a s @ [(s, [])]"
| "matches (Cap n a) s = map (\<lambda>(r, cs). (r, (n, take (length s - length r) s) # cs)) (matches a s)"

text \<open>A submatch that took no part is empty.\<close>

definition FindStringSubmatch :: "re \<Rightarrow> string \<Rightarrow> (nat \<Rightarrow> string) option" where
  "FindStringSubmatch r s =
     (case filter (\<lambda>m. fst m = []) (matches r s) of
        [] \<Rightarrow> None
      | (_, cs) # _ \<Rightarrow> Some (\<lambda>n. case map_of cs n of Some t \<Rightarrow> t | None \<Rightarrow> []))"

definition MatchString :: "re \<Rightarrow> string \<Rightarrow> bool" where
  "MatchString r s \<longleftrightarrow> FindStringSubmatch r s \<noteq> None"

definition any_char :: "char \<Rightarrow> bool" where
  "any_char c \<longleftrightarrow> True"

definition not_newline :: "char \<Rightarrow> bool" where
  "not_newline c \<longleftrightarrow> c \<noteq> CHR 10"

text \<open>\<^verbatim>\<open>\s\<close> is \<^verbatim>\<open>[\t\n\f\r ]\<close>.\<close>

definition re_space :: "char \<Rightarrow> bool" where
  "re_space c \<longleftrightarrow> c \<in> {CHR '' '', CHR 9, CHR 10, CHR 12, CHR 13}"

section \<open>Acceptance\<close>

definition accepts :: "re \<Rightarrow> string \<Rightarrow> bool" where
  "accepts r s \<longleftrightarrow> (\<exists>m\<in>set (matches r s). fst m = [])"

lemma MatchString_accepts: "MatchString r s = accepts r s"
proof (cases "filter (\<lambda>m. fst m = []) (matches r s)")
  case Nil
  then show ?thesis by (simp add: MatchString_def FindStringSubmatch_def accepts_def filter_empty_conv)
next
  case (Cons m ms)
  then have "m \<in> set (matches r s) \<and> fst m = []" by (auto simp: filter_eq_Cons_iff)
  then have "accepts r s" by (auto simp: accepts_def)
  with Cons show ?thesis by (simp add: MatchString_def FindStringSubmatch_def split: prod.split)
qed

lemma accepts_Seq: "accepts (Seq a b) s \<longleftrightarrow> (\<exists>m\<in>set (matches a s). accepts b (fst m))"
  by (simp add: accepts_def split_def)

lemma accepts_Lit_Seq: "accepts (Seq (Lit l) r) s \<longleftrightarrow> strings_EqualFold (take (length l) s) l \<and> accepts r (drop (length l) s)"
  by (simp add: accepts_Seq)

lemma accepts_One_Seq: "accepts (Seq (One p) r) s \<longleftrightarrow> s \<noteq> [] \<and> p (hd s) \<and> accepts r (tl s)"
  by (cases s) (simp_all add: accepts_Seq)

lemma accepts_Many0_Seq: "accepts (Seq (Many0 p) r) s \<longleftrightarrow> (\<exists>k\<le>length (takeWhile p s). accepts r (drop k s))"
proof -
  have "fst ` set (matches (Many0 p) s) = (\<lambda>k. drop k s) ` {..length (takeWhile p s)}"
    by (simp del: upt_Suc add: image_image lessThan_Suc_atMost flip: lessThan_atLeast0)
  then show ?thesis unfolding accepts_Seq by (metis (no_types, lifting) atMost_iff image_iff)
qed

lemma accepts_Many0_step:
  "accepts (Seq (Many0 p) r) s \<longleftrightarrow> accepts r s \<or> (s \<noteq> [] \<and> p (hd s) \<and> accepts (Seq (Many0 p) r) (tl s))"
proof (cases s)
  case (Cons c cs)
  have split: "(\<exists>k\<le>Suc n. P k) \<longleftrightarrow> P 0 \<or> (\<exists>k\<le>n. P (Suc k))" for P :: "nat \<Rightarrow> bool" and n
  proof -
    have "{..Suc n} = insert 0 (Suc ` {..n})" by (rule atMost_Suc_eq_insert_0)
    then show ?thesis by (metis (no_types, lifting) atMost_iff image_iff insert_iff)
  qed
  have "(\<exists>k\<le>Suc n. accepts r (drop k (c # cs))) \<longleftrightarrow> accepts r (c # cs) \<or> (\<exists>k\<le>n. accepts r (drop k cs))" for n
    by (simp add: split)
  with Cons show ?thesis by (auto simp: accepts_Many0_Seq)
qed (simp add: accepts_Many0_Seq)

lemma accepts_Many0_simps:
  "accepts (Seq (Many0 p) r) [] \<longleftrightarrow> accepts r []"
  "accepts (Seq (Many0 p) r) (x # v) \<longleftrightarrow> accepts r (x # v) \<or> (p x \<and> accepts (Seq (Many0 p) r) v)"
  using accepts_Many0_step [of p r "[]"] accepts_Many0_step [of p r "x # v"] by simp_all

end
