(* ===== verification/Management.thy ===== *)
theory Management
  imports Config GoRegexp
begin

text \<open>
  The management side of the protocol server, \<^verbatim>\<open>protocol/management.go\<close>: the registry of connections and the
  commands that show and change the running configuration, list the connections and kill them.

  A \<^verbatim>\<open>context.CancelFunc\<close> and the closing of a socket are named by numbers; calling them is recorded as an
  effect. The registry is guarded by its lock, so its operations are functions of its map, an
  association list with distinct keys. The result sets and errors of the \<^verbatim>\<open>go-mysql\<close> library are data here; that
  building a result set can fail, and the text of an error, are parameters.
\<close>

section \<open>The registry of connections\<close>

record process_info =
  pi_ID :: "32 word"
  pi_User :: string
  pi_FromHost :: string
  pi_DestUser :: string
  pi_DestHost :: string
  pi_DestPort :: "16 word"
  pi_Database :: string
  pi_Command :: string
  pi_State :: string
  pi_Info :: string
  pi_Started :: "int option"
  pi_cancel :: "nat option"
  pi_closeConn :: "nat option"

type_synonym processRegistry = "(32 word \<times> process_info) list"

datatype effect = CancelQuery nat | CloseConn nat

definition newProcessRegistry :: processRegistry where
  "newProcessRegistry = []"

definition registry_add :: "processRegistry \<Rightarrow> process_info \<Rightarrow> processRegistry" where
  "registry_add r p = AList.update (pi_ID p) p r"

definition registry_remove :: "processRegistry \<Rightarrow> 32 word \<Rightarrow> processRegistry" where
  "registry_remove r ident = AList.delete ident r"

text \<open>The entries are pointers: an operation on one changes it in place.\<close>

definition registry_modify :: "(process_info \<Rightarrow> process_info) \<Rightarrow> processRegistry \<Rightarrow> 32 word \<Rightarrow> processRegistry" where
  "registry_modify f r ident = (case map_of r ident of None \<Rightarrow> r | Some p \<Rightarrow> AList.update ident (f p) r)"

definition setDB :: "processRegistry \<Rightarrow> 32 word \<Rightarrow> string \<Rightarrow> processRegistry" where
  "setDB r ident db = registry_modify (\<lambda>p. p\<lparr>pi_Database := db\<rparr>) r ident"

definition setTarget :: "processRegistry \<Rightarrow> 32 word \<Rightarrow> string \<Rightarrow> string \<Rightarrow> 16 word \<Rightarrow> processRegistry" where
  "setTarget r ident user host port =
     registry_modify (\<lambda>p. p\<lparr>pi_DestUser := user, pi_DestHost := host, pi_DestPort := port\<rparr>) r ident"

definition registry_begin :: "processRegistry \<Rightarrow> 32 word \<Rightarrow> string \<Rightarrow> string \<Rightarrow> int \<Rightarrow> nat \<Rightarrow> processRegistry" where
  "registry_begin r ident command info now cancel =
     registry_modify (\<lambda>p. p\<lparr>pi_Command := command, pi_State := ''executing'', pi_Info := info, pi_Started := Some now,
       pi_cancel := Some cancel\<rparr>) r ident"

definition registry_end :: "processRegistry \<Rightarrow> 32 word \<Rightarrow> processRegistry" where
  "registry_end r ident =
     registry_modify (\<lambda>p. p\<lparr>pi_Command := ''Sleep'', pi_State := [], pi_Info := [], pi_cancel := None\<rparr>) r ident"

definition snapshot :: "processRegistry \<Rightarrow> process_info list" where
  "snapshot r = sort_key pi_ID (map snd r)"

definition optional :: "('a \<Rightarrow> effect) \<Rightarrow> 'a option \<Rightarrow> effect list" where
  "optional f x = (case x of Some y \<Rightarrow> [f y] | None \<Rightarrow> [])"

definition kill :: "processRegistry \<Rightarrow> 32 word \<Rightarrow> bool \<Rightarrow> bool \<times> effect list" where
  "kill r ident connection =
     (case map_of r ident of
        None \<Rightarrow> (False, [])
      | Some p \<Rightarrow> (True, optional CancelQuery (pi_cancel p) @ (if connection then optional CloseConn (pi_closeConn p) else [])))"

definition closeAll :: "processRegistry \<Rightarrow> effect list" where
  "closeAll r = concat (map (\<lambda>(_, p). optional CancelQuery (pi_cancel p) @ optional CloseConn (pi_closeConn p)) r)"

section \<open>Replies\<close>

datatype mysql_code =
    ER_WRONG_VALUE_FOR_VAR | ER_NOT_SUPPORTED_YET | ER_NO_SUCH_THREAD | ER_NO_SUCH_TABLE | ER_NET_PACKET_TOO_LARGE
  | ER_PARSE_ERROR | ER_UNKNOWN_ERROR | ER_UNSUPPORTED_PS | ER_UNKNOWN_COM_ERROR

datatype cell = CNull | CText string | CInt int | CCode mysql_code

datatype field_type = MYSQL_TYPE_LONG | MYSQL_TYPE_SHORT | MYSQL_TYPE_LONGLONG

datatype reply =
    OkReply
  | RowsReply (rp_names: "string list") (rp_rows: "cell list list") (rp_types: "(nat \<times> field_type) list")

datatype reply_error = MySQLError mysql_code string | PlainError gerror

datatype reply_outcome = Reply reply | Failed reply_error | Crashed string

text \<open>
  \<open>pe_build\<close> is the error of \<^verbatim>\<open>gomysql.BuildSimpleTextResultset\<close>, \<open>pe_ErrorText\<close> the text of a \<^verbatim>\<open>gomysql.MyError\<close>,
  \<open>pe_duration\<close> the format \<^verbatim>\<open>%.2f\<close> of the seconds of a duration.
\<close>

record protocol_env =
  pe_build :: "string list \<Rightarrow> cell list list \<Rightarrow> gerror option"
  pe_ErrorText :: "mysql_code \<Rightarrow> string \<Rightarrow> string"
  pe_duration :: "int \<Rightarrow> string"

definition simple :: "protocol_env \<Rightarrow> string list \<Rightarrow> cell list list \<Rightarrow> reply_outcome" where
  "simple env names rows =
     (case pe_build env names rows of Some err \<Rightarrow> Failed (PlainError err) | None \<Rightarrow> Reply (RowsReply names rows []))"

definition mustSimple :: "protocol_env \<Rightarrow> string list \<Rightarrow> cell list list \<Rightarrow> reply_outcome" where
  "mustSimple env names rows =
     (case pe_build env names rows of Some err \<Rightarrow> Crashed (err_Error err) | None \<Rightarrow> Reply (RowsReply names rows []))"

section \<open>Text helpers\<close>

text \<open>\<^verbatim>\<open>strings.ReplaceAll\<close> of two quotes by one.\<close>

fun undouble :: "string \<Rightarrow> string" where
  "undouble (a # b # cs) = (if a = CHR 39 \<and> b = CHR 39 then CHR 39 # undouble cs else a # undouble (b # cs))"
| "undouble cs = cs"

definition unquote :: "string \<Rightarrow> string" where
  "unquote v0 =
     (let v = strings_TrimSpace v0;
          inner = (if length v \<ge> 2 \<and> ((hd v = CHR 39 \<and> last v = CHR 39) \<or> (hd v = CHR 34 \<and> last v = CHR 34))
                   then butlast (tl v) else v) in
      undouble inner)"

definition cleanIdent :: "string \<Rightarrow> string" where
  "cleanIdent v = strings_Trim (strings_TrimSpace v) ''`''"

text \<open>The expression \<open>like\<close> builds: the case is folded, the dot does not match a newline.\<close>

fun like_re :: "string \<Rightarrow> re" where
  "like_re [] = Lit []"
| "like_re (c # cs) =
     Seq (if c = CHR ''%'' then Many0 not_newline else if c = CHR ''_'' then One not_newline else Lit [c]) (like_re cs)"

definition like :: "string \<Rightarrow> string \<Rightarrow> bool" where
  "like v pattern = MatchString (like_re pattern) v"

section \<open>The commands\<close>

definition re_seq :: "re list \<Rightarrow> re" where
  "re_seq rs = foldr Seq rs (Lit [])"

fun re_alt :: "re \<Rightarrow> re list \<Rightarrow> re" where
  "re_alt r [] = r"
| "re_alt r (s # ss) = Alt r (re_alt s ss)"

abbreviation spaces :: re where
  "spaces \<equiv> Many1 re_space"

abbreviation any_text :: re where
  "any_text \<equiv> Many1 any_char"

definition word_char :: "char \<Rightarrow> bool" where
  "word_char c \<longleftrightarrow> is_letter c \<and> byte_val c < 128 \<or> is_digit c \<or> c = CHR ''_''"

definition quoted_name :: re where
  "quoted_name = re_seq [Opt (Lit ''`''), Many1 (\<lambda>c. word_char c \<or> c = CHR ''$''), Opt (Lit ''`'')]"

definition reInceptionShow :: re where
  "reInceptionShow = re_seq [Lit ''inception'', spaces, re_alt (Lit ''show'') [Lit ''get''], spaces,
     Opt (Cap 1 (re_seq [Lit ''full'', spaces])), Cap 2 (re_alt (Lit ''variables'') [Lit ''levels'', Lit ''processlist'']),
     Opt (re_seq [spaces, Cap 3 (re_alt (Lit ''like'') [Lit ''where'']), spaces, Cap 4 any_text])]"

definition reInceptionSet :: re where
  "reInceptionSet = re_seq [Lit ''inception'', spaces, Lit ''set'', spaces,
     Opt (re_seq [Cap 1 (re_alt (Lit ''global'') [Lit ''session'']), spaces]), Opt (re_seq [Cap 2 (Lit ''level''), spaces]),
     Cap 3 (Many1 (\<lambda>c. word_char c \<or> c = CHR ''-'')), Many0 re_space, Lit ''='', Many0 re_space, Cap 4 any_text]"

definition reKill :: re where
  "reKill = re_seq [Lit ''kill'', spaces, Opt (re_seq [Cap 1 (re_alt (Lit ''query'') [Lit ''connection'']), spaces]), Cap 2 (Many1 is_digit)]"

definition reShowDB :: re where
  "reShowDB = re_seq [Lit ''show'', spaces, Lit ''databases'', Opt (re_seq [spaces, Lit ''like'', spaces, Cap 1 any_text])]"

definition reShowTables :: re where
  "reShowTables = re_seq [Lit ''show'', spaces, Opt (Cap 1 (re_seq [Lit ''full'', spaces])), Lit ''tables'',
     Opt (re_seq [spaces, re_alt (Lit ''from'') [Lit ''in''], spaces, Cap 2 quoted_name]),
     Opt (re_seq [spaces, Lit ''like'', spaces, Cap 3 any_text])]"

definition reTableStatus :: re where
  "reTableStatus = re_seq [Lit ''show'', spaces, Lit ''table'', spaces, Lit ''status'',
     Opt (re_seq [spaces, re_alt (Lit ''from'') [Lit ''in''], spaces, Cap 1 quoted_name]),
     Opt (re_seq [spaces, Lit ''like'', spaces, Cap 2 any_text])]"

definition reColumns :: re where
  "reColumns = re_seq [Lit ''show'', spaces, Opt (re_seq [Lit ''full'', spaces]), re_alt (Lit ''columns'') [Lit ''fields''], spaces,
     Lit ''from'', spaces, Cap 1 quoted_name, Opt (re_seq [spaces, re_alt (Lit ''from'') [Lit ''in''], spaces, Cap 2 quoted_name]),
     Opt (re_seq [spaces, Lit ''like'', spaces, Cap 3 any_text])]"

definition reShowGrants :: re where
  "reShowGrants = re_seq [Lit ''show'', spaces, Lit ''grants'', Opt (re_seq [spaces, Lit ''for'', spaces, any_text])]"

definition reLevelFilter :: re where
  "reLevelFilter = re_seq [Many0 re_space, Cap 1 (re_alt (Lit ''name'') [Lit ''value'', Lit ''desc'']), Many0 re_space,
     Cap 2 (re_alt (Lit ''='') [Lit ''like'']), Many0 re_space, Cap 3 (Lazy1 any_char), Many0 re_space]"

definition levelMatches :: "level_row \<Rightarrow> string \<Rightarrow> string \<Rightarrow> bool" where
  "levelMatches v filter_by expression =
     (if filter_by = [] then True
      else if strings_EqualFold filter_by ''like'' then like (le_Name v) (unquote expression)
      else (case FindStringSubmatch reLevelFilter expression of
          None \<Rightarrow> False
        | Some m \<Rightarrow>
            let column = strings_ToLower (m 1);
                actual = (if column = ''name'' then le_Name v else if column = ''value'' then strconv_Itoa (le_Value v) else le_Desc v) in
            if strings_EqualFold (m 2) ''like'' then like actual (unquote (m 3)) else strings_EqualFold actual (unquote (m 3))))"

definition process_row :: "bool \<Rightarrow> int \<Rightarrow> process_info \<Rightarrow> cell list" where
  "process_row full now p =
     [CInt (uint (pi_ID p)), CText (pi_DestUser p), CText (pi_DestHost p), CInt (uint (pi_DestPort p)),
      CText (pi_User p @ ''@'' @ pi_FromHost p), CText (pi_Command p), CText (pi_State p),
      CInt (case pi_Started p of None \<Rightarrow> 0 | Some t \<Rightarrow> (now - t) div time_Second),
      CText (if \<not> full \<and> length (pi_Info p) > 100 then take 100 (pi_Info p) else pi_Info p), CNull]"

definition processList :: "protocol_env \<Rightarrow> processRegistry \<Rightarrow> int \<Rightarrow> bool \<Rightarrow> reply_outcome" where
  "processList env r now full =
     mustSimple env [''Id'', ''Dest_User'', ''Dest_Host'', ''Dest_Port'', ''From_Host'', ''Command'', ''STATE'', ''Time'', ''Info'', ''Percent'']
       (map (process_row full now) (snapshot r))"

text \<open>
  What a command sees and may change: the running configuration, and the functions it calls. \<open>None\<close> means that
  the text is not a management command.
\<close>

record management_view =
  mv_runtime :: config
  mv_registry :: processRegistry
  mv_database :: string
  mv_username :: string
  mv_warnings :: "cell list list"
  mv_now :: int

type_synonym management_result = "reply_outcome \<times> config \<times> effect list"

definition show_command :: "protocol_env \<Rightarrow> management_view \<Rightarrow> (nat \<Rightarrow> string) \<Rightarrow> reply_outcome option" where
  "show_command env h m =
     (let what = strings_ToLower (m 2) in
      if what = ''variables'' then
        Some (mustSimple env [''Variable_name'', ''Value'']
          (map (\<lambda>v. [CText (va_Name v), CText (va_Value v)])
            (filter (\<lambda>v. m 3 = [] \<or> (strings_EqualFold (m 3) ''like'' \<and> like (va_Name v) (unquote (m 4)))) (Variables (mv_runtime h)))))
      else if what = ''levels'' then
        Some (mustSimple env [''Name'', ''Value'', ''Desc'']
          (map (\<lambda>v. [CText (le_Name v), CInt (le_Value v), CText (le_Desc v)])
            (filter (\<lambda>v. levelMatches v (m 3) (m 4)) (Levels (mv_runtime h)))))
      else if what = ''processlist'' then
        Some (processList env (mv_registry h) (mv_now h) (strings_TrimSpace (m 1) \<noteq> []))
      else None)"

definition set_command :: "config \<Rightarrow> (nat \<Rightarrow> string) \<Rightarrow> gerror + config" where
  "set_command c m =
     (let v = unquote (m 4) in
      if strings_EqualFold (m 2) ''level''
      then (case strconv_Atoi v of (n, ok) \<Rightarrow>
              if ok then SetLevel c (m 3) n
              else Inl (errorf (''strconv.Atoi: parsing '' @ strconv_Quote v @
                (case strconv_Atoi v of (x, _) \<Rightarrow> if x = 0 then '': invalid syntax'' else '': value out of range''))))
      else SetVariable c (m 3) v)"

definition kill_command :: "processRegistry \<Rightarrow> (nat \<Rightarrow> string) \<Rightarrow> reply_outcome \<times> effect list" where
  "kill_command r m =
     (let ident = (case strconv_ParseUint (m 2) 32 of NumOk n \<Rightarrow> n | NumSyntax \<Rightarrow> 0 | NumRange \<Rightarrow> 2 ^ 32 - 1);
          (found, effects) = kill r (of_nat ident) (\<not> strings_EqualFold (m 1) ''query'') in
      if found then (Reply OkReply, effects)
      else (Failed (MySQLError ER_NO_SUCH_THREAD (''Unknown thread id: '' @ nat_string ident)), []))"

definition catalog_command :: "protocol_env \<Rightarrow> management_view \<Rightarrow> string \<Rightarrow> reply_outcome option" where
  "catalog_command env h q =
     (case FindStringSubmatch reShowDB q of
        Some m \<Rightarrow> Some (mustSimple env [''Database'']
          (if m 1 = [] \<or> like ''information_schema'' (unquote (m 1)) then [[CText ''information_schema'']] else []))
      | None \<Rightarrow> (case FindStringSubmatch reShowTables q of
        Some m \<Rightarrow>
          (let db = (if cleanIdent (m 2) = [] then mv_database h else cleanIdent (m 2)) in
           Some (mustSimple env ((''Tables_in_'' @ db) # (if strings_TrimSpace (m 1) \<noteq> [] then [''Table_type''] else [])) []))
      | None \<Rightarrow> (case FindStringSubmatch reTableStatus q of
        Some m \<Rightarrow> Some (mustSimple env [''Name'', ''Engine'', ''Version'', ''Row_format'', ''Rows'', ''Avg_row_length'', ''Data_length'',
          ''Max_data_length'', ''Index_length'', ''Data_free'', ''Auto_increment'', ''Create_time'', ''Update_time'', ''Check_time'',
          ''Collation'', ''Checksum'', ''Create_options'', ''Comment''] [])
      | None \<Rightarrow> (case FindStringSubmatch reColumns q of
        Some m \<Rightarrow>
          (let given = cleanIdent (m 2);
               db = (if given \<noteq> [] then given else if mv_database h \<noteq> [] then mv_database h else ''information_schema'') in
           Some (Failed (MySQLError ER_NO_SUCH_TABLE (''Table '' @ [CHR 39] @ db @ ''.'' @ cleanIdent (m 1) @ [CHR 39] @ '' doesn'' @ [CHR 39] @ ''t exist''))))
      | None \<Rightarrow>
          if strings_ToLower q = ''show warnings'' then Some (mustSimple env [''Level'', ''Code'', ''Message''] (mv_warnings h))
          else if MatchString reShowGrants q then
            Some (mustSimple env [''Grants for '' @ mv_username h @ ''@%'']
              [[CText (''GRANT USAGE ON *.* TO '' @ [CHR 39] @ mv_username h @ [CHR 39] @ ''@'' @ [CHR 39] @ ''%'' @ [CHR 39])]])
          else None))))"

definition management :: "protocol_env \<Rightarrow> management_view \<Rightarrow> string \<Rightarrow> management_result option" where
  "management env h query =
     (let q = strings_TrimSpace (strings_TrimSuffix (strings_TrimSpace query) '';'');
          unchanged = (\<lambda>r. (r, mv_runtime h, [])) in
      case (case FindStringSubmatch reInceptionShow q of Some m \<Rightarrow> show_command env h m | None \<Rightarrow> None) of
        Some r \<Rightarrow> Some (unchanged r)
      | None \<Rightarrow> (case FindStringSubmatch reInceptionSet q of
        Some m \<Rightarrow> Some (case set_command (mv_runtime h) m of
            Inl err \<Rightarrow> unchanged (Failed (MySQLError ER_WRONG_VALUE_FOR_VAR (err_Error err)))
          | Inr c \<Rightarrow> (Reply OkReply, c, []))
      | None \<Rightarrow>
          if strings_HasPrefix (strings_ToLower q) ''inception ''
          then Some (unchanged (Failed (MySQLError ER_NOT_SUPPORTED_YET ''unsupported inception management command'')))
          else (case FindStringSubmatch reKill q of
            Some m \<Rightarrow> (case kill_command (mv_registry h) m of (r, effects) \<Rightarrow> Some (r, mv_runtime h, effects))
          | None \<Rightarrow> map_option unchanged (catalog_command env h q))))"

end
