(* ===== verification/RulesLegacyDdl.thy ===== *)
theory RulesLegacyDdl
  imports RulesDml "HOL-Library.List_Lexorder" "HOL-Library.Char_ord"
begin

text \<open>
  \<^verbatim>\<open>internal/audit/rules/legacy_ddl.go\<close>: the naming, option, column, index and column-type rules
  that the legacy settings of the policy switch on and off. \<open>add\<close> of the code is
  \<^const>\<open>policyIssue\<close>; the issues are listed in the order the code appends them.
\<close>

section \<open>Names and lists in settings\<close>

definition validIdentifier :: "string \<Rightarrow> bool" where
  "validIdentifier name \<longleftrightarrow> name \<noteq> [] \<and> list_all (\<lambda>c. is_letter c \<or> is_digit c \<or> c = CHR ''_'') name"

definition mysqlKeywords :: "string list" where
  "mysqlKeywords = [''add'', ''alter'', ''and'', ''as'', ''by'', ''create'', ''delete'', ''desc'', ''drop'',
     ''from'', ''group'', ''index'', ''insert'', ''join'', ''key'', ''limit'', ''order'', ''primary'',
     ''select'', ''table'', ''tables'', ''update'', ''use'', ''where'']"

definition isKeyword :: "string \<Rightarrow> string \<Rightarrow> bool" where
  "isKeyword name custom \<longleftrightarrow> strings_ToLower name \<in> set mysqlKeywords \<or>
     list_ex (\<lambda>v. strings_EqualFold (strings_TrimSpace v) name) (strings_Split custom CHR '','')"

definition allowedCSV :: "string \<Rightarrow> string \<Rightarrow> bool" where
  "allowedCSV value allowed \<longleftrightarrow> value = [] \<or>
     list_ex (\<lambda>v. strings_EqualFold (strings_TrimSpace v) value) (strings_Split allowed CHR '','')"

definition hasAnyPrefix :: "string \<Rightarrow> string \<Rightarrow> bool" where
  "hasAnyPrefix value prefixList \<longleftrightarrow>
     list_ex (\<lambda>p0. let p = strings_TrimSpace p0 in
        p \<noteq> [] \<and> strings_HasPrefix (strings_ToLower value) (strings_ToLower p))
       (strings_Split prefixList CHR '','')"

fun leadingColumnsOverlap_from :: "string list \<Rightarrow> string list \<Rightarrow> bool" where
  "leadingColumnsOverlap_from (x # xs) (y # ys) =
     (strings_EqualFold x y \<and> leadingColumnsOverlap_from xs ys)"
| "leadingColumnsOverlap_from _ _ = True"

definition leadingColumnsOverlap :: "string list \<Rightarrow> string list \<Rightarrow> bool" where
  "leadingColumnsOverlap a b \<longleftrightarrow> a \<noteq> [] \<and> b \<noteq> [] \<and> leadingColumnsOverlap_from a b"

section \<open>Column types\<close>

definition isTemporalType :: "string \<Rightarrow> bool" where
  "isTemporalType v \<longleftrightarrow> v = ''date'' \<or> v = ''datetime'' \<or> v = ''timestamp''"

definition sameColumnType :: "string \<Rightarrow> string \<Rightarrow> bool" where
  "sameColumnType a b = strings_EqualFold (strings_Join (strings_Fields a) '' '') (strings_Join (strings_Fields b) '' '')"

definition typeLength :: "string \<Rightarrow> int" where
  "typeLength value =
     (case (strings_Index value ''('', strings_Index value '')'') of
        (Some start, Some end) \<Rightarrow>
          if end \<le> start then 0
          else fst (strconv_Atoi (strings_TrimSpace
            (hd (strings_Split (take (end - (start + 1)) (drop (start + 1) value)) CHR '',''))))
      | _ \<Rightarrow> 0)"

definition type_rank :: "string \<Rightarrow> nat option" where
  "type_rank = map_of [(''tinyint'', 1), (''smallint'', 2), (''mediumint'', 3), (''int'', 4), (''integer'', 4),
     (''bigint'', 5)]"

definition unsafeColumnTypeChange :: "string \<Rightarrow> string \<Rightarrow> bool" where
  "unsafeColumnTypeChange oldType newType =
     (if sameColumnType oldType newType then False
      else let oldBase = baseType oldType; newBase = baseType newType in
        case (type_rank oldBase, type_rank newBase) of
          (Some oldRank, Some newRank) \<Rightarrow> newRank < oldRank
        | _ \<Rightarrow>
            if oldBase = ''float'' \<and> newBase = ''double'' then False
            else if (oldBase = ''char'' \<or> oldBase = ''varchar'') \<and> (newBase = ''char'' \<or> newBase = ''varchar'')
            then typeLength newType < typeLength oldType \<or> (oldBase = ''varchar'' \<and> newBase = ''char'')
            else oldBase \<noteq> newBase)"

section \<open>Temporal defaults\<close>

text \<open>
  \<^verbatim>\<open>time.Parse\<close> for the layouts \<^verbatim>\<open>2006-01-02\<close> and \<^verbatim>\<open>2006-01-02 15:04:05\<close>. A field of the layout
  consumes digits (year four, month, day, minute and second two, hour one or two); the space of the
  layout stands for any run of spaces; a fraction may follow the seconds. The date must exist.
\<close>

fun take_digits :: "nat \<Rightarrow> nat \<Rightarrow> string \<Rightarrow> (nat \<times> string) option" where
  "take_digits 0 acc s = Some (acc, s)"
| "take_digits (Suc n) acc [] = None"
| "take_digits (Suc n) acc (c # cs) =
     (if is_digit c then take_digits n (acc * 10 + (byte_val c - 48)) cs else None)"

definition take_hour :: "string \<Rightarrow> (nat \<times> string) option" where
  "take_hour s = (case take_digits 2 0 s of Some r \<Rightarrow> Some r | None \<Rightarrow> take_digits 1 0 s)"

definition take_char :: "char \<Rightarrow> string \<Rightarrow> string option" where
  "take_char c s = (case s of x # xs \<Rightarrow> if x = c then Some xs else None | [] \<Rightarrow> None)"

definition leap_year :: "nat \<Rightarrow> bool" where
  "leap_year y \<longleftrightarrow> y mod 4 = 0 \<and> (y mod 100 \<noteq> 0 \<or> y mod 400 = 0)"

definition days_in :: "nat \<Rightarrow> nat \<Rightarrow> nat" where
  "days_in y m = (if m = 2 then if leap_year y then 29 else 28
     else if m \<in> {4, 6, 9, 11} then 30 else 31)"

definition parse_date :: "string \<Rightarrow> string option" where
  "parse_date s =
     Option.bind (take_digits 4 0 s) (\<lambda>(y, s1).
     Option.bind (take_char CHR ''-'' s1) (\<lambda>s2.
     Option.bind (take_digits 2 0 s2) (\<lambda>(m, s3).
     Option.bind (if 1 \<le> m \<and> m \<le> 12 then take_char CHR ''-'' s3 else None) (\<lambda>s4.
     Option.bind (take_digits 2 0 s4) (\<lambda>(d, s5).
     if 1 \<le> d \<and> d \<le> days_in y m then Some s5 else None)))))"

definition skip_fraction :: "string \<Rightarrow> string" where
  "skip_fraction s =
     (case s of c # d # rest \<Rightarrow>
        if (c = CHR ''.'' \<or> c = CHR '','') \<and> is_digit d then dropWhile is_digit rest else s
      | _ \<Rightarrow> s)"

definition parse_clock :: "string \<Rightarrow> string option" where
  "parse_clock s =
     Option.bind (take_hour s) (\<lambda>(h, s1).
     Option.bind (if h < 24 then take_char CHR '':'' s1 else None) (\<lambda>s2.
     Option.bind (take_digits 2 0 s2) (\<lambda>(mi, s3).
     Option.bind (if mi < 60 then take_char CHR '':'' s3 else None) (\<lambda>s4.
     Option.bind (take_digits 2 0 s4) (\<lambda>(sec, s5).
     if sec < 60 then Some (skip_fraction s5) else None)))))"

definition parse_datetime :: "string \<Rightarrow> string option" where
  "parse_datetime s =
     Option.bind (parse_date s) (\<lambda>s1.
     if s1 \<noteq> [] \<and> hd s1 = CHR '' '' then parse_clock (dropWhile (\<lambda>c. c = CHR '' '') s1) else None)"

definition invalidTemporalDefault :: "string \<Rightarrow> string \<Rightarrow> bool" where
  "invalidTemporalDefault expression sqlMode =
     (let v = strings_TrimSpace (strings_ToLower expression) in
      if v = [] \<or> v = ''null'' \<or> strings_Contains v ''current_timestamp'' then False
      else
        let v1 = (case strings_Index v [CHR 0x27] of
                    Some i \<Rightarrow> strings_Trim (drop i v) [CHR 0x27] | None \<Rightarrow> v);
            mode = strings_ToUpper sqlMode;
            strict = strings_Contains mode ''TRADITIONAL'' \<or> strings_Contains mode ''NO_ZERO_DATE'' \<or>
              strings_Contains mode ''STRICT'' in
        if strings_HasPrefix v1 ''0000-00-00'' then strict
        else parse_date v1 \<noteq> Some [] \<and> parse_datetime v1 \<noteq> Some [])"

section \<open>Checks on names, columns and indexes\<close>

definition checkName :: "audit_context \<Rightarrow> statement \<Rightarrow> string \<Rightarrow> string \<Rightarrow> audit_issue list" where
  "checkName a s kind name =
     (if name = [] then []
      else
        report (LegacyBool (a_Policy a) ''check_identifier'' \<and> \<not> validIdentifier name)
          (policyIssue a s RuleDDLInvalidIdentifier (''invalid '' @ kind @ '' identifier '' @ strconv_Quote name))
        @ report (LegacyBool (a_Policy a) ''check_identifier_lower'' \<and> name \<noteq> strings_ToLower name)
          (policyIssue a s RuleDDLInvalidIdentifier (kind @ '' identifier '' @ strconv_Quote name @ '' must be lowercase''))
        @ report (LegacyBool (a_Policy a) ''enable_identifer_keyword'' \<and>
                  isKeyword name (LegacyString (a_Policy a) ''custom_keywords''))
          (policyIssue a s RuleDDLIdentifierKeyword (kind @ '' identifier '' @ strconv_Quote name @ '' is a MySQL keyword'')))"

definition checkColumn :: "audit_context \<Rightarrow> statement \<Rightarrow> column_spec \<Rightarrow> audit_issue list" where
  "checkColumn a s c =
     (let on = LegacyBool (a_Policy a); base = baseType (c_Type c); name = c_Name c;
          large = strings_Contains base ''text'' \<or> strings_Contains base ''blob'' \<or> base = ''geometry'';
          mx = LegacyInt (a_Policy a) ''max_char_length'' in
      report (c_ExplicitCharset c \<and> \<not> on ''enable_column_charset'')
        (policyIssue a s RuleDDLColumnCharset (''column '' @ name @ '' must not specify charset or collation''))
      @ report ((large \<or> base = ''json'') \<and> c_HasDefault c \<and> strings_ToLower (c_DefaultExpression c) \<noteq> ''null'')
        (policyIssue a s RuleDDLBlobDefault (''column '' @ name @ '' cannot have a default''))
      @ report (base = ''json'' \<and> \<not> on ''enable_json_type'')
        (policyIssue a s RuleDDLJSONType (''JSON column '' @ name @ '' is disabled''))
      @ report (large \<and> \<not> on ''enable_blob_type'')
        (policyIssue a s RuleDDLUseTextBlob (''text/blob column '' @ name @ '' is disabled''))
      @ report ((base = ''enum'' \<or> base = ''set'' \<or> base = ''bit'') \<and> \<not> on ''enable_enum_set_bit'')
        (policyIssue a s RuleDDLUseEnum (''ENUM/SET/BIT column '' @ name @ '' is disabled''))
      @ report (base = ''timestamp'' \<and> \<not> on ''enable_timestamp_type'')
        (policyIssue a s RuleDDLInvalidType (''TIMESTAMP column '' @ name @ '' is disabled''))
      @ report (\<not> on ''enable_nullable'' \<and> c_Nullable c \<and> \<not> c_Generated c)
        (policyIssue a s RuleDDLNullable (''column '' @ name @ '' must be NOT NULL''))
      @ report ((large \<or> base = ''json'') \<and> \<not> c_Nullable c)
        (policyIssue a s RuleDDLTextNotNull (''text/blob/json column '' @ name @ '' must not be NOT NULL''))
      @ report (\<not> c_HasDefault c \<and> base \<noteq> ''timestamp'' \<and> \<not> large \<and> base \<noteq> ''json'' \<and> \<not> c_AutoIncrement c \<and>
                \<not> c_PrimaryKey c \<and> \<not> c_Generated c)
        (policyIssue a s RuleDDLAddDefault (''column '' @ name @ '' must have a default''))
      @ report (base = ''datetime'' \<and> \<not> c_HasDefault c)
        (policyIssue a s RuleDDLDatetimeDefault (''DATETIME column '' @ name @ '' must have a default''))
      @ report (c_HasDefault c \<and> isTemporalType base \<and>
                invalidTemporalDefault (c_DefaultExpression c) (LegacyString (a_Policy a) ''sql_mode''))
        (policyIssue a s RuleDDLIncorrectDatetime
           (''column '' @ name @ '' has invalid datetime default '' @ c_DefaultExpression c))
      @ report (base = ''char'' \<and> mx > 0 \<and> c_Length c > mx)
        (policyIssue a s RuleDDLCharToVarchar (''column '' @ name @ '' should use VARCHAR''))
      @ (if c_AutoIncrement c then
           report (on ''check_autoincrement_datatype'' \<and> \<not> isIntegerType base)
             (policyIssue a s RuleDDLAutoInteger (''auto increment column '' @ name @ '' must be int or bigint''))
           @ report (on ''enable_autoincrement_unsigned'' \<and> \<not> c_Unsigned c)
             (policyIssue a s RuleDDLAutoUnsigned (''auto increment column '' @ name @ '' should be unsigned''))
           @ report (\<not> strings_EqualFold name ''id'')
             (policyIssue a s RuleDDLAutoName (''auto increment column '' @ name @ '' should be named ID''))
         else []))"

text \<open>The checks on one index that the statement adds; \<open>columns\<close> are the columns to type-check.\<close>

definition index_issues ::
  "audit_context \<Rightarrow> statement \<Rightarrow> column_spec list \<Rightarrow> index_spec \<Rightarrow> audit_issue list" where
  "index_issues a s columns index =
     (let pol = a_Policy a; parts = int (length (i_Columns index)) in
      (if \<not> i_Primary index then checkName a s ''index'' (i_Name index) else [])
      @ (if i_Primary index then
           report (LegacyInt pol ''max_primary_key_parts'' > 0 \<and> parts > LegacyInt pol ''max_primary_key_parts'')
             (policyIssue a s RuleDDLMaxPrimaryParts (''primary key has '' @ strconv_Itoa parts @
                '' parts, maximum is '' @ strconv_Itoa (LegacyInt pol ''max_primary_key_parts'')))
           @ (if LegacyBool pol ''enable_pk_columns_only_int'' then
                concat (map (\<lambda>name. concat (map (\<lambda>column.
                  report (strings_EqualFold name (c_Name column) \<and> \<not> isIntegerType (baseType (c_Type column)))
                    (policyIssue a s RuleDDLPKInteger (''primary key column '' @ name @ '' should use int or bigint'')))
                  columns)) (i_Columns index))
              else [])
         else
           (let prefix = (if i_Unique index then LegacyString pol ''uniq_index_prefix'' else LegacyString pol ''index_prefix'');
                code = (if i_Unique index then RuleDDLUniqueIndexPrefix else RuleDDLIndexPrefix) in
            report (LegacyBool pol ''check_index_prefix'' \<and> prefix \<noteq> [] \<and> \<not> hasAnyPrefix (i_Name index) prefix)
              (policyIssue a s code (''index '' @ i_Name index @ '' must use prefix '' @ prefix))))
      @ report (LegacyInt pol ''max_key_parts'' > 0 \<and> parts > LegacyInt pol ''max_key_parts'')
          (policyIssue a s RuleDDLMaxKeyParts (''index '' @ i_Name index @ '' has '' @ strconv_Itoa parts @
             '' parts, maximum is '' @ strconv_Itoa (LegacyInt pol ''max_key_parts''))))"

text \<open>The pairs \<open>i < j\<close> of the indexes whose leading columns coincide.\<close>

fun repeat_issues :: "audit_context \<Rightarrow> statement \<Rightarrow> index_spec list \<Rightarrow> audit_issue list" where
  "repeat_issues a s [] = []"
| "repeat_issues a s (i # is) =
     concat (map (\<lambda>j. report (leadingColumnsOverlap (i_Columns i) (i_Columns j))
       (policyIssue a s RuleDDLIndexRepeat (''indexes '' @ i_Name i @ '' and '' @ i_Name j @
          '' have redundant leading columns''))) is)
     @ repeat_issues a s is"

definition new_indexes :: "ddl_spec \<Rightarrow> index_spec list" where
  "new_indexes d = d_Indexes d @ concat (map (\<lambda>op. case op_Index op of None \<Rightarrow> [] | Some i \<Rightarrow> [i]) (d_AlterOperations d))"

definition kept_indexes :: "ddl_spec \<Rightarrow> table_meta option \<Rightarrow> index_spec list" where
  "kept_indexes d existing =
     (case existing of None \<Rightarrow> []
      | Some t \<Rightarrow>
          let dropped = (\<lambda>op. strings_ToLower (op_Name op)) ` set (filter (\<lambda>op.
                op_Action op = AlterDropIndex \<or> op_Action op = AlterDropPrimaryKey) (d_AlterOperations d)) in
          map (\<lambda>i. zero_index_spec\<lparr>i_Name := idx_Name i, i_Columns := idx_Columns i, i_Unique := idx_Unique i,
                 i_Primary := idx_Primary i\<rparr>)
            (filter (\<lambda>i. strings_ToLower (idx_Name i) \<notin> dropped) (t_Indexes t)))"

definition index_columns :: "ddl_spec \<Rightarrow> table_meta option \<Rightarrow> column_spec list" where
  "index_columns d existing = d_Columns d @
     (case existing of None \<Rightarrow> []
      | Some t \<Rightarrow> map (\<lambda>c. zero_column_spec\<lparr>c_Name := col_Name c, c_Type := col_ColumnType c\<rparr>) (t_Columns t))"

definition checkIndexes :: "audit_context \<Rightarrow> statement \<Rightarrow> ddl_spec \<Rightarrow> table_meta option \<Rightarrow> audit_issue list" where
  "checkIndexes a s d existing =
     (let pol = a_Policy a; indexes = new_indexes d @ kept_indexes d existing;
          mx = LegacyInt pol ''max_keys''; n = int (length indexes) in
      report (mx > 0 \<and> n > mx)
        (policyIssue a s RuleDDLMaxKeys (''table has '' @ strconv_Itoa n @ '' indexes, maximum is '' @ strconv_Itoa mx))
      @ concat (map (index_issues a s (index_columns d existing)) (new_indexes d))
      @ (if LegacyBool pol ''check_index_column_repeat'' then repeat_issues a s indexes else []))"

definition checkRequiredColumns :: "audit_context \<Rightarrow> statement \<Rightarrow> ddl_spec \<Rightarrow> audit_issue list" where
  "checkRequiredColumns a s d =
     (let required = strings_TrimSpace (LegacyString (a_Policy a) ''must_have_columns'') in
      if required = [] \<or> d_Action d \<noteq> DDLCreateTable then []
      else
        let found = (\<lambda>c. strings_ToLower (c_Name c)) ` set (d_Columns d);
            missing = concat (map (\<lambda>item. case strings_Fields (strings_TrimSpace item) of
              [] \<Rightarrow> [] | name # _ \<Rightarrow> report (strings_ToLower name \<notin> found) name) (strings_Split required CHR '','')) in
        report (length missing > 0)
          (policyIssue a s RuleDDLMustColumns (''missing required columns: '' @ strings_Join (sort missing) '','')))"

section \<open>The rule\<close>

definition option_issues :: "audit_context \<Rightarrow> statement \<Rightarrow> ddl_spec \<Rightarrow> audit_issue list" where
  "option_issues a s d =
     (let pol = a_Policy a in
      (if d_HasCharsetOption d then
         if \<not> LegacyBool pol ''enable_set_charset''
         then [policyIssue a s (if d_Action d = DDLCreateDatabase \<or> d_Action d = DDLAlterDatabase
                 then RuleDDLCantSetCharset else RuleDDLTableCharsetNull) ''explicit charset is disabled'']
         else report (\<not> allowedCSV (d_CharacterSet d) (LegacyString pol ''support_charset''))
           (policyIssue a s RuleDDLTableCharsetAllow (''unsupported table charset '' @ d_CharacterSet d))
       else [])
      @ report (d_HasCollationOption d \<and> \<not> LegacyBool pol ''enable_set_collation'')
          (policyIssue a s RuleDDLCantSetCollation ''explicit table collation is disabled'')
      @ (if d_HasEngineOption d then
           if \<not> LegacyBool pol ''enable_set_engine''
           then [policyIssue a s RuleDDLCantSetEngine ''explicit table engine is disabled'']
           else report (\<not> allowedCSV (d_Engine d) (LegacyString pol ''support_engine''))
             (policyIssue a s RuleDDLEngine (''unsupported table engine '' @ d_Engine d))
         else [])
      @ report (d_AutoIncrementValue d > 1)
          (policyIssue a s RuleDDLAutoInitial ''AUTO_INCREMENT initial value must be 1''))"

text \<open>The existing table that the statement changes, read through the cache.\<close>

definition existing_table :: "audit_context \<Rightarrow> ddl_spec \<Rightarrow> table_meta option \<times> audit_context" where
  "existing_table a d =
     (if d_Action d \<in> {DDLCreateIndex, DDLDropIndex, DDLAlterTable} then
        (case LoadTable (a_Metadata a) (d_Schema d) (d_Table d) of (r, p) \<Rightarrow>
           (case r of Inr t \<Rightarrow> Some t | Inl _ \<Rightarrow> None, a\<lparr>a_Metadata := p\<rparr>))
      else (None, a))"

definition alter_key :: "ddl_spec \<Rightarrow> string" where
  "alter_key d = strings_ToLower (d_Schema d @ ''.'' @ d_Table d)"

definition seen_count :: "audit_context \<Rightarrow> string \<Rightarrow> int" where
  "seen_count a key = (case a_SeenAlterTables a key of None \<Rightarrow> 0 | Some n \<Rightarrow> n)"

definition count_alter :: "audit_context \<Rightarrow> ddl_spec \<Rightarrow> audit_context" where
  "count_alter a d = a\<lparr>a_SeenAlterTables := (a_SeenAlterTables a)(alter_key d \<mapsto> seen_count a (alter_key d) + 1)\<rparr>"

definition alter_once_issues :: "audit_context \<Rightarrow> statement \<Rightarrow> ddl_spec \<Rightarrow> audit_issue list" where
  "alter_once_issues a s d =
     report (seen_count a (alter_key d) > 1)
       (policyIssue a s RuleDDLAlterOnce (''multiple ALTER statements for '' @ alter_key d @ '' should be merged''))"

definition alter_operation_issues ::
  "audit_context \<Rightarrow> statement \<Rightarrow> table_meta option \<Rightarrow> alter_operation \<Rightarrow> audit_issue list" where
  "alter_operation_issues a s existing op =
     report (op_Action op = AlterChangeColumn) (policyIssue a s RuleDDLCantChange ''CHANGE COLUMN is disabled'')
     @ concat (map (\<lambda>column. report (c_PositionChanged column)
         (policyIssue a s RuleDDLColumnPosition (''changing position of column '' @ c_Name column @ '' is disabled'')))
         (op_Columns op))
     @ (if (op_Action op = AlterModifyColumn \<or> op_Action op = AlterChangeColumn) \<and>
           LegacyBool (a_Policy a) ''check_column_type_change''
        then (case (existing, op_Columns op) of
                (Some t, [column]) \<Rightarrow>
                  let oldName = (if op_Name op = [] then c_Name column else op_Name op) in
                  concat (map (\<lambda>old.
                    report (strings_EqualFold (col_Name old) oldName \<and>
                            unsafeColumnTypeChange (col_ColumnType old) (c_Type column))
                      (policyIssue a s RuleDDLColumnTypeChange (''column '' @ oldName @ '' type changes from '' @
                         col_ColumnType old @ '' to '' @ c_Type column))) (t_Columns t))
              | _ \<Rightarrow> [])
        else [])"

definition timestamp_issues :: "audit_context \<Rightarrow> statement \<Rightarrow> column_spec list \<Rightarrow> audit_issue list" where
  "timestamp_issues a s columns =
     (let stamps = filter (\<lambda>c. baseType (c_Type c) = ''timestamp'') columns;
          defaults = length (filter (\<lambda>c.
            strings_Contains (strings_ToLower (c_DefaultExpression c)) ''current_timestamp'') stamps);
          updates = length (filter c_OnUpdate stamps) in
      report (LegacyBool (a_Policy a) ''check_timestamp_count'' \<and> (defaults > 1 \<or> updates > 1))
        (policyIssue a s RuleDDLTooManyTimestamps ''too many automatic TIMESTAMP columns''))"

definition LegacyDDL_Check :: rule where
  "LegacyDDL_Check a s =
     (case s_DDL s of
        None \<Rightarrow> ([], a)
      | Some d \<Rightarrow>
          if d_Action d \<in> {DDLCreateView, DDLAlterView, DDLDropView}
          then ([policyIssue a s RuleDDLView ''views are disabled''], a)
          else
            let a1 = (if d_Action d = DDLAlterTable then count_alter a d else a);
                (existing, a2) = existing_table a1 d;
                columns = d_Columns d @ (if d_Action d = DDLAlterTable
                  then concat (map op_Columns (d_AlterOperations d)) else []) in
            (checkName a s ''schema'' (d_Schema d)
             @ checkName a s ''table'' (d_Table d)
             @ concat (map (\<lambda>r. checkName a s ''table'' (tr_Name r)) (d_Tables d))
             @ option_issues a s d
             @ (if d_Action d = DDLAlterTable
                then alter_once_issues a1 s d
                  @ concat (map (alter_operation_issues a s existing) (d_AlterOperations d))
                else [])
             @ concat (map (\<lambda>column. checkName a s ''column'' (c_Name column) @ checkColumn a s column) columns)
             @ timestamp_issues a s columns
             @ checkIndexes a s d existing
             @ checkRequiredColumns a s d, a2))"

section \<open>The rule keeps the contract\<close>

lemma checkName_ok [simp]: "list_all (issue_ok (a_Policy a) s) (checkName a s kind name)"
  by (simp add: checkName_def)

lemma checkColumn_ok [simp]: "list_all (issue_ok (a_Policy a) s) (checkColumn a s c)"
  by (simp add: checkColumn_def Let_def)

lemma index_issues_ok [simp]: "list_all (issue_ok (a_Policy a) s) (index_issues a s columns i)"
  by (simp add: index_issues_def Let_def list_all_concat_map)

lemma repeat_issues_ok [simp]: "list_all (issue_ok (a_Policy a) s) (repeat_issues a s xs)"
  by (induction xs) (simp_all add: list_all_concat_map)

lemma checkIndexes_ok [simp]: "list_all (issue_ok (a_Policy a) s) (checkIndexes a s d existing)"
  by (simp add: checkIndexes_def Let_def list_all_concat_map)

lemma checkRequiredColumns_ok [simp]: "list_all (issue_ok (a_Policy a) s) (checkRequiredColumns a s d)"
  by (simp add: checkRequiredColumns_def Let_def)

lemma option_issues_ok [simp]: "list_all (issue_ok (a_Policy a) s) (option_issues a s d)"
  by (simp add: option_issues_def Let_def)

lemma alter_operation_issues_ok [simp]:
  "list_all (issue_ok (a_Policy a) s) (alter_operation_issues a s existing op)"
  by (simp add: alter_operation_issues_def list_all_concat_map Let_def split: option.split list.split)

lemma alter_once_issues_ok [simp]: "list_all (issue_ok (a_Policy a) s) (alter_once_issues (count_alter a d) s d)"
  by (simp add: alter_once_issues_def policyIssue_def count_alter_def issue_ok_levelIssue)

lemma timestamp_issues_ok [simp]: "list_all (issue_ok (a_Policy a) s) (timestamp_issues a s columns)"
  by (simp add: timestamp_issues_def Let_def)

lemma context_step_count [simp]: "context_step a (count_alter a d)"
  by (simp add: context_step_def count_alter_def)

lemma existing_table_step: "existing_table a d = (t, a') \<Longrightarrow> context_step a a'"
  by (auto simp: existing_table_def metadata_step split: if_splits prod.splits)

interpretation legacy_ddl: audit_rule LegacyDDL_Check
proof unfold_locales
  fix i a s
  show "context_step a (snd (LegacyDDL_Check a s))"
    by (auto simp: LegacyDDL_Check_def Let_def split: option.split prod.split dest!: existing_table_step
        intro: context_step_trans [OF context_step_count])
  assume "i \<in> set (fst (LegacyDDL_Check a s))"
  moreover have "list_all (issue_ok (a_Policy a) s) (fst (LegacyDDL_Check a s))"
    by (simp add: LegacyDDL_Check_def Let_def list_all_concat_map split: option.split prod.split)
  ultimately show "issue_ok (a_Policy a) s i" by (simp add: list_all_iff)
qed

section \<open>Properties\<close>

lemma overlap_from_iff:
  "leadingColumnsOverlap_from xs ys \<longleftrightarrow>
     prefix (map strings_ToLower xs) (map strings_ToLower ys) \<or> prefix (map strings_ToLower ys) (map strings_ToLower xs)"
  by (induction xs ys rule: leadingColumnsOverlap_from.induct) (auto simp: strings_EqualFold_def)

text \<open>
  Two indexes are called redundant exactly when both have columns and the column list of one is
  a prefix of the other's, up to case.
\<close>

theorem leadingColumnsOverlap_iff:
  "leadingColumnsOverlap xs ys \<longleftrightarrow> xs \<noteq> [] \<and> ys \<noteq> [] \<and>
     (prefix (map strings_ToLower xs) (map strings_ToLower ys) \<or>
      prefix (map strings_ToLower ys) (map strings_ToLower xs))"
  by (simp add: leadingColumnsOverlap_def overlap_from_iff)

lemma LegacyDDL_alter_state:
  assumes "s_DDL s = Some d" and "d_Action d = DDLAlterTable"
  shows "a_SeenAlterTables (snd (LegacyDDL_Check a s)) =
    (a_SeenAlterTables a)(alter_key d \<mapsto> seen_count a (alter_key d) + 1)"
  using assms by (auto simp: LegacyDDL_Check_def existing_table_def count_alter_def Let_def split: prod.split)

lemma LegacyDDL_alter_once:
  assumes "s_DDL s = Some d" and "d_Action d = DDLAlterTable" and "seen_count a (alter_key d) \<ge> 1"
  shows "\<exists>i\<in>set (fst (LegacyDDL_Check a s)). iss_RuleID i = RuleDDLAlterOnce"
proof -
  let ?i = "policyIssue (count_alter a d) s RuleDDLAlterOnce
    (''multiple ALTER statements for '' @ alter_key d @ '' should be merged'')"
  have "?i \<in> set (alter_once_issues (count_alter a d) s d)"
    using assms(3) by (simp add: alter_once_issues_def seen_count_def count_alter_def)
  then have "?i \<in> set (fst (LegacyDDL_Check a s))"
    using assms(1,2) by (simp add: LegacyDDL_Check_def Let_def split: prod.split)
  then show ?thesis by (rule bexI [rotated]) (simp add: policyIssue_def levelIssue_def)
qed

text \<open>
  The second ALTER TABLE of a request on the same table, in any spelling, is reported as one to
  be merged: the first check leaves the count that the second one sees, whatever it reports itself.
\<close>

theorem second_alter_reported:
  assumes "s_DDL s1 = Some d1" and "d_Action d1 = DDLAlterTable"
    and "s_DDL s2 = Some d2" and "d_Action d2 = DDLAlterTable"
    and "strings_EqualFold (d_Schema d1) (d_Schema d2)" and "strings_EqualFold (d_Table d1) (d_Table d2)"
    and "seen_count a (alter_key d1) \<ge> 0"
  shows "\<exists>i\<in>set (fst (LegacyDDL_Check (snd (LegacyDDL_Check a s1)) s2)). iss_RuleID i = RuleDDLAlterOnce"
proof (rule LegacyDDL_alter_once [OF assms(3,4)])
  have "alter_key d2 = alter_key d1" using assms(5,6) by (simp add: alter_key_def strings_EqualFold_def strings_ToLower_def)
  then show "seen_count (snd (LegacyDDL_Check a s1)) (alter_key d2) \<ge> 1"
    using assms(7) LegacyDDL_alter_state [OF assms(1,2), of a] by (simp add: seen_count_def)
qed

definition alter_users_statement :: "string \<Rightarrow> statement" where
  "alter_users_statement table = (zero_statement StatementAlterTable)\<lparr>s_Sequence := 1, s_Supported := True,
     s_DDL := Some ((alter_users [])\<lparr>d_Table := table\<rparr>)\<rparr>"

theorem second_alter_reported_witness:
  "\<exists>i\<in>set (fst (LegacyDDL_Check (snd (LegacyDDL_Check (plain_context users_source LegacyDefaults sample_backup)
      (alter_users_statement ''users''))) (alter_users_statement ''USERS''))). iss_RuleID i = RuleDDLAlterOnce"
  using second_alter_reported [of "alter_users_statement ''users''" "(alter_users [])\<lparr>d_Table := ''users''\<rparr>"
      "alter_users_statement ''USERS''" "(alter_users [])\<lparr>d_Table := ''USERS''\<rparr>"
      "plain_context users_source LegacyDefaults sample_backup"]
  by (simp add: alter_users_statement_def alter_users_def zero_statement_def zero_ddl_spec_def seen_count_def
      plain_context_def go_defs)

text \<open>
  For two integer types of different spelling, MODIFY and CHANGE COLUMN are called unsafe exactly
  when the new type is narrower in the order tinyint, smallint, mediumint, int (integer), bigint.
\<close>

theorem integer_type_change:
  assumes "type_rank (baseType old) = Some m" and "type_rank (baseType new) = Some n"
    and "\<not> sameColumnType old new"
  shows "unsafeColumnTypeChange old new \<longleftrightarrow> n < m"
  using assms by (simp add: unsafeColumnTypeChange_def)

theorem integer_type_change_witness:
  "unsafeColumnTypeChange ''BIGINT(20)'' ''int(11)'' \<and> \<not> unsafeColumnTypeChange ''int(11)'' ''bigint''"
  using integer_type_change [of "''BIGINT(20)''" 5 "''int(11)''" 4] integer_type_change [of "''int(11)''" 4 "''bigint''" 5]
  by (simp add: type_rank_def baseType_def sameColumnType_def go_defs)

text \<open>
  Within one non-character type the code compares no lengths: narrowing \<^verbatim>\<open>decimal(20,4)\<close> to
  \<^verbatim>\<open>decimal(6,2)\<close>, or dropping \<^verbatim>\<open>unsigned\<close>, is not reported as an unsafe change.
\<close>

theorem decimal_narrowing_unreported:
  "\<not> unsafeColumnTypeChange ''decimal(20,4)'' ''decimal(6,2)'' \<and>
   \<not> unsafeColumnTypeChange ''bigint unsigned'' ''bigint''"
  by (simp add: unsafeColumnTypeChange_def type_rank_def baseType_def sameColumnType_def Let_def go_defs)

end
