(* ===== verification/AuditEngine.thy ===== *)
theory AuditEngine
  imports RulesLegacyDdl
begin

text \<open>
  \<^verbatim>\<open>Engine.Check\<close> of \<^verbatim>\<open>internal/audit/audit.go\<close> and the rule list that
  \<^verbatim>\<open>cmd/goinception-plus/main.go\<close> installs. The locale \<open>audit_engine\<close> proves what the engine
  promises to the session from the contract of its rules alone; it is interpreted on the rule
  list of the program.
\<close>

section \<open>The engine\<close>

fun run_rules :: "rule list \<Rightarrow> audit_context \<Rightarrow> statement \<Rightarrow> audit_issue list \<times> audit_context" where
  "run_rules [] a s = ([], a)"
| "run_rules (rule # rules) a s =
     (case rule a s of (issues, a1) \<Rightarrow>
      case run_rules rules a1 s of (others, a2) \<Rightarrow> (issues @ others, a2))"

definition set_legacy_key :: "audit_issue \<Rightarrow> audit_issue" where
  "set_legacy_key i =
     (case RuleByCode (iss_RuleID i) of
        Some d \<Rightarrow> i\<lparr>iss_LegacyKey := rd_LegacyKey d\<rparr>
      | None \<Rightarrow> i)"

definition Engine_Check :: "rule list \<Rightarrow> audit_context \<Rightarrow> statement \<Rightarrow> audit_issue list \<times> audit_context" where
  "Engine_Check rules a s =
     (case run_rules rules a s of (issues, a') \<Rightarrow>
        (filter (\<lambda>i. iss_Level i \<noteq> SeverityNone) (map set_legacy_key issues), a'))"

text \<open>The rules of \<^verbatim>\<open>newSession\<close>, in order.\<close>

definition program_rules :: "rule list" where
  "program_rules = [KnownStatement_Check, DDLSafety_Check, LegacyDDL_Check, RequirePrimaryKey_Check,
     RequireTableComment_Check, RequireColumnComments_Check, LimitColumnCount_Check, DMLSafety_Check]"

section \<open>What the engine promises\<close>

lemma set_legacy_key_simps [simp]:
  "iss_Level (set_legacy_key i) = iss_Level i" "iss_RuleID (set_legacy_key i) = iss_RuleID i"
  "iss_Sequence (set_legacy_key i) = iss_Sequence i" "iss_Message (set_legacy_key i) = iss_Message i"
  by (simp_all add: set_legacy_key_def split: option.split)

lemma issue_ok_set_legacy_key [simp]: "issue_ok pol s (set_legacy_key i) = issue_ok pol s i"
  by (simp add: issue_ok_def)

locale audit_engine =
  fixes rules :: "rule list"
  assumes all_rules: "rule \<in> set rules \<Longrightarrow> audit_rule rule"
begin

lemma sub_rules: "set rs \<subseteq> set rules \<Longrightarrow> run_rules rs a s = (issues, a') \<Longrightarrow>
   (\<forall>i\<in>set issues. issue_ok (a_Policy a) s i) \<and> context_step a a'"
proof (induction rs arbitrary: a issues a')
  case (Cons rule rs)
  then have rule: "audit_rule rule" using all_rules by simp
  obtain is1 a1 where one: "rule a s = (is1, a1)" by (cases "rule a s")
  obtain is2 a2 where rest: "run_rules rs a1 s = (is2, a2)" by (cases "run_rules rs a1 s")
  have "context_step a a1" using audit_rule.keeps_context [OF rule, of a s] one by simp
  moreover have "\<forall>i\<in>set is1. issue_ok (a_Policy a) s i" using audit_rule.issues_ok [OF rule, of _ a s] one by simp
  moreover have "a_Policy a1 = a_Policy a" using \<open>context_step a a1\<close> by (simp add: context_step_def)
  ultimately show ?case using Cons.IH [OF _ rest] Cons.prems one rest by (auto intro: context_step_trans)
qed simp

lemma engine_issue_ok: "i \<in> set (fst (Engine_Check rules a s)) \<Longrightarrow> issue_ok (a_Policy a) s i"
  using sub_rules [OF subset_refl, of a s] by (auto simp: Engine_Check_def split: prod.splits)

lemma engine_context: "context_step a (snd (Engine_Check rules a s))"
  using sub_rules [OF subset_refl, of a s] by (auto simp: Engine_Check_def split: prod.splits)

lemma engine_legacy_key:
  assumes "i \<in> set (fst (Engine_Check rules a s))"
  shows "\<exists>d. RuleByCode (iss_RuleID i) = Some d \<and> iss_LegacyKey i = rd_LegacyKey d"
proof -
  from assms obtain j where j: "i = set_legacy_key j" by (auto simp: Engine_Check_def split: prod.splits)
  from engine_issue_ok [OF assms] obtain d where "RuleByCode (iss_RuleID i) = Some d"
    by (auto simp: issue_ok_def)
  moreover from this j have "RuleByCode (iss_RuleID j) = Some d" by simp
  then have "iss_LegacyKey i = rd_LegacyKey d" by (simp add: j set_legacy_key_def)
  ultimately show ?thesis by blast
qed

text \<open>Every rule of the list runs, in a context that only differs in metadata and counts.\<close>

lemma rule_runs:
  "set rs \<subseteq> set rules \<Longrightarrow> rule \<in> set rs \<Longrightarrow>
   \<exists>a'. context_step a a' \<and> set (fst (rule a' s)) \<subseteq> set (fst (run_rules rs a s))"
proof (induction rs arbitrary: a)
  case (Cons x rs)
  obtain is1 a1 where one: "x a s = (is1, a1)" by (cases "x a s")
  show ?case
  proof (cases "rule = x")
    case True
    with one show ?thesis by (intro exI [of _ a]) (auto split: prod.split)
  next
    case False
    with Cons obtain a' where "context_step a1 a'" "set (fst (rule a' s)) \<subseteq> set (fst (run_rules rs a1 s))"
      by (metis insert_subset list.simps(15) set_ConsD)
    moreover have "context_step a a1"
      using audit_rule.keeps_context [OF all_rules, of x a s] Cons.prems(1) one by simp
    ultimately show ?thesis using one by (intro exI [of _ a']) (auto intro: context_step_trans split: prod.split)
  qed
qed simp

lemma engine_reports:
  assumes "rule \<in> set rules"
    and "\<And>a'. a_Policy a' = a_Policy a \<Longrightarrow> \<exists>i\<in>set (fst (rule a' s)). iss_RuleID i = code \<and> iss_Level i = SeverityError"
  shows "\<exists>i\<in>set (fst (Engine_Check rules a s)). iss_RuleID i = code \<and> iss_Level i = SeverityError"
proof -
  obtain a' where a': "context_step a a'" "set (fst (rule a' s)) \<subseteq> set (fst (run_rules rules a s))"
    using rule_runs [OF subset_refl assms(1)] by blast
  then obtain i where i: "i \<in> set (fst (run_rules rules a s))" "iss_RuleID i = code" "iss_Level i = SeverityError"
    using assms(2) [of a'] by (auto simp: context_step_def)
  then have "set_legacy_key i \<in> set (fst (Engine_Check rules a s))"
    by (auto simp: Engine_Check_def split: prod.splits)
  with i show ?thesis by (intro bexI [of _ "set_legacy_key i"]) simp_all
qed

end

lemma Engine_Check_no_none: "i \<in> set (fst (Engine_Check rules a s)) \<Longrightarrow> iss_Level i \<noteq> SeverityNone"
  by (auto simp: Engine_Check_def split: prod.splits)

interpretation program: audit_engine program_rules
  using known_statement.audit_rule_axioms ddl_safety.audit_rule_axioms legacy_ddl.audit_rule_axioms
    primary_key.audit_rule_axioms table_comment.audit_rule_axioms column_comments.audit_rule_axioms
    column_count.audit_rule_axioms dml_safety.audit_rule_axioms
  by (intro audit_engine.intro) (auto simp: program_rules_def)

section \<open>Reports that do not depend on the context\<close>

lemma unsupported_reported:
  "\<not> s_Supported s \<Longrightarrow>
   \<exists>i\<in>set (fst (Engine_Check program_rules a s)). iss_RuleID i = RuleUnknownStatement \<and> iss_Level i = SeverityError"
  by (rule program.engine_reports [of KnownStatement_Check])
     (simp_all add: program_rules_def KnownStatement_Check_def errorIssue_def levelIssue_def)

text \<open>The DDL actions the policy forbids, with the rule that reports each.\<close>

definition forbidden_action :: "policy \<Rightarrow> ddl_action \<Rightarrow> string option" where
  "forbidden_action pol action =
     (case action of
        DDLDropDatabase \<Rightarrow> if p_AllowDropDatabase pol then None else Some RuleDDLDropDatabase
      | DDLDropTable \<Rightarrow> if p_AllowDropTable pol then None else Some RuleDDLDropTable
      | DDLTruncateTable \<Rightarrow> if p_AllowTruncate pol then None else Some RuleDDLTruncate
      | _ \<Rightarrow> None)"

lemma forbidden_action_reported:
  assumes "s_DDL s = Some d" and "forbidden_action (a_Policy a) (d_Action d) = Some code"
    and "Level (a_Policy a) code = SeverityError"
  shows "\<exists>i\<in>set (fst (Engine_Check program_rules a s)). iss_RuleID i = code \<and> iss_Level i = SeverityError"
proof (rule program.engine_reports [of DDLSafety_Check])
  fix a' :: audit_context
  assume pol: "a_Policy a' = a_Policy a"
  have "\<exists>msg. policyIssue a' s code msg \<in> set (DDLSafety_issues a' s d)"
    using assms(2) pol
    by (cases "d_Action d") (auto simp: forbidden_action_def DDLSafety_issues_def Let_def split: if_splits)
  then obtain msg where "policyIssue a' s code msg \<in> set (fst (DDLSafety_Check a' s))"
    using assms(1) by (auto simp: DDLSafety_Check_def)
  then show "\<exists>i\<in>set (fst (DDLSafety_Check a' s)). iss_RuleID i = code \<and> iss_Level i = SeverityError"
    by (rule bexI [rotated]) (simp add: policyIssue_def levelIssue_def assms(3) pol)
qed (simp add: program_rules_def)

lemma missing_where_reported:
  assumes "s_DML s = Some m" and "is_update_or_delete s" and "p_RequireDMLWhere (a_Policy a)" and "\<not> m_HasWhere m"
    and "Level (a_Policy a) RuleDMLRequireWhere = SeverityError"
  shows "\<exists>i\<in>set (fst (Engine_Check program_rules a s)). iss_RuleID i = RuleDMLRequireWhere \<and> iss_Level i = SeverityError"
proof (rule program.engine_reports [of DMLSafety_Check])
  fix a' :: audit_context
  assume pol: "a_Policy a' = a_Policy a"
  let ?i = "policyIssue a' s RuleDMLRequireWhere ''UPDATE and DELETE must contain a WHERE condition''"
  have "?i \<in> set (fst (DMLSafety_Check a' s))"
    using where_issue [of s m a'] assms pol by simp
  then show "\<exists>i\<in>set (fst (DMLSafety_Check a' s)). iss_RuleID i = RuleDMLRequireWhere \<and> iss_Level i = SeverityError"
    using assms(5) pol by (intro bexI [of _ ?i]) (simp_all add: policyIssue_def levelIssue_def)
qed (simp add: program_rules_def)

section \<open>Properties\<close>

text \<open>
  Every issue the engine returns for a statement carries the statement's sequence number, a code
  of the catalog with that code's legacy key, a level above None, and that level is the policy's
  for the code or Error. Checking changes nothing of the context but the metadata cache, which
  only grows, and the ALTER counts.
\<close>

theorem Engine_Check_issues:
  assumes "Engine_Check program_rules a s = (issues, a')" and "i \<in> set issues"
  shows "iss_Sequence i = s_Sequence s \<and>
    (\<exists>d. RuleByCode (iss_RuleID i) = Some d \<and> iss_LegacyKey i = rd_LegacyKey d) \<and>
    iss_Level i \<noteq> SeverityNone \<and>
    (iss_Level i = Level (a_Policy a) (iss_RuleID i) \<or> iss_Level i = SeverityError) \<and>
    a_Policy a' = a_Policy a \<and> a_Request a' = a_Request a \<and> a_Database a' = a_Database a \<and>
    pv_tables (a_Metadata a) \<subseteq>\<^sub>m pv_tables (a_Metadata a') \<and> pv_schemas (a_Metadata a') = pv_schemas (a_Metadata a)"
  using program.engine_issue_ok [of i a s] program.engine_context [of a s] program.engine_legacy_key [of i a s]
    Engine_Check_no_none [of i program_rules a s] assms
  by (simp add: issue_ok_def context_step_def extends_def)

theorem Engine_Check_issues_witness:
  "\<exists>issues a' i. Engine_Check program_rules (plain_context users_source LegacyDefaults sample_backup)
      (zero_statement StatementUnknown) = (issues, a') \<and> i \<in> set issues \<and> iss_Sequence i = 0 \<and> iss_Level i \<noteq> SeverityNone"
proof -
  let ?a = "plain_context users_source LegacyDefaults sample_backup" and ?s = "zero_statement StatementUnknown"
  have "iss_Level (errorIssue ?s RuleUnknownStatement m) = SeverityError" for m
    by (simp add: errorIssue_def levelIssue_def)
  then have "fst (Engine_Check program_rules ?a ?s) \<noteq> []"
    by (simp add: Engine_Check_def program_rules_def KnownStatement_Check_def zero_statement_def report_def
        split: prod.split)
  then obtain i where "i \<in> set (fst (Engine_Check program_rules ?a ?s))" by (metis last_in_set)
  with Engine_Check_issues [OF surjective_pairing this] show ?thesis
    by (metis prod.collapse zero_statement_def statement.select_convs(1))
qed

text \<open>
  A statement the parser could not project is never let through: the engine reports it as an
  Error whatever the policy says.
\<close>

theorem unsupported_statement_rejected:
  assumes "\<not> s_Supported s"
  shows "\<exists>i\<in>set (fst (Engine_Check program_rules a s)). iss_RuleID i = RuleUnknownStatement \<and> iss_Level i = SeverityError"
  using assms by (rule unsupported_reported)

theorem unsupported_statement_rejected_witness:
  "\<exists>i\<in>set (fst (Engine_Check program_rules (plain_context users_source LegacyDefaults sample_backup)
      (zero_statement StatementUnknown))). iss_RuleID i = RuleUnknownStatement \<and> iss_Level i = SeverityError"
  using unsupported_statement_rejected by (simp add: zero_statement_def)

end
