(* ===== verification/Session.thy ===== *)
theory Session
  imports AuditEngine RequestFacts
begin

text \<open>
  \<^verbatim>\<open>internal/session/session.go\<close>: one audit request from the envelope to the result records. The
  SQL parser, the connection to the target server and the executor are parameters of the session:
  the parser and the metadata factory are functions, and the executor acts on a state \<open>'w\<close> of the
  world (the target and backup databases), so that what is executed is visible in the final state.

  A statement of the parse result holds pointers to its projections. The loop works on a copy of
  the statement, but writes through those pointers: the executor gets the original statements with
  the projections the audit has updated.
\<close>

section \<open>Session\<close>

type_synonym 'w executor = "request_options \<Rightarrow> statement list \<Rightarrow> 'w \<Rightarrow> execution_result list outcome \<times> 'w"

record 'w session =
  ses_parser :: "string \<Rightarrow> string \<Rightarrow> gerror + parse_result"
  ses_engine :: "rule list"
  ses_policy :: policy
  ses_policySource :: "policy option"
  ses_openMetadata :: "(target_options \<Rightarrow> 'w \<Rightarrow> gerror + metadata_source \<times> server_info) option"
  ses_openExecutor :: "(target_options \<Rightarrow> 'w \<Rightarrow> gerror + 'w executor) option"

definition New :: "(string \<Rightarrow> string \<Rightarrow> gerror + parse_result) \<Rightarrow> rule list \<Rightarrow> 'w session" where
  "New p engine = \<lparr> ses_parser = p, ses_engine = engine, ses_policy = LegacyDefaults,
     ses_policySource = None, ses_openMetadata = None, ses_openExecutor = None \<rparr>"

definition WithPolicy :: "policy \<Rightarrow> 'w session \<Rightarrow> 'w session" where
  "WithPolicy pol s = s\<lparr>ses_policy := pol, ses_policySource := None\<rparr>"

definition WithPolicyProvider :: "policy \<Rightarrow> 'w session \<Rightarrow> 'w session" where
  "WithPolicyProvider pol s = s\<lparr>ses_policySource := Some pol\<rparr>"

definition WithMetadataFactory ::
  "(target_options \<Rightarrow> 'w \<Rightarrow> gerror + metadata_source \<times> server_info) \<Rightarrow> 'w session \<Rightarrow> 'w session" where
  "WithMetadataFactory f s = s\<lparr>ses_openMetadata := Some f\<rparr>"

definition WithExecutorFactory ::
  "(target_options \<Rightarrow> 'w \<Rightarrow> gerror + 'w executor) \<Rightarrow> 'w session \<Rightarrow> 'w session" where
  "WithExecutorFactory f s = s\<lparr>ses_openExecutor := Some f\<rparr>"

text \<open>The policy of a request: what the provider returns now, else the fixed one.\<close>

definition session_policy :: "'w session \<Rightarrow> policy" where
  "session_policy s = (case ses_policySource s of Some pol \<Rightarrow> pol | None \<Rightarrow> ses_policy s)"

section \<open>Records\<close>

definition newIssue :: "string \<Rightarrow> int \<Rightarrow> string \<Rightarrow> audit_issue" where
  "newIssue code sequence message = \<lparr> iss_RuleID = code,
     iss_LegacyKey = (case RuleByCode code of Some d \<Rightarrow> rd_LegacyKey d | None \<Rightarrow> []),
     iss_Code = 0, iss_Level = SeverityError, iss_Message = message, iss_Sequence = sequence \<rparr>"

definition failureRecord :: "int \<Rightarrow> string \<Rightarrow> string \<Rightarrow> string \<Rightarrow> audit_record" where
  "failureRecord sequence sqlText code message = zero_audit_record\<lparr>rec_Sequence := sequence,
     rec_Stage := ''CHECKED'', rec_ErrorLevel := SeverityError, rec_StageStatus := ''CheckFailed'',
     rec_ErrorMessage := message, rec_SQL := sqlText, rec_Issues := [newIssue code sequence message]\<rparr>"

definition max_level :: "audit_issue list \<Rightarrow> severity" where
  "max_level issues = fold (\<lambda>i l. if iss_Level i > l then iss_Level i else l) issues SeverityNone"

definition makeRecord :: "statement \<Rightarrow> audit_issue list \<Rightarrow> audit_record" where
  "makeRecord s issues =
     (let level = max_level issues in
      zero_audit_record\<lparr>rec_Sequence := s_Sequence s, rec_Stage := ''CHECKED'',
        rec_StageStatus := (if level = SeverityError then ''CheckFailed''
          else if level = SeverityWarning then ''CheckedWithWarnings'' else ''Checked''),
        rec_SQL := s_Original s, rec_Issues := issues,
        rec_AffectedRows := (case s_DML s of Some m \<Rightarrow> m_EstimatedRows m | None \<Rightarrow> 0),
        rec_ErrorLevel := level,
        rec_ErrorMessage := strings_Join (map iss_Message issues) [CHR 0x0A]\<rparr>)"

definition appendBackupError :: "audit_record \<Rightarrow> string \<Rightarrow> string \<Rightarrow> audit_record" where
  "appendBackupError r ruleID message =
     r\<lparr>rec_Issues := rec_Issues r @ [newIssue ruleID (rec_Sequence r) message],
       rec_ErrorLevel := SeverityError,
       rec_ErrorMessage := strings_TrimSpace (rec_ErrorMessage r @ [CHR 0x0A] @ message),
       rec_Stage := ''BACKUP'', rec_StageStatus := ''BackupFailed''\<rparr>"

definition appendExecutionError :: "audit_record \<Rightarrow> string \<Rightarrow> string \<Rightarrow> audit_record" where
  "appendExecutionError r ruleID message =
     r\<lparr>rec_Issues := rec_Issues r @ [newIssue ruleID (rec_Sequence r) message],
       rec_ErrorLevel := SeverityError,
       rec_ErrorMessage := strings_TrimSpace (rec_ErrorMessage r @ [CHR 0x0A] @ message),
       rec_Stage := ''EXECUTED'', rec_StageStatus := ''ExecuteFailed''\<rparr>"

definition supportedMySQLVersion :: "string \<Rightarrow> bool" where
  "supportedMySQLVersion version =
     (let v = strings_TrimSpace (strings_ToLower version) in
      if strings_Contains v ''mariadb'' \<or> strings_Contains v ''tidb'' then False
      else strings_HasPrefix v ''5.7.'' \<or> v = ''5.7'' \<or> strings_HasPrefix v ''8.0.'' \<or> v = ''8.0'')"

section \<open>Resolving the database of a statement\<close>

definition fill_schema :: "string \<Rightarrow> table_ref \<Rightarrow> table_ref" where
  "fill_schema db r = (if tr_Schema r = [] then r\<lparr>tr_Schema := db\<rparr> else r)"

definition resolve_ddl :: "string \<Rightarrow> ddl_spec \<Rightarrow> ddl_spec" where
  "resolve_ddl db d = d\<lparr>d_Schema := db, d_Tables := map (fill_schema db) (d_Tables d),
     d_RenamePairs := map (\<lambda>p. p\<lparr>rp_From := fill_schema db (rp_From p), rp_To := fill_schema db (rp_To p)\<rparr>)
       (d_RenamePairs d)\<rparr>"

definition resolveStatementDatabase :: "statement \<Rightarrow> string \<Rightarrow> statement" where
  "resolveStatementDatabase s current =
     (let db0 = (if s_Database s = [] then current else s_Database s);
          db1 = (case s_DDL s of
                   Some d \<Rightarrow> if d_Schema d = [] then db0 else d_Schema d
                 | None \<Rightarrow> db0);
          ddl = map_option (resolve_ddl db1) (s_DDL s);
          dml = map_option (\<lambda>m. m\<lparr>m_Tables := map (fill_schema db1) (m_Tables m)\<rparr>) (s_DML s);
          db2 = (case dml of
                   Some m \<Rightarrow> (case m_Tables m of r # _ \<Rightarrow> if db1 = [] then tr_Schema r else db1 | [] \<Rightarrow> db1)
                 | None \<Rightarrow> db1) in
      s\<lparr>s_Database := db2, s_DDL := ddl, s_DML := dml\<rparr>)"

definition requiresDatabase :: "statement \<Rightarrow> bool" where
  "requiresDatabase s \<longleftrightarrow> s_Kind s \<in> {StatementCreateTable, StatementAlterTable, StatementDropTable,
     StatementRenameTable, StatementTruncateTable, StatementInsert, StatementUpdate, StatementDelete,
     StatementCreateIndex, StatementDropIndex, StatementCreateView, StatementAlterView, StatementDropView}"

section \<open>Auditing one statement\<close>

text \<open>
  The optional interfaces of the metadata provider, by type assertion. The request cache has a
  method \<^verbatim>\<open>EstimateImpact\<close>, and neither \<^verbatim>\<open>CheckGrants\<close> nor \<^verbatim>\<open>EstimateImpactWithRule\<close>.
\<close>

definition cache_GrantChecker :: "provider \<Rightarrow> (string \<Rightarrow> bool \<Rightarrow> gerror option) option" where
  "cache_GrantChecker p = None"

definition cache_ImpactEstimatorWithRule ::
  "provider \<Rightarrow> (string \<Rightarrow> string \<Rightarrow> string \<Rightarrow> gerror + impact_estimate) option" where
  "cache_ImpactEstimatorWithRule p = None"

text \<open>The loop state: the audit context and the databases whose grants were checked.\<close>

record loop_state =
  lp_ctx :: audit_context
  lp_checkedGrants :: "string set"

definition select_database :: "statement \<Rightarrow> audit_context \<Rightarrow> audit_issue list \<times> statement \<times> audit_context" where
  "select_database s a =
     (if s_Kind s = StatementUse then
        (case LoadSchema (a_Metadata a) (s_Database s) of
           (Inl err, p) \<Rightarrow>
             ([newIssue RuleSchemaNotFound (s_Sequence s) (''database '' @ strconv_Quote (s_Database s) @
                 '' is unavailable: '' @ err_Error err)], s, a\<lparr>a_Metadata := p\<rparr>)
         | (Inr _, p) \<Rightarrow> ([], s, a\<lparr>a_Metadata := p, a_Database := s_Database s\<rparr>))
      else
        let s1 = resolveStatementDatabase s (a_Database a) in
        (if requiresDatabase s1 \<and> s_Database s1 = []
         then [newIssue RuleNoDatabase (s_Sequence s1) ''No database selected.''] else [], s1, a))"

definition check_grants ::
  "policy \<Rightarrow> bool \<Rightarrow> statement \<Rightarrow> audit_issue list \<Rightarrow> loop_state \<Rightarrow> audit_issue list \<times> loop_state" where
  "check_grants pol execute s issues lp =
     (if issues = [] \<and> \<not> LegacyBool pol ''skip_grant_table'' \<and> s_Database s \<noteq> [] \<and>
         strings_ToLower (s_Database s) \<notin> lp_checkedGrants lp
      then (case cache_GrantChecker (a_Metadata (lp_ctx lp)) of
              None \<Rightarrow> (issues, lp)
            | Some check \<Rightarrow> (case check (s_Database s) execute of
                Some err \<Rightarrow> (issues @ [newIssue RuleMetadataConnect (s_Sequence s) (err_Error err)], lp)
              | None \<Rightarrow> (issues, lp\<lparr>lp_checkedGrants := insert (strings_ToLower (s_Database s)) (lp_checkedGrants lp)\<rparr>)))
      else (issues, lp))"

definition set_estimate :: "statement \<Rightarrow> int \<Rightarrow> string \<Rightarrow> statement" where
  "set_estimate s n how = s\<lparr>s_DML := map_option (\<lambda>m. m\<lparr>m_EstimatedRows := n, m_EstimateMethod := how\<rparr>) (s_DML s)\<rparr>"

definition estimate_impact :: "policy \<Rightarrow> audit_context \<Rightarrow> statement \<Rightarrow> gerror + impact_estimate" where
  "estimate_impact pol a s =
     (case cache_ImpactEstimatorWithRule (a_Metadata a) of
        Some advanced \<Rightarrow> advanced (a_Database a) (s_Normalized s) (LegacyString pol ''explain_rule'')
      | None \<Rightarrow> EstimateImpact (a_Metadata a) (a_Database a) (s_Normalized s))"

definition estimate_rows ::
  "policy \<Rightarrow> audit_context \<Rightarrow> statement \<Rightarrow> audit_issue list \<Rightarrow> audit_issue list \<times> statement" where
  "estimate_rows pol a s issues =
     (case s_DML s of
        None \<Rightarrow> (issues, s)
      | Some m \<Rightarrow>
          if issues \<noteq> [] then (issues, s)
          else if s_Kind s = StatementInsert \<and> m_ValueRows m > 0
          then (issues, set_estimate s (m_ValueRows m) ''values'')
          else if p_MaxAffectedRows pol > 0 \<and> (is_update_or_delete s \<or> m_InsertSelect m)
          then (case estimate_impact pol a s of
                  Inl err \<Rightarrow> (issues @ [newIssue RuleDMLImpactEstimate (s_Sequence s) (err_Error err)], s)
                | Inr e \<Rightarrow> (issues, set_estimate s (est_Rows e) (est_Method e)))
          else (issues, s))"

definition prepare_statement ::
  "statement \<Rightarrow> audit_issue list \<Rightarrow> provider \<Rightarrow> (audit_issue list \<times> statement \<times> provider) outcome" where
  "prepare_statement s issues p =
     (if issues = [] \<and> s_DDL s \<noteq> None \<and> s_Supported s
      then (case PrepareDDL (s_DDL s) p of
              Returns (err, ddl, p') \<Rightarrow>
                Returns ((case err of None \<Rightarrow> issues
                          | Some e \<Rightarrow> issues @ [newIssue RuleDDLMetadata (s_Sequence s) (err_Error e)]),
                         s\<lparr>s_DDL := ddl\<rparr>, p')
            | Raises e \<Rightarrow> Raises e | Panics m \<Rightarrow> Panics m)
      else Returns (issues, s, p))"

definition parser_warnings :: "statement \<Rightarrow> string list \<Rightarrow> audit_issue list" where
  "parser_warnings s warnings =
     (if s_Sequence s = 1
      then map (\<lambda>w. levelIssue s RuleParserWarning SeverityWarning w) warnings else [])"

definition finish_statement ::
  "statement \<Rightarrow> audit_issue list \<Rightarrow> audit_context \<Rightarrow> audit_record \<times> audit_context" where
  "finish_statement s issues a =
     (let record = makeRecord s issues in
      if rec_ErrorLevel record \<noteq> SeverityError \<and> s_DDL s \<noteq> None \<and> s_Supported s
      then (case ApplyDDL (s_DDL s) (a_Metadata a) of
              (None, p) \<Rightarrow> (record, a\<lparr>a_Metadata := p\<rparr>)
            | (Some err, p) \<Rightarrow>
                (makeRecord s (issues @ [newIssue RuleDDLMetadata (s_Sequence s) (err_Error err)]), a\<lparr>a_Metadata := p\<rparr>))
      else (record, a))"

text \<open>One iteration of the loop: the record, the statement as the executor will see it, the state.\<close>

definition audit_statement ::
  "rule list \<Rightarrow> policy \<Rightarrow> bool \<Rightarrow> string list \<Rightarrow> statement \<Rightarrow> loop_state \<Rightarrow>
   (audit_record \<times> statement \<times> loop_state) outcome" where
  "audit_statement rules pol execute warnings s lp =
     (case select_database s (lp_ctx lp) of (issues0, s0, a0) \<Rightarrow>
      case check_grants pol execute s0 issues0 (lp\<lparr>lp_ctx := a0\<rparr>) of (issues1, lp1) \<Rightarrow>
      case estimate_rows pol (lp_ctx lp1) s0 issues1 of (issues2, s2) \<Rightarrow>
      case prepare_statement s2 issues2 (a_Metadata (lp_ctx lp1)) of
        Raises e \<Rightarrow> Raises e
      | Panics m \<Rightarrow> Panics m
      | Returns (issues3, s3, p3) \<Rightarrow>
          (case Engine_Check rules ((lp_ctx lp1)\<lparr>a_Metadata := p3\<rparr>) s3 of (found, a4) \<Rightarrow>
           case finish_statement s3 (issues3 @ found @ parser_warnings s3 warnings) a4 of (record, a5) \<Rightarrow>
             Returns (record, s\<lparr>s_DDL := s_DDL s3, s_DML := s_DML s3\<rparr>, lp1\<lparr>lp_ctx := a5\<rparr>)))"

fun audit_statements ::
  "rule list \<Rightarrow> policy \<Rightarrow> bool \<Rightarrow> string list \<Rightarrow> statement list \<Rightarrow> loop_state \<Rightarrow>
   (audit_record list \<times> statement list \<times> loop_state) outcome" where
  "audit_statements rules pol execute warnings [] lp = Returns ([], [], lp)"
| "audit_statements rules pol execute warnings (s # ss) lp =
     (case audit_statement rules pol execute warnings s lp of
        Raises e \<Rightarrow> Raises e
      | Panics m \<Rightarrow> Panics m
      | Returns (record, s', lp1) \<Rightarrow>
          (case audit_statements rules pol execute warnings ss lp1 of
             Raises e \<Rightarrow> Raises e
           | Panics m \<Rightarrow> Panics m
           | Returns (records, ss', lp2) \<Rightarrow> Returns (record # records, s' # ss', lp2)))"

section \<open>Execution results\<close>

definition blocks :: "request_options \<Rightarrow> audit_record \<Rightarrow> bool" where
  "blocks opts r \<longleftrightarrow> rec_ErrorLevel r = SeverityError \<or>
     (rec_ErrorLevel r = SeverityWarning \<and> \<not> opt_IgnoreWarnings opts)"

definition copy_result :: "execution_result \<Rightarrow> audit_record \<Rightarrow> audit_record" where
  "copy_result x r = r\<lparr>rec_ExecuteTime := res_Duration x, rec_AffectedRows := res_AffectedRows x,
     rec_BackupDatabase := res_BackupDatabase x, rec_BackupCompleted := res_BackupCompleted x,
     rec_BackupTime := res_BackupDuration x, rec_OperationID := res_SequenceID x\<rparr>"

definition failed_record :: "execution_result \<Rightarrow> audit_record \<Rightarrow> audit_record" where
  "failed_record x r =
     (let ruleID = (if res_RuleID x = [] then RuleExecutionFailed else res_RuleID x) in
      if ruleID = RuleBackupFailed \<and> res_Executed x then appendBackupError r ruleID (res_Error x)
      else appendExecutionError r ruleID (res_Error x))"

definition success_record :: "execution_result \<Rightarrow> audit_record \<Rightarrow> audit_record" where
  "success_record x r =
     (if res_BackupCompleted x
      then r\<lparr>rec_Stage := ''BACKUP'', rec_StageStatus := ''BackupSuccessfully''\<rparr>
      else r\<lparr>rec_Stage := ''EXECUTED'', rec_StageStatus := ''ExecuteSuccessfully''\<rparr>)"

fun merge_results :: "execution_result list \<Rightarrow> audit_record list \<Rightarrow> audit_record list" where
  "merge_results [] records = records"
| "merge_results (x # xs) records =
     (if res_Sequence x < 1 \<or> res_Sequence x > int (length records) then merge_results xs records
      else
        let i = nat (res_Sequence x - 1); r = copy_result x (records ! i) in
        if res_Error x \<noteq> [] then records[i := failed_record x r]
        else merge_results xs (records[i := success_record x r]))"

text \<open>\<^verbatim>\<open>records[0] = appendExecutionError(records[0], ...)\<close>, which panics without a record.\<close>

definition fail_first :: "audit_record list \<Rightarrow> string \<Rightarrow> audit_record list outcome" where
  "fail_first records message =
     (case records of
        [] \<Rightarrow> Panics ''index out of range [0] with length 0''
      | r # rs \<Rightarrow> Returns (appendExecutionError r RuleExecutionFailed message # rs))"

definition execute_phase ::
  "'w session \<Rightarrow> request_options \<Rightarrow> audit_record list \<Rightarrow> statement list \<Rightarrow> 'w \<Rightarrow> audit_record list outcome \<times> 'w" where
  "execute_phase ses opts records stmts w =
     (if \<not> opt_Execute opts then (Returns records, w)
      else if list_ex (blocks opts) records then (Returns records, w)
      else (case ses_openExecutor ses of
        None \<Rightarrow> (fail_first records ''execution engine is not configured'', w)
      | Some open \<Rightarrow> (case open (opt_Target opts) w of
          Inl err \<Rightarrow> (fail_first records (err_Error err), w)
        | Inr executor \<Rightarrow> (case executor opts stmts w of
            (Returns results, w') \<Rightarrow> (Returns (merge_results results records), w')
          | (Raises err, w') \<Rightarrow> (Raises err, w')
          | (Panics msg, w') \<Rightarrow> (Panics msg, w')))))"

section \<open>Audit\<close>

text \<open>The options the audit works with: the target's version and mode, and three settings of the policy.\<close>

definition effective_options :: "request_options \<Rightarrow> server_info \<Rightarrow> policy \<Rightarrow> request_options" where
  "effective_options opts server pol =
     (let configured = strings_TrimSpace (LegacyString pol ''sql_mode'') in
      opts\<lparr>opt_Target := (opt_Target opts)\<lparr>
        tgt_Version := srv_Version server,
        tgt_SQLMode := (if configured \<noteq> [] then configured else srv_SQLMode server),
        tgt_SQLSafeUpdates := LegacyInt pol ''sql_safe_updates'',
        tgt_LockWaitTimeout := LegacyInt pol ''lock_wait_timeout'',
        tgt_DefaultCharset := LegacyString pol ''default_charset''\<rparr>\<rparr>)"

definition initial_state :: "request_options \<Rightarrow> metadata_source \<Rightarrow> server_info \<Rightarrow> policy \<Rightarrow> loop_state" where
  "initial_state opts source server pol =
     \<lparr> lp_ctx = \<lparr> a_Request = opts, a_Database = tgt_Database (opt_Target opts),
         a_Metadata = NewRequestCacheWithCaseMode source (srv_LowerCaseTableNames server \<noteq> 0),
         a_Policy = pol, a_Server = server, a_SeenAlterTables = Map.empty \<rparr>,
       lp_checkedGrants = {} \<rparr>"

definition Audit :: "'w session \<Rightarrow> string \<Rightarrow> 'w \<Rightarrow> audit_record list outcome \<times> 'w" where
  "Audit ses input w =
     (case ParseLegacyEnvelope input of
        Inl err \<Rightarrow> (Raises err, w)
      | Inr env \<Rightarrow>
          (case ses_openMetadata ses of
             None \<Rightarrow> (Returns [failureRecord 1 [] RuleMetadataConnect ''target MySQL metadata factory is not configured''], w)
           | Some open \<Rightarrow>
               (case open (opt_Target (env_Options env)) w of
                  Inl err \<Rightarrow> (Returns [failureRecord 1 [] RuleMetadataConnect (''connect target MySQL: '' @ err_Error err)], w)
                | Inr (source, server) \<Rightarrow>
                    if \<not> supportedMySQLVersion (srv_Version server)
                    then (Returns [failureRecord 1 [] RuleTargetVersion (''unsupported target server version '' @
                            strconv_Quote (srv_Version server) @ ''; only MySQL 5.7 and 8.0 are supported'')], w)
                    else
                      let pol = session_policy ses; opts = effective_options (env_Options env) server pol in
                      (case ses_parser ses (env_SQL env) (tgt_SQLMode (opt_Target opts)) of
                         Inl err \<Rightarrow> (Returns [failureRecord 1 (env_SQL env) RuleParserError (err_Error err)], w)
                       | Inr parsed \<Rightarrow>
                           (case audit_statements (ses_engine ses) pol (opt_Execute opts) (pr_Warnings parsed)
                                   (pr_Statements parsed) (initial_state opts source server pol) of
                              Raises e \<Rightarrow> (Raises e, w)
                            | Panics m \<Rightarrow> (Panics m, w)
                            | Returns (records, stmts, lp) \<Rightarrow> execute_phase ses opts records stmts w)))))"

end
