(* ===== verification/Protocol.thy ===== *)
theory Protocol
  imports Management Session
begin

text \<open>
  The protocol server: \<^verbatim>\<open>protocol/server.go\<close>, \<^verbatim>\<open>protocol/adapter.go\<close> and the counters of
  \<^verbatim>\<open>observability/service.go\<close>. A query is a step of the connection's handler and of the state the connections
  share. The MySQL wire protocol and the contexts that carry deadlines are outside: a deadline
  shows as a failure of the target, which the session takes as an argument. The log has its own theory, \<open>AuditLog\<close>.
\<close>

section \<open>Results (adapter.go)\<close>

definition legacyColumns :: "string list" where
  "legacyColumns = [''order_id'', ''stage'', ''error_level'', ''stage_status'', ''error_message'', ''sql'', ''affected_rows'', ''sequence'',
     ''backup_dbname'', ''execute_time'', ''sqlsha1'', ''backup_time'']"

definition legacyStage :: "string \<Rightarrow> string" where
  "legacyStage v = (if v = ''BACKUP'' then ''BACKUP'' else if v = ''EXECUTED'' then ''EXECUTED'' else ''CHECKED'')"

definition legacyStatus :: "string \<Rightarrow> string" where
  "legacyStatus v =
     (if v = ''ExecuteSuccessfully'' then ''Execute Successfully''
      else if v = ''ExecuteFailed'' then ''Execute failed''
      else if v = ''BackupSuccessfully'' then ''Execute Successfully,Backup successfully''
      else if v = ''BackupFailed'' then ''Execute Successfully,Backup failed''
      else ''Audit completed'')"

definition duration_text :: "protocol_env \<Rightarrow> int \<Rightarrow> string" where
  "duration_text env v = (if v \<le> 0 then ''0'' else pe_duration env v)"

definition text_or_null :: "string \<Rightarrow> cell" where
  "text_or_null v = (if v = [] then CNull else CText v)"

definition legacy_row :: "protocol_env \<Rightarrow> audit_record \<Rightarrow> cell list" where
  "legacy_row env r =
     [CInt (rec_Sequence r), CText (legacyStage (rec_Stage r)), CInt (uint (rec_ErrorLevel r)), CText (legacyStatus (rec_StageStatus r)),
      text_or_null (rec_ErrorMessage r), CText (rec_SQL r), CInt (rec_AffectedRows r),
      CText (if rec_OperationID r = [] then ''0_0_'' @ fmt_08d (rec_Sequence r - 1) else rec_OperationID r),
      text_or_null (rec_BackupDatabase r), CText (duration_text env (rec_ExecuteTime r)), text_or_null (rec_SQLSHA1 r),
      CText (duration_text env (rec_BackupTime r))]"

definition LegacyResult :: "protocol_env \<Rightarrow> audit_record list \<Rightarrow> reply_outcome" where
  "LegacyResult env records =
     (let rows = map (legacy_row env) records in
      case pe_build env legacyColumns rows of
        Some err \<Rightarrow> Failed (PlainError err)
      | None \<Rightarrow> Reply (RowsReply legacyColumns rows
          (if length legacyColumns = 12 then [(0, MYSQL_TYPE_LONG), (2, MYSQL_TYPE_SHORT), (6, MYSQL_TYPE_LONGLONG)] else [])))"

section \<open>Counters (observability/service.go)\<close>

record metrics =
  mt_ready :: bool
  mt_active :: "64 word"
  mt_total :: "64 word"
  mt_failed :: "64 word"
  mt_durationNS :: "64 word"

definition SetReady :: "bool \<Rightarrow> metrics \<Rightarrow> metrics" where
  "SetReady v m = m\<lparr>mt_ready := v\<rparr>"

definition metrics_Begin :: "metrics \<Rightarrow> metrics" where
  "metrics_Begin m = m\<lparr>mt_active := mt_active m + 1\<rparr>"

definition metrics_finish :: "bool \<Rightarrow> int \<Rightarrow> metrics \<Rightarrow> metrics" where
  "metrics_finish failed elapsed m =
     m\<lparr>mt_active := mt_active m - 1, mt_total := mt_total m + 1,
       mt_failed := (if failed then mt_failed m + 1 else mt_failed m), mt_durationNS := mt_durationNS m + word_of_int elapsed\<rparr>"

text \<open>
  The pages that the counters are read from: status code and body. \<open>seconds\<close> prints a number of nanoseconds as seconds with six
  decimals, \<open>uptime\<close> is the printed age of the process. \<^verbatim>\<open>active\<close> is an \<^verbatim>\<open>int64\<close>, the other counters are \<^verbatim>\<open>uint64\<close>.
\<close>

definition healthz :: "nat \<times> string" where
  "healthz = (200, ''ok'' @ [CHR 0x0A])"

definition readyz :: "metrics \<Rightarrow> nat \<times> string" where
  "readyz m = (if \<not> mt_ready m then (503, ''not ready'' @ [CHR 0x0A]) else (200, ''ready'' @ [CHR 0x0A]))"

definition metrics_page :: "(64 word \<Rightarrow> string) \<Rightarrow> string \<Rightarrow> metrics \<Rightarrow> string" where
  "metrics_page seconds uptime m = strings_Join
     [''# TYPE goinception_plus_ready gauge'', ''goinception_plus_ready '' @ (if mt_ready m then ''1'' else ''0''),
      ''# TYPE goinception_plus_audit_active gauge'', ''goinception_plus_audit_active '' @ strconv_Itoa (sint (mt_active m)),
      ''# TYPE goinception_plus_audit_total counter'', ''goinception_plus_audit_total '' @ nat_string (unat (mt_total m)),
      ''# TYPE goinception_plus_audit_failed_total counter'', ''goinception_plus_audit_failed_total '' @ nat_string (unat (mt_failed m)),
      ''# TYPE goinception_plus_audit_duration_seconds_total counter'', ''goinception_plus_audit_duration_seconds_total '' @ seconds (mt_durationNS m),
      ''# TYPE goinception_plus_uptime_seconds gauge'', ''goinception_plus_uptime_seconds '' @ uptime, []] [CHR 0x0A]"

section \<open>The handler of a connection (server.go)\<close>

record handler =
  hd_database :: string
  hd_maxPacket :: int
  hd_id :: "32 word"
  hd_username :: string
  hd_warnings :: "cell list list"
  hd_auditOnly :: bool

text \<open>What the connections share, and the world behind the session.\<close>

record 'w server_state =
  ss_runtime :: config
  ss_registry :: processRegistry
  ss_metrics :: metrics
  ss_world :: 'w

text \<open>The clock readings of one query, and the name of its cancel function.\<close>

record query_clock =
  qc_now :: int
  qc_elapsed :: int
  qc_cancel :: nat

definition error_text :: "protocol_env \<Rightarrow> reply_error \<Rightarrow> string" where
  "error_text env e = (case e of MySQLError code message \<Rightarrow> pe_ErrorText env code message | PlainError err \<Rightarrow> err_Error err)"

definition warning_row :: "mysql_code \<Rightarrow> string \<Rightarrow> cell list list" where
  "warning_row code message = [[CText ''Error'', CCode code, CText message]]"

definition UseDB :: "string \<Rightarrow> handler \<Rightarrow> 'w server_state \<Rightarrow> handler \<times> 'w server_state" where
  "UseDB name h s = (h\<lparr>hd_database := name\<rparr>, s\<lparr>ss_registry := setDB (ss_registry s) (hd_id h) name\<rparr>)"

definition audit_only_record :: "string \<Rightarrow> audit_record" where
  "audit_only_record sql =
     (let message = ''audit-only service rejects execute=1 or backup=1'' in
      zero_audit_record\<lparr>rec_Sequence := 1, rec_Stage := ''CHECKED'', rec_ErrorLevel := SeverityError, rec_StageStatus := ''Check failed'',
        rec_ErrorMessage := message, rec_SQL := sql,
        rec_Issues := [\<lparr> iss_RuleID = RuleAuditOnly, iss_LegacyKey = [], iss_Code = 0, iss_Level = SeverityError, iss_Message = message, iss_Sequence = 1 \<rparr>]\<rparr>)"

text \<open>
  An audit request, in the parts between which other connections may run: the target is noted and the counters are told
  (\<open>audit_open\<close>), an audit-only server refuses (\<open>audit_refusal\<close>), and the session audits under one copy of the policy (\<open>audit_run\<close>).
\<close>

definition audit_open :: "handler \<Rightarrow> string \<Rightarrow> 'w server_state \<Rightarrow> 'w server_state" where
  "audit_open h query s =
     (let s1 = (case ParseLegacyEnvelope query of
          Inr e \<Rightarrow> (let t = opt_Target (env_Options e) in
            s\<lparr>ss_registry := setTarget (ss_registry s) (hd_id h) (tgt_User t) (tgt_Host t) (tgt_Port t)\<rparr>)
        | Inl _ \<Rightarrow> s) in
      s1\<lparr>ss_metrics := metrics_Begin (ss_metrics s1)\<rparr>)"

definition audit_refusal :: "handler \<Rightarrow> string \<Rightarrow> legacy_envelope option" where
  "audit_refusal h query =
     (case ParseLegacyEnvelope query of
        Inr e \<Rightarrow> if hd_auditOnly h \<and> (opt_Execute (env_Options e) \<or> opt_Backup (env_Options e)) then Some e else None
      | Inl _ \<Rightarrow> None)"

definition audit_finish :: "query_clock \<Rightarrow> bool \<Rightarrow> 'w server_state \<Rightarrow> 'w server_state" where
  "audit_finish clock failed s = s\<lparr>ss_metrics := metrics_finish failed (qc_elapsed clock) (ss_metrics s)\<rparr>"

definition audit_run ::
  "protocol_env \<Rightarrow> 'w session \<Rightarrow> query_clock \<Rightarrow> policy \<Rightarrow> handler \<Rightarrow> 'w server_state \<Rightarrow> string \<Rightarrow> reply_outcome \<times> handler \<times> 'w server_state" where
  "audit_run env ses clock pol h s query =
     (let bad = (case ParseLegacyEnvelope query of Inl _ \<Rightarrow> True | Inr _ \<Rightarrow> False) in
      case Audit (WithPolicyProvider pol ses) query (ss_world s) of
        (Raises err, w) \<Rightarrow>
          (Failed (MySQLError ER_PARSE_ERROR (err_Error err)), h\<lparr>hd_warnings := warning_row ER_PARSE_ERROR (err_Error err)\<rparr>,
           audit_finish clock True (s\<lparr>ss_world := w\<rparr>))
      | (Panics message, w) \<Rightarrow> (Crashed message, h, audit_finish clock bad (s\<lparr>ss_world := w\<rparr>))
      | (Returns records, w) \<Rightarrow>
          (LegacyResult env records, h,
           audit_finish clock (bad \<or> list_ex (\<lambda>r. rec_ErrorLevel r = SeverityError) records) (s\<lparr>ss_world := w\<rparr>)))"

definition audit_query ::
  "protocol_env \<Rightarrow> 'w session \<Rightarrow> query_clock \<Rightarrow> handler \<Rightarrow> 'w server_state \<Rightarrow> string \<Rightarrow> reply_outcome \<times> handler \<times> 'w server_state" where
  "audit_query env ses clock h s query =
     (let begun = audit_open h query s in
      case audit_refusal h query of
        Some e \<Rightarrow> (LegacyResult env [audit_only_record (env_SQL e)], h, audit_finish clock True begun)
      | None \<Rightarrow> audit_run env ses clock (Policy (ss_runtime begun)) h begun query)"

lemmas audit_query_defs = audit_query_def audit_open_def audit_refusal_def audit_finish_def audit_run_def

definition server_version :: string where
  "server_version = ''5.7.25-goInception-Plus''"

definition show_variables :: "protocol_env \<Rightarrow> handler \<Rightarrow> string \<Rightarrow> reply_outcome" where
  "show_variables env h trimmed =
     (let vals = [(''version'', server_version), (''character_set_server'', ''utf8mb4''), (''max_allowed_packet'', strconv_Itoa (hd_maxPacket h))];
          chosen = (case strings_Index (strings_ToLower trimmed) '' like '' of
              Some i \<Rightarrow>
                (let wanted = strings_Trim (strings_TrimSpace (drop (i + 6) trimmed)) [CHR 39, CHR 34, CHR '' '', CHR '';''] in
                 filter (\<lambda>(name, _). strings_EqualFold name wanted) vals)
            | None \<Rightarrow> vals) in
      simple env [''Variable_name'', ''Value''] (map (\<lambda>(name, v). [CText name, CText v]) chosen))"

definition session_query ::
  "protocol_env \<Rightarrow> handler \<Rightarrow> 'w server_state \<Rightarrow> string \<Rightarrow> reply_outcome \<times> handler \<times> 'w server_state" where
  "session_query env h s trimmed =
     (let lower = strings_ToLower trimmed in
      if strings_HasPrefix lower ''set names '' \<or> strings_HasPrefix lower ''set character_set_'' \<or> strings_HasPrefix lower ''set autocommit''
      then (Reply OkReply, h, s)
      else if strings_HasPrefix lower ''use '' then
        (case UseDB (strings_Trim (strings_TrimSpace (drop 4 trimmed)) ''` ;'') h s of (h', s') \<Rightarrow> (Reply OkReply, h', s'))
      else if lower = ''select connection_id()'' \<or> lower = ''select connection_id();'' then
        (simple env [''CONNECTION_ID()''] [[CInt (uint (hd_id h))]], h, s)
      else if lower \<in> {''select version()'', ''select version();'', ''select @@version'', ''select @@version;''} then
        (simple env [''VERSION()''] [[CText server_version]], h, s)
      else if strings_HasPrefix lower ''show variables'' then (show_variables env h trimmed, h, s)
      else
        let message = ''only inception audit requests and goInception management commands are supported'' in
        (Failed (MySQLError ER_NOT_SUPPORTED_YET message), h\<lparr>hd_warnings := warning_row ER_NOT_SUPPORTED_YET message\<rparr>, s))"

definition management_view_of :: "query_clock \<Rightarrow> handler \<Rightarrow> 'w server_state \<Rightarrow> management_view" where
  "management_view_of clock h s =
     \<lparr> mv_runtime = ss_runtime s, mv_registry = ss_registry s, mv_database = hd_database h, mv_username = hd_username h,
       mv_warnings = hd_warnings h, mv_now = qc_now clock \<rparr>"

definition dispatch ::
  "protocol_env \<Rightarrow> 'w session \<Rightarrow> query_clock \<Rightarrow> handler \<Rightarrow> 'w server_state \<Rightarrow> string
   \<Rightarrow> reply_outcome \<times> handler \<times> 'w server_state \<times> effect list" where
  "dispatch env ses clock h s query =
     (let trimmed = strings_TrimSpace query in
      case management env (management_view_of clock h s) query of
        Some (r, c, effects) \<Rightarrow>
          (r, (case r of
               Failed e \<Rightarrow> h\<lparr>hd_warnings := warning_row ER_UNKNOWN_ERROR (error_text env e)\<rparr>
             | Reply _ \<Rightarrow> h\<lparr>hd_warnings := []\<rparr>
             | Crashed _ \<Rightarrow> h), s\<lparr>ss_runtime := c\<rparr>, effects)
      | None \<Rightarrow>
          (case (if strings_Contains (strings_ToLower trimmed) ''inception_magic_start'' then audit_query env ses clock h s query
                 else session_query env h s trimmed) of
             (r, h', s') \<Rightarrow> (r, h', s', [])))"

definition HandleQuery ::
  "protocol_env \<Rightarrow> 'w session \<Rightarrow> query_clock \<Rightarrow> handler \<Rightarrow> 'w server_state \<Rightarrow> string
   \<Rightarrow> reply_outcome \<times> handler \<times> 'w server_state \<times> effect list" where
  "HandleQuery env ses clock h s query =
     (if int (length query) > hd_maxPacket h
      then (Failed (MySQLError ER_NET_PACKET_TOO_LARGE (''Got a packet bigger than '' @ [CHR 39] @ ''max_allowed_packet'' @ [CHR 39] @ '' bytes'')),
            h, s, [])
      else
        let begun = s\<lparr>ss_registry := registry_begin (ss_registry s) (hd_id h) ''Query'' (strings_TrimSpace query) (qc_now clock) (qc_cancel clock)\<rparr> in
        case dispatch env ses clock h begun query of
          (r, h', s', effects) \<Rightarrow> (r, h', s'\<lparr>ss_registry := registry_end (ss_registry s') (hd_id h)\<rparr>, effects))"

text \<open>The commands of the protocol the handler refuses.\<close>

definition HandleFieldList :: reply_outcome where
  "HandleFieldList = Failed (MySQLError ER_NOT_SUPPORTED_YET ''COM_FIELD_LIST is not supported'')"

definition HandleStmtPrepare :: reply_outcome where
  "HandleStmtPrepare = Failed (MySQLError ER_UNSUPPORTED_PS ''prepared statements are not supported'')"

definition HandleStmtExecute :: reply_outcome where
  "HandleStmtExecute = Failed (MySQLError ER_UNSUPPORTED_PS ''prepared statements are not supported'')"

definition HandleOtherCommand :: "8 word \<Rightarrow> reply_outcome" where
  "HandleOtherCommand cmd =
     Failed (MySQLError ER_UNKNOWN_COM_ERROR (''unsupported command 0x'' @ [hex_digit (unat cmd div 16), hex_digit (unat cmd mod 16)]))"

end
