(* ===== verification/AuditLog.thy ===== *)
theory AuditLog
  imports Protocol
begin

text \<open>
  The log of the server: what \<^verbatim>\<open>HandleQuery\<close> of \<^verbatim>\<open>protocol/server.go\<close> writes about an audit request, with \<^verbatim>\<open>failureStage\<close>, and the level and
  format that \<^verbatim>\<open>New\<close> of \<^verbatim>\<open>observability/service.go\<close> chooses. The documentation promises that neither passwords nor whole statements are logged;
  for requests that are understood that is a theorem, for those that are not it has a counterexample.
\<close>

section \<open>Events\<close>

datatype log_level = LevelDebug | LevelInfo | LevelWarn | LevelError

fun level_rank :: "log_level \<Rightarrow> int" where
  "level_rank LevelDebug = -4"
| "level_rank LevelInfo = 0"
| "level_rank LevelWarn = 4"
| "level_rank LevelError = 8"

datatype log_format = TextHandler | JSONHandler

datatype log_value = LString string | LInt int

record log_event =
  lo_Level :: log_level
  lo_Message :: string
  lo_Attrs :: "(string \<times> log_value) list"

record log_service =
  ls_Level :: log_level
  ls_Handler :: log_format

definition service_New :: "log_config \<Rightarrow> log_service" where
  "service_New cfg =
     \<lparr> ls_Level = (if lg_Level cfg = ''debug'' then LevelDebug else if lg_Level cfg = ''warn'' then LevelWarn
                   else if lg_Level cfg = ''error'' then LevelError else LevelInfo),
       ls_Handler = (if lg_Format cfg = ''json'' then JSONHandler else TextHandler) \<rparr>"

text \<open>A handler writes the events from its level on.\<close>

definition written :: "log_service \<Rightarrow> log_event list \<Rightarrow> log_event list" where
  "written service events = filter (\<lambda>e. level_rank (lo_Level e) \<ge> level_rank (ls_Level service)) events"

section \<open>The log of an audit request\<close>

definition failureStage :: "gerror \<Rightarrow> bool \<Rightarrow> string" where
  "failureStage err ended =
     (if ended then ''timeout_or_cancel''
      else if strings_Contains (strings_ToLower (err_Error err)) ''parse'' then ''sql_parse''
      else ''audit'')"

text \<open>The hash, the clock readings, and whether the context of the query has ended when the audit fails.\<close>

record log_env =
  le_sha256 :: "string \<Rightarrow> string"
  le_UnixNano :: int
  le_Milliseconds :: int
  le_ended :: bool

definition request_id :: "log_env \<Rightarrow> handler \<Rightarrow> string \<Rightarrow> string" where
  "request_id env h query =
     (let traceID = (case ParseLegacyEnvelope query of Inr e \<Rightarrow> opt_TraceID (env_Options e) | Inl _ \<Rightarrow> []) in
      if traceID = [] then ''conn-'' @ nat_string (unat (hd_id h)) @ ''-'' @ strconv_Itoa (le_UnixNano env) else traceID)"

definition log_attrs :: "log_env \<Rightarrow> handler \<Rightarrow> string \<Rightarrow> (string \<times> log_value) list" where
  "log_attrs env h query =
     [(''request_id'', LString (request_id env h query)), (''connection_id'', LInt (uint (hd_id h))), (''sql_sha256'', LString (le_sha256 env query))] @
     (case ParseLegacyEnvelope query of
        Inr e \<Rightarrow> (let t = opt_Target (env_Options e) in
          [(''target_host'', LString (tgt_Host t)), (''target_port'', LInt (uint (tgt_Port t))), (''target_database'', LString (tgt_Database t))])
      | Inl _ \<Rightarrow> [])"

definition count_level :: "severity \<Rightarrow> audit_record list \<Rightarrow> int" where
  "count_level level records = int (length (filter (\<lambda>r. rec_ErrorLevel r = level) records))"

definition rejected_event :: "log_env \<Rightarrow> handler \<Rightarrow> string \<Rightarrow> log_event" where
  "rejected_event env h query = \<lparr> lo_Level = LevelError, lo_Message = ''audit request rejected'', lo_Attrs = log_attrs env h query @
     [(''event'', LString ''audit_rejected''), (''rule_code'', LString RuleAuditOnly), (''duration_ms'', LInt (le_Milliseconds env))] \<rparr>"

definition parse_failed_event :: "log_env \<Rightarrow> handler \<Rightarrow> string \<Rightarrow> gerror \<Rightarrow> log_event" where
  "parse_failed_event env h query err = \<lparr> lo_Level = LevelWarn, lo_Message = ''audit request parse failed'', lo_Attrs = log_attrs env h query @
     [(''event'', LString ''audit_failed''), (''failure_stage'', LString ''request_parse''), (''error'', LString (err_Error err))] \<rparr>"

definition failed_event :: "log_env \<Rightarrow> handler \<Rightarrow> string \<Rightarrow> gerror \<Rightarrow> log_event" where
  "failed_event env h query err = \<lparr> lo_Level = LevelError, lo_Message = ''audit request failed'', lo_Attrs = log_attrs env h query @
     [(''event'', LString ''audit_failed''), (''failure_stage'', LString (failureStage err (le_ended env))), (''error'', LString (err_Error err)),
      (''duration_ms'', LInt (le_Milliseconds env))] \<rparr>"

definition completed_event :: "log_env \<Rightarrow> handler \<Rightarrow> string \<Rightarrow> audit_record list \<Rightarrow> log_event" where
  "completed_event env h query records = \<lparr> lo_Level = LevelInfo, lo_Message = ''audit request completed'', lo_Attrs = log_attrs env h query @
     [(''event'', LString ''audit_completed''), (''statement_count'', LInt (int (length records))),
      (''warning_count'', LInt (count_level SeverityWarning records)), (''error_count'', LInt (count_level SeverityError records)),
      (''rule_codes'', LString (strings_Join (concat (map (\<lambda>r. map iss_RuleID (rec_Issues r)) records)) '','')),
      (''duration_ms'', LInt (le_Milliseconds env))] \<rparr>"

text \<open>The events of one audit request in order, given what the session answers when it is asked.\<close>

definition audit_log :: "log_env \<Rightarrow> handler \<Rightarrow> string \<Rightarrow> audit_record list outcome \<Rightarrow> log_event list" where
  "audit_log env h query answer =
     (case audit_refusal h query of
        Some e \<Rightarrow> [rejected_event env h query]
      | None \<Rightarrow>
          (case ParseLegacyEnvelope query of Inl err \<Rightarrow> [parse_failed_event env h query err] | Inr _ \<Rightarrow> []) @
          (case answer of
             Raises err \<Rightarrow> [failed_event env h query err]
           | Panics _ \<Rightarrow> []
           | Returns records \<Rightarrow> [completed_event env h query records]))"

section \<open>What the log reveals\<close>

text \<open>
  What the log may show of a request and of a record. The name and password of the user on the target, the SQL mode
  and the statements are not among it.
\<close>

definition public_options :: "legacy_envelope \<Rightarrow> string \<times> 16 word \<times> string \<times> string \<times> bool" where
  "public_options e = (let o1 = env_Options e; t = opt_Target o1 in
     (tgt_Host t, tgt_Port t, tgt_Database t, opt_TraceID o1, opt_Execute o1 \<or> opt_Backup o1))"

definition public_record :: "audit_record \<Rightarrow> severity \<times> string list" where
  "public_record r = (rec_ErrorLevel r, map iss_RuleID (rec_Issues r))"

definition without_hash :: "log_event \<Rightarrow> log_event" where
  "without_hash e = e\<lparr>lo_Attrs := filter (\<lambda>(k, _). k \<noteq> ''sql_sha256'') (lo_Attrs e)\<rparr>"

lemma public_records:
  assumes "map public_record rs = map public_record rs'"
  shows "length rs = length rs'" "count_level level rs = count_level level rs'"
    "concat (map (\<lambda>r. map iss_RuleID (rec_Issues r)) rs) = concat (map (\<lambda>r. map iss_RuleID (rec_Issues r)) rs')"
proof -
  show "length rs = length rs'" using map_eq_imp_length_eq [OF assms] .
  have "map fst (map public_record rs) = map fst (map public_record rs')" "map snd (map public_record rs) = map snd (map public_record rs')"
    by (simp_all only: assms)
  then have levels: "map rec_ErrorLevel rs = map rec_ErrorLevel rs'"
    and rules: "map (\<lambda>r. map iss_RuleID (rec_Issues r)) rs = map (\<lambda>r. map iss_RuleID (rec_Issues r)) rs'"
    by (simp_all add: public_record_def comp_def)
  have "length (filter (\<lambda>l. l = level) (map rec_ErrorLevel rs)) = length (filter (\<lambda>l. l = level) (map rec_ErrorLevel rs'))"
    by (simp only: levels)
  then show "count_level level rs = count_level level rs'" by (simp add: count_level_def filter_map comp_def)
  from rules show "concat (map (\<lambda>r. map iss_RuleID (rec_Issues r)) rs) = concat (map (\<lambda>r. map iss_RuleID (rec_Issues r)) rs')" by simp
qed

lemma public_attrs:
  assumes "ParseLegacyEnvelope q = Inr e" and "ParseLegacyEnvelope q' = Inr e'" and "public_options e = public_options e'"
  shows "filter (\<lambda>(k, _). k \<noteq> ''sql_sha256'') (log_attrs env h q) = filter (\<lambda>(k, _). k \<noteq> ''sql_sha256'') (log_attrs env h q')"
    "(audit_refusal h q = None) = (audit_refusal h q' = None)"
  using assms by (simp_all add: log_attrs_def request_id_def public_options_def audit_refusal_def Let_def)

text \<open>
  C10. The log keeps the documented secret: two requests that are understood, that agree on target host, port and database, on the trace identifier
  and on whether they ask for execution, and whose records agree in levels and rule codes, leave the same log but for the hash of
  the request. Users, passwords, statements and error messages of the records do not show.
\<close>

theorem log_confidential:
  assumes "ParseLegacyEnvelope q = Inr e" and "ParseLegacyEnvelope q' = Inr e'" and "public_options e = public_options e'"
    and "fst (Audit ses q w) = Returns records" and "fst (Audit ses' q' w') = Returns records'"
    and "map public_record records = map public_record records'"
  shows "map without_hash (audit_log env h q (fst (Audit ses q w))) = map without_hash (audit_log env h q' (fst (Audit ses' q' w')))"
proof -
  note same = public_attrs(1) [OF assms(1-3), of env h] public_attrs(2) [OF assms(1-3), of h] public_records [OF assms(6)]
  have "without_hash (rejected_event env h q) = without_hash (rejected_event env h q')"
    by (simp add: without_hash_def rejected_event_def same(1))
  moreover have "without_hash (completed_event env h q records) = without_hash (completed_event env h q' records')"
    by (simp add: without_hash_def completed_event_def same(1,3,4,5))
  moreover have "audit_refusal h q = None \<longleftrightarrow> audit_refusal h q' = None" by (rule same(2))
  ultimately show ?thesis by (cases "audit_refusal h q"; cases "audit_refusal h q'") (simp_all add: audit_log_def assms)
qed

text \<open>
  A request that is not understood can leak: a semicolon in a password ends the directive, and the rest of the password is quoted in the error
  that is logged twice.
\<close>

definition leaking_comment :: string where
  "leaking_comment = ''--password=ab;cd''"

definition leaking_request :: string where
  "leaking_request = join_body [''/*'' @ leaking_comment @ ''*/inception_magic_start'', ''select 1'', ''inception_magic_commit'']"

lemma leaking_request_error:
  "ParseLegacyEnvelope leaking_request = Inl (errorf (''directive '' @ strconv_Quote ''cd'' @ '' must use key=value''))"
proof -
  have star: "CHR ''*'' \<notin> set leaking_comment" by (simp add: leaking_comment_def)
  have select: "whole_statement ''select 1'' \<and> \<not> is_control_marker ''select 1''"
    by (simp add: whole_statement_def split_step_def keep1_def lex_normal_def split_init_def Let_def is_control_marker_def markerEquals_def go_defs)
  have "splitSQL leaking_request = Inr [''/*'' @ leaking_comment @ ''*/inception_magic_start'', ''select 1'', ''inception_magic_commit'']"
    unfolding leaking_request_def by (rule splitSQL_of_join) (use comment_header_whole [OF star] select commit_marker(1) in simp)
  moreover have "normalizeConsoleEncoding leaking_request = leaking_request"
    by (rule normalizeConsoleEncoding_text) (simp_all add: leaking_request_def join_body_Cons)
  moreover have "length leaking_request \<le> MaxRequestBytes"
    by (simp add: leaking_request_def leaking_comment_def join_body_def MaxRequestBytes_def)
  moreover have "envelope_body [''/*'' @ leaking_comment @ ''*/inception_magic_start'', ''select 1'', ''inception_magic_commit''] = Inr (leaking_comment, [''select 1''])"
    using select by (simp add: envelope_body_def splitLeadingDirectives_comment [OF star, simplified] commit_marker MaxStatements_def MaxStatementBytes_def fail_if_def)
  moreover have "parseDirectives leaking_comment = Inl (errorf (''directive '' @ strconv_Quote ''cd'' @ '' must use key=value''))"
  proof -
    have "strings_Split leaking_comment CHR '';'' = map render_directive [(''password'', ''ab'')] @ [''cd'']"
      by (simp add: leaking_comment_def render_directive_def)
    moreover have "\<forall>(k, v)\<in>set [(''password'', ''ab'')]. plain_key k \<and> (\<forall>c\<in>set v. plain_char c)"
      by (simp add: plain_key_def allowedDirectives_def plain_char_def go_defs)
    ultimately have "parseDirectives leaking_comment = parseDirectiveFields (Map.empty ++ map_of [(''password'', ''ab'')]) [''cd'']"
      unfolding parseDirectives_def using parseDirectiveFields_append [of "[(''password'', ''ab'')]" Map.empty "[''cd'']"] by (simp del: parseDirectiveFields.simps)
    then show ?thesis by (simp add: Let_def numeral_2_eq_2 go_defs)
  qed
  ultimately show ?thesis by (simp add: ParseLegacyEnvelope_def fail_if_def not_less)
qed

theorem password_fragment_logged:
  "\<exists>warning failure. audit_log env h leaking_request (fst (Audit ses leaking_request w)) = [warning, failure] \<and>
     (''error'', LString (''directive '' @ strconv_Quote ''cd'' @ '' must use key=value'')) \<in> set (lo_Attrs warning) \<inter> set (lo_Attrs failure)"
  by (simp add: audit_log_def audit_refusal_def Audit_def leaking_request_error parse_failed_event_def failed_event_def errorf_def)

section \<open>Witness\<close>

definition logged_request :: "string \<Rightarrow> string \<Rightarrow> string" where
  "logged_request password sql = render_request [(''host'', ''h''), (''user'', ''u''), (''password'', password)] [sql]"

lemma logged_options:
  "\<exists>opts. envelope_options (map_of [(''host'', ''h''), (''user'', ''u''), (''password'', p)]) = Inr opts \<and>
     public_options \<lparr> env_Options = opts, env_SQL = sql \<rparr> = (''h'', 3306, [], [], False)"
  by (simp add: envelope_options_def map_get_def parsePort_def parseBool_def parseNonNegativeInt_def request_trace_id_def
      effective_sleep_rows_def Let_def fail_if_def public_options_def go_defs)

lemma logged_request_run:
  assumes "\<forall>c\<in>set p. plain_char c" and "length p \<le> 12" and "whole_statement s" and "\<not> is_control_marker s" and "length s \<le> 12"
  shows "\<exists>e. ParseLegacyEnvelope (logged_request p s) = Inr e \<and> public_options e = (''h'', 3306, [], [], False)"
proof -
  let ?kvs = "[(''host'', ''h''), (''user'', ''u''), (''password'', p)]"
  have "\<forall>(k, v)\<in>set ?kvs. plain_key k \<and> (\<forall>c\<in>set v. plain_char c)"
    using assms(1) by (simp add: plain_key_def allowedDirectives_def plain_char_def go_defs)
  moreover have "length (render_request ?kvs [s]) \<le> MaxRequestBytes"
    using assms(2,5) by (simp add: render_request_def render_header_def render_directives_def render_directive_def join_body_def MaxRequestBytes_def)
  ultimately have "ParseLegacyEnvelope (logged_request p s) = sum_bind (envelope_options (map_of ?kvs)) (\<lambda>opts. Inr \<lparr> env_Options = opts, env_SQL = join_body [s] \<rparr>)"
    unfolding logged_request_def using assms(3-5) by (intro envelope_of_render) (simp_all add: MaxStatements_def MaxStatementBytes_def)
  with logged_options [of p "join_body [s]"] show ?thesis by auto
qed

lemma logged_requests:
  "\<exists>e. ParseLegacyEnvelope (logged_request ''p1'' ''select 1'') = Inr e \<and> public_options e = (''h'', 3306, [], [], False)"
  "\<exists>e. ParseLegacyEnvelope (logged_request ''p2'' ''drop table t'') = Inr e \<and> public_options e = (''h'', 3306, [], [], False)"
  by (rule logged_request_run; simp add: whole_statement_def split_step_def keep1_def lex_normal_def split_init_def Let_def
      is_control_marker_def markerEquals_def plain_char_def go_defs)+

theorem log_confidential_witness:
  "\<exists>ses :: nat session. map without_hash (audit_log \<lparr> le_sha256 = rev, le_UnixNano = 1, le_Milliseconds = 2, le_ended = False \<rparr>
       \<lparr> hd_database = [], hd_maxPacket = 1000, hd_id = 7, hd_username = ''root'', hd_warnings = [], hd_auditOnly = False \<rparr>
       (logged_request ''p1'' ''select 1'') (fst (Audit ses (logged_request ''p1'' ''select 1'') 0))) =
     map without_hash (audit_log \<lparr> le_sha256 = rev, le_UnixNano = 1, le_Milliseconds = 2, le_ended = False \<rparr>
       \<lparr> hd_database = [], hd_maxPacket = 1000, hd_id = 7, hd_username = ''root'', hd_warnings = [], hd_auditOnly = False \<rparr>
       (logged_request ''p2'' ''drop table t'') (fst (Audit ses (logged_request ''p2'' ''drop table t'') 0)))"
proof -
  let ?ses = "New (\<lambda>_ _. Inl (errorf ''no parser'')) [] :: nat session"
  let ?out = "[failureRecord 1 [] RuleMetadataConnect ''target MySQL metadata factory is not configured'']"
  obtain e e' where e: "ParseLegacyEnvelope (logged_request ''p1'' ''select 1'') = Inr e" "public_options e = (''h'', 3306, [], [], False)"
    "ParseLegacyEnvelope (logged_request ''p2'' ''drop table t'') = Inr e'" "public_options e' = (''h'', 3306, [], [], False)"
    using logged_requests by blast
  have "fst (Audit ?ses (logged_request ''p1'' ''select 1'') 0) = Returns ?out" "fst (Audit ?ses (logged_request ''p2'' ''drop table t'') 0) = Returns ?out"
    by (simp_all add: Audit_def e New_def)
  from log_confidential [OF e(1,3) _ this] show ?thesis using e(2,4) by (intro exI [of _ ?ses]) simp
qed

end
