(* ===== verification/ManagementFacts.thy ===== *)
theory ManagementFacts
  imports Management
begin

text \<open>
  The management commands: LIKE patterns, the syntax of \<open>inception set\<close>, the registry and the reach of KILL.
\<close>

section \<open>LIKE\<close>

text \<open>SQL's LIKE without escapes, ignoring case.\<close>

fun like_spec :: "string \<Rightarrow> string \<Rightarrow> bool" where
  "like_spec [] v \<longleftrightarrow> v = []"
| "like_spec (c # p) [] \<longleftrightarrow> c = CHR ''%'' \<and> like_spec p []"
| "like_spec (c # p) (x # v) \<longleftrightarrow>
     (if c = CHR ''%'' then like_spec p (x # v) \<or> like_spec (c # p) v
      else (c = CHR ''_'' \<or> lower_byte c = lower_byte x) \<and> like_spec p v)"

lemma accepts_like_re: "CHR 10 \<notin> set v \<Longrightarrow> accepts (like_re p) v = like_spec p v"
proof (induction p v rule: like_spec.induct)
  case (1 v)
  then show ?case by (auto simp: accepts_def strings_EqualFold_def)
next
  case (2 c p)
  then show ?case
    by (auto simp: accepts_Many0_simps accepts_One_Seq accepts_Lit_Seq strings_EqualFold_def strings_ToLower_def)
next
  case (3 c p x v)
  then show ?case
    by (auto simp: accepts_Many0_simps accepts_One_Seq accepts_Lit_Seq strings_EqualFold_def strings_ToLower_def not_newline_def)
qed



section \<open>The registry\<close>

definition registry_ok :: "processRegistry \<Rightarrow> bool" where
  "registry_ok r \<longleftrightarrow> distinct (map fst r) \<and> (\<forall>(k, p)\<in>set r. pi_ID p = k)"

lemma registry_ok_lookup: "registry_ok r \<Longrightarrow> map_of r k = Some p \<Longrightarrow> pi_ID p = k"
  using map_of_SomeD [of r k p] unfolding registry_ok_def by fastforce

lemma alist_update_all: "\<forall>(k, v)\<in>set m. P k v \<Longrightarrow> P k v \<Longrightarrow> \<forall>(k, v)\<in>set (AList.update k v m). P k v"
  by (induction m) auto

lemma registry_ok_update: "registry_ok r \<Longrightarrow> pi_ID p = k \<Longrightarrow> registry_ok (AList.update k p r)"
  using alist_update_all [of r "\<lambda>k p. pi_ID p = k" k p] distinct_update [of r k p] by (simp add: registry_ok_def)

lemma registry_modify_ok: "registry_ok r \<Longrightarrow> (\<And>p. pi_ID (f p) = pi_ID p) \<Longrightarrow> registry_ok (registry_modify f r k)"
  using registry_ok_lookup by (auto simp: registry_modify_def intro: registry_ok_update split: option.split)

lemma registry_modify_lookup: "map_of (registry_modify f r k) j = (if j = k then map_option f (map_of r k) else map_of r j)"
  by (auto simp: registry_modify_def update_conv' split: option.split)

lemmas registry_changes = setDB_def setTarget_def registry_begin_def registry_end_def

lemma registry_steps_ok [intro]:
  "registry_ok newProcessRegistry"
  "registry_ok r \<Longrightarrow> registry_ok (registry_add r p)"
  "registry_ok r \<Longrightarrow> registry_ok (registry_remove r k)"
  "registry_ok r \<Longrightarrow> registry_ok (setDB r k db)"
  "registry_ok r \<Longrightarrow> registry_ok (setTarget r k u h port)"
  "registry_ok r \<Longrightarrow> registry_ok (registry_begin r k cmd info now c)"
  "registry_ok r \<Longrightarrow> registry_ok (registry_end r k)"
  by (auto simp: registry_changes newProcessRegistry_def registry_add_def registry_remove_def
      intro!: registry_modify_ok registry_ok_update)
     (auto simp: registry_ok_def newProcessRegistry_def AList.delete_eq distinct_map_filter)

text \<open>
  KILL reaches the named connection and no other: it answers whether the connection exists, cancels its
  running query if it has one, closes its socket unless only the query is to be killed, and does
  nothing to any other connection.
\<close>

theorem kill_reach:
  assumes "registry_ok r" and "kill r k connection = (found, effects)"
  shows "(found \<longleftrightarrow> (\<exists>p\<in>set (snapshot r). pi_ID p = k)) \<and>
    (\<forall>e\<in>set effects. \<exists>p\<in>set (snapshot r). pi_ID p = k \<and>
       (pi_cancel p \<noteq> None \<and> e = CancelQuery (the (pi_cancel p)) \<or>
        connection \<and> pi_closeConn p \<noteq> None \<and> e = CloseConn (the (pi_closeConn p)))) \<and>
    (\<forall>p\<in>set (snapshot r). \<forall>n. pi_ID p = k \<and> pi_cancel p = Some n \<longrightarrow> CancelQuery n \<in> set effects)"
proof (cases "map_of r k")
  case None
  then have "\<forall>p\<in>set (snapshot r). pi_ID p \<noteq> k"
    using assms(1) unfolding snapshot_def registry_ok_def map_of_eq_None_iff by force
  with None assms(2) show ?thesis by (auto simp: kill_def)
next
  case (Some p)
  have p: "p \<in> set (snapshot r)" "pi_ID p = k"
    using map_of_SomeD [OF Some] registry_ok_lookup [OF assms(1) Some] by (force simp: snapshot_def)+
  have only: "q = p" if "q \<in> set (snapshot r)" "pi_ID q = k" for q
  proof -
    from that(1) obtain j where j: "(j, q) \<in> set r" by (auto simp: snapshot_def)
    with assms(1) that(2) have "j = k" by (auto simp: registry_ok_def)
    with j assms(1) Some show "q = p" by (simp add: registry_ok_def)
  qed
  have effects: "found" "effects = optional CancelQuery (pi_cancel p) @ (if connection then optional CloseConn (pi_closeConn p) else [])"
    using assms(2) Some by (simp_all add: kill_def)
  have ex: "(\<exists>q\<in>set (snapshot r). pi_ID q = k \<and> Q q) \<longleftrightarrow> Q p" for Q using p only by blast
  have all: "(\<forall>q\<in>set (snapshot r). \<forall>n. pi_ID q = k \<and> pi_cancel q = Some n \<longrightarrow> P n) \<longleftrightarrow> (\<forall>n. pi_cancel p = Some n \<longrightarrow> P n)" for P
    using p only by blast
  have "\<exists>q\<in>set (snapshot r). pi_ID q = k" using p by blast
  with effects show ?thesis unfolding ex all
    by (cases "pi_cancel p"; cases "pi_closeConn p") (simp_all add: optional_def)
qed

section \<open>The syntax of the set command\<close>

lemma matches_Seq1: "matches a s = [(r, cs)] \<Longrightarrow> matches (Seq a b) s = map (\<lambda>(r', cs'). (r', cs @ cs')) (matches b r)"
  by simp

lemma matches_one_space: "t \<noteq> [] \<Longrightarrow> \<not> re_space (hd t) \<Longrightarrow> matches (Many1 re_space) (CHR '' '' # t) = [(t, [])]"
proof -
  assume "t \<noteq> []" "\<not> re_space (hd t)"
  then have "takeWhile re_space t = []" by (cases t) auto
  then show ?thesis by (simp add: re_space_def)
qed

lemma matches_no_space: "\<not> (\<exists>c\<in>set s. re_space c) \<Longrightarrow> matches (Many1 re_space) s = []"
  by (cases s) auto

lemma matches_optional_space: "s \<noteq> [] \<Longrightarrow> \<not> re_space (hd s) \<Longrightarrow> matches (Many0 re_space) s = [(s, [])]"
  by (cases s) auto

lemma matches_word_space:
  assumes "\<not> (\<exists>c\<in>set s. re_space c)"
  shows "matches (Opt (re_seq [Cap n (Lit w), Many1 re_space])) s = [(s, [])]"
    and "matches (Opt (re_seq [Cap n (re_alt (Lit w) [Lit w']), Many1 re_space])) s = [(s, [])]"
proof -
  have "\<not> (\<exists>c\<in>set (drop k s). re_space c)" for k using assms by (meson in_set_dropD)
  then have "matches (Many1 re_space) (drop k s) = []" for k by (rule matches_no_space)
  then show "matches (Opt (re_seq [Cap n (Lit w), Many1 re_space])) s = [(s, [])]"
    and "matches (Opt (re_seq [Cap n (re_alt (Lit w) [Lit w']), Many1 re_space])) s = [(s, [])]"
    by (simp_all add: re_seq_def del: matches.simps(4))
qed

text \<open>A maximal run of characters, when the rest of the expression cannot start inside the run.\<close>

lemma matches_run:
  assumes "x \<noteq> []" and "\<forall>c\<in>set x. p c" and "t = [] \<or> \<not> p (hd t)" and "\<And>c y. p c \<Longrightarrow> matches b (c # y) = []"
  shows "matches (Seq (Cap n (Many1 p)) b) (x @ t) = map (\<lambda>(r, cs). (r, (n, x) # cs)) (matches b t)"
proof -
  have "takeWhile p (x @ t) = x" using assms(2,3) by (cases t) auto
  moreover have "[1..<Suc (length x)] = [1..<length x] @ [length x]" using assms(1) by (simp add: Suc_leI)
  ultimately have runs: "matches (Many1 p) (x @ t) = (t, []) # map (\<lambda>k. (drop k x @ t, [])) (rev [1..<length x])"
    by (simp del: upt_Suc)
  have short: "matches b (drop k x @ t) = []" if "k \<in> set (rev [1..<length x])" for k
  proof -
    from that have "drop k x \<noteq> []" by simp
    then obtain c y where cy: "drop k x = c # y" by (cases "drop k x") auto
    then have "c \<in> set x" by (metis in_set_dropD list.set_intros(1))
    with assms(2,4) cy show ?thesis by simp
  qed
  have "concat (map (\<lambda>k. map f (matches b (drop k x @ t))) (rev [1..<length x])) = []" for f :: "_ \<Rightarrow> string \<times> (nat \<times> string) list"
    using short by (simp add: concat_eq_Nil_conv)
  then show ?thesis by (simp add: runs comp_def split_def del: matches.simps(4))
qed

definition name_char :: "char \<Rightarrow> bool" where
  "name_char c \<longleftrightarrow> word_char c \<or> c = CHR ''-''"

lemma name_char_facts: "name_char c \<Longrightarrow> \<not> re_space c \<and> c \<noteq> CHR ''='' \<and> c \<noteq> CHR '';'' \<and> \<not> is_space c \<and> c \<noteq> CHR 39 \<and> c \<noteq> CHR 34"
  by (auto simp: name_char_def word_char_def re_space_def is_space_def is_letter_def is_digit_def)

lemma matches_Seq_Nil: "matches a s = [] \<Longrightarrow> matches (Seq a b) s = []"
  by simp

lemma lower_byte_equals: "lower_byte c = CHR ''='' \<longleftrightarrow> c = CHR ''=''"
proof
  assume eq: "lower_byte c = CHR ''=''"
  then have "byte_val (lower_byte c) = 61" by simp
  then have "\<not> (65 \<le> byte_val c \<and> byte_val c \<le> 90)" by (auto simp: lower_byte_def split: if_splits)
  with eq show "c = CHR ''=''" by (auto simp: lower_byte_def split: if_splits)
qed (simp add: lower_byte_def)

lemma matches_equals: "c \<noteq> CHR ''='' \<Longrightarrow> matches (Lit ''='') (c # y) = []"
proof -
  have low: "lower_byte (CHR ''='') = CHR ''=''" by (simp add: lower_byte_equals)
  show "c \<noteq> CHR ''='' \<Longrightarrow> matches (Lit ''='') (c # y) = []"
    by (simp add: strings_EqualFold_def strings_ToLower_def low lower_byte_equals)
qed

text \<open>The part of the expression after the optional words.\<close>

lemma assignment_matches:
  assumes "x \<noteq> []" and "\<forall>c\<in>set x. name_char c" and "v \<noteq> []" and "\<forall>c\<in>set v. name_char c"
  shows "\<exists>ms. matches (re_seq [Cap 3 (Many1 (\<lambda>c. word_char c \<or> c = CHR ''-'')), Many0 re_space, Lit ''='', Many0 re_space, Cap 4 any_text])
    (x @ ''='' @ v) = ([], [(3, x), (4, v)]) # ms"
proof -
  let ?rest = "Seq (Lit ''='') (Seq (Many0 re_space) (Seq (Cap 4 any_text) (Lit [])))"
  let ?b = "Seq (Many0 re_space) ?rest"
  have p: "(\<lambda>c. word_char c \<or> c = CHR ''-'') = name_char" by (simp add: fun_eq_iff name_char_def)
  have stop: "matches ?b (c # y) = []" if "name_char c" for c y
    using matches_Seq1 [OF matches_optional_space [of "c # y"], of ?rest] name_char_facts [OF that]
      matches_Seq_Nil [OF matches_equals [of c y], of "Seq (Many0 re_space) (Seq (Cap 4 any_text) (Lit []))"]
    by (simp del: matches.simps)
  have head: "\<not> name_char (CHR ''='')" using name_char_facts by blast
  have vsp: "\<not> re_space (hd v)" using assms(3,4) name_char_facts by (simp add: list.set_sel(1))
  have whole: "takeWhile any_char v = v" by (simp add: any_char_def)
  have "[1..<Suc (length v)] = [1..<length v] @ [length v]" using assms(3) by (simp add: Suc_leI)
  then obtain ms where run: "matches (Seq (Cap 4 any_text) (Lit [])) v = ([], [(4, v)]) # ms"
    using whole by (simp del: upt_Suc add: strings_EqualFold_def)
  have "matches ?b (''='' @ v) = ([], [(4, v)]) # ms"
    using matches_Seq1 [OF matches_optional_space [of "''='' @ v"], of ?rest] matches_Seq1 [OF matches_optional_space [OF assms(3) vsp], of "Seq (Cap 4 any_text) (Lit [])"] run
    by (simp add: re_space_def strings_EqualFold_def strings_ToLower_def split_def del: matches.simps(3))
  with matches_run [OF assms(1,2), of "''='' @ v" ?b 3, OF _ stop] head show ?thesis
    by (simp add: re_seq_def p del: matches.simps)
qed

lemma matches_Lit_own: "matches (Lit w) (w @ t) = [(t, [])]"
  by (simp add: strings_EqualFold_def)

lemma matches_re_seq: "matches a s = [(r, [])] \<Longrightarrow> matches (re_seq (a # as)) s = matches (re_seq as) r"
  using matches_Seq1 [of a s r "[]" "re_seq as"] by (simp add: re_seq_def split_def)

lemma matches_re_seq_Nil: "matches a s = [] \<Longrightarrow> matches (re_seq (a # as)) s = []"
  by (simp add: re_seq_def)

text \<open>
  A set command as a client writes it. Its name and its value are made of letters, digits, dashes and
  underscores, so that no character needs quoting.
\<close>

definition plain_word :: "string \<Rightarrow> bool" where
  "plain_word x \<longleftrightarrow> x \<noteq> [] \<and> (\<forall>c\<in>set x. name_char c)"

definition set_text :: "string \<Rightarrow> string \<Rightarrow> string" where
  "set_text x v = ''inception set '' @ x @ ''='' @ v"

lemma plain_word_no_space:
  assumes "plain_word x" and "plain_word v"
  shows "\<not> (\<exists>c\<in>set (x @ ''='' @ v). re_space c)"
  using assms name_char_facts by (auto simp: plain_word_def re_space_def)

lemma set_text_matches:
  assumes "plain_word x" and "plain_word v"
  shows "\<exists>ms. matches reInceptionSet (set_text x v) = ([], [(3, x), (4, v)]) # ms"
proof -
  let ?t = "x @ ''='' @ v"
  have sp: "\<not> (\<exists>c\<in>set ?t. re_space c)" by (rule plain_word_no_space [OF assms])
  have t: "?t \<noteq> []" "\<not> re_space (hd ?t)" using sp by (simp_all add: hd_append)
  have one: "matches (Lit ''inception'') (set_text x v) = [('' set '' @ ?t, [])]"
    using matches_Lit_own [of "''inception''" "'' set '' @ ?t"] by (simp add: set_text_def del: matches.simps)
  have two: "matches spaces ('' set '' @ ?t) = [(''set '' @ ?t, [])]"
    using matches_one_space [of "''set '' @ ?t"] by (simp add: re_space_def del: matches.simps)
  have three: "matches (Lit ''set'') (''set '' @ ?t) = [('' '' @ ?t, [])]"
    using matches_Lit_own [of "''set''" "'' '' @ ?t"] by (simp del: matches.simps)
  have four: "matches spaces ('' '' @ ?t) = [(?t, [])]"
    using matches_one_space [OF t] by (simp del: matches.simps)
  show ?thesis
    unfolding reInceptionSet_def matches_re_seq [OF one] matches_re_seq [OF two] matches_re_seq [OF three] matches_re_seq [OF four]
      matches_re_seq [OF matches_word_space(2) [OF sp]] matches_re_seq [OF matches_word_space(1) [OF sp]]
    using assms unfolding plain_word_def by (intro assignment_matches) auto
qed

lemma set_text_not_show: "matches reInceptionShow (set_text x v) = []"
proof -
  have one: "matches (Lit ''inception'') (set_text x v) = [('' set '' @ x @ ''='' @ v, [])]"
    using matches_Lit_own [of "''inception''" "'' set '' @ x @ ''='' @ v"] by (simp add: set_text_def del: matches.simps)
  have two: "matches spaces ('' set '' @ x @ ''='' @ v) = [(''set '' @ x @ ''='' @ v, [])]"
    using matches_one_space [of "''set '' @ x @ ''='' @ v"] by (simp add: re_space_def del: matches.simps)
  have three: "matches (re_alt (Lit ''show'') [Lit ''get'']) (''set '' @ x @ ''='' @ v) = []"
    by (simp add: strings_EqualFold_def strings_ToLower_def lower_byte_def)
  show ?thesis
    unfolding reInceptionShow_def matches_re_seq [OF one] matches_re_seq [OF two] by (rule matches_re_seq_Nil [OF three])
qed

lemma set_text_trimmed:
  assumes "plain_word v"
  shows "strings_TrimSpace (strings_TrimSuffix (strings_TrimSpace (set_text x v)) '';'') = set_text x v"
proof -
  have "last (set_text x v) = last v" "last v \<in> set v" using assms by (simp_all add: set_text_def plain_word_def)
  then have last: "\<not> is_space (last (set_text x v))" "last (set_text x v) \<noteq> CHR '';''"
    using assms name_char_facts by (auto simp: plain_word_def)
  have "\<not> is_space (hd (set_text x v))" by (simp add: set_text_def is_space_def)
  with last(1) have trim: "strings_TrimSpace (set_text x v) = set_text x v"
    by (simp add: strings_TrimSpace_def trim_func_id)
  have "\<not> strings_HasSuffix (set_text x v) '';''"
  proof
    assume "strings_HasSuffix (set_text x v) '';''"
    then have "last (set_text x v) = CHR '';''"
      by (metis append_take_drop_id last_snoc strings_HasSuffix_def)
    with last(2) show False by simp
  qed
  with trim show ?thesis by (simp add: strings_TrimSuffix_def)
qed

lemma unquote_plain: "plain_word v \<Longrightarrow> unquote v = v"
proof -
  assume v: "plain_word v"
  have quotes: "hd v \<noteq> CHR 39 \<and> hd v \<noteq> CHR 34 \<and> \<not> is_space (hd v) \<and> \<not> is_space (last v)"
    using v name_char_facts by (auto simp: plain_word_def)
  have "undouble w = w" if "CHR 39 \<notin> set w" for w
    using that by (induction w rule: undouble.induct) auto
  moreover have "CHR 39 \<notin> set v" using v name_char_facts by (auto simp: plain_word_def)
  ultimately show ?thesis using quotes by (simp add: unquote_def strings_TrimSpace_def trim_func_id)
qed


section \<open>Witnesses\<close>

definition demo_process :: process_info where
  "demo_process = \<lparr> pi_ID = 7, pi_User = ''root'', pi_FromHost = ''h'', pi_DestUser = [], pi_DestHost = [], pi_DestPort = 0, pi_Database = [],
     pi_Command = ''Sleep'', pi_State = [], pi_Info = [], pi_Started = None, pi_cancel = None, pi_closeConn = Some 3 \<rparr>"

lemma demo_registry_ok: "registry_ok [(7, demo_process)]"
  by (simp add: registry_ok_def demo_process_def)

theorem kill_reach_witness: "fst (kill [(7, demo_process)] 7 True) \<and> \<not> fst (kill [(7, demo_process)] 8 True)"
proof -
  have "pi_ID demo_process = 7" by (simp add: demo_process_def)
  with kill_reach [OF demo_registry_ok, of 7 True] kill_reach [OF demo_registry_ok, of 8 True] show ?thesis
    by (cases "kill [(7, demo_process)] 7 True"; cases "kill [(7, demo_process)] 8 True") (auto simp: snapshot_def)
qed


end
