(* ===== verification/MySQLProvider.thy ===== *)
theory MySQLProvider
  imports SchemaCache SqlText
begin

text \<open>
  The metadata provider, \<^verbatim>\<open>internal/metadata/mysql/provider.go\<close> and \<^verbatim>\<open>factory.go\<close>: what is read of the target server and how
  the rows become the metadata of a request. The server is the parameter \<open>target_db\<close>: for each query, by its text and
  arguments, the rows as \<^verbatim>\<open>Scan\<close> delivers them into the variables the code passes, or the error. The provider is the
  \<open>metadata_source\<close> behind the request cache.
\<close>

section \<open>The target server\<close>

text \<open>\<^verbatim>\<open>QueryRowContext(...).Scan(...)\<close>: \<^verbatim>\<open>sql.ErrNoRows\<close>, another error, or the scanned row.\<close>

datatype 'r query_row = NoRow | RowError gerror | Row 'r

text \<open>\<^verbatim>\<open>QueryContext\<close>: the rows, each of which may fail to be scanned, and \<^verbatim>\<open>rows.Err()\<close> after the last.\<close>

record 'r sql_rows =
  rs_Rows :: "(gerror + 'r) list"
  rs_Err :: "gerror option"

record column_row =
  cw_Name :: string
  cw_ColumnType :: string
  cw_Nullable :: string
  cw_Default :: "string option"
  cw_Extra :: string
  cw_CharacterSet :: string
  cw_Collation :: string
  cw_Comment :: string
  cw_GenerationExpression :: string

text \<open>The last two fields are read only from a server that has them.\<close>

record index_row =
  iw_Name :: string
  iw_NonUnique :: int
  iw_Sequence :: int
  iw_Column :: "string option"
  iw_Prefix :: int
  iw_Direction :: string
  iw_IndexType :: string
  iw_Expression :: string
  iw_Visible :: string

record table_row =
  tw_TableType :: string
  tw_Collation :: string
  tw_Engine :: string
  tw_Rows :: "64 word"
  tw_Comment :: string

text \<open>Rows of unknown shape: the column names and, per row, one nullable text for each.\<close>

record text_rows =
  xr_Columns :: "gerror + string list"
  xr_Rows :: "(gerror + string option list) list"
  xr_Err :: "gerror option"

record target_db =
  db_ServerRow :: "string \<Rightarrow> server_info query_row"
  db_SchemaRow :: "string \<Rightarrow> string \<Rightarrow> (string \<times> string) query_row"
  db_TableRow :: "string \<Rightarrow> string \<Rightarrow> string \<Rightarrow> table_row query_row"
  db_ColumnRows :: "string \<Rightarrow> string \<Rightarrow> string \<Rightarrow> gerror + column_row sql_rows"
  db_IndexRows :: "string \<Rightarrow> string \<Rightarrow> string \<Rightarrow> gerror + index_row sql_rows"
  db_GrantRows :: "string \<Rightarrow> gerror + string sql_rows"
  db_TextRows :: "string \<Rightarrow> gerror + text_rows"
  db_Conn :: "gerror + unit"
  db_Exec :: "string \<Rightarrow> gerror option"
  db_Explain :: "string \<Rightarrow> string \<Rightarrow> gerror + text_rows"

section \<open>Texts\<close>

definition QuoteIdentifier :: "string \<Rightarrow> string" where
  "QuoteIdentifier v = [CHR 0x60] @ strings_ReplaceAll v (CHR 0x60) [CHR 0x60, CHR 0x60] @ [CHR 0x60]"

interpretation provider_ident: identifier_quoter QuoteIdentifier
  using backquoted_quoter unfolding backquoted_def [abs_def] QuoteIdentifier_def [abs_def] .

text \<open>\<^verbatim>\<open>got[i], _ = strconv.Atoi(parts[i])\<close>: the value is stored whether or not the text is a number.\<close>

definition mysqlVersionAtLeast :: "string \<Rightarrow> int \<Rightarrow> int \<Rightarrow> int \<Rightarrow> bool" where
  "mysqlVersionAtLeast value major minor patch =
     (let core = hd (strings_SplitN value CHR ''-'' 2);
          parts = strings_Split core CHR ''.'';
          got = (\<lambda>i. if i < length parts then fst (strconv_Atoi (parts ! i)) else 0) in
      if got 0 \<noteq> major then got 0 > major
      else if got 1 \<noteq> minor then got 1 > minor
      else got 2 \<ge> patch)"

definition empty_text :: string where
  "empty_text = [CHR 0x27, CHR 0x27]"

definition server_query :: string where
  "server_query = ''SELECT VERSION(), @@SESSION.sql_mode, @@lower_case_table_names, @@character_set_server, @@collation_server, @@explicit_defaults_for_timestamp''"

definition schema_query :: string where
  "schema_query = ''SELECT DEFAULT_CHARACTER_SET_NAME, DEFAULT_COLLATION_NAME FROM information_schema.SCHEMATA WHERE SCHEMA_NAME = ?''"

definition table_query :: string where
  "table_query = ''SELECT TABLE_TYPE, COALESCE(TABLE_COLLATION, '' @ empty_text @ ''), COALESCE(ENGINE, '' @ empty_text @ ''), COALESCE(TABLE_ROWS, 0), COALESCE(TABLE_COMMENT, '' @ empty_text @ '') FROM information_schema.TABLES WHERE TABLE_SCHEMA = ? AND TABLE_NAME = ?''"

definition columns_query :: string where
  "columns_query = ''SELECT COLUMN_NAME, COLUMN_TYPE, IS_NULLABLE, COLUMN_DEFAULT, EXTRA, COALESCE(CHARACTER_SET_NAME, '' @ empty_text @ ''), COALESCE(COLLATION_NAME, '' @ empty_text @ ''), COALESCE(COLUMN_COMMENT, '' @ empty_text @ ''), COALESCE(GENERATION_EXPRESSION, '' @ empty_text @ '') FROM information_schema.COLUMNS WHERE TABLE_SCHEMA = ? AND TABLE_NAME = ? ORDER BY ORDINAL_POSITION''"

definition index_query :: "bool \<Rightarrow> string" where
  "index_query version8 = ''SELECT INDEX_NAME, NON_UNIQUE, SEQ_IN_INDEX, COLUMN_NAME, COALESCE(SUB_PART, 0), COALESCE(COLLATION, 'A'), INDEX_TYPE'' @
     (if version8 then '', COALESCE(EXPRESSION, '' @ empty_text @ ''), COALESCE(IS_VISIBLE, 'YES')'' else []) @
     '' FROM information_schema.STATISTICS WHERE TABLE_SCHEMA = ? AND TABLE_NAME = ? ORDER BY INDEX_NAME, SEQ_IN_INDEX''"

definition qualified_text :: "string \<Rightarrow> string \<Rightarrow> string" where
  "qualified_text schema table = strconv_Quote schema @ ''.'' @ strconv_Quote table"

definition not_found :: "string \<Rightarrow> gerror" where
  "not_found what = GoError (err_Error ErrMetadataNotFound @ '': '' @ what) True"

section \<open>Server and schema\<close>

definition provider_LoadServerInfo :: "target_db \<Rightarrow> gerror + server_info" where
  "provider_LoadServerInfo db = (case db_ServerRow db server_query of
       Row info \<Rightarrow> Inr info
     | NoRow \<Rightarrow> Inl (wrapf ''load MySQL server information: '' (errorf ''sql: no rows in result set''))
     | RowError err \<Rightarrow> Inl (wrapf ''load MySQL server information: '' err))"

definition provider_LoadSchema :: "target_db \<Rightarrow> string \<Rightarrow> gerror + schema_meta" where
  "provider_LoadSchema db schema = (case db_SchemaRow db schema_query schema of
       Row (charset, collation) \<Rightarrow> Inr \<lparr> sch_Name = schema, sch_CharacterSet = charset, sch_Collation = collation \<rparr>
     | NoRow \<Rightarrow> Inl (not_found (''schema '' @ strconv_Quote schema))
     | RowError err \<Rightarrow> Inl (wrapf (''load schema '' @ strconv_Quote schema @ '': '') err))"

section \<open>Columns, indexes, definition\<close>

text \<open>A loop \<^verbatim>\<open>for rows.Next()\<close> that scans each row, stops at the first error and ends with \<^verbatim>\<open>rows.Err()\<close>.\<close>

fun scan_rows :: "(gerror \<Rightarrow> gerror) \<Rightarrow> ('r \<Rightarrow> 's \<Rightarrow> 's) \<Rightarrow> (gerror + 'r) list \<Rightarrow> 's \<Rightarrow> gerror + 's" where
  "scan_rows wrap f [] s = Inr s"
| "scan_rows wrap f (Inl err # rows) s = Inl (wrap err)"
| "scan_rows wrap f (Inr r # rows) s = scan_rows wrap f rows (f r s)"

definition rows_loop :: "(gerror \<Rightarrow> gerror) \<Rightarrow> ('r \<Rightarrow> 's \<Rightarrow> 's) \<Rightarrow> 'r sql_rows \<Rightarrow> 's \<Rightarrow> gerror + 's" where
  "rows_loop wrap f rows s = sum_bind (scan_rows wrap f (rs_Rows rows) s)
     (\<lambda>s'. case rs_Err rows of None \<Rightarrow> Inr s' | Some err \<Rightarrow> Inl err)"

definition column_of_row :: "column_row \<Rightarrow> column_meta" where
  "column_of_row r = \<lparr> col_Name = cw_Name r, col_ColumnType = cw_ColumnType r, col_Nullable = strings_EqualFold (cw_Nullable r) ''YES'',
     col_Default = cw_Default r, col_Extra = cw_Extra r, col_CharacterSet = cw_CharacterSet r, col_Collation = cw_Collation r,
     col_Comment = cw_Comment r, col_GenerationExpression = cw_GenerationExpression r,
     col_AutoIncrement = strings_Contains (strings_ToLower (cw_Extra r)) ''auto_increment'',
     col_Unsigned = strings_Contains (strings_ToLower (cw_ColumnType r)) ''unsigned'' \<rparr>"

definition loadColumns :: "target_db \<Rightarrow> table_meta \<Rightarrow> gerror + table_meta" where
  "loadColumns db t = (let name = qualified_text (t_Schema t) (t_Name t) in
     case db_ColumnRows db columns_query (t_Schema t) (t_Name t) of
       Inl err \<Rightarrow> Inl (wrapf (''load columns for '' @ name @ '': '') err)
     | Inr rows \<Rightarrow> rows_loop (wrapf (''scan column for '' @ name @ '': ''))
         (\<lambda>r t. t\<lparr>t_Columns := t_Columns t @ [column_of_row r]\<rparr>) rows t)"

text \<open>One row of the index query: the index is opened at its first row, each row adds a key part.\<close>

definition open_index :: "index_row \<Rightarrow> index_meta" where
  "open_index r = zero_index_meta\<lparr>idx_Name := iw_Name r, idx_Unique := iw_NonUnique r = 0,
     idx_Primary := strings_EqualFold (iw_Name r) ''PRIMARY'', idx_IndexType := iw_IndexType r,
     idx_Visible := strings_EqualFold (iw_Visible r) ''YES''\<rparr>"

definition extend_index :: "index_row \<Rightarrow> index_meta \<Rightarrow> index_meta" where
  "extend_index r i = (let columnName = (case iw_Column r of Some c \<Rightarrow> c | None \<Rightarrow> []) in
     i\<lparr>idx_Columns := idx_Columns i @ [columnName], idx_PrefixLengths := idx_PrefixLengths i @ [iw_Prefix r],
       idx_Directions := idx_Directions i @ [iw_Direction r],
       idx_Expressions := idx_Expressions i @ (if strings_TrimSpace (iw_Expression r) \<noteq> [] then [iw_Expression r] else [])\<rparr>)"

fun add_index_row :: "index_row \<Rightarrow> index_meta list \<times> (string \<rightharpoonup> nat) \<Rightarrow> index_meta list \<times> (string \<rightharpoonup> nat)" where
  "add_index_row r (indexes, byName) =
     (case byName (iw_Name r) of
        Some position \<Rightarrow> (indexes[position := extend_index r (indexes ! position)], byName)
      | None \<Rightarrow> (indexes @ [extend_index r (open_index r)], byName(iw_Name r \<mapsto> length indexes)))"

definition loadIndexes :: "target_db \<Rightarrow> table_meta \<Rightarrow> gerror + table_meta" where
  "loadIndexes db t = (let name = qualified_text (t_Schema t) (t_Name t) in
     sum_bind (provider_LoadServerInfo db) (\<lambda>server.
       let version8 = mysqlVersionAtLeast (srv_Version server) 8 0 13;
           seen = (\<lambda>r. if version8 then r else r\<lparr>iw_Expression := [], iw_Visible := ''YES''\<rparr>) in
       case db_IndexRows db (index_query version8) (t_Schema t) (t_Name t) of
         Inl err \<Rightarrow> Inl (wrapf (''load indexes for '' @ name @ '': '') err)
       | Inr rows \<Rightarrow> sum_bind (rows_loop (wrapf (''scan index for '' @ name @ '': '')) (\<lambda>r. add_index_row (seen r)) rows (t_Indexes t, Map.empty))
           (\<lambda>(indexes, _). Inr (t\<lparr>t_Indexes := indexes\<rparr>))))"

definition provider_showCreate :: "target_db \<Rightarrow> string \<Rightarrow> string \<Rightarrow> bool \<Rightarrow> gerror + string" where
  "provider_showCreate db schema table view =
     (let name = qualified_text schema table;
          query = ''SHOW CREATE '' @ (if view then ''VIEW'' else ''TABLE'') @ '' '' @ QuoteIdentifier schema @ ''.'' @ QuoteIdentifier table in
      case db_TextRows db query of
        Inl err \<Rightarrow> Inl (wrapf (''show create '' @ name @ '': '') err)
      | Inr rows \<Rightarrow> (case xr_Columns rows of
          Inl err \<Rightarrow> Inl err
        | Inr columns \<Rightarrow>
            if length columns < 2 \<or> xr_Rows rows = [] then Inl (errorf (''show create '' @ name @ '' returned no definition''))
            else (case hd (xr_Rows rows) of
              Inl err \<Rightarrow> Inl (wrapf (''scan show create '' @ name @ '': '') err)
            | Inr cells \<Rightarrow> Inr (case cells of _ # Some text # _ \<Rightarrow> text | _ \<Rightarrow> []))))"

definition collation_charset :: "string \<Rightarrow> string" where
  "collation_charset collation = (if CHR ''_'' \<in> set collation \<and> hd collation \<noteq> CHR ''_'' then takeWhile (\<lambda>c. c \<noteq> CHR ''_'') collation else [])"

definition table_head :: "string \<Rightarrow> string \<Rightarrow> table_row \<Rightarrow> table_meta" where
  "table_head schema table r = zero_table_meta\<lparr>t_Schema := schema, t_Name := table, t_TableType := tw_TableType r, t_Collation := tw_Collation r,
     t_Engine := tw_Engine r, t_Rows := tw_Rows r, t_Comment := tw_Comment r, t_IsView := strings_EqualFold (tw_TableType r) ''VIEW'',
     t_CharacterSet := collation_charset (tw_Collation r)\<rparr>"

definition provider_LoadTable :: "target_db \<Rightarrow> string \<Rightarrow> string \<Rightarrow> gerror + table_meta" where
  "provider_LoadTable db schema table = (case db_TableRow db table_query schema table of
       NoRow \<Rightarrow> Inl (not_found (''table '' @ qualified_text schema table))
     | RowError err \<Rightarrow> Inl (wrapf (''load table '' @ qualified_text schema table @ '': '') err)
     | Row r \<Rightarrow>
         sum_bind (loadColumns db (table_head schema table r)) (\<lambda>t.
         sum_bind (loadIndexes db t) (\<lambda>t.
         sum_bind (provider_showCreate db schema table (t_IsView t)) (\<lambda>createSQL. Inr (t\<lparr>t_CreateSQL := createSQL\<rparr>)))))"

section \<open>Impact and grants\<close>

text \<open>The loop over the plan: the largest value so far, the value of the first row, the number of rows.\<close>

definition explain_row :: "nat \<Rightarrow> string option list \<Rightarrow> int \<times> int \<times> nat \<Rightarrow> int \<times> int \<times> nat" where
  "explain_row rowIndex cells st =
     (let (maximum, first, count) = st;
          (value, ok) = strconv_Atoi (case cells ! rowIndex of Some text \<Rightarrow> text | None \<Rightarrow> []) in
      (if ok \<and> value > maximum then value else maximum, if ok \<and> count = 0 then value else first, count + 1))"

definition EstimateImpactWithRule :: "target_db \<Rightarrow> string \<Rightarrow> string \<Rightarrow> string \<Rightarrow> gerror + impact_estimate" where
  "EstimateImpactWithRule db database statement rule =
     sum_bind (db_Conn db) (\<lambda>_.
     sum_bind (if database \<noteq> [] then (case db_Exec db (''USE '' @ QuoteIdentifier database) of Some err \<Rightarrow> Inl err | None \<Rightarrow> Inr ()) else Inr ()) (\<lambda>_.
     case db_Explain db database (''EXPLAIN '' @ strings_TrimSuffix (strings_TrimSpace statement) '';'') of
       Inl err \<Rightarrow> Inl (wrapf ''explain impact: '' err)
     | Inr rows \<Rightarrow>
         sum_bind (xr_Columns rows) (\<lambda>columns.
         case find_pos (\<lambda>name. strings_EqualFold name ''rows'') columns of
           None \<Rightarrow> Inl (errorf ''EXPLAIN returned no rows estimate'')
         | Some rowIndex \<Rightarrow>
             sum_bind (rows_loop id (explain_row rowIndex) \<lparr> rs_Rows = xr_Rows rows, rs_Err = xr_Err rows \<rparr> (0, 0, 0)) (\<lambda>(maximum, first, _).
             Inr \<lparr> est_Rows = (if strings_EqualFold rule ''first'' then first else maximum), est_Method = ''explain:'' @ strings_ToLower rule,
               est_Exact = False \<rparr>))))"

definition provider_EstimateImpact :: "target_db \<Rightarrow> string \<Rightarrow> string \<Rightarrow> gerror + impact_estimate" where
  "provider_EstimateImpact db database statement = EstimateImpactWithRule db database statement ''max''"

definition write_words :: "string list" where
  "write_words = [''all privileges'', ''insert'', ''update'', ''delete'', ''alter'', ''create'', ''drop'']"

definition grant_suffices :: "string \<Rightarrow> bool \<Rightarrow> string \<Rightarrow> bool" where
  "grant_suffices want execute grant = (let lower = strings_ToLower grant in
     (strings_Contains lower '' on *.* '' \<or> strings_Contains lower ('' on '' @ want @ '' '')) \<and>
     (\<not> execute \<or> list_ex (strings_Contains lower) write_words))"

fun grants_loop :: "string \<Rightarrow> bool \<Rightarrow> gerror \<Rightarrow> gerror option \<Rightarrow> (gerror + string) list \<Rightarrow> gerror option" where
  "grants_loop want execute missing end_error [] = (case end_error of Some err \<Rightarrow> Some err | None \<Rightarrow> Some missing)"
| "grants_loop want execute missing end_error (Inl err # rows) = Some err"
| "grants_loop want execute missing end_error (Inr grant # rows) =
     (if grant_suffices want execute grant then None else grants_loop want execute missing end_error rows)"

definition grant_pattern :: "string \<Rightarrow> string" where
  "grant_pattern database = [CHR 0x60] @ strings_ToLower (strings_ReplaceAll database (CHR 0x60) [CHR 0x60, CHR 0x60]) @ [CHR 0x60] @ ''.*''"

definition CheckGrants :: "target_db \<Rightarrow> string \<Rightarrow> bool \<Rightarrow> gerror option" where
  "CheckGrants db database execute = (case db_GrantRows db ''SHOW GRANTS FOR CURRENT_USER()'' of
       Inl err \<Rightarrow> Some (wrapf ''read target grants: '' err)
     | Inr rows \<Rightarrow> grants_loop (grant_pattern database) execute
         (errorf (''target user has no visible '' @ (if execute then ''execution'' else ''audit'') @ '' grant for database '' @ database))
         (rs_Err rows) (rs_Rows rows))"

section \<open>Opening\<close>

definition net_JoinHostPort :: "string \<Rightarrow> string \<Rightarrow> string" where
  "net_JoinHostPort host port = (if CHR '':'' \<in> set host then ''['' @ host @ '']:'' @ port else host @ '':'' @ port)"

text \<open>The fields of the driver configuration that depend on the request.\<close>

record driver_config =
  dc_Addr :: string
  dc_User :: string
  dc_Passwd :: string
  dc_DBName :: string

text \<open>The network, in a world \<open>'w\<close>: whether a connection can be configured and pinged, and the server behind it.\<close>

record 'w target_net =
  tg_Open :: "driver_config \<Rightarrow> gerror option"
  tg_Ping :: "driver_config \<Rightarrow> 'w \<Rightarrow> gerror option"
  tg_DB :: "driver_config \<Rightarrow> 'w \<Rightarrow> target_db"

definition provider_Open :: "'w target_net \<Rightarrow> target_options \<Rightarrow> gerror + driver_config" where
  "provider_Open net options =
     (if tgt_Host options = [] \<or> tgt_Port options = 0 \<or> tgt_User options = []
      then Inl (errorf ''target MySQL host, port, and user are required'')
      else let config = \<lparr> dc_Addr = net_JoinHostPort (tgt_Host options) (nat_string (unat (tgt_Port options))), dc_User = tgt_User options,
             dc_Passwd = tgt_Password options, dc_DBName = tgt_Database options \<rparr> in
        (case tg_Open net config of Some err \<Rightarrow> Inl err | None \<Rightarrow> Inr config))"

definition provider_source :: "target_db \<Rightarrow> metadata_source" where
  "provider_source db = \<lparr> src_LoadServerInfo = provider_LoadServerInfo db, src_LoadSchema = provider_LoadSchema db,
     src_LoadTable = provider_LoadTable db, src_EstimateImpact = Some (provider_EstimateImpact db) \<rparr>"

definition OpenRequest :: "'w target_net \<Rightarrow> target_options \<Rightarrow> 'w \<Rightarrow> gerror + (metadata_source \<times> server_info)" where
  "OpenRequest net options w =
     sum_bind (provider_Open net options) (\<lambda>config.
       case tg_Ping net config w of
         Some err \<Rightarrow> Inl err
       | None \<Rightarrow> sum_bind (provider_LoadServerInfo (tg_DB net config w)) (\<lambda>server. Inr (provider_source (tg_DB net config w), server)))"

end
