(* ===== verification/Connections.thy ===== *)
theory Connections
  imports Protocol ManagementFacts MySQLProvider
begin

text \<open>
  The life of the connections, \<^verbatim>\<open>Server.Run\<close> and \<^verbatim>\<open>Server.serveConn\<close> of \<^verbatim>\<open>protocol/server.go\<close>: each runs in its own
  goroutine, and the steps of different connections interleave in any order. A step is one call on the
  registry, which its lock makes atomic, or one operation on the semaphore that bounds the connections.
\<close>

section \<open>Addresses\<close>

text \<open>\<^verbatim>\<open>net.SplitHostPort\<close>: the host and the port, nothing where it returns an error.\<close>

definition net_SplitHostPort :: "string \<Rightarrow> (string \<times> string) option" where
  "net_SplitHostPort s =
     (if CHR '':'' \<notin> set s then None
      else
        let port = rev (takeWhile (\<lambda>c. c \<noteq> CHR '':'') (rev s)); i = length s - length port - 1 in
        if hd s = CHR ''['' then
          (if CHR '']'' \<notin> set s then None
           else
             let e = length (takeWhile (\<lambda>c. c \<noteq> CHR '']'') s) in
             if e + 1 \<noteq> i \<or> CHR ''['' \<in> set (drop 1 s) \<or> CHR '']'' \<in> set (drop (e + 1) s) then None
             else Some (take (e - 1) (drop 1 s), port))
        else if CHR '':'' \<in> set (take i s) \<or> CHR ''['' \<in> set s \<or> CHR '']'' \<in> set s then None
        else Some (take i s, port))"

text \<open>The address of the peer is absent or a text.\<close>

definition remoteHost :: "string option \<Rightarrow> string" where
  "remoteHost addr =
     (case addr of
        None \<Rightarrow> []
      | Some a \<Rightarrow> (case net_SplitHostPort a of Some (host, _) \<Rightarrow> host | None \<Rightarrow> a))"

lemma port_of_address: "CHR '':'' \<notin> set port \<Longrightarrow> rev (takeWhile (\<lambda>c. c \<noteq> CHR '':'') (rev (a @ CHR '':'' # port))) = port"
  by (simp add: takeWhile_tail) (induction port rule: rev_induct, auto simp: takeWhile_append)

lemma remoteHost_JoinHostPort:
  assumes "CHR ''['' \<notin> set host" and "CHR '']'' \<notin> set host" and "set port \<inter> set ''[]:'' = {}"
  shows "remoteHost (Some (net_JoinHostPort host port)) = host"
proof (cases "CHR '':'' \<in> set host")
  case True
  let ?s = "''['' @ host @ '']:'' @ port"
  have port: "rev (takeWhile (\<lambda>c. c \<noteq> CHR '':'') (rev ?s)) = port"
    using port_of_address [of port "''['' @ host @ '']''"] assms(3) by simp
  have bracket: "length (takeWhile (\<lambda>c. c \<noteq> CHR '']'') ?s) = length host + 1"
    using assms(2) by (auto simp: takeWhile_tail takeWhile_eq_all_conv intro: arg_cong [of _ _ length])
  have "net_SplitHostPort ?s = Some (host, port)"
    unfolding net_SplitHostPort_def port bracket Let_def using assms by (simp add: drop_Cons')
  with True show ?thesis by (simp add: remoteHost_def net_JoinHostPort_def)
next
  case False
  have port: "rev (takeWhile (\<lambda>c. c \<noteq> CHR '':'') (rev (host @ '':'' @ port))) = port"
    using port_of_address [of port host] assms(3) by simp
  have "hd (host @ '':'' @ port) \<noteq> CHR ''[''" using assms(1) by (cases host) auto
  then have "net_SplitHostPort (host @ '':'' @ port) = Some (host, port)"
    unfolding net_SplitHostPort_def port Let_def using assms False by simp
  with False show ?thesis by (simp add: remoteHost_def net_JoinHostPort_def)
qed

section \<open>Connections\<close>

definition connected_process :: "32 word \<Rightarrow> string \<Rightarrow> string option \<Rightarrow> nat \<Rightarrow> process_info" where
  "connected_process ident user addr socket =
     \<lparr> pi_ID = ident, pi_User = user, pi_FromHost = remoteHost addr, pi_DestUser = [], pi_DestHost = [], pi_DestPort = 0, pi_Database = [],
       pi_Command = ''Sleep'', pi_State = [], pi_Info = [], pi_Started = None, pi_cancel = None, pi_closeConn = Some socket \<rparr>"

text \<open>
  \<open>po_open\<close> are the sockets that hold a slot of the semaphore, \<open>po_conn\<close> the socket of each registered connection,
  \<open>po_running\<close> the cancel function of each connection that executes a query.
\<close>

record pool =
  po_open :: "nat set"
  po_conn :: "32 word \<rightharpoonup> nat"
  po_running :: "32 word \<rightharpoonup> nat"
  po_registry :: processRegistry

definition empty_pool :: pool where
  "empty_pool = \<lparr> po_open = {}, po_conn = Map.empty, po_running = Map.empty, po_registry = newProcessRegistry \<rparr>"

text \<open>
  The library gives every connection an identifier no registered connection has. The database changes by a query or by a command of the
  protocol (\<^verbatim>\<open>UseDB\<close>). A socket that finds no free slot is
  closed at once, which changes nothing here.
\<close>

inductive pool_step :: "int \<Rightarrow> pool \<Rightarrow> pool \<Rightarrow> bool" for max_connections where
  accept: "int (card (po_open p)) < max_connections \<Longrightarrow> n \<notin> po_open p \<Longrightarrow>
    pool_step max_connections p (p\<lparr>po_open := insert n (po_open p)\<rparr>)"
| register: "n \<in> po_open p \<Longrightarrow> n \<notin> ran (po_conn p) \<Longrightarrow> po_conn p k = None \<Longrightarrow>
    pool_step max_connections p (p\<lparr>po_conn := (po_conn p)(k \<mapsto> n),
      po_registry := registry_add (po_registry p) (connected_process k user addr n)\<rparr>)"
| start_query: "po_conn p k \<noteq> None \<Longrightarrow> po_running p k = None \<Longrightarrow>
    pool_step max_connections p (p\<lparr>po_running := (po_running p)(k \<mapsto> c), po_registry := registry_begin (po_registry p) k ''Query'' info now c\<rparr>)"
| database: "po_conn p k \<noteq> None \<Longrightarrow> pool_step max_connections p (p\<lparr>po_registry := setDB (po_registry p) k db\<rparr>)"
| target: "po_running p k \<noteq> None \<Longrightarrow> pool_step max_connections p (p\<lparr>po_registry := setTarget (po_registry p) k user host port\<rparr>)"
| finish: "po_running p k \<noteq> None \<Longrightarrow>
    pool_step max_connections p (p\<lparr>po_running := (po_running p)(k := None), po_registry := registry_end (po_registry p) k\<rparr>)"
| leave: "po_conn p k \<noteq> None \<Longrightarrow> po_running p k = None \<Longrightarrow>
    pool_step max_connections p (p\<lparr>po_conn := (po_conn p)(k := None), po_registry := registry_remove (po_registry p) k\<rparr>)"
| release: "n \<in> po_open p \<Longrightarrow> n \<notin> ran (po_conn p) \<Longrightarrow> pool_step max_connections p (p\<lparr>po_open := po_open p - {n}\<rparr>)"

text \<open>What the registry says of a connection.\<close>

definition entry_ok :: "pool \<Rightarrow> 32 word \<Rightarrow> bool" where
  "entry_ok p k \<longleftrightarrow> (case map_of (po_registry p) k of
       None \<Rightarrow> po_conn p k = None \<and> po_running p k = None
     | Some e \<Rightarrow> pi_closeConn e \<noteq> None \<and> pi_closeConn e = po_conn p k \<and> pi_cancel e = po_running p k \<and>
         (pi_Command e = ''Sleep'' \<longleftrightarrow> po_running p k = None))"

definition pool_ok :: "int \<Rightarrow> pool \<Rightarrow> bool" where
  "pool_ok max_connections p \<longleftrightarrow> finite (po_open p) \<and> int (card (po_open p)) \<le> max_connections \<and> ran (po_conn p) \<subseteq> po_open p \<and>
     inj_on (po_conn p) (dom (po_conn p)) \<and> registry_ok (po_registry p) \<and> (\<forall>k. entry_ok p k)"

lemma registry_add_lookup: "map_of (registry_add r p) j = (if j = pi_ID p then Some p else map_of r j)"
  by (simp add: registry_add_def update_conv')

lemma registry_remove_lookup: "map_of (registry_remove r k) j = (if j = k then None else map_of r j)"
  by (simp add: registry_remove_def delete_conv')

lemmas registry_lookups = registry_changes registry_modify_lookup registry_add_lookup registry_remove_lookup

lemma pool_ok_empty: "0 \<le> m \<Longrightarrow> pool_ok m empty_pool"
  by (simp add: pool_ok_def empty_pool_def entry_ok_def newProcessRegistry_def registry_ok_def)

lemma entry_ok_open [simp]: "entry_ok (p\<lparr>po_open := ns\<rparr>) k = entry_ok p k"
  by (simp add: entry_ok_def split: option.split)

lemma optional_ran: "(\<Union>k. set (optional f (m k))) = f ` ran m"
proof -
  have "set (optional f (m k)) = f ` {b. m k = Some b}" for k by (cases "m k") (auto simp: optional_def)
  then show ?thesis by (auto simp: ran_def)
qed

lemma entry_ok_step: "pool_step m p p' \<Longrightarrow> \<forall>k. entry_ok p k \<Longrightarrow> entry_ok p' j"
proof (induction rule: pool_step.induct)
  case (register n p k user addr)
  from register(4) [rule_format, of k] register(3) have "po_running p k = None" by (auto simp: entry_ok_def split: option.splits)
  with register(4) [rule_format, of j] show ?case
    by (auto simp: entry_ok_def registry_lookups connected_process_def split: option.splits)
next
  case (start_query p k c info now)
  from start_query(3) [rule_format, of j] start_query(1,2) show ?case
    by (auto simp: entry_ok_def registry_lookups split: option.splits)
next
  case (finish p k)
  from finish(2) [rule_format, of j] finish(1) show ?case
    by (auto simp: entry_ok_def registry_lookups split: option.splits)
next
  case (leave p k)
  from leave(3) [rule_format, of j] leave(2) show ?case
    by (auto simp: entry_ok_def registry_lookups split: option.splits)
next
  case (database p k db)
  from database(2) [rule_format, of j] show ?case by (auto simp: entry_ok_def registry_lookups split: option.splits)
next
  case (target p k user host port)
  from target(2) [rule_format, of j] show ?case by (auto simp: entry_ok_def registry_lookups split: option.splits)
qed simp_all

lemma sockets_step:
  "pool_step m p p' \<Longrightarrow> finite (po_open p) \<and> int (card (po_open p)) \<le> m \<and> ran (po_conn p) \<subseteq> po_open p \<and> inj_on (po_conn p) (dom (po_conn p)) \<Longrightarrow>
   finite (po_open p') \<and> int (card (po_open p')) \<le> m \<and> ran (po_conn p') \<subseteq> po_open p' \<and> inj_on (po_conn p') (dom (po_conn p'))"
proof (induction rule: pool_step.induct)
  case (register n p k user addr)
  have "inj_on ((po_conn p)(k \<mapsto> n)) (dom ((po_conn p)(k \<mapsto> n)))"
    using register by (auto simp: inj_on_def ran_def dom_def)
  moreover have "ran ((po_conn p)(k \<mapsto> n)) = insert n (ran (po_conn p))" by (rule ran_map_upd [of "po_conn p", OF register(3)])
  ultimately show ?case using register(1,4) by (simp del: fun_upd_apply)
next
  case (release n p)
  with card_Diff1_le [of "po_open p" n] show ?case by auto
next
  case (leave p k)
  have "ran ((po_conn p)(k := None)) \<subseteq> ran (po_conn p)" by (auto simp: ran_def)
  moreover have "inj_on ((po_conn p)(k := None)) (dom ((po_conn p)(k := None)))"
    using leave by (auto simp: inj_on_def)
  ultimately show ?case using leave by (auto simp del: fun_upd_apply)
qed auto

lemma pool_ok_step: "pool_step m p p' \<Longrightarrow> pool_ok m p \<Longrightarrow> pool_ok m p'"
proof -
  assume step: "pool_step m p p'" and ok: "pool_ok m p"
  have "registry_ok (po_registry p')"
    using step ok by cases (auto simp: pool_ok_def)
  with sockets_step [OF step] entry_ok_step [OF step] ok show ?thesis unfolding pool_ok_def by blast
qed

lemma pool_reachable_ok: "(pool_step m)\<^sup>*\<^sup>* empty_pool p \<Longrightarrow> 0 \<le> m \<Longrightarrow> pool_ok m p"
  by (induction rule: rtranclp_induct) (auto intro: pool_ok_empty pool_ok_step)

text \<open>
  C30. However the connections interleave, the registry lists exactly the registered connections, with their own
  sockets; a connection is shown as sleeping, and has nothing to cancel, just when it executes no query; and
  there are never more connections than the configured maximum.
\<close>

theorem registry_tracks_connections:
  assumes "(pool_step m)\<^sup>*\<^sup>* empty_pool p" and "0 \<le> m"
  shows "dom (map_of (po_registry p)) = dom (po_conn p) \<and> int (length (snapshot (po_registry p))) \<le> m \<and>
    (\<forall>e\<in>set (snapshot (po_registry p)). pi_closeConn e = po_conn p (pi_ID e) \<and> pi_cancel e = po_running p (pi_ID e) \<and>
       (pi_Command e = ''Sleep'' \<longleftrightarrow> po_running p (pi_ID e) = None))"
proof -
  have ok: "pool_ok m p" by (rule pool_reachable_ok [OF assms])
  then have entries: "entry_ok p k" for k by (simp add: pool_ok_def)
  have dom: "dom (map_of (po_registry p)) = dom (po_conn p)"
    using entries by (fastforce simp: entry_ok_def split: option.splits)
  have "length (snapshot (po_registry p)) = length (map fst (po_registry p))" by (simp add: snapshot_def)
  also have "\<dots> = card (set (map fst (po_registry p)))"
    using ok by (intro distinct_card [symmetric]) (simp add: pool_ok_def registry_ok_def)
  also have "set (map fst (po_registry p)) = dom (po_conn p)" by (simp add: dom_map_of_conv_image_fst flip: dom)
  also have "card (dom (po_conn p)) = card (po_conn p ` dom (po_conn p))" using ok by (simp add: pool_ok_def card_image)
  also have "po_conn p ` dom (po_conn p) = Some ` ran (po_conn p)" by (force simp: ran_def)
  also have "card (Some ` ran (po_conn p)) = card (ran (po_conn p))" by (simp add: card_image)
  also have "\<dots> \<le> card (po_open p)" using ok by (intro card_mono) (auto simp: pool_ok_def)
  finally have len: "int (length (snapshot (po_registry p))) \<le> m" using ok by (simp add: pool_ok_def)
  have "pi_closeConn e = po_conn p (pi_ID e) \<and> pi_cancel e = po_running p (pi_ID e) \<and> (pi_Command e = ''Sleep'' \<longleftrightarrow> po_running p (pi_ID e) = None)"
    if "e \<in> set (snapshot (po_registry p))" for e
  proof -
    from that obtain k where "(k, e) \<in> set (po_registry p)" by (auto simp: snapshot_def)
    with ok have "map_of (po_registry p) (pi_ID e) = Some e" by (auto simp: pool_ok_def registry_ok_def)
    with entries [of "pi_ID e"] show ?thesis by (simp add: entry_ok_def)
  qed
  with dom len show ?thesis by blast
qed

text \<open>
  A shutdown reaches every connection: the sockets of all registered connections are closed and all running
  queries are cancelled.
\<close>

theorem closeAll_reaches_all:
  assumes "(pool_step m)\<^sup>*\<^sup>* empty_pool p" and "0 \<le> m"
  shows "set (closeAll (po_registry p)) = CloseConn ` ran (po_conn p) \<union> CancelQuery ` ran (po_running p)"
proof -
  have ok: "pool_ok m p" by (rule pool_reachable_ok [OF assms])
  then have entries: "entry_ok p k" for k by (simp add: pool_ok_def)
  have member: "(k, e) \<in> set (po_registry p) \<longleftrightarrow> map_of (po_registry p) k = Some e" for k e
    using ok by (simp add: pool_ok_def registry_ok_def)
  have "set (closeAll (po_registry p)) = (\<Union>k. \<Union>e\<in>{e. map_of (po_registry p) k = Some e}.
      set (optional CancelQuery (pi_cancel e)) \<union> set (optional CloseConn (pi_closeConn e)))"
    using member by (fastforce simp: closeAll_def)
  also have "\<dots> = (\<Union>k. set (optional CancelQuery (po_running p k)) \<union> set (optional CloseConn (po_conn p k)))"
  proof (rule SUP_cong [OF refl])
    fix k
    show "(\<Union>e\<in>{e. map_of (po_registry p) k = Some e}. set (optional CancelQuery (pi_cancel e)) \<union> set (optional CloseConn (pi_closeConn e))) =
      set (optional CancelQuery (po_running p k)) \<union> set (optional CloseConn (po_conn p k))"
      using entries [of k] by (cases "map_of (po_registry p) k") (auto simp: entry_ok_def optional_def)
  qed
  also have "\<dots> = CloseConn ` ran (po_conn p) \<union> CancelQuery ` ran (po_running p)"
    by (simp only: UN_Un_distrib optional_ran Un_commute)
  finally show ?thesis .
qed

section \<open>Witnesses\<close>

text \<open>One connection, accepted, registered and executing a query.\<close>

definition demo_pool :: pool where
  "demo_pool = \<lparr> po_open = {3}, po_conn = [7 \<mapsto> 3], po_running = [7 \<mapsto> 1],
     po_registry = registry_begin (registry_add newProcessRegistry (connected_process 7 ''root'' (Some ''h:9'') 3)) 7 ''Query'' ''select 1'' 0 1 \<rparr>"

lemma demo_pool_reached: "(pool_step 10)\<^sup>*\<^sup>* empty_pool demo_pool"
proof -
  let ?a = "empty_pool\<lparr>po_open := {3}\<rparr>"
  let ?b = "?a\<lparr>po_conn := [7 \<mapsto> 3], po_registry := registry_add newProcessRegistry (connected_process 7 ''root'' (Some ''h:9'') 3)\<rparr>"
  have "pool_step 10 empty_pool ?a" using pool_step.accept [of empty_pool 10 3] by (simp add: empty_pool_def)
  moreover have "pool_step 10 ?a ?b"
    using pool_step.register [of 3 ?a 7 10 "''root''" "Some ''h:9''"] by (simp add: empty_pool_def)
  moreover have "pool_step 10 ?b demo_pool"
    using pool_step.start_query [where p = ?b and k = 7 and c = 1 and info = "''select 1''" and now = 0 and max_connections = 10] by (simp add: empty_pool_def demo_pool_def)
  ultimately show ?thesis by (meson converse_rtranclp_into_rtranclp rtranclp.rtrancl_refl)
qed

theorem registry_tracks_connections_witness:
  "length (snapshot (po_registry demo_pool)) \<le> 10 \<and> dom (map_of (po_registry demo_pool)) = {7}"
proof -
  have "dom (po_conn demo_pool) = {7}" by (simp add: demo_pool_def)
  with registry_tracks_connections [OF demo_pool_reached] show ?thesis by simp
qed

theorem closeAll_reaches_all_witness: "set (closeAll (po_registry demo_pool)) = {CloseConn 3, CancelQuery 1}"
proof -
  have "ran (po_conn demo_pool) = {3}" "ran (po_running demo_pool) = {1}" by (simp_all add: demo_pool_def)
  with closeAll_reaches_all [OF demo_pool_reached] show ?thesis by auto
qed

end
