(* ===== verification/Lifecycle.thy ===== *)
theory Lifecycle
  imports Connections
begin

text \<open>
  The life of the server process: \<^verbatim>\<open>Server.Run\<close> of \<^verbatim>\<open>protocol/server.go\<close>, \<^verbatim>\<open>Service.Run\<close> of \<^verbatim>\<open>observability/service.go\<close> and the end of \<^verbatim>\<open>main\<close> in
  \<^verbatim>\<open>cmd/goinception-plus/main.go\<close>, with the goroutines they start: the accept loop, the one that closes everything when the context ends, the
  HTTP server of the counters, and the connections of \<open>Connections\<close>. A step is one operation of one of them. Errors of the network and
  the passing of time are choices of the relation.
\<close>

section \<open>State\<close>

datatype closer = Watching | ListenerClosed | AllClosed

datatype server_run = ServerStarting | Accepting | Draining | ServerReturned "gerror option"

datatype observer_run = ObserverOff | ObserverStarting | ObserverServing | ObserverReturned "gerror option"

datatype main_run = MainWaiting | MainStopping gerror | Exited nat

text \<open>
  \<open>lf_dead\<close> are the sockets that the shutdown closed, \<open>lf_leaving\<close> the connections whose command was the last, \<open>lf_ctx\<close> says that the context has ended,
  \<open>lf_errs\<close> is the channel to \<^verbatim>\<open>main\<close>.
\<close>

record life =
  lf_pool :: pool
  lf_dead :: "nat set"
  lf_leaving :: "32 word set"
  lf_ctx :: bool
  lf_listening :: bool
  lf_closer :: closer
  lf_server :: server_run
  lf_ready :: bool
  lf_observer :: observer_run
  lf_errs :: "gerror option list"
  lf_main :: main_run

definition life_start :: "bool \<Rightarrow> life" where
  "life_start observed = \<lparr> lf_pool = empty_pool, lf_dead = {}, lf_leaving = {}, lf_ctx = False, lf_listening = False, lf_closer = Watching,
     lf_server = ServerStarting, lf_ready = False, lf_observer = (if observed then ObserverStarting else ObserverOff), lf_errs = [],
     lf_main = MainWaiting \<rparr>"

definition server_returns :: "gerror option \<Rightarrow> life \<Rightarrow> life" where
  "server_returns r s = s\<lparr>lf_server := ServerReturned r, lf_ready := False, lf_errs := lf_errs s @ [r]\<rparr>"

definition observer_returns :: "gerror option \<Rightarrow> life \<Rightarrow> life" where
  "observer_returns r s = s\<lparr>lf_observer := ObserverReturned r, lf_errs := lf_errs s @ [r]\<rparr>"

definition shutdown_timeout :: gerror where
  "shutdown_timeout = errorf ''shutdown timed out with active connections''"

text \<open>
  A connection moves as in \<open>Connections\<close>; but a new query needs a socket that is still open and a connection that has not seen the
  end of the context after its last command.
\<close>

definition may_query :: "life \<Rightarrow> pool \<Rightarrow> bool" where
  "may_query s p \<longleftrightarrow> (\<forall>k n. po_running (lf_pool s) k = None \<and> po_running p k \<noteq> None \<and> po_conn p k = Some n \<longrightarrow>
     k \<notin> lf_leaving s \<and> n \<notin> lf_dead s)"

definition serve :: "pool \<Rightarrow> life \<Rightarrow> life" where
  "serve p s = s\<lparr>lf_pool := p,
     lf_leaving := {k. po_conn p k \<noteq> None \<and> (k \<in> lf_leaving s \<or> lf_ctx s \<and> po_running (lf_pool s) k \<noteq> None \<and> po_running p k = None)}\<rparr>"

inductive life_step :: "int \<Rightarrow> life \<Rightarrow> life \<Rightarrow> bool" for max_connections where
  signal: "lf_main s = MainWaiting \<Longrightarrow> life_step max_connections s (s\<lparr>lf_ctx := True\<rparr>)"
| server_listens: "\<nexists>n. lf_main s = Exited n \<Longrightarrow> lf_server s = ServerStarting \<Longrightarrow>
    life_step max_connections s (s\<lparr>lf_server := Accepting, lf_listening := True, lf_ready := True\<rparr>)"
| server_refused: "\<nexists>n. lf_main s = Exited n \<Longrightarrow> lf_server s = ServerStarting \<Longrightarrow> life_step max_connections s (server_returns (Some e) s)"
| accept: "\<nexists>n. lf_main s = Exited n \<Longrightarrow> lf_server s = Accepting \<Longrightarrow> lf_listening s \<Longrightarrow>
    int (card (po_open (lf_pool s))) < max_connections \<Longrightarrow> n \<notin> po_open (lf_pool s) \<Longrightarrow> n \<notin> lf_dead s \<Longrightarrow>
    life_step max_connections s (s\<lparr>lf_pool := (lf_pool s)\<lparr>po_open := insert n (po_open (lf_pool s))\<rparr>\<rparr>)"
| accept_ends: "\<nexists>n. lf_main s = Exited n \<Longrightarrow> lf_server s = Accepting \<Longrightarrow> lf_ctx s \<Longrightarrow> life_step max_connections s (s\<lparr>lf_server := Draining\<rparr>)"
| accept_fails: "\<nexists>n. lf_main s = Exited n \<Longrightarrow> lf_server s = Accepting \<Longrightarrow> \<not> lf_ctx s \<Longrightarrow> life_step max_connections s (server_returns (Some e) s)"
| connection: "\<nexists>n. lf_main s = Exited n \<Longrightarrow> pool_step max_connections (lf_pool s) p \<Longrightarrow> po_open p \<subseteq> po_open (lf_pool s) \<Longrightarrow> may_query s p \<Longrightarrow>
    life_step max_connections s (serve p s)"
| close_listener: "\<nexists>n. lf_main s = Exited n \<Longrightarrow> lf_server s \<noteq> ServerStarting \<Longrightarrow> lf_ctx s \<Longrightarrow> lf_closer s = Watching \<Longrightarrow>
    life_step max_connections s (s\<lparr>lf_closer := ListenerClosed, lf_listening := False\<rparr>)"
| close_all: "\<nexists>n. lf_main s = Exited n \<Longrightarrow> lf_closer s = ListenerClosed \<Longrightarrow>
    life_step max_connections s (s\<lparr>lf_closer := AllClosed, lf_dead := lf_dead s \<union> {n. CloseConn n \<in> set (closeAll (po_registry (lf_pool s)))}\<rparr>)"
| drained: "\<nexists>n. lf_main s = Exited n \<Longrightarrow> lf_server s = Draining \<Longrightarrow> po_open (lf_pool s) = {} \<Longrightarrow> life_step max_connections s (server_returns None s)"
| drain_timeout: "\<nexists>n. lf_main s = Exited n \<Longrightarrow> lf_server s = Draining \<Longrightarrow> life_step max_connections s (server_returns (Some shutdown_timeout) s)"
| observer_listens: "\<nexists>n. lf_main s = Exited n \<Longrightarrow> lf_observer s = ObserverStarting \<Longrightarrow> life_step max_connections s (s\<lparr>lf_observer := ObserverServing\<rparr>)"
| observer_refused: "\<nexists>n. lf_main s = Exited n \<Longrightarrow> lf_observer s = ObserverStarting \<Longrightarrow> life_step max_connections s (observer_returns (Some e) s)"
| observer_closed: "\<nexists>n. lf_main s = Exited n \<Longrightarrow> lf_observer s = ObserverServing \<Longrightarrow> lf_ctx s \<Longrightarrow> life_step max_connections s (observer_returns None s)"
| observer_fails: "\<nexists>n. lf_main s = Exited n \<Longrightarrow> lf_observer s = ObserverServing \<Longrightarrow> life_step max_connections s (observer_returns (Some e) s)"
| main_returns: "lf_main s = MainWaiting \<Longrightarrow> lf_errs s = None # rest \<Longrightarrow> life_step max_connections s (s\<lparr>lf_main := Exited 0\<rparr>)"
| main_stops: "lf_main s = MainWaiting \<Longrightarrow> lf_errs s = Some e # rest \<Longrightarrow> lf_observer s \<noteq> ObserverOff \<Longrightarrow>
    life_step max_connections s (s\<lparr>lf_main := MainStopping e, lf_ctx := True\<rparr>)"
| main_fails: "lf_main s = MainWaiting \<Longrightarrow> lf_errs s = Some e # rest \<Longrightarrow> lf_observer s = ObserverOff \<Longrightarrow>
    life_step max_connections s (s\<lparr>lf_main := Exited 1\<rparr>)"
| main_exits: "lf_main s = MainStopping e \<Longrightarrow> life_step max_connections s (s\<lparr>lf_main := Exited 1\<rparr>)"

section \<open>The invariant\<close>

definition life_ok :: "int \<Rightarrow> life \<Rightarrow> bool" where
  "life_ok m s \<longleftrightarrow> pool_ok m (lf_pool s) \<and>
     (lf_ready s \<longleftrightarrow> lf_server s \<in> {Accepting, Draining}) \<and> (lf_server s = Draining \<longrightarrow> lf_ctx s) \<and>
     (lf_server s = ServerReturned None \<longrightarrow> lf_ctx s \<and> po_open (lf_pool s) = {}) \<and>
     (lf_observer s = ObserverReturned None \<longrightarrow> lf_ctx s) \<and>
     (None \<in> set (lf_errs s) \<longrightarrow> lf_server s = ServerReturned None \<or> lf_observer s = ObserverReturned None) \<and>
     (lf_closer s \<noteq> Watching \<longrightarrow> lf_ctx s \<and> \<not> lf_listening s \<and> lf_server s \<noteq> ServerStarting) \<and> (lf_main s = Exited 0 \<longrightarrow> None \<in> set (lf_errs s)) \<and>
     (\<forall>r. lf_server s = ServerReturned r \<longrightarrow> lf_errs s \<noteq> [])"

lemma life_start_ok: "0 \<le> m \<Longrightarrow> life_ok m (life_start observed)"
  by (simp add: life_ok_def life_start_def pool_ok_empty)

lemma life_step_ok: "life_step m s s' \<Longrightarrow> life_ok m s \<Longrightarrow> life_ok m s'"
proof (induction rule: life_step.induct)
  case (accept s n)
  from pool_ok_step [OF pool_step.accept [OF accept(4,5)]] accept show ?case by (simp add: life_ok_def)
next
  case (connection s p)
  then show ?case using pool_ok_step [OF connection(2)] by (auto simp: life_ok_def serve_def)
qed (auto simp: life_ok_def server_returns_def observer_returns_def)

lemma life_reachable_ok: "(life_step m)\<^sup>*\<^sup>* (life_start observed) s \<Longrightarrow> 0 \<le> m \<Longrightarrow> life_ok m s"
  by (induction rule: rtranclp_induct) (auto intro: life_start_ok life_step_ok)

lemma observer_off:
  "(life_step m)\<^sup>*\<^sup>* (life_start False) s \<Longrightarrow> lf_observer s = ObserverOff"
proof (induction rule: rtranclp_induct)
  case (step s t)
  from step(2,3) show ?case by cases (auto simp: server_returns_def serve_def)
qed (simp add: life_start_def)

section \<open>The end of the process\<close>

text \<open>
  C9. Without the observability port, a successful exit is a clean one: the process ends with status 0 only after a signal, when every
  connection is closed, no query runs, the registry is empty and the server no longer reports to be ready.
\<close>

theorem clean_exit:
  assumes "(life_step m)\<^sup>*\<^sup>* (life_start False) s" and "0 \<le> m" and "lf_main s = Exited 0"
  shows "lf_ctx s \<and> po_open (lf_pool s) = {} \<and> (\<forall>k. po_running (lf_pool s) k = None) \<and> po_registry (lf_pool s) = [] \<and> \<not> lf_ready s"
proof -
  have ok: "life_ok m s" by (rule life_reachable_ok [OF assms(1,2)])
  then have server: "lf_server s = ServerReturned None" using assms(3) observer_off [OF assms(1)] by (auto simp: life_ok_def)
  with ok have closed: "lf_ctx s" "po_open (lf_pool s) = {}" "\<not> lf_ready s" "pool_ok m (lf_pool s)" by (auto simp: life_ok_def)
  have conn: "po_conn (lf_pool s) k = None" for k
    using closed(2,4) by (cases "po_conn (lf_pool s) k") (auto simp: pool_ok_def ran_def)
  then have entries: "map_of (po_registry (lf_pool s)) k = None \<and> po_running (lf_pool s) k = None" for k
    using closed(4) by (fastforce simp: pool_ok_def entry_ok_def dest!: spec [of _ k] split: option.splits)
  have "po_registry (lf_pool s) = []"
  proof (cases "po_registry (lf_pool s)")
    case (Cons e r)
    with entries [of "fst e"] show ?thesis by (cases e) simp
  qed
  with closed entries show ?thesis by simp
qed

text \<open>The process can end with its connections as they are.\<close>

definition can_end :: "int \<Rightarrow> life \<Rightarrow> bool" where
  "can_end m s \<longleftrightarrow> (\<exists>t n. (life_step m)\<^sup>*\<^sup>* s t \<and> lf_pool t = lf_pool s \<and> lf_main t = Exited n)"

lemma can_end_step: "life_step m s t \<Longrightarrow> lf_pool t = lf_pool s \<Longrightarrow> can_end m t \<Longrightarrow> can_end m s"
  unfolding can_end_def by (metis converse_rtranclp_into_rtranclp)

lemma can_end_reported: "lf_main s = MainWaiting \<Longrightarrow> lf_errs s \<noteq> [] \<Longrightarrow> can_end m s"
proof -
  assume main: "lf_main s = MainWaiting" and "lf_errs s \<noteq> []"
  then obtain r rest where errs: "lf_errs s = r # rest" by (cases "lf_errs s") auto
  have exited: "can_end m (u\<lparr>lf_main := Exited n\<rparr>)" for u n unfolding can_end_def by auto
  show "can_end m s"
  proof (cases r)
    case None
    then show ?thesis using can_end_step [OF main_returns [OF main] _ exited] errs by simp
  next
    case (Some e)
    show ?thesis
    proof (cases "lf_observer s = ObserverOff")
      case True
      then show ?thesis using can_end_step [OF main_fails [OF main] _ exited] errs Some by simp
    next
      case False
      let ?t = "s\<lparr>lf_main := MainStopping e, lf_ctx := True\<rparr>"
      have "can_end m ?t" using can_end_step [OF main_exits [of ?t e m] _ exited] by simp
      then show ?thesis using can_end_step [OF main_stops [OF main _ False, of e rest m]] errs Some by simp
    qed
  qed
qed

lemma can_end_draining: "lf_main s = MainWaiting \<Longrightarrow> lf_server s = Draining \<Longrightarrow> can_end m s"
  by (rule can_end_step [OF drain_timeout]) (auto simp: server_returns_def intro: can_end_reported)

lemma can_end_accepting:
  assumes "lf_main s = MainWaiting" and "lf_server s = Accepting"
  shows "can_end m s"
proof (rule can_end_step [OF signal [OF assms(1)]])
  let ?t = "s\<lparr>lf_ctx := True\<rparr>"
  show "can_end m ?t"
    by (rule can_end_step [OF accept_ends]) (use assms in \<open>auto intro: can_end_draining\<close>)
qed simp


section \<open>Two races\<close>

text \<open>One connection: accepted, registered, running a query.\<close>

definition accepted_pool :: pool where
  "accepted_pool = empty_pool\<lparr>po_open := {3}\<rparr>"

definition registered_pool :: pool where
  "registered_pool = accepted_pool\<lparr>po_conn := [7 \<mapsto> 3], po_registry := registry_add newProcessRegistry (connected_process 7 ''root'' (Some ''h:9'') 3)\<rparr>"

lemma pool_run: "pool_step 10 accepted_pool registered_pool" "pool_step 10 registered_pool demo_pool"
proof -
  show "pool_step 10 accepted_pool registered_pool"
    using pool_step.register [of 3 accepted_pool 7 10 "''root''" "Some ''h:9''"] by (simp add: registered_pool_def accepted_pool_def empty_pool_def)
  show "pool_step 10 registered_pool demo_pool"
    using pool_step.start_query [where p = registered_pool and k = 7 and c = 1 and info = "''select 1''" and now = 0 and max_connections = 10]
    by (simp add: registered_pool_def accepted_pool_def empty_pool_def demo_pool_def)
qed

lemmas run_defs = life_start_def empty_pool_def accepted_pool_def registered_pool_def demo_pool_def serve_def may_query_def server_returns_def observer_returns_def

text \<open>The state of a server that has accepted the connection.\<close>

definition life_accepted :: "bool \<Rightarrow> life" where
  "life_accepted observed = (life_start observed)\<lparr>lf_pool := accepted_pool, lf_listening := True, lf_server := Accepting, lf_ready := True\<rparr>"

lemma life_accepted_reached: "(life_step 10)\<^sup>*\<^sup>* (life_start observed) (life_accepted observed)"
proof -
  let ?a = "(life_start observed)\<lparr>lf_server := Accepting, lf_listening := True, lf_ready := True\<rparr>"
  have "life_step 10 (life_start observed) ?a" by (rule server_listens) (simp_all add: life_start_def)
  moreover have "life_step 10 ?a (life_accepted observed)"
    using life_step.accept [of ?a 10 3] by (simp add: life_accepted_def life_start_def accepted_pool_def empty_pool_def)
  ultimately show ?thesis by (meson converse_rtranclp_into_rtranclp rtranclp.rtrancl_refl)
qed

text \<open>
  C40. With the observability port, a signal can end the process under a running query: the HTTP server of the counters returns first and without an error, and
  \<^verbatim>\<open>main\<close> takes the first of the two results. The process exits with status 0 and waits neither for the query nor for the shutdown timeout.
\<close>

theorem observed_exit_abrupt:
  "\<exists>s. (life_step 10)\<^sup>*\<^sup>* (life_start True) s \<and> lf_main s = Exited 0 \<and> lf_server s = Accepting \<and> po_running (lf_pool s) 7 \<noteq> None"
proof -
  let ?a = "life_accepted True"
  let ?b = "?a\<lparr>lf_observer := ObserverServing\<rparr>"
  let ?c = "serve registered_pool ?b" and ?d = "serve demo_pool (serve registered_pool ?b)"
  let ?e = "?d\<lparr>lf_ctx := True\<rparr>"
  have steps: "life_step 10 ?a ?b" "life_step 10 ?b ?c" "life_step 10 ?c ?d" "life_step 10 ?d ?e"
    "life_step 10 ?e (observer_returns None ?e)" "life_step 10 (observer_returns None ?e) ((observer_returns None ?e)\<lparr>lf_main := Exited 0\<rparr>)"
  proof -
    show "life_step 10 ?a ?b" by (rule observer_listens) (simp_all add: life_accepted_def life_start_def)
    show "life_step 10 ?b ?c" by (rule connection) (use pool_run(1) in \<open>simp_all add: life_accepted_def run_defs\<close>)
    show "life_step 10 ?c ?d" by (rule connection) (use pool_run(2) in \<open>auto simp: life_accepted_def run_defs\<close>)
    show "life_step 10 ?d ?e" by (rule signal) (simp add: life_accepted_def run_defs)
    show "life_step 10 ?e (observer_returns None ?e)" by (rule observer_closed) (simp_all add: life_accepted_def run_defs)
    show "life_step 10 (observer_returns None ?e) ((observer_returns None ?e)\<lparr>lf_main := Exited 0\<rparr>)"
      by (rule main_returns [where rest = "[]"]) (simp_all add: life_accepted_def run_defs)
  qed
  have "(life_step 10)\<^sup>*\<^sup>* ?a ((observer_returns None ?e)\<lparr>lf_main := Exited 0\<rparr>)"
    using steps by (meson converse_rtranclp_into_rtranclp rtranclp.rtrancl_refl)
  with life_accepted_reached [of True] have "(life_step 10)\<^sup>*\<^sup>* (life_start True) ((observer_returns None ?e)\<lparr>lf_main := Exited 0\<rparr>)"
    by (rule rtranclp_trans)
  then show ?thesis by (intro exI [of _ "(observer_returns None ?e)\<lparr>lf_main := Exited 0\<rparr>"]) (simp add: life_accepted_def run_defs)
qed

text \<open>
  A connection that is accepted before the shutdown and registered after \<^verbatim>\<open>closeAll\<close> keeps its socket: the server waits for it, with the listener closed and
  still reporting to be ready.
\<close>

theorem late_connection_survives:
  "\<exists>s. (life_step 10)\<^sup>*\<^sup>* (life_start observed) s \<and> lf_server s = Draining \<and> lf_closer s = AllClosed \<and> lf_ready s \<and> \<not> lf_listening s \<and>
     po_conn (lf_pool s) 7 = Some 3 \<and> 3 \<notin> lf_dead s \<and> 7 \<notin> lf_leaving s \<and> po_running (lf_pool s) 7 = None"
proof -
  let ?a = "life_accepted observed"
  let ?b = "?a\<lparr>lf_ctx := True\<rparr>"
  let ?c = "?b\<lparr>lf_closer := ListenerClosed, lf_listening := False\<rparr>"
  let ?d = "?c\<lparr>lf_closer := AllClosed, lf_dead := {}\<rparr>"
  let ?e = "?d\<lparr>lf_server := Draining\<rparr>"
  have steps: "life_step 10 ?a ?b" "life_step 10 ?b ?c" "life_step 10 ?c ?d" "life_step 10 ?d ?e" "life_step 10 ?e (serve registered_pool ?e)"
  proof -
    show "life_step 10 ?a ?b" by (rule signal) (simp add: life_accepted_def life_start_def)
    show "life_step 10 ?b ?c" by (rule close_listener) (simp_all add: life_accepted_def life_start_def)
    show "life_step 10 ?c ?d"
      using close_all [of ?c 10] by (simp add: life_accepted_def run_defs closeAll_def newProcessRegistry_def)
    show "life_step 10 ?d ?e" by (rule accept_ends) (simp_all add: life_accepted_def life_start_def)
    show "life_step 10 ?e (serve registered_pool ?e)" by (rule connection) (use pool_run(1) in \<open>simp_all add: life_accepted_def run_defs\<close>)
  qed
  have "(life_step 10)\<^sup>*\<^sup>* ?a (serve registered_pool ?e)"
    using steps by (meson converse_rtranclp_into_rtranclp rtranclp.rtrancl_refl)
  with life_accepted_reached [of observed] have "(life_step 10)\<^sup>*\<^sup>* (life_start observed) (serve registered_pool ?e)"
    by (rule rtranclp_trans)
  then show ?thesis by (intro exI [of _ "serve registered_pool ?e"]) (simp add: life_accepted_def run_defs)
qed

section \<open>Witnesses\<close>

lemma clean_run: "\<exists>s. (life_step 10)\<^sup>*\<^sup>* (life_start False) s \<and> lf_main s = Exited 0"
proof -
  let ?a = "(life_start False)\<lparr>lf_server := Accepting, lf_listening := True, lf_ready := True\<rparr>"
  let ?b = "?a\<lparr>lf_ctx := True\<rparr>"
  let ?c = "?b\<lparr>lf_server := Draining\<rparr>"
  have steps: "life_step 10 (life_start False) ?a" "life_step 10 ?a ?b" "life_step 10 ?b ?c" "life_step 10 ?c (server_returns None ?c)"
    "life_step 10 (server_returns None ?c) ((server_returns None ?c)\<lparr>lf_main := Exited 0\<rparr>)"
  proof -
    show "life_step 10 (life_start False) ?a" by (rule server_listens) (simp_all add: life_start_def)
    show "life_step 10 ?a ?b" by (rule signal) (simp add: life_start_def)
    show "life_step 10 ?b ?c" by (rule accept_ends) (simp_all add: life_start_def)
    show "life_step 10 ?c (server_returns None ?c)" by (rule drained) (simp_all add: life_start_def empty_pool_def)
    show "life_step 10 (server_returns None ?c) ((server_returns None ?c)\<lparr>lf_main := Exited 0\<rparr>)"
      by (rule main_returns [where rest = "[]"]) (simp_all add: run_defs)
  qed
  have "(life_step 10)\<^sup>*\<^sup>* (life_start False) ((server_returns None ?c)\<lparr>lf_main := Exited 0\<rparr>)"
    using steps by (meson converse_rtranclp_into_rtranclp rtranclp.rtrancl_refl)
  then show ?thesis by (intro exI [of _ "(server_returns None ?c)\<lparr>lf_main := Exited 0\<rparr>"]) simp
qed

theorem clean_exit_witness: "\<exists>s. (life_step 10)\<^sup>*\<^sup>* (life_start False) s \<and> lf_main s = Exited 0 \<and> po_registry (lf_pool s) = []"
proof -
  obtain s where s: "(life_step 10)\<^sup>*\<^sup>* (life_start False) s" "lf_main s = Exited 0" using clean_run by blast
  from clean_exit [OF s(1) _ s(2)] s show ?thesis by auto
qed


end
