(* ===== verification/SqlParser.thy ===== *)
theory SqlParser
  imports DataModel
begin

text \<open>
  The SQL parser adapter, \<^verbatim>\<open>internal/parser/parser.go\<close>: the projection of the syntax trees of the TiDB parser onto the
  statements of the data model. The parser itself is not part of the repository: \<^verbatim>\<open>GetSQLMode\<close> and \<^verbatim>\<open>ParseSQL\<close> are
  parameters of \<open>Parse\<close>, and the types of the first section hold exactly what the projection reads of a node: the fields
  it selects, whether a pointer is nil where it only compares with nil, the text (if any) that \<^verbatim>\<open>Restore\<close> writes, and the
  order in which \<^verbatim>\<open>Accept\<close> shows the nodes to a visitor.
\<close>

section \<open>What the projection reads of a syntax tree\<close>

text \<open>An expression that is printed: the outcome of \<^verbatim>\<open>Restore\<close> (\<^const>\<open>None\<close> for an error) and \<^verbatim>\<open>Text()\<close>.\<close>

record ast_text =
  tx_Restore :: "string option"
  tx_Text :: string

record ast_table_name =
  tn_Schema :: string
  tn_Name :: string

record ast_column_name =
  cn_Schema :: string
  cn_Table :: string
  cn_Name :: string

datatype mysql_type =
    TypeNull | TypeTiny | TypeShort | TypeInt24 | TypeLong | TypeLonglong | TypeYear | TypeFloat | TypeDouble
  | TypeNewDecimal | TypeDate | TypeNewDate | TypeDatetime | TypeTimestamp | TypeDuration | TypeJSON | TypeBit
  | TypeTinyBlob | TypeMediumBlob | TypeLongBlob | TypeBlob | TypeGeometry | TypeVarchar | TypeVarString | TypeString
  | TypeEnum | TypeSet | TypeUnlisted

text \<open>The type of a literal: its code and the three flags that are tested.\<close>

record ast_field_type =
  ft_Type :: mysql_type
  ft_IsBoolean :: bool
  ft_Unsigned :: bool
  ft_Binary :: bool

datatype unary_opcode = opcode_Plus | opcode_Minus | opcode_Other

text \<open>Expressions; a binary operation carries the text of \<^verbatim>\<open>Op.String()\<close>.\<close>

datatype ast_expr =
    ColumnNameExpr ast_column_name
  | ValueExpr "ast_field_type option"
  | UnaryOperationExpr unary_opcode ast_expr
  | BinaryOperationExpr string ast_expr ast_expr
  | OtherExpr

record ast_join =
  jn_Right :: bool
  jn_On :: bool
  jn_Using :: "ast_column_name list"
  jn_NaturalJoin :: bool

text \<open>A node as a visitor sees it. The source of a \<open>TableSource\<close> is given when it is a table name.\<close>

datatype ast_node =
    DeleteTableList
  | TableSource "ast_table_name option" string
  | TableName ast_table_name
  | Join ast_join
  | ExprNode ast_expr
  | OtherNode

datatype ast_visit = Visit ast_node "ast_visit list"

record ast_assignment =
  as_Column :: ast_column_name
  as_Expr :: ast_expr

text \<open>The DML statements. A \<^verbatim>\<open>WITH\<close> clause is the list of its names; a field is whether it is a wild card.\<close>

record ast_insert =
  in_Columns :: "ast_column_name list"
  in_Select :: bool
  in_OnDuplicate :: "ast_assignment list"
  in_Lists :: "ast_expr list list"

record ast_update =
  up_With :: "string list option"
  up_Where :: bool
  up_Limit :: bool
  up_Order :: bool
  up_MultipleTable :: bool
  up_List :: "ast_assignment list"

record ast_delete =
  de_With :: "string list option"
  de_Where :: bool
  de_Limit :: bool
  de_Order :: bool
  de_IsMultiTable :: bool

record ast_select =
  se_With :: "string list option"
  se_Where :: bool
  se_Limit :: bool
  se_OrderBy :: bool
  se_Fields :: "bool list"

datatype database_option_type = DatabaseOptionCharset | DatabaseOptionCollate | DatabaseOptionOther

record ast_database_option =
  do_Tp :: database_option_type
  do_Value :: string

datatype table_option_type =
  TableOptionComment | TableOptionEngine | TableOptionCharset | TableOptionCollate | TableOptionAutoIncrement | TableOptionOther

record ast_table_option =
  to_Tp :: table_option_type
  to_StrValue :: string
  to_UintValue :: "64 word"

datatype column_option_type =
    ColumnOptionPrimaryKey | ColumnOptionNotNull | ColumnOptionComment | ColumnOptionAutoIncrement
  | ColumnOptionDefaultValue | ColumnOptionOnUpdate | ColumnOptionGenerated | ColumnOptionOther

record ast_column_option =
  co_Tp :: column_option_type
  co_Expr :: "ast_text option"

record ast_column_def =
  cd_Name :: ast_column_name
  cd_Type :: string
  cd_Flen :: int
  cd_Charset :: string
  cd_Collate :: string
  cd_Text :: string
  cd_Options :: "ast_column_option list"

record ast_index_part =
  ip_Column :: "ast_column_name option"
  ip_Length :: int
  ip_Expr :: "ast_text option"

datatype constraint_type =
    ConstraintPrimaryKey | ConstraintUniq | ConstraintUniqKey | ConstraintUniqIndex | ConstraintKey | ConstraintIndex
  | ConstraintForeignKey | ConstraintOther

record ast_constraint =
  ct_Tp :: constraint_type
  ct_Name :: string
  ct_Keys :: "ast_index_part list"

record ast_create_table =
  ctb_Table :: ast_table_name
  ctb_ReferTable :: "ast_table_name option"
  ctb_Select :: bool
  ctb_IfNotExists :: bool
  ctb_Options :: "ast_table_option list"
  ctb_Partition :: bool
  ctb_Cols :: "ast_column_def list"
  ctb_Constraints :: "ast_constraint list"

datatype alter_table_type =
    AlterTableOption | AlterTableAddColumns | AlterTableDropColumn | AlterTableModifyColumn | AlterTableChangeColumn
  | AlterTableRenameColumn | AlterTableAddConstraint | AlterTableDropIndex | AlterTableDropPrimaryKey | AlterTableRenameIndex
  | AlterTableRenameTable | AlterTableOther

datatype column_position = ColumnPositionNone | ColumnPositionFirst | ColumnPositionAfter

record ast_alter_spec =
  al_Tp :: alter_table_type
  al_Options :: "ast_table_option list"
  al_NewColumns :: "ast_column_def list"
  al_Position :: "column_position option"
  al_Name :: string
  al_OldColumnName :: "ast_column_name option"
  al_NewColumnName :: "ast_column_name option"
  al_Constraint :: "ast_constraint option"
  al_FromKey :: string
  al_ToKey :: string
  al_NewTable :: "ast_table_name option"

datatype index_key_type =
  IndexKeyTypeNone | IndexKeyTypeUnique | IndexKeyTypeSpatial | IndexKeyTypeFullText | IndexKeyTypeVector | IndexKeyTypeOther

text \<open>The statement types of the type switches, with the fields they read.\<close>

datatype stmt_node =
    UseStmt string
  | CreateDatabaseStmt string bool "ast_database_option list"
  | AlterDatabaseStmt string "ast_database_option list"
  | DropDatabaseStmt string bool
  | CreateTableStmt ast_create_table
  | CreateViewStmt ast_table_name
  | AlterTableStmt ast_table_name "ast_alter_spec list"
  | DropTableStmt bool bool "ast_table_name list"
  | RenameTableStmt "(ast_table_name \<times> ast_table_name) list"
  | TruncateTableStmt ast_table_name
  | CreateIndexStmt ast_table_name string index_key_type "ast_index_part list"
  | DropIndexStmt ast_table_name string bool
  | InsertStmt ast_insert
  | UpdateStmt ast_update
  | DeleteStmt ast_delete
  | SelectStmt ast_select
  | OtherStmt

record ast_stmt =
  an_Stmt :: stmt_node
  an_OriginTextPosition :: int
  an_OriginalText :: string
  an_Text :: ast_text
  an_Visit :: ast_visit

text \<open>What the TiDB parser returns for a text: its statements and its warnings.\<close>

record tidb_parser =
  td_GetSQLMode :: "string \<Rightarrow> gerror + 64 word"
  td_ParseSQL :: "64 word \<Rightarrow> string \<Rightarrow> gerror + ast_stmt list \<times> string list"

section \<open>Names and printed text\<close>

definition restore_text :: "ast_text \<Rightarrow> string" where
  "restore_text t = (case tx_Restore t of None \<Rightarrow> tx_Text t | Some s \<Rightarrow> s)"

definition restoreExpr :: "ast_text option \<Rightarrow> string" where
  "restoreExpr e = (case e of None \<Rightarrow> [] | Some t \<Rightarrow> restore_text t)"

definition restore :: "ast_stmt \<Rightarrow> string" where
  "restore n = restore_text (an_Text n)"

definition tableRef :: "ast_table_name \<Rightarrow> table_ref" where
  "tableRef t = \<lparr> tr_Schema = tn_Schema t, tr_Name = tn_Name t, tr_Alias = [] \<rparr>"

definition column_ref_of :: "ast_column_name \<Rightarrow> column_ref" where
  "column_ref_of c = \<lparr> cr_Schema = cn_Schema c, cr_Table = cn_Table c, cr_Name = cn_Name c \<rparr>"

section \<open>DML: literals and comparisons\<close>

definition isConstantExpr :: "ast_expr \<Rightarrow> bool" where
  "isConstantExpr e = (case e of ValueExpr _ \<Rightarrow> True | _ \<Rightarrow> False)"

definition projectLiteralKind :: "ast_field_type option \<Rightarrow> literal_kind" where
  "projectLiteralKind typeInfo = (case typeInfo of None \<Rightarrow> LiteralUnknown
     | Some t \<Rightarrow> if ft_IsBoolean t then LiteralBoolean
       else if ft_Type t = TypeNull then LiteralNull
       else if ft_Type t \<in> {TypeTiny, TypeShort, TypeInt24, TypeLong, TypeLonglong, TypeYear}
       then (if ft_Unsigned t then LiteralUnsignedInteger else LiteralSignedInteger)
       else if ft_Type t \<in> {TypeFloat, TypeDouble} then LiteralFloat
       else if ft_Type t = TypeNewDecimal then LiteralDecimal
       else if ft_Type t \<in> {TypeDate, TypeNewDate, TypeDatetime, TypeTimestamp} then LiteralTemporal
       else if ft_Type t = TypeDuration then LiteralDuration
       else if ft_Type t = TypeJSON then LiteralJSON
       else if ft_Type t \<in> {TypeBit, TypeTinyBlob, TypeMediumBlob, TypeLongBlob, TypeBlob, TypeGeometry} then LiteralBinary
       else if ft_Type t \<in> {TypeVarchar, TypeVarString, TypeString, TypeEnum, TypeSet}
       then (if ft_Binary t then LiteralBinary else LiteralString)
       else LiteralUnknown)"

definition projectLiteralExpr :: "ast_expr \<Rightarrow> literal_kind option" where
  "projectLiteralExpr e = (case e of
       ValueExpr t \<Rightarrow> Some (projectLiteralKind t)
     | UnaryOperationExpr u v \<Rightarrow>
         if u \<noteq> opcode_Plus \<and> u \<noteq> opcode_Minus then None
         else (case v of
             ValueExpr t \<Rightarrow> let kind = projectLiteralKind t in
               Some (if u = opcode_Minus \<and> kind = LiteralUnsignedInteger then LiteralSignedInteger else kind)
           | _ \<Rightarrow> None)
     | _ \<Rightarrow> None)"

definition projectComparison :: "ast_expr \<Rightarrow> ast_expr \<Rightarrow> comparison_spec option" where
  "projectComparison left right = (case left of
       ColumnNameExpr c \<Rightarrow> (case projectLiteralExpr right of
           None \<Rightarrow> None
         | Some kind \<Rightarrow> Some \<lparr> cmp_Column = column_ref_of c, cmp_LiteralKind = kind \<rparr>)
     | _ \<Rightarrow> None)"

section \<open>DML: the table collector\<close>

text \<open>\<^verbatim>\<open>tableCollector\<close>, without \<^verbatim>\<open>orderByRand\<close>, which nothing sets. The set of CTE names is an argument: no visit changes it.\<close>

record tableCollector =
  tc_tables :: "table_ref list"
  tc_joinWithoutOn :: bool
  tc_wrongAnd :: bool
  tc_comparisons :: "comparison_spec list"

definition new_collector :: tableCollector where
  "new_collector = \<lparr> tc_tables = [], tc_joinWithoutOn = False, tc_wrongAnd = False, tc_comparisons = [] \<rparr>"

definition same_table :: "table_ref \<Rightarrow> table_ref \<Rightarrow> bool" where
  "same_table a b \<longleftrightarrow> strings_EqualFold (tr_Schema a) (tr_Schema b) \<and> strings_EqualFold (tr_Name a) (tr_Name b) \<and>
     strings_EqualFold (tr_Alias a) (tr_Alias b)"

definition addTable :: "table_ref \<Rightarrow> tableCollector \<Rightarrow> tableCollector" where
  "addTable r v = (if \<exists>e\<in>set (tc_tables v). same_table e r then v else v\<lparr>tc_tables := tc_tables v @ [r]\<rparr>)"

definition cteNames :: "stmt_node \<Rightarrow> string list" where
  "cteNames n = (case (case n of UpdateStmt u \<Rightarrow> up_With u | DeleteStmt d \<Rightarrow> de_With d | SelectStmt s \<Rightarrow> se_With s | _ \<Rightarrow> None) of
     None \<Rightarrow> [] | Some ctes \<Rightarrow> map strings_ToLower ctes)"

definition comparison_ops :: "string list" where
  "comparison_ops = [''='', ''!='', ''<>'', ''<'', ''>'', ''<='', ''>='', ''eq'', ''ne'', ''lt'', ''gt'', ''le'', ''ge'']"

definition enter_binary :: "string \<Rightarrow> ast_expr \<Rightarrow> ast_expr \<Rightarrow> tableCollector \<Rightarrow> tableCollector" where
  "enter_binary opname l r v =
     (let op = strings_ToLower opname;
          v = (if op = ''and'' \<and> (isConstantExpr l \<or> isConstantExpr r) then v\<lparr>tc_wrongAnd := True\<rparr> else v) in
      if op \<in> set comparison_ops
      then (case projectComparison l r of
          Some c \<Rightarrow> v\<lparr>tc_comparisons := tc_comparisons v @ [c]\<rparr>
        | None \<Rightarrow> (case projectComparison r l of
            Some c \<Rightarrow> v\<lparr>tc_comparisons := tc_comparisons v @ [c]\<rparr>
          | None \<Rightarrow> v))
      else v)"

text \<open>\<^verbatim>\<open>Enter\<close>: the new state and whether the children are skipped.\<close>

definition Enter :: "string list \<Rightarrow> ast_node \<Rightarrow> tableCollector \<Rightarrow> tableCollector \<times> bool" where
  "Enter ctes n v = (case n of
       DeleteTableList \<Rightarrow> (v, True)
     | TableSource (Some t) as_name \<Rightarrow>
         (if strings_ToLower (tn_Name t) \<notin> set ctes then addTable ((tableRef t)\<lparr>tr_Alias := as_name\<rparr>) v else v, True)
     | TableSource None _ \<Rightarrow> (v, False)
     | TableName t \<Rightarrow> (if strings_ToLower (tn_Name t) \<notin> set ctes then addTable (tableRef t) v else v, False)
     | Join j \<Rightarrow>
         (if jn_Right j \<and> \<not> jn_On j \<and> jn_Using j = [] \<and> \<not> jn_NaturalJoin j then v\<lparr>tc_joinWithoutOn := True\<rparr> else v, False)
     | ExprNode (BinaryOperationExpr op l r) \<Rightarrow> (enter_binary op l r v, False)
     | ExprNode _ \<Rightarrow> (v, False)
     | OtherNode \<Rightarrow> (v, False))"

text \<open>\<^verbatim>\<open>node.Accept(v)\<close> with this visitor, whose \<^verbatim>\<open>Leave\<close> always goes on.\<close>

fun Accept :: "string list \<Rightarrow> ast_visit \<Rightarrow> tableCollector \<Rightarrow> tableCollector" where
  "Accept ctes (Visit n children) v =
     (case Enter ctes n v of (v', skipChildren) \<Rightarrow> if skipChildren then v' else fold (Accept ctes) children v')"

section \<open>DML: the projection\<close>

definition is_and :: "ast_expr \<Rightarrow> bool" where
  "is_and e = (case e of BinaryOperationExpr op _ _ \<Rightarrow> strings_EqualFold op ''and'' | _ \<Rightarrow> False)"

definition project_assignment :: "ast_assignment \<Rightarrow> dml_spec \<Rightarrow> dml_spec" where
  "project_assignment a s = s\<lparr>m_Columns := m_Columns s @ [cn_Name (as_Column a)],
     m_Assignments := m_Assignments s @ [column_ref_of (as_Column a)], m_WrongAndExpr := m_WrongAndExpr s \<or> is_and (as_Expr a)\<rparr>"

definition order_by_rand :: "ast_stmt \<Rightarrow> bool" where
  "order_by_rand n = strings_Contains (strings_ReplaceAll (strings_ToLower (restore n)) CHR '' '' []) ''orderbyrand(''"

definition projectDML :: "ast_stmt \<Rightarrow> dml_spec option" where
  "projectDML n =
     (let v = Accept (cteNames (an_Stmt n)) (an_Visit n) new_collector;
          s = zero_dml_spec\<lparr>m_Tables := tc_tables v, m_FullyProjected := True, m_HasJoinWithoutOn := tc_joinWithoutOn v,
                m_OrderByRand := False, m_WrongAndExpr := tc_wrongAnd v, m_Comparisons := tc_comparisons v\<rparr>;
          done = (\<lambda>s. Some (s\<lparr>m_OrderByRand := order_by_rand n\<rparr>)) in
      case an_Stmt n of
        InsertStmt i \<Rightarrow> done (s\<lparr>m_Columns := map cn_Name (in_Columns i), m_InsertSelect := in_Select i,
            m_OnDuplicate := in_OnDuplicate i \<noteq> [], m_ValueRows := int (length (in_Lists i))\<rparr>)
      | UpdateStmt u \<Rightarrow> done (fold project_assignment (up_List u)
            (s\<lparr>m_UsesCTE := up_With u \<noteq> None, m_HasWhere := up_Where u, m_HasLimit := up_Limit u, m_HasOrderBy := up_Order u,
               m_MultiTable := up_MultipleTable u\<rparr>))
      | DeleteStmt d \<Rightarrow> done (s\<lparr>m_UsesCTE := de_With d \<noteq> None, m_HasWhere := de_Where d, m_HasLimit := de_Limit d,
            m_HasOrderBy := de_Order d, m_MultiTable := de_IsMultiTable d\<rparr>)
      | SelectStmt q \<Rightarrow> done (s\<lparr>m_UsesCTE := se_With q \<noteq> None, m_HasWhere := se_Where q, m_HasLimit := se_Limit q,
            m_HasOrderBy := se_OrderBy q, m_HasSelectStar := True \<in> set (se_Fields q)\<rparr>)
      | _ \<Rightarrow> None)"

section \<open>DDL: columns and indexes\<close>

definition column_option :: "ast_column_option \<Rightarrow> column_spec \<Rightarrow> column_spec" where
  "column_option o' v = (case co_Tp o' of
       ColumnOptionPrimaryKey \<Rightarrow> v\<lparr>c_PrimaryKey := True\<rparr>
     | ColumnOptionNotNull \<Rightarrow> v\<lparr>c_Nullable := False\<rparr>
     | ColumnOptionComment \<Rightarrow> v\<lparr>c_HasComment := True\<rparr>
     | ColumnOptionAutoIncrement \<Rightarrow> v\<lparr>c_AutoIncrement := True\<rparr>
     | ColumnOptionDefaultValue \<Rightarrow> v\<lparr>c_HasDefault := True, c_DefaultExpression := restoreExpr (co_Expr o')\<rparr>
     | ColumnOptionOnUpdate \<Rightarrow> v\<lparr>c_OnUpdate := True\<rparr>
     | ColumnOptionGenerated \<Rightarrow> v\<lparr>c_Generated := True\<rparr>
     | ColumnOptionOther \<Rightarrow> v)"

definition projectColumn :: "ast_column_def \<Rightarrow> column_spec" where
  "projectColumn c =
     (let columnText = strings_ToLower (cd_Text c);
          v = fold column_option (cd_Options c)
            (zero_column_spec\<lparr>c_Name := cn_Name (cd_Name c), c_Type := cd_Type c, c_Nullable := True, c_Length := cd_Flen c,
               c_CharacterSet := cd_Charset c, c_Collation := cd_Collate c,
               c_ExplicitCharset := cd_Charset c \<noteq> [] \<or> cd_Collate c \<noteq> [] \<or> strings_Contains columnText ''character set'' \<or>
                 strings_Contains columnText '' collate ''\<rparr>) in
      v\<lparr>c_Unsigned := strings_Contains (strings_ToLower (c_Type v)) ''unsigned''\<rparr>)"

definition add_key :: "ast_index_part \<Rightarrow> index_spec \<Rightarrow> index_spec" where
  "add_key k i = (case ip_Column k of
       Some c \<Rightarrow> i\<lparr>i_Columns := i_Columns i @ [cn_Name c], i_PrefixLengths := i_PrefixLengths i @ [ip_Length k]\<rparr>
     | None \<Rightarrow> i\<lparr>i_Expressions := i_Expressions i @ [restoreExpr (ip_Expr k)]\<rparr>)"

definition projectIndex :: "string \<Rightarrow> bool \<Rightarrow> ast_index_part list \<Rightarrow> index_spec" where
  "projectIndex name unique parts = fold add_key parts (zero_index_spec\<lparr>i_Name := name, i_Unique := unique\<rparr>)"

text \<open>\<^verbatim>\<open>projectConstraint\<close>: \<^const>\<open>None\<close> for a constraint that is not an index.\<close>

definition projectConstraint :: "ast_constraint \<Rightarrow> index_spec option" where
  "projectConstraint c =
     (let i = zero_index_spec\<lparr>i_Name := ct_Name c\<rparr>;
          keys = (\<lambda>i. Some (fold add_key (ct_Keys c) i)) in
      case ct_Tp c of
        ConstraintPrimaryKey \<Rightarrow>
          keys (i\<lparr>i_Name := (if i_Name i = [] then ''PRIMARY'' else i_Name i), i_Primary := True, i_Unique := True\<rparr>)
      | ConstraintUniq \<Rightarrow> keys (i\<lparr>i_Unique := True\<rparr>)
      | ConstraintUniqKey \<Rightarrow> keys (i\<lparr>i_Unique := True\<rparr>)
      | ConstraintUniqIndex \<Rightarrow> keys (i\<lparr>i_Unique := True\<rparr>)
      | ConstraintKey \<Rightarrow> keys i
      | ConstraintIndex \<Rightarrow> keys i
      | ConstraintForeignKey \<Rightarrow> None
      | ConstraintOther \<Rightarrow> None)"

section \<open>DDL: databases and tables\<close>

definition database_option :: "ast_database_option \<Rightarrow> ddl_spec \<Rightarrow> ddl_spec" where
  "database_option o' d = (case do_Tp o' of
       DatabaseOptionCharset \<Rightarrow> d\<lparr>d_CharacterSet := do_Value o', d_HasCharsetOption := True\<rparr>
     | DatabaseOptionCollate \<Rightarrow> d\<lparr>d_Collation := do_Value o', d_HasCollationOption := True\<rparr>
     | DatabaseOptionOther \<Rightarrow> d)"

definition projectDatabaseOptions :: "ddl_spec \<Rightarrow> ast_database_option list \<Rightarrow> ddl_spec" where
  "projectDatabaseOptions d options = fold database_option options d"

definition alter_table_option :: "ast_table_option \<Rightarrow> ddl_spec \<Rightarrow> ddl_spec" where
  "alter_table_option o' s = (case to_Tp o' of
       TableOptionEngine \<Rightarrow> s\<lparr>d_Engine := to_StrValue o', d_HasEngineOption := True\<rparr>
     | TableOptionCharset \<Rightarrow> s\<lparr>d_CharacterSet := to_StrValue o', d_HasCharsetOption := True\<rparr>
     | TableOptionCollate \<Rightarrow> s\<lparr>d_Collation := to_StrValue o', d_HasCollationOption := True\<rparr>
     | TableOptionAutoIncrement \<Rightarrow> s\<lparr>d_AutoIncrementValue := to_UintValue o'\<rparr>
     | _ \<Rightarrow> s)"

definition create_table_option :: "ast_table_option \<Rightarrow> ddl_spec \<Rightarrow> ddl_spec" where
  "create_table_option o' s = (case to_Tp o' of
       TableOptionComment \<Rightarrow> s\<lparr>d_HasComment := to_StrValue o' \<noteq> []\<rparr>
     | _ \<Rightarrow> alter_table_option o' s)"

definition create_column :: "ast_column_def \<Rightarrow> ddl_spec \<Rightarrow> ddl_spec" where
  "create_column c s = (let item = projectColumn c in
     s\<lparr>d_HasPrimaryKey := d_HasPrimaryKey s \<or> c_PrimaryKey item, d_Columns := d_Columns s @ [item]\<rparr>)"

definition create_constraint :: "ast_constraint \<Rightarrow> ddl_spec \<Rightarrow> ddl_spec" where
  "create_constraint c s =
     (let index = zero_index_spec\<lparr>i_Name := ct_Name c\<rparr>;
          append = (\<lambda>s index. s\<lparr>d_Indexes := d_Indexes s @ [fold add_key (ct_Keys c) index]\<rparr>) in
      case ct_Tp c of
        ConstraintPrimaryKey \<Rightarrow> append (s\<lparr>d_HasPrimaryKey := True\<rparr>)
          (index\<lparr>i_Name := (if i_Name index = [] then ''PRIMARY'' else i_Name index), i_Primary := True, i_Unique := True\<rparr>)
      | ConstraintUniq \<Rightarrow> append s (index\<lparr>i_Unique := True\<rparr>)
      | ConstraintUniqKey \<Rightarrow> append s (index\<lparr>i_Unique := True\<rparr>)
      | ConstraintUniqIndex \<Rightarrow> append s (index\<lparr>i_Unique := True\<rparr>)
      | ConstraintKey \<Rightarrow> append s index
      | ConstraintIndex \<Rightarrow> append s index
      | ConstraintForeignKey \<Rightarrow> s\<lparr>d_HasForeignKey := True\<rparr>
      | ConstraintOther \<Rightarrow> s)"

definition column_primary :: "column_spec \<Rightarrow> index_spec" where
  "column_primary c = zero_index_spec\<lparr>i_Name := ''PRIMARY'', i_Columns := [c_Name c], i_Primary := True, i_Unique := True\<rparr>"

definition add_column_primary :: "ddl_spec \<Rightarrow> ddl_spec" where
  "add_column_primary s =
     (if list_ex i_Primary (d_Indexes s) then s
      else s\<lparr>d_Indexes := d_Indexes s @ map column_primary (filter c_PrimaryKey (d_Columns s))\<rparr>)"

definition projectCreateTable :: "ast_create_table \<Rightarrow> ddl_spec" where
  "projectCreateTable create =
     (let spec = (zero_ddl_spec DDLCreateTable)\<lparr>d_Schema := tn_Schema (ctb_Table create), d_Table := tn_Name (ctb_Table create),
            d_FullyProjected := \<not> ctb_Select create, d_IfNotExists := ctb_IfNotExists create\<rparr>;
          spec = (case ctb_ReferTable create of None \<Rightarrow> spec
            | Some r \<Rightarrow> spec\<lparr>d_Reference := Some (tableRef r), d_CreateLike := True\<rparr>);
          spec = (if ctb_Select create then spec\<lparr>d_CreateSelect := True, d_FullyProjected := False\<rparr> else spec);
          spec = fold create_table_option (ctb_Options create) spec;
          spec = spec\<lparr>d_Partitioned := ctb_Partition create\<rparr>;
          spec = fold create_column (ctb_Cols create) spec;
          spec = fold create_constraint (ctb_Constraints create) spec in
      add_column_primary spec)"

section \<open>DDL: ALTER TABLE\<close>

definition alter_column :: "ast_alter_spec \<Rightarrow> ast_column_def \<Rightarrow> column_spec" where
  "alter_column a c = (projectColumn c)\<lparr>c_PositionChanged :=
     (case al_Position a of None \<Rightarrow> False | Some tp \<Rightarrow> tp \<noteq> ColumnPositionNone)\<rparr>"

definition new_operation :: "alter_action \<Rightarrow> alter_operation" where
  "new_operation action = \<lparr> op_Action = action, op_Name = [], op_NewName = [], op_Columns = [], op_Index = None, op_NewTable = None \<rparr>"

definition column_name_or :: "ast_column_name option \<Rightarrow> string" where
  "column_name_or c = (case c of None \<Rightarrow> [] | Some c \<Rightarrow> cn_Name c)"

text \<open>One specification of the loop: appended, or skipped with \<^verbatim>\<open>FullyProjected\<close> cleared.\<close>

definition alter_specification :: "ast_alter_spec \<Rightarrow> ddl_spec \<Rightarrow> ddl_spec" where
  "alter_specification a s =
     (let append = (\<lambda>op s. s\<lparr>d_AlterOperations := d_AlterOperations s @ [op]\<rparr>);
          skip = s\<lparr>d_FullyProjected := False\<rparr>;
          columns = map (alter_column a) (al_NewColumns a) in
      case al_Tp a of
        AlterTableOption \<Rightarrow> append (new_operation AlterTableOptions) (fold alter_table_option (al_Options a) s)
      | AlterTableAddColumns \<Rightarrow> append ((new_operation AlterAddColumns)\<lparr>op_Columns := columns\<rparr>) s
      | AlterTableDropColumn \<Rightarrow> append ((new_operation AlterDropColumn)\<lparr>op_Name := al_Name a\<rparr>) s
      | AlterTableModifyColumn \<Rightarrow> append ((new_operation AlterModifyColumn)\<lparr>op_Columns := columns\<rparr>) s
      | AlterTableChangeColumn \<Rightarrow>
          append ((new_operation AlterChangeColumn)\<lparr>op_Name := column_name_or (al_OldColumnName a), op_Columns := columns\<rparr>) s
      | AlterTableRenameColumn \<Rightarrow> append ((new_operation AlterRenameColumn)\<lparr>op_Name := column_name_or (al_OldColumnName a),
            op_NewName := column_name_or (al_NewColumnName a)\<rparr>) s
      | AlterTableAddConstraint \<Rightarrow> (case al_Constraint a of
            None \<Rightarrow> skip
          | Some c \<Rightarrow> (case projectConstraint c of
              None \<Rightarrow> skip
            | Some idx \<Rightarrow> append ((new_operation AlterAddIndex)\<lparr>op_Index := Some idx\<rparr>) s))
      | AlterTableDropIndex \<Rightarrow> append ((new_operation AlterDropIndex)\<lparr>op_Name := al_Name a\<rparr>) s
      | AlterTableDropPrimaryKey \<Rightarrow> append ((new_operation AlterDropPrimaryKey)\<lparr>op_Name := ''PRIMARY''\<rparr>) s
      | AlterTableRenameIndex \<Rightarrow>
          append ((new_operation AlterRenameIndex)\<lparr>op_Name := al_FromKey a, op_NewName := al_ToKey a\<rparr>) s
      | AlterTableRenameTable \<Rightarrow> (case al_NewTable a of
            None \<Rightarrow> skip
          | Some t \<Rightarrow> append ((new_operation AlterRenameTable)\<lparr>op_NewTable := Some (tableRef t)\<rparr>) s)
      | AlterTableOther \<Rightarrow> skip)"

definition table_spec :: "ddl_action \<Rightarrow> ast_table_name \<Rightarrow> ddl_spec" where
  "table_spec action t = (zero_ddl_spec action)\<lparr>d_Schema := tn_Schema t, d_Table := tn_Name t, d_Tables := [tableRef t],
     d_FullyProjected := True\<rparr>"

definition projectAlterTable :: "ast_table_name \<Rightarrow> ast_alter_spec list \<Rightarrow> ddl_spec" where
  "projectAlterTable t specs = fold alter_specification specs (table_spec DDLAlterTable t)"

section \<open>Statements\<close>

definition projectDDL :: "stmt_node \<Rightarrow> ddl_spec option" where
  "projectDDL n = (case n of
       CreateDatabaseStmt name ifNotExists options \<Rightarrow> Some (projectDatabaseOptions
         ((zero_ddl_spec DDLCreateDatabase)\<lparr>d_Schema := name, d_FullyProjected := True, d_IfNotExists := ifNotExists\<rparr>) options)
     | AlterDatabaseStmt name options \<Rightarrow> Some (projectDatabaseOptions
         ((zero_ddl_spec DDLAlterDatabase)\<lparr>d_Schema := name, d_FullyProjected := options \<noteq> []\<rparr>) options)
     | DropDatabaseStmt name ifExists \<Rightarrow>
         Some ((zero_ddl_spec DDLDropDatabase)\<lparr>d_Schema := name, d_FullyProjected := True, d_IfExists := ifExists\<rparr>)
     | CreateTableStmt create \<Rightarrow> Some (projectCreateTable create)
     | CreateViewStmt t \<Rightarrow> Some (table_spec DDLCreateView t)
     | AlterTableStmt t specs \<Rightarrow> Some (projectAlterTable t specs)
     | DropTableStmt isView ifExists tables \<Rightarrow> Some ((zero_ddl_spec (if isView then DDLDropView else DDLDropTable))
         \<lparr>d_FullyProjected := True, d_IfExists := ifExists, d_Tables := map tableRef tables\<rparr>)
     | RenameTableStmt pairs \<Rightarrow> Some ((zero_ddl_spec DDLRenameTable)\<lparr>d_FullyProjected := True,
         d_RenamePairs := map (\<lambda>(a, b). \<lparr> rp_From = tableRef a, rp_To = tableRef b \<rparr>) pairs\<rparr>)
     | TruncateTableStmt t \<Rightarrow> Some (table_spec DDLTruncateTable t)
     | CreateIndexStmt t name keyType parts \<Rightarrow> Some ((table_spec DDLCreateIndex t)
         \<lparr>d_Indexes := [projectIndex name (keyType = IndexKeyTypeUnique) parts],
          d_FullyProjected := keyType \<noteq> IndexKeyTypeSpatial \<and> keyType \<noteq> IndexKeyTypeFullText \<and> keyType \<noteq> IndexKeyTypeVector\<rparr>)
     | DropIndexStmt t name isHypo \<Rightarrow> Some ((table_spec DDLDropIndex t)
         \<lparr>d_Indexes := [zero_index_spec\<lparr>i_Name := name\<rparr>], d_FullyProjected := \<not> isHypo\<rparr>)
     | _ \<Rightarrow> None)"

definition classify :: "stmt_node \<Rightarrow> statement_kind" where
  "classify n = (case n of
       UseStmt _ \<Rightarrow> StatementUse
     | CreateDatabaseStmt _ _ _ \<Rightarrow> StatementCreateDatabase
     | AlterDatabaseStmt _ _ \<Rightarrow> StatementAlterDatabase
     | DropDatabaseStmt _ _ \<Rightarrow> StatementDropDatabase
     | CreateTableStmt _ \<Rightarrow> StatementCreateTable
     | CreateViewStmt _ \<Rightarrow> StatementCreateView
     | AlterTableStmt _ _ \<Rightarrow> StatementAlterTable
     | DropTableStmt isView _ _ \<Rightarrow> if isView then StatementDropView else StatementDropTable
     | RenameTableStmt _ \<Rightarrow> StatementRenameTable
     | TruncateTableStmt _ \<Rightarrow> StatementTruncateTable
     | CreateIndexStmt _ _ _ _ \<Rightarrow> StatementCreateIndex
     | DropIndexStmt _ _ _ \<Rightarrow> StatementDropIndex
     | InsertStmt _ \<Rightarrow> StatementInsert
     | UpdateStmt _ \<Rightarrow> StatementUpdate
     | DeleteStmt _ \<Rightarrow> StatementDelete
     | SelectStmt _ \<Rightarrow> StatementSelect
     | OtherStmt \<Rightarrow> StatementUnknown)"

definition isSupported :: "statement \<Rightarrow> bool" where
  "isSupported s =
     (if s_Kind s \<in> {StatementUse, StatementInsert, StatementUpdate, StatementDelete, StatementSelect}
      then s_Kind s = StatementUse \<or> (case s_DML s of None \<Rightarrow> False | Some m \<Rightarrow> m_FullyProjected m)
      else if s_Kind s \<in> {StatementCreateDatabase, StatementAlterDatabase, StatementDropDatabase, StatementCreateTable,
        StatementAlterTable, StatementDropTable, StatementRenameTable, StatementTruncateTable, StatementCreateIndex,
        StatementDropIndex, StatementCreateView, StatementDropView}
      then (case s_DDL s of None \<Rightarrow> False | Some d \<Rightarrow> d_FullyProjected d)
      else False)"

definition project_statement :: "nat \<Rightarrow> ast_stmt \<Rightarrow> statement" where
  "project_statement i node =
     (let start = an_OriginTextPosition node;
          statement = (zero_statement (classify (an_Stmt node)))\<lparr>s_Sequence := int i + 1, s_Original := an_OriginalText node,
            s_Normalized := restore node, s_StartOffset := start, s_EndOffset := start + int (length (an_OriginalText node)),
            s_DDL := projectDDL (an_Stmt node), s_DML := projectDML node,
            s_Database := (case an_Stmt node of UseStmt db \<Rightarrow> db | _ \<Rightarrow> [])\<rparr> in
      statement\<lparr>s_Supported := isSupported statement\<rparr>)"

definition Parse :: "tidb_parser \<Rightarrow> string \<Rightarrow> string \<Rightarrow> gerror + parse_result" where
  "Parse tidb sql sqlMode = (case td_GetSQLMode tidb sqlMode of
       Inl err \<Rightarrow> Inl (wrapf (''invalid sql_mode '' @ strconv_Quote sqlMode @ '': '') err)
     | Inr mode \<Rightarrow> (case td_ParseSQL tidb mode sql of
         Inl err \<Rightarrow> Inl (wrapf ''TiDB 8.5 parser does not support the SQL: '' err)
       | Inr (nodes, warnings) \<Rightarrow>
           Inr \<lparr> pr_Statements = map (\<lambda>(i, node). project_statement i node) (enumerate 0 nodes), pr_Warnings = warnings \<rparr>))"

end
