(* ===== verification/SessionFacts.thy ===== *)
theory SessionFacts
  imports Session
begin

text \<open>
  Lemmas and properties of \<^const>\<open>Audit\<close>: what a record says of its statement, when anything is
  executed, which statements are never executed, and how execution results are merged.
\<close>

section \<open>Levels of records\<close>

lemma fold_max_level:
  "fold (\<lambda>i l. if iss_Level i > l then iss_Level i else l) issues (l0 :: severity) =
     fold max (map iss_Level issues) l0"
  by (induction issues arbitrary: l0) (auto simp: max_def)

lemma fold_max_ge: "(l :: severity) \<le> fold max ls l \<and> (\<forall>x\<in>set ls. x \<le> fold max ls l)"
proof (induction ls arbitrary: l)
  case (Cons x ls)
  have "max x l \<le> fold max ls (max x l)" "\<forall>y\<in>set ls. y \<le> fold max ls (max x l)"
    using Cons.IH [of "max x l"] by auto
  then show ?case by auto
qed simp

lemma fold_max_in: "fold max ls (l :: severity) \<in> insert l (set ls)"
proof (induction ls arbitrary: l)
  case (Cons x ls)
  from Cons.IH [of "max x l"] show ?case by (auto simp: max_def split: if_splits)
qed simp

lemma max_level_ge: "i \<in> set issues \<Longrightarrow> iss_Level i \<le> max_level issues"
  using fold_max_ge [of "SeverityNone" "map iss_Level issues"] by (auto simp: max_level_def fold_max_level)

lemma max_level_attained: "max_level issues = SeverityNone \<or> (\<exists>i\<in>set issues. max_level issues = iss_Level i)"
  using fold_max_in [of "map iss_Level issues" SeverityNone] by (auto simp: max_level_def fold_max_level)

lemma makeRecord_simps [simp]:
  "rec_Sequence (makeRecord s issues) = s_Sequence s" "rec_SQL (makeRecord s issues) = s_Original s"
  "rec_Issues (makeRecord s issues) = issues" "rec_ErrorLevel (makeRecord s issues) = max_level issues"
  "rec_Stage (makeRecord s issues) = ''CHECKED''"
  by (simp_all add: makeRecord_def Let_def zero_audit_record_def)

section \<open>One statement\<close>

text \<open>
  No level above Error: what the comparison of the gate with Error relies on. The policy has it when
  its configured levels do.
\<close>

definition bounded :: "audit_issue list \<Rightarrow> bool" where
  "bounded issues \<longleftrightarrow> (\<forall>i\<in>set issues. iss_Level i \<le> SeverityError)"

definition policy_bounded :: "policy \<Rightarrow> bool" where
  "policy_bounded pol \<longleftrightarrow> (\<forall>code level. p_RuleLevels pol code = Some level \<longrightarrow> level \<le> SeverityError)"

lemma bounded_simps [simp]:
  "bounded []" "bounded (i # is) \<longleftrightarrow> iss_Level i \<le> SeverityError \<and> bounded is" "bounded (xs @ ys) \<longleftrightarrow> bounded xs \<and> bounded ys"
  by (auto simp: bounded_def)

lemma newIssue_level [simp]: "iss_Level (newIssue code n msg) = SeverityError"
  by (simp add: newIssue_def)

lemma policy_bounded_Level: "policy_bounded pol \<Longrightarrow> Level pol code \<le> SeverityError"
  by (auto simp: policy_bounded_def Level_def catalog_levels split: option.split)

lemma engine_bounded: "policy_bounded (a_Policy a) \<Longrightarrow> bounded (fst (Engine_Check program_rules a s))"
  using program.engine_issue_ok [of _ a s] policy_bounded_Level unfolding bounded_def issue_ok_def
  by (metis order_refl)

lemma max_level_bounded: "bounded issues \<Longrightarrow> max_level issues \<le> SeverityError"
  using max_level_attained [of issues] by (auto simp: bounded_def)

lemma error_level: "bounded issues \<Longrightarrow> i \<in> set issues \<Longrightarrow> iss_Level i = SeverityError \<Longrightarrow> max_level issues = SeverityError"
  using max_level_bounded [of issues] max_level_ge [of i issues] by simp

lemma resolve_keeps [simp]:
  "s_Sequence (resolveStatementDatabase s db) = s_Sequence s" "s_Original (resolveStatementDatabase s db) = s_Original s"
  "s_Kind (resolveStatementDatabase s db) = s_Kind s" "s_Supported (resolveStatementDatabase s db) = s_Supported s"
  by (simp_all add: resolveStatementDatabase_def Let_def)

text \<open>What the loop keeps of a statement: everything but the database and the projections' details.\<close>

definition same_statement :: "statement \<Rightarrow> statement \<Rightarrow> bool" where
  "same_statement s s' \<longleftrightarrow> s_Sequence s' = s_Sequence s \<and> s_Original s' = s_Original s \<and> s_Kind s' = s_Kind s \<and>
     s_Supported s' = s_Supported s \<and> map_option d_Action (s_DDL s') = map_option d_Action (s_DDL s) \<and>
     map_option m_HasWhere (s_DML s') = map_option m_HasWhere (s_DML s)"

lemma same_statement_refl [simp]: "same_statement s s"
  by (simp add: same_statement_def)

lemma same_statement_trans: "same_statement s t \<Longrightarrow> same_statement t u \<Longrightarrow> same_statement s u"
  by (simp add: same_statement_def)

lemma select_database_same: "select_database s a = (issues, s', a') \<Longrightarrow>
    same_statement s s' \<and> a_Policy a' = a_Policy a \<and> bounded issues"
  by (auto simp: select_database_def same_statement_def resolveStatementDatabase_def resolve_ddl_def Let_def
      option.map_comp comp_def split: if_splits prod.splits sum.splits)

lemma check_grants_none [simp]: "check_grants pol execute s issues lp = (issues, lp)"
  by (simp add: check_grants_def cache_GrantChecker_def)

lemma estimate_rows_same: "estimate_rows pol a s issues = (issues', s') \<Longrightarrow>
    same_statement s s' \<and> (bounded issues \<longrightarrow> bounded issues')"
  by (auto simp: estimate_rows_def set_estimate_def same_statement_def option.map_comp comp_def
      split: option.splits if_splits sum.splits)

lemma prepare_create_action: "prepare_create d p = Returns (err, d', p') \<Longrightarrow> d_Action d' = d_Action d"
  by (auto simp: prepare_create_def deriveFlags_def Let_def split: prod.splits sum.splits if_splits option.splits)

lemma PrepareDDL_action:
  "PrepareDDL spec p = Returns (err, spec', p') \<Longrightarrow> map_option d_Action spec' = map_option d_Action spec"
  by (auto simp: PrepareDDL_def Let_def split: option.splits if_splits outcome.splits prod.splits
      dest: prepare_create_action)

lemma prepare_statement_same: "prepare_statement s issues p = Returns (issues', s', p') \<Longrightarrow>
    same_statement s s' \<and> (bounded issues \<longrightarrow> bounded issues')"
  by (auto simp: prepare_statement_def same_statement_def split: if_splits outcome.splits option.split
      dest!: PrepareDDL_action)

lemma finish_statement_record:
  "finish_statement s issues a = (r, a') \<Longrightarrow>
   \<exists>more. r = makeRecord s (issues @ more) \<and> bounded more \<and> a_Policy a' = a_Policy a"
proof -
  assume "finish_statement s issues a = (r, a')"
  then have "r = makeRecord s (issues @ []) \<and> a_Policy a' = a_Policy a \<or>
      (\<exists>e. r = makeRecord s (issues @ [e]) \<and> bounded [e] \<and> a_Policy a' = a_Policy a)"
    by (auto simp: finish_statement_def Let_def split: if_splits prod.splits option.splits)
  then show ?thesis using bounded_simps(1) by blast
qed

lemma parser_warnings_bounded [simp]: "bounded (parser_warnings s warnings)"
  by (auto simp: bounded_def parser_warnings_def levelIssue_def word_le_nat_alt)

text \<open>The record is the audit record of the statement.\<close>

definition record_of :: "statement \<Rightarrow> audit_record \<Rightarrow> bool" where
  "record_of s r \<longleftrightarrow> rec_Sequence r = s_Sequence s \<and> rec_SQL r = s_Original s \<and> rec_Stage r = ''CHECKED'' \<and>
     rec_ErrorLevel r = max_level (rec_Issues r)"

text \<open>
  The engine found the issues of \<open>r\<close> under the policy \<open>pol\<close>, on a statement like \<open>s\<close>, and no issue
  is above Error unless the policy is.
\<close>

definition engine_saw :: "policy \<Rightarrow> statement \<Rightarrow> audit_record \<Rightarrow> bool" where
  "engine_saw pol s r \<longleftrightarrow> (\<exists>a u. a_Policy a = pol \<and> same_statement s u \<and>
     set (fst (Engine_Check program_rules a u)) \<subseteq> set (rec_Issues r) \<and>
     (policy_bounded pol \<longrightarrow> bounded (rec_Issues r)))"

text \<open>
  One iteration: the record belongs to the statement and contains what the engine found on a
  statement that differs from it only in database and projection details.
\<close>

lemma audit_statement_run:
  assumes "audit_statement program_rules pol execute warnings s lp = Returns (r, s', lp')"
  shows "record_of s r \<and> same_statement s s' \<and> a_Policy (lp_ctx lp') = a_Policy (lp_ctx lp) \<and>
    engine_saw (a_Policy (lp_ctx lp)) s r"
proof -
  obtain i0 s0 a0 where sel: "select_database s (lp_ctx lp) = (i0, s0, a0)" by (metis prod_cases3)
  obtain i2 s2 where est: "estimate_rows pol a0 s0 i0 = (i2, s2)" by (metis surj_pair)
  from assms sel est obtain i3 s3 p3 where
    prep: "prepare_statement s2 i2 (a_Metadata a0) = Returns (i3, s3, p3)"
    by (cases "prepare_statement s2 i2 (a_Metadata a0)") (auto simp: audit_statement_def)
  let ?a = "a0\<lparr>a_Metadata := p3\<rparr>"
  obtain found a4 where eng: "Engine_Check program_rules ?a s3 = (found, a4)" by (metis surj_pair)
  let ?issues = "i3 @ found @ parser_warnings s3 warnings"
  obtain a5 where fin: "finish_statement s3 ?issues a4 = (r, a5)" and s': "s' = s\<lparr>s_DDL := s_DDL s3, s_DML := s_DML s3\<rparr>"
    and lp': "lp_ctx lp' = a5"
    using assms sel est prep eng by (auto simp: audit_statement_def split: prod.splits)
  note sel' = select_database_same [OF sel] and est' = estimate_rows_same [OF est] and prep' = prepare_statement_same [OF prep]
  have same: "same_statement s s3" using sel' est' prep' by (blast intro: same_statement_trans)
  obtain more where rec: "r = makeRecord s3 (?issues @ more)" "bounded more" and "a_Policy a5 = a_Policy a4"
    using finish_statement_record [OF fin] by blast
  moreover have "a_Policy a4 = a_Policy (lp_ctx lp)"
    using program.engine_context [of ?a s3] eng sel' by (simp add: context_step_def)
  moreover have "record_of s r" using same rec by (simp add: record_of_def same_statement_def)
  moreover have "engine_saw (a_Policy (lp_ctx lp)) s r" unfolding engine_saw_def
  proof (intro exI conjI impI)
    show "a_Policy ?a = a_Policy (lp_ctx lp)" using sel' by simp
    show "same_statement s s3" by (rule same)
    show "set (fst (Engine_Check program_rules ?a s3)) \<subseteq> set (rec_Issues r)" using eng rec by auto
    show "bounded (rec_Issues r)" if "policy_bounded (a_Policy (lp_ctx lp))"
      using engine_bounded [of ?a s3] eng rec sel' est' prep' that by auto
  qed
  ultimately show ?thesis using same lp' s' by (simp add: same_statement_def)
qed

section \<open>The whole request\<close>

lemma audit_statements_run:
  "audit_statements program_rules pol execute warnings ss lp = Returns (records, ss', lp') \<Longrightarrow>
   list_all2 (\<lambda>s r. record_of s r \<and> engine_saw (a_Policy (lp_ctx lp)) s r) ss records \<and> list_all2 same_statement ss ss'"
proof (induction ss arbitrary: lp records ss')
  case (Cons s ss)
  from Cons.prems obtain r s1 lp1 where
    step: "audit_statement program_rules pol execute warnings s lp = Returns (r, s1, lp1)"
    by (cases "audit_statement program_rules pol execute warnings s lp") auto
  with Cons.prems obtain rs ss1 where
    rest: "audit_statements program_rules pol execute warnings ss lp1 = Returns (rs, ss1, lp')"
    and out: "records = r # rs" "ss' = s1 # ss1"
    by (cases "audit_statements program_rules pol execute warnings ss lp1") auto
  from Cons.IH [OF rest] audit_statement_run [OF step] out show ?case by simp
qed simp

text \<open>The run of the audit loop inside \<^const>\<open>Audit\<close>.\<close>

definition audited :: "'w session \<Rightarrow> string \<Rightarrow> 'w \<Rightarrow> request_options \<Rightarrow> parse_result \<Rightarrow> audit_record list \<Rightarrow> bool" where
  "audited ses input w opts parsed records \<longleftrightarrow>
     (\<exists>env opn source server stmts lp. ParseLegacyEnvelope input = Inr env \<and> ses_openMetadata ses = Some opn \<and>
        opn (opt_Target (env_Options env)) w = Inr (source, server) \<and> supportedMySQLVersion (srv_Version server) \<and>
        opts = effective_options (env_Options env) server (session_policy ses) \<and>
        ses_parser ses (env_SQL env) (tgt_SQLMode (opt_Target opts)) = Inr parsed \<and>
        audit_statements (ses_engine ses) (session_policy ses) (opt_Execute opts) (pr_Warnings parsed)
          (pr_Statements parsed) (initial_state opts source server (session_policy ses)) = Returns (records, stmts, lp))"

lemma execute_phase_world:
  "execute_phase ses opts records stmts w = (out, w') \<Longrightarrow> w' \<noteq> w \<Longrightarrow>
   opt_Execute opts \<and> \<not> list_ex (blocks opts) records"
  by (auto simp: execute_phase_def split: if_splits option.splits sum.splits)

lemma Audit_world:
  assumes "snd (Audit ses input w) \<noteq> w"
  shows "\<exists>opts parsed records. audited ses input w opts parsed records \<and> opt_Execute opts \<and>
    \<not> list_ex (blocks opts) records"
proof -
  obtain env where env: "ParseLegacyEnvelope input = Inr env"
    using assms by (cases "ParseLegacyEnvelope input") (auto simp: Audit_def)
  obtain opn where opn: "ses_openMetadata ses = Some opn"
    using assms env by (cases "ses_openMetadata ses") (auto simp: Audit_def)
  obtain source server where src: "opn (opt_Target (env_Options env)) w = Inr (source, server)"
    using assms env opn by (cases "opn (opt_Target (env_Options env)) w") (auto simp: Audit_def)
  have sup: "supportedMySQLVersion (srv_Version server)"
    using assms env opn src by (auto simp: Audit_def split: if_splits)
  let ?opts = "effective_options (env_Options env) server (session_policy ses)"
  obtain parsed where parse: "ses_parser ses (env_SQL env) (tgt_SQLMode (opt_Target ?opts)) = Inr parsed"
    using assms env opn src sup
    by (cases "ses_parser ses (env_SQL env) (tgt_SQLMode (opt_Target ?opts))") (simp_all add: Audit_def Let_def)
  let ?run = "audit_statements (ses_engine ses) (session_policy ses) (opt_Execute ?opts) (pr_Warnings parsed)
    (pr_Statements parsed) (initial_state ?opts source server (session_policy ses))"
  obtain x where "?run = Returns x"
    using assms env opn src sup parse by (cases ?run) (simp_all add: Audit_def Let_def)
  then obtain records stmts lp where run: "?run = Returns (records, stmts, lp)" by (metis prod_cases3)
  have "snd (execute_phase ses ?opts records stmts w) \<noteq> w"
    using assms env opn src sup parse run by (simp add: Audit_def Let_def)
  then have "opt_Execute ?opts \<and> \<not> list_ex (blocks ?opts) records"
    using execute_phase_world [of ses ?opts records stmts w] by (metis prod.collapse)
  moreover have "audited ses input w ?opts parsed records"
    unfolding audited_def using env opn src sup parse run by blast
  ultimately show ?thesis by blast
qed

lemma initial_state_policy [simp]: "a_Policy (lp_ctx (initial_state opts source server pol)) = pol"
  by (simp add: initial_state_def)

lemma audited_run:
  assumes "audited ses input w opts parsed records" and "ses_engine ses = program_rules"
  shows "list_all2 (\<lambda>s r. record_of s r \<and> engine_saw (session_policy ses) s r) (pr_Statements parsed) records"
  using assms audit_statements_run unfolding audited_def by fastforce

text \<open>An Error that the engine finds on a statement, whatever the context, blocks the execution.\<close>

lemma engine_error_blocks:
  assumes "snd (Audit ses input w) \<noteq> w" and "ses_engine ses = program_rules" and "policy_bounded (session_policy ses)"
  shows "\<exists>opts parsed records. audited ses input w opts parsed records \<and>
    (\<forall>s\<in>set (pr_Statements parsed). \<exists>a u. a_Policy a = session_policy ses \<and> same_statement s u \<and>
       (\<forall>i\<in>set (fst (Engine_Check program_rules a u)). iss_Level i \<noteq> SeverityError))"
proof -
  obtain opts parsed records where run: "audited ses input w opts parsed records"
    and clear: "\<not> list_ex (blocks opts) records" using Audit_world [OF assms(1)] by blast
  have "\<exists>a u. a_Policy a = session_policy ses \<and> same_statement s u \<and>
       (\<forall>i\<in>set (fst (Engine_Check program_rules a u)). iss_Level i \<noteq> SeverityError)"
    if s: "s \<in> set (pr_Statements parsed)" for s
  proof -
    obtain k where k: "k < length (pr_Statements parsed)" "pr_Statements parsed ! k = s"
      using s by (auto simp: in_set_conv_nth)
    let ?r = "records ! k"
    note all2 = audited_run [OF run assms(2)]
    have r: "?r \<in> set records" "record_of s ?r" "engine_saw (session_policy ses) s ?r"
      using list_all2_nthD [OF all2 k(1)] k list_all2_lengthD [OF all2] by simp_all
    from clear r(1) have "rec_ErrorLevel ?r \<noteq> SeverityError" by (auto simp: blocks_def list_ex_iff)
    moreover from r(3) assms(3) obtain a u where au: "a_Policy a = session_policy ses" "same_statement s u"
      "set (fst (Engine_Check program_rules a u)) \<subseteq> set (rec_Issues ?r)" "bounded (rec_Issues ?r)"
      by (auto simp: engine_saw_def)
    ultimately have "\<forall>i\<in>set (fst (Engine_Check program_rules a u)). iss_Level i \<noteq> SeverityError"
      using r(2) error_level [OF au(4)] by (auto simp: record_of_def)
    with au show ?thesis by blast
  qed
  with run show ?thesis by blast
qed

section \<open>Merging the execution results\<close>

lemma failed_record_keeps [simp]:
  "rec_SQL (failed_record x r) = rec_SQL r" "rec_Sequence (failed_record x r) = rec_Sequence r"
  "rec_ErrorLevel (failed_record x r) = SeverityError"
  by (simp_all add: failed_record_def Let_def appendBackupError_def appendExecutionError_def)

lemma result_record_keeps [simp]:
  "rec_SQL (success_record x r) = rec_SQL r" "rec_Sequence (success_record x r) = rec_Sequence r"
  "rec_SQL (copy_result x r) = rec_SQL r" "rec_Sequence (copy_result x r) = rec_Sequence r"
  by (simp_all add: success_record_def copy_result_def)

lemma map_update_id: "i < length xs \<Longrightarrow> f y = f (xs ! i) \<Longrightarrow> map f (xs[i := y]) = map f xs"
  by (rule map_update_same)

lemma merge_results_keeps:
  "map rec_SQL (merge_results xs rs) = map rec_SQL rs \<and> map rec_Sequence (merge_results xs rs) = map rec_Sequence rs"
proof (induction xs rs rule: merge_results.induct)
  case (2 x xs rs)
  then show ?case by (auto simp: Let_def map_update_same)
qed simp

lemma execute_phase_keeps:
  "execute_phase ses opts rs stmts w = (Returns out, w') \<Longrightarrow>
   map rec_SQL out = map rec_SQL rs \<and> map rec_Sequence out = map rec_Sequence rs"
  by (auto simp: execute_phase_def fail_first_def appendExecutionError_def merge_results_keeps
      split: if_splits option.splits sum.splits list.splits prod.splits outcome.splits)

text \<open>The successful results before the first failure, and that failure if there is one.\<close>

lemma merge_results_untouched:
  "k < length rs \<Longrightarrow> \<forall>x\<in>set xs. res_Sequence x \<noteq> int k + 1 \<Longrightarrow> merge_results xs rs ! k = rs ! k"
proof (induction xs rs rule: merge_results.induct)
  case (2 x xs rs)
  then have "nat (res_Sequence x - 1) \<noteq> k" if "res_Sequence x \<ge> 1" using that by auto
  with 2 show ?case by (auto simp: Let_def)
qed simp

lemma merge_results_append:
  "\<forall>x\<in>set xs. res_Error x = [] \<Longrightarrow> merge_results (xs @ ys) rs = merge_results ys (merge_results xs rs)"
  by (induction xs rs rule: merge_results.induct) (auto simp: Let_def)

section \<open>Properties\<close>

text \<open>
  C2. Nothing is executed behind the audit's back: if a request changes the target or the backup
  database at all, its envelope asked for execution, the whole request was audited, no record was
  an Error, and no record was a Warning unless the request ignores warnings.
\<close>

theorem execution_gated:
  assumes "snd (Audit ses input w) \<noteq> w"
  shows "\<exists>opts parsed records. audited ses input w opts parsed records \<and> opt_Execute opts \<and>
    (\<forall>r\<in>set records. rec_ErrorLevel r \<noteq> SeverityError \<and>
       (rec_ErrorLevel r = SeverityWarning \<longrightarrow> opt_IgnoreWarnings opts))"
proof -
  obtain opts parsed records where "audited ses input w opts parsed records" "opt_Execute opts"
    "\<not> list_ex (blocks opts) records" using Audit_world [OF assms] by blast
  then show ?thesis by (auto simp: list_ex_iff blocks_def)
qed

lemma audited_unique:
  "audited ses input w opts parsed rs \<Longrightarrow> audited ses input w opts' parsed' rs' \<Longrightarrow>
   opts' = opts \<and> parsed' = parsed \<and> rs' = rs"
  by (auto simp: audited_def)

lemma audited_Audit:
  "audited ses input w opts parsed rs \<Longrightarrow> \<exists>stmts. Audit ses input w = execute_phase ses opts rs stmts w"
  by (auto simp: audited_def Audit_def Let_def)

text \<open>
  The answer has one record per parsed statement, in order, with the statement's number and text,
  whether the request is only audited or also executed.
\<close>

theorem Audit_one_record_per_statement:
  assumes "ses_engine ses = program_rules" and "audited ses input w opts parsed records"
    and "Audit ses input w = (Returns out, w')"
  shows "map rec_SQL out = map s_Original (pr_Statements parsed) \<and>
    map rec_Sequence out = map s_Sequence (pr_Statements parsed)"
proof -
  obtain stmts where "execute_phase ses opts records stmts w = (Returns out, w')"
    using audited_Audit [OF assms(2)] assms(3) by auto
  then have "map rec_SQL out = map rec_SQL records" "map rec_Sequence out = map rec_Sequence records"
    by (auto dest: execute_phase_keeps)
  moreover have "map rec_SQL records = map s_Original (pr_Statements parsed)"
    "map rec_Sequence records = map s_Sequence (pr_Statements parsed)"
    using audited_run [OF assms(2,1)] by (induction rule: list_all2_induct) (simp_all add: record_of_def)
  ultimately show ?thesis by simp
qed

text \<open>
  Execution results are merged fail-stop: with successful results \<open>ok\<close> followed by a failed one,
  the record of the failed statement becomes an Error, and a record that no successful result and
  no failure names keeps its audit outcome, whatever results would follow.
\<close>

theorem merge_results_fail_stop:
  assumes "\<forall>y\<in>set ok. res_Error y = [] \<and> res_Sequence y \<noteq> res_Sequence x" and "res_Error x \<noteq> []"
    and "1 \<le> res_Sequence x" and "res_Sequence x \<le> int (length rs)"
  shows "rec_ErrorLevel (merge_results (ok @ x # later) rs ! nat (res_Sequence x - 1)) = SeverityError \<and>
    merge_results (ok @ x # later) rs = merge_results (ok @ [x]) rs \<and>
    (\<forall>k<length rs. (\<forall>y\<in>set ok. res_Sequence y \<noteq> int k + 1) \<and> res_Sequence x \<noteq> int k + 1 \<longrightarrow>
       merge_results (ok @ x # later) rs ! k = rs ! k)"
proof -
  let ?i = "nat (res_Sequence x - 1)" and ?rs = "merge_results ok rs"
  have len: "length ?rs = length rs" using merge_results_keeps [of ok rs] by (metis length_map)
  have split: "merge_results (ok @ x # ys) rs = ?rs[?i := failed_record x (copy_result x (?rs ! ?i))]" for ys
    using merge_results_append [of ok "x # ys" rs] assms by (simp add: Let_def len)
  have "?i < length ?rs" using assms(3,4) len by auto
  moreover have "res_Sequence x \<noteq> int k + 1 \<Longrightarrow> ?i \<noteq> k" for k using assms(3) by auto
  ultimately show ?thesis using merge_results_untouched [of _ rs ok] by (auto simp: split)
qed

section \<open>The contract of an executor\<close>

text \<open>
  What the session expects of an executor: one result per statement of a prefix of the request, in
  order, all but the last executed without an error.
\<close>

definition prefix_results :: "statement list \<Rightarrow> execution_result list \<Rightarrow> bool" where
  "prefix_results ss rs \<longleftrightarrow> length rs \<le> length ss \<and> map res_Sequence rs = map s_Sequence (take (length rs) ss) \<and>
     (\<forall>r\<in>set (butlast rs). res_Executed r \<and> res_Error r = [])"

text \<open>The numbering of the SQL parser: the statements count from 1.\<close>

definition numbered :: "statement list \<Rightarrow> bool" where
  "numbered ss \<longleftrightarrow> map s_Sequence ss = map int [1..<Suc (length ss)]"

definition merged :: "execution_result \<Rightarrow> audit_record \<Rightarrow> audit_record" where
  "merged x r = (if res_Error x \<noteq> [] then failed_record x (copy_result x r) else success_record x (copy_result x r))"

lemma merge_numbered:
  assumes "map res_Sequence rs = map int [Suc n..<Suc (n + length rs)]" and "n + length rs \<le> length recs"
    and "\<forall>r\<in>set (butlast rs). res_Error r = []" and "k < length recs"
  shows "merge_results rs recs ! k = (if n \<le> k \<and> k < n + length rs then merged (rs ! (k - n)) (recs ! k) else recs ! k)"
  using assms
proof (induction rs arbitrary: n recs)
  case (Cons x xs)
  from Cons.prems(1) have x: "res_Sequence x = int n + 1" and
    xs: "map res_Sequence xs = map int [Suc (Suc n)..<Suc (Suc n + length xs)]"
    by (simp_all add: upt_conv_Cons del: upt_Suc)
  let ?recs = "recs[n := success_record x (copy_result x (recs ! n))]"
  have n: "n < length recs" using Cons.prems(2) by simp
  show ?case
  proof (cases "res_Error x = []")
    case True
    have "\<forall>r\<in>set (butlast xs). res_Error r = []" using Cons.prems(3) by (cases xs) auto
    with Cons.IH [OF xs] Cons.prems(2,4) have
      "merge_results xs ?recs ! k = (if Suc n \<le> k \<and> k < Suc n + length xs then merged (xs ! (k - Suc n)) (?recs ! k) else ?recs ! k)"
      by simp
    moreover have "merge_results (x # xs) recs = merge_results xs ?recs" using x n True by (simp add: Let_def)
    ultimately show ?thesis using True n by (auto simp: merged_def nth_Cons' Suc_le_eq)
  next
    case False
    then have "xs = []" using Cons.prems(3) by (cases xs) auto
    with False x n show ?thesis by (auto simp: merged_def Let_def nth_list_update)
  qed
qed auto

lemma merged_success:
  "res_Error x = [] \<Longrightarrow> rec_StageStatus (merged x r) \<in> {''ExecuteSuccessfully'', ''BackupSuccessfully''}"
  by (simp add: merged_def success_record_def)

locale prefix_executor =
  fixes exec :: "'w executor"
  assumes results: "exec opts ss w = (Returns rs, w') \<Longrightarrow> numbered ss \<Longrightarrow> ss \<noteq> [] \<Longrightarrow> prefix_results ss rs"
begin

text \<open>The records after the merge: a successful prefix, at most one record after it that may have failed, the rest as audited.\<close>

lemma merged_records:
  assumes "exec opts ss w = (Returns rs, w')" and "numbered ss" and "ss \<noteq> []" and "length recs = length ss"
  shows "length rs \<le> length recs \<and>
    (\<forall>k. Suc k < length rs \<longrightarrow> rec_StageStatus (merge_results rs recs ! k) \<in> {''ExecuteSuccessfully'', ''BackupSuccessfully''}) \<and>
    (\<forall>k. length rs \<le> k \<and> k < length recs \<longrightarrow> merge_results rs recs ! k = recs ! k)"
proof -
  note pre = results [OF assms(1-3)]
  then have len: "length rs \<le> length recs" and ok: "\<forall>r\<in>set (butlast rs). res_Error r = []"
    using assms(4) by (simp_all add: prefix_results_def)
  have "map res_Sequence rs = take (length rs) (map int [1..<Suc (length ss)])"
    using pre assms(2) by (simp add: prefix_results_def numbered_def flip: take_map)
  then have seq: "map res_Sequence rs = map int [Suc 0..<Suc (0 + length rs)]"
    using pre by (simp add: prefix_results_def take_map take_upt del: upt_Suc)
  have nth: "merge_results rs recs ! k = (if k < length rs then merged (rs ! k) (recs ! k) else recs ! k)" if "k < length recs" for k
    using merge_numbered [OF seq _ ok that] len by simp
  have "res_Error (rs ! k) = []" if "Suc k < length rs" for k
  proof -
    have "k < length (butlast rs)" using that by simp
    with nth_mem [OF this] ok show ?thesis by (simp add: nth_butlast)
  qed
  with nth merged_success len show ?thesis by auto
qed

end

section \<open>Statements that are never executed\<close>

text \<open>
  A statement is refused under a policy when the parser could not project it, when it drops or
  truncates and the policy forbids that as an Error, or when it updates or deletes without WHERE
  and the policy requires WHERE as an Error.
\<close>

definition refused :: "policy \<Rightarrow> statement \<Rightarrow> bool" where
  "refused pol s \<longleftrightarrow> \<not> s_Supported s \<or>
     (case s_DDL s of None \<Rightarrow> False
      | Some d \<Rightarrow> (case forbidden_action pol (d_Action d) of None \<Rightarrow> False
          | Some code \<Rightarrow> Level pol code = SeverityError)) \<or>
     (case s_DML s of None \<Rightarrow> False
      | Some m \<Rightarrow> is_update_or_delete s \<and> p_RequireDMLWhere pol \<and> \<not> m_HasWhere m \<and>
          Level pol RuleDMLRequireWhere = SeverityError)"

lemma refused_same: "same_statement s u \<Longrightarrow> refused pol u = refused pol s"
  by (cases "s_DDL s"; cases "s_DDL u"; cases "s_DML s"; cases "s_DML u")
     (simp_all add: same_statement_def refused_def)

lemma refused_reported:
  assumes "refused (a_Policy a) u"
  shows "\<exists>i\<in>set (fst (Engine_Check program_rules a u)). iss_Level i = SeverityError"
proof -
  consider "\<not> s_Supported u"
    | d code where "s_DDL u = Some d" "forbidden_action (a_Policy a) (d_Action d) = Some code"
        "Level (a_Policy a) code = SeverityError"
    | m where "s_DML u = Some m" "is_update_or_delete u" "p_RequireDMLWhere (a_Policy a)" "\<not> m_HasWhere m"
        "Level (a_Policy a) RuleDMLRequireWhere = SeverityError"
    using assms by (auto simp: refused_def split: option.splits)
  then show ?thesis
    by cases (use unsupported_reported forbidden_action_reported missing_where_reported in blast)+
qed

text \<open>
  C3. A refused statement anywhere in the request keeps the whole request from being executed: the
  databases are as before, whatever the other statements, the envelope and the executor are.
\<close>

theorem refused_never_executed:
  assumes "ses_engine ses = program_rules" and "policy_bounded (session_policy ses)"
    and "audited ses input w opts parsed records" and "s \<in> set (pr_Statements parsed)"
    and "refused (session_policy ses) s"
  shows "snd (Audit ses input w) = w"
proof (rule ccontr)
  assume "snd (Audit ses input w) \<noteq> w"
  from engine_error_blocks [OF this assms(1,2)] obtain opts' parsed' records' where
    run: "audited ses input w opts' parsed' records'" and
    clean: "\<forall>s\<in>set (pr_Statements parsed'). \<exists>a u. a_Policy a = session_policy ses \<and> same_statement s u \<and>
       (\<forall>i\<in>set (fst (Engine_Check program_rules a u)). iss_Level i \<noteq> SeverityError)" by blast
  have "s \<in> set (pr_Statements parsed')" using audited_unique [OF assms(3) run] assms(4) by simp
  with clean obtain a u where "a_Policy a = session_policy ses" "same_statement s u"
    "\<forall>i\<in>set (fst (Engine_Check program_rules a u)). iss_Level i \<noteq> SeverityError" by blast
  with refused_reported [of a u] refused_same [of s u] assms(5) show False by auto
qed


section \<open>The audit loop always returns\<close>

definition like_ok :: "statement \<Rightarrow> bool" where
  "like_ok s \<longleftrightarrow> (case s_DDL s of None \<Rightarrow> True | Some d \<Rightarrow> d_CreateLike d \<longrightarrow> d_Reference d \<noteq> None)"

lemma prepare_create_returns: "(d_CreateLike d \<longrightarrow> d_Reference d \<noteq> None) \<Longrightarrow> \<exists>x. prepare_create d p = Returns x"
  by (auto simp: prepare_create_def Let_def split: prod.split sum.split option.split)

lemma PrepareDDL_returns:
  "(case spec of None \<Rightarrow> True | Some d \<Rightarrow> d_CreateLike d \<longrightarrow> d_Reference d \<noteq> None) \<Longrightarrow>
   \<exists>err spec' p'. PrepareDDL spec p = Returns (err, spec', p')"
proof (cases spec)
  case (Some d)
  assume "case spec of None \<Rightarrow> True | Some d \<Rightarrow> d_CreateLike d \<longrightarrow> d_Reference d \<noteq> None"
  with Some prepare_create_returns [of d p] obtain err d' p' where "prepare_create d p = Returns (err, d', p')"
    by (auto simp: split_paired_Ex)
  with Some show ?thesis by (auto simp: PrepareDDL_def Let_def split: prod.split)
qed (simp add: PrepareDDL_def)

lemma select_database_like: "select_database s a = (issues, s', a') \<Longrightarrow> like_ok s \<Longrightarrow> like_ok s'"
  by (auto simp: select_database_def like_ok_def resolveStatementDatabase_def resolve_ddl_def Let_def
      split: if_splits prod.splits sum.splits option.splits)

lemma estimate_rows_like: "estimate_rows pol a s issues = (issues', s') \<Longrightarrow> like_ok s \<Longrightarrow> like_ok s'"
  by (auto simp: estimate_rows_def set_estimate_def like_ok_def split: option.splits if_splits sum.splits)

lemma prepare_statement_returns: "like_ok s \<Longrightarrow> \<exists>i s' p'. prepare_statement s issues p = Returns (i, s', p')"
  using PrepareDDL_returns [of "s_DDL s" p] by (auto simp: prepare_statement_def like_ok_def)

lemma audit_statement_returns:
  assumes "like_ok s"
  shows "\<exists>r s' lp'. audit_statement rules pol execute warnings s lp = Returns (r, s', lp')"
proof -
  obtain i0 s0 a0 where sel: "select_database s (lp_ctx lp) = (i0, s0, a0)" by (metis prod_cases3)
  obtain i2 s2 where est: "estimate_rows pol a0 s0 i0 = (i2, s2)" by (metis surj_pair)
  have "like_ok s2" using assms select_database_like [OF sel] estimate_rows_like [OF est] by blast
  then obtain i3 s3 p3 where "prepare_statement s2 i2 (a_Metadata a0) = Returns (i3, s3, p3)"
    using prepare_statement_returns by blast
  with sel est show ?thesis by (auto simp: audit_statement_def split: prod.split)
qed

lemma audit_statements_return:
  "\<forall>s\<in>set ss. like_ok s \<Longrightarrow> \<exists>rs ss' lp'. audit_statements rules pol execute warnings ss lp = Returns (rs, ss', lp')"
proof (induction ss arbitrary: lp)
  case (Cons s ss)
  obtain r s' lp1 where "audit_statement rules pol execute warnings s lp = Returns (r, s', lp1)"
    using audit_statement_returns Cons.prems by (metis list.set_intros(1))
  moreover obtain rs ss' lp2 where "audit_statements rules pol execute warnings ss lp1 = Returns (rs, ss', lp2)"
    using Cons by (metis list.set_intros(2))
  ultimately show ?case by simp
qed simp

text \<open>
  The audit loop always produces a record for every statement: it neither fails nor panics, for
  every rule set and every answer of the target server, as long as each CREATE TABLE ... LIKE
  projection carries its source table.
\<close>

theorem audit_statements_total:
  assumes "\<forall>s\<in>set ss. like_ok s"
  shows "\<exists>rs ss' lp'. audit_statements program_rules pol execute warnings ss lp = Returns (rs, ss', lp') \<and>
    length rs = length ss"
proof -
  obtain rs ss' lp' where run: "audit_statements program_rules pol execute warnings ss lp = Returns (rs, ss', lp')"
    using audit_statements_return [OF assms, of program_rules pol execute warnings lp] by blast
  have "length rs = length ss" using list_all2_lengthD [OF conjunct1 [OF audit_statements_run [OF run]]] by simp
  with run show ?thesis by blast
qed

section \<open>A session for the witnesses\<close>

text \<open>The world is a counter of executions; the parser returns a fixed list of statements.\<close>

definition server8 :: server_info where
  "server8 = \<lparr> srv_Version = ''8.0.36'', srv_SQLMode = [], srv_LowerCaseTableNames = 0,
     srv_CharacterSetServer = ''utf8mb4'', srv_CollationServer = [], srv_ExplicitDefaultsForTimestamp = True \<rparr>"

definition counting_executor :: "nat executor" where
  "counting_executor opts stmts w = (Returns (map (\<lambda>s. zero_execution_result\<lparr>res_Sequence := s_Sequence s\<rparr>) stmts), w + 1)"

definition demo_session :: "statement list \<Rightarrow> nat session" where
  "demo_session stmts = WithExecutorFactory (\<lambda>t w. Inr counting_executor)
     (WithMetadataFactory (\<lambda>t w. Inr (users_source, server8))
       (New (\<lambda>sql mode. Inr \<lparr> pr_Statements = stmts, pr_Warnings = [] \<rparr>) program_rules))"

definition plain_select :: statement where
  "plain_select = (zero_statement StatementSelect)\<lparr>s_Sequence := 1, s_Supported := True, s_Original := ''select 1''\<rparr>"

definition drop_users :: statement where
  "drop_users = (zero_statement StatementDropTable)\<lparr>s_Sequence := 1, s_Supported := True, s_Original := ''drop table users'',
     s_DDL := Some ((zero_ddl_spec DDLDropTable)\<lparr>d_Schema := ''app'', d_Tables := [app_table ''users''], d_FullyProjected := True\<rparr>)\<rparr>"

definition demo_input :: string where
  "demo_input = render_request sample_directives [quoted_statement]"

lemmas demo_defs = demo_session_def WithExecutorFactory_def WithMetadataFactory_def New_def session_policy_def

lemma demo_policy [simp]: "session_policy (demo_session stmts) = LegacyDefaults"
  by (simp add: demo_defs)

lemma demo_engine [simp]: "ses_engine (demo_session stmts) = program_rules"
  by (simp add: demo_defs)

lemma demo_executor [simp]: "ses_openExecutor (demo_session stmts) = Some (\<lambda>t w. Inr counting_executor)"
  by (simp add: demo_defs)

lemma session_policy_executor [simp]: "session_policy (ses\<lparr>ses_openExecutor := x\<rparr>) = session_policy ses"
  by (simp add: session_policy_def split: option.split)

lemma LegacyDefaults_bounded [simp]: "policy_bounded LegacyDefaults"
  by (auto simp: policy_bounded_def LegacyDefaults_RuleLevels catalog_levels)

lemma server8_supported: "supportedMySQLVersion (srv_Version server8)"
  by (simp add: server8_def supportedMySQLVersion_def Let_def go_defs)

definition demo_options :: request_options where
  "demo_options = effective_options sample_options server8 LegacyDefaults"

lemma demo_options_execute [simp]: "opt_Execute demo_options" "\<not> opt_IgnoreWarnings demo_options"
  by (simp_all add: demo_options_def effective_options_def sample_options_def Let_def)

lemma demo_audited:
  assumes "audit_statements program_rules LegacyDefaults True [] stmts
      (initial_state demo_options users_source server8 LegacyDefaults) = Returns (records, stmts', lp)"
  shows "audited (demo_session stmts) demo_input w demo_options \<lparr> pr_Statements = stmts, pr_Warnings = [] \<rparr> records"
    and "Audit (demo_session stmts) demo_input w = execute_phase (demo_session stmts) demo_options records stmts' w"
proof -
  have env: "ParseLegacyEnvelope demo_input = Inr \<lparr> env_Options = sample_options, env_SQL = quoted_statement @ '';'' \<rparr>"
    unfolding demo_input_def by (rule sample_request_run)
  have "ses_openMetadata (demo_session stmts) = Some (\<lambda>t w. Inr (users_source, server8))"
    "ses_parser (demo_session stmts) x y = Inr \<lparr> pr_Statements = stmts, pr_Warnings = [] \<rparr>" for x y
    by (simp_all add: demo_defs)
  with env server8_supported assms
  show "audited (demo_session stmts) demo_input w demo_options \<lparr> pr_Statements = stmts, pr_Warnings = [] \<rparr> records"
    and "Audit (demo_session stmts) demo_input w = execute_phase (demo_session stmts) demo_options records stmts' w"
    by (auto simp: audited_def Audit_def Let_def simp flip: demo_options_def)
qed

lemma demo_run:
  "\<forall>s\<in>set stmts. like_ok s \<Longrightarrow> \<exists>records. audited (demo_session stmts) demo_input w demo_options
     \<lparr> pr_Statements = stmts, pr_Warnings = [] \<rparr> records \<and> length records = length stmts"
  using audit_statements_return [of stmts program_rules LegacyDefaults True "[]"
      "initial_state demo_options users_source server8 LegacyDefaults"] demo_audited(1) [of stmts _ _ _ w]
  by (metis (no_types, lifting) audited_run demo_engine list_all2_lengthD parse_result.select_convs(1))

lemma plain_select_run:
  "\<exists>ss lp. audit_statements program_rules LegacyDefaults True [] [plain_select]
     (initial_state demo_options users_source server8 LegacyDefaults) = Returns ([makeRecord plain_select []], ss, lp)"
  by (simp add: audit_statement_def select_database_def plain_select_def zero_statement_def resolveStatementDatabase_def
      requiresDatabase_def estimate_rows_def prepare_statement_def Engine_Check_def program_rules_def
      KnownStatement_Check_def DDLSafety_Check_def LegacyDDL_Check_def RequirePrimaryKey_Check_def
      RequireTableComment_Check_def RequireColumnComments_Check_def LimitColumnCount_Check_def DMLSafety_Check_def
      appliesToCreateTable_def parser_warnings_def finish_statement_def makeRecord_def max_level_def report_def Let_def)

theorem execution_gated_witness:
  "snd (Audit (demo_session [plain_select]) demo_input 0) \<noteq> 0 \<and>
   (\<exists>opts parsed records. audited (demo_session [plain_select]) demo_input 0 opts parsed records \<and> opt_Execute opts)"
proof -
  obtain ss lp where run: "audit_statements program_rules LegacyDefaults True [] [plain_select]
     (initial_state demo_options users_source server8 LegacyDefaults) = Returns ([makeRecord plain_select []], ss, lp)"
    using plain_select_run by blast
  have "snd (Audit (demo_session [plain_select]) demo_input 0) = 1"
    by (simp add: demo_audited(2) [OF run] execute_phase_def blocks_def max_level_def makeRecord_def counting_executor_def)
  then have changed: "snd (Audit (demo_session [plain_select]) demo_input 0) \<noteq> 0" by simp
  with execution_gated [OF this] show ?thesis by blast
qed

theorem Audit_one_record_per_statement_witness:
  "\<exists>out w'. Audit (demo_session [plain_select]) demo_input 0 = (Returns out, w') \<and> map rec_SQL out = [''select 1'']"
proof -
  obtain ss lp where run: "audit_statements program_rules LegacyDefaults True [] [plain_select]
     (initial_state demo_options users_source server8 LegacyDefaults) = Returns ([makeRecord plain_select []], ss, lp)"
    using plain_select_run by blast
  have "\<exists>out w'. Audit (demo_session [plain_select]) demo_input 0 = (Returns out, w')"
    by (simp add: demo_audited(2) [OF run] execute_phase_def blocks_def max_level_def makeRecord_def counting_executor_def)
  then obtain out w' where out: "Audit (demo_session [plain_select]) demo_input 0 = (Returns out, w')" by blast
  from Audit_one_record_per_statement [OF demo_engine demo_audited(1) [OF run] out] out show ?thesis
    by (simp add: plain_select_def zero_statement_def)
qed

theorem merge_results_fail_stop_witness:
  "rec_ErrorLevel (merge_results [zero_execution_result\<lparr>res_Sequence := 1\<rparr>,
      zero_execution_result\<lparr>res_Sequence := 2, res_Error := ''lock wait timeout''\<rparr>,
      zero_execution_result\<lparr>res_Sequence := 3\<rparr>] (replicate 3 zero_audit_record) ! 1) = SeverityError"
  using merge_results_fail_stop [of "[zero_execution_result\<lparr>res_Sequence := 1\<rparr>]"
      "zero_execution_result\<lparr>res_Sequence := 2, res_Error := ''lock wait timeout''\<rparr>" "replicate 3 zero_audit_record"
      "[zero_execution_result\<lparr>res_Sequence := 3\<rparr>]"]
  by (simp add: zero_execution_result_def)

theorem refused_never_executed_witness:
  "refused LegacyDefaults drop_users \<and> snd (Audit (demo_session [plain_select, drop_users]) demo_input 7) = 7"
proof -
  have "Level LegacyDefaults RuleDDLDropTable = SeverityError" by code_simp
  then have "refused LegacyDefaults drop_users"
    by (simp add: refused_def drop_users_def zero_statement_def zero_ddl_spec_def forbidden_action_def)
       (simp add: LegacyDefaults_def)
  moreover obtain records where run: "audited (demo_session [plain_select, drop_users]) demo_input 7 demo_options
      \<lparr> pr_Statements = [plain_select, drop_users], pr_Warnings = [] \<rparr> records"
    using demo_run [of "[plain_select, drop_users]" 7]
    by (auto simp: like_ok_def plain_select_def drop_users_def zero_statement_def zero_ddl_spec_def)
  ultimately show ?thesis using refused_never_executed [OF _ _ run, of drop_users] by simp
qed


theorem audit_statements_total_witness:
  "\<exists>rs ss' lp'. audit_statements program_rules LegacyDefaults True [] [plain_select, drop_users]
     (initial_state demo_options users_source server8 LegacyDefaults) = Returns (rs, ss', lp') \<and> length rs = 2"
proof -
  have "\<forall>s\<in>set [plain_select, drop_users]. like_ok s"
    by (simp add: like_ok_def plain_select_def drop_users_def zero_statement_def zero_ddl_spec_def)
  from audit_statements_total [OF this, of LegacyDefaults True "[]" "initial_state demo_options users_source server8 LegacyDefaults"]
  show ?thesis by (simp add: numeral_2_eq_2 del: audit_statements.simps)
qed

end
