(* ===== verification/RollbackFacts.thy ===== *)
theory RollbackFacts
  imports Rollback "HOL-Library.Multiset"
begin

text \<open>
  What the generated rollback SQL means. \<open>row_sql\<close> is the abstract syntax of the three statements
  the generator writes; \<open>undo\<close> is the statement it should write for a row change. The text is read
  back as that statement (\<open>Generate_text\<close>), and executing the statements in reverse order restores
  the rows (\<open>rollback_restores\<close>), on tables whose key identifies a row.
\<close>

section \<open>Abstract statements\<close>

datatype sql_value = SNull | SText string | SBytes string | SNumber string

datatype row_sql =
    InsertRow string string "string list" "sql_value list"
  | DeleteRow string string "(string \<times> sql_value) list"
  | UpdateRow string string "(string \<times> sql_value) list" "(string \<times> sql_value) list"

fun value_tokens :: "sql_value \<Rightarrow> token list" where
  "value_tokens SNull = [TWord ''NULL'']"
| "value_tokens (SText s) = [TString s]"
| "value_tokens (SBytes b) = [THex b]"
| "value_tokens (SNumber n) = [TWord n]"

fun condition_tokens :: "string \<times> sql_value \<Rightarrow> token list" where
  "condition_tokens (name, SNull) = [TIdent name, TWord ''IS'', TWord ''NULL'']"
| "condition_tokens (name, v) = TIdent name # TPunct CHR ''='' # value_tokens v"

definition set_tokens :: "string \<times> sql_value \<Rightarrow> token list" where
  "set_tokens nv = TIdent (fst nv) # TPunct CHR ''='' # value_tokens (snd nv)"

abbreviation comma_list :: "token list list \<Rightarrow> token list" where
  "comma_list \<equiv> join_tokens [TPunct CHR '','']"

definition where_tokens :: "(string \<times> sql_value) list \<Rightarrow> token list" where
  "where_tokens conds = TWord ''WHERE'' # join_tokens [TWord ''AND''] (map condition_tokens conds)
     @ [TWord ''LIMIT'', TWord ''1'', TPunct CHR '';'']"

fun row_sql_tokens :: "row_sql \<Rightarrow> token list" where
  "row_sql_tokens (InsertRow s t cols vals) =
     [TWord ''INSERT'', TWord ''INTO'', TIdent s, TPunct CHR ''.'', TIdent t, TPunct CHR ''('']
     @ comma_list (map (\<lambda>c. [TIdent c]) cols) @ [TPunct CHR '')'', TWord ''VALUES'', TPunct CHR ''('']
     @ comma_list (map value_tokens vals) @ [TPunct CHR '')'', TPunct CHR '';'']"
| "row_sql_tokens (DeleteRow s t conds) =
     [TWord ''DELETE'', TWord ''FROM'', TIdent s, TPunct CHR ''.'', TIdent t] @ where_tokens conds"
| "row_sql_tokens (UpdateRow s t sets conds) =
     [TWord ''UPDATE'', TIdent s, TPunct CHR ''.'', TIdent t, TWord ''SET'']
     @ comma_list (map set_tokens sets) @ where_tokens conds"

section \<open>The value a literal denotes\<close>

definition column_kind :: "column_meta \<Rightarrow> string" where
  "column_kind c = strings_ToLower (col_ColumnType c)"

fun plain_value_of :: "go_value \<Rightarrow> sql_value" where
  "plain_value_of VNil = SNull"
| "plain_value_of (VBytes b) = SBytes b"
| "plain_value_of (VString s) = SText s"
| "plain_value_of (VTime t) = SText (time_Format t)"
| "plain_value_of (VOther s) = SText s"
| "plain_value_of v = SNumber (literal v)"

definition column_value :: "column_meta \<Rightarrow> go_value \<Rightarrow> sql_value" where
  "column_value c v =
     (case v of
        VNil \<Rightarrow> SNull
      | VBytes b \<Rightarrow> if binary_kind (column_kind c) then SBytes b
          else if decimal_kind (column_kind c) \<or> float_kind (column_kind c) then SNumber b else SText b
      | VString s \<Rightarrow> if binary_kind (column_kind c) then SBytes s
          else if decimal_kind (column_kind c) then SNumber s else SText s
      | _ \<Rightarrow> if decimal_kind (column_kind c) then SNumber (fmt_Sprint v) else plain_value_of v)"

text \<open>
  A number token: digits, sign, point and exponent, so that it is neither \<^verbatim>\<open>NULL\<close> nor the start of
  another token. The text of a value of another type must not hold a backslash, which the generator
  does not escape there.
\<close>

definition number_text :: "string \<Rightarrow> bool" where
  "number_text s \<longleftrightarrow> s \<noteq> [] \<and> list_all is_word s \<and> hd s \<noteq> CHR ''.'' \<and> s \<noteq> ''NULL''"

fun value_ok :: "column_meta \<Rightarrow> go_value \<Rightarrow> bool" where
  "value_ok c (VOther s) \<longleftrightarrow> (if decimal_kind (column_kind c) then number_text s else CHR 0x5C \<notin> set s)"
| "value_ok c v \<longleftrightarrow> (case column_value c v of SNumber n \<Rightarrow> number_text n | _ \<Rightarrow> True)"

lemma is_digit_word: "is_digit c \<Longrightarrow> is_word c \<and> c \<noteq> CHR ''.'' \<and> c \<noteq> CHR 0x5C \<and> c \<noteq> CHR 0x27"
  by (auto simp: is_word_def is_digit_def)

lemma lexes_number: "number_text n \<Longrightarrow> lexes n [TWord n]"
  by (auto simp: number_text_def intro: lexes_word)

lemma lexes_NULL: "lexes ''NULL'' [TWord ''NULL'']"
  by (rule lexes_word) (simp_all add: is_word_def is_letter_def)

lemma TrimRight_subset: "set (strings_TrimRightFunc f s) \<subseteq> set s"
  by (auto simp: strings_TrimRightFunc_def dest: set_dropWhileD)

lemma time_Format_plain: "set (time_Format t) \<inter> {CHR 0x5C, CHR 0x27} = {}"
proof -
  have digits: "set (pad_digits w n) \<inter> {CHR 0x5C, CHR 0x27} = {}" for w n
    using nat_string_digits [of n] is_digit_word by (fastforce simp: pad_digits_def)
  have "set (time_fraction n) \<inter> {CHR 0x5C, CHR 0x27} = {}" for n
    using digits [of 6 "n div 1000"] TrimRight_subset [of "\<lambda>c. c = CHR ''0''" "pad_digits 6 (n div 1000)"]
    by (auto simp: time_fraction_def Let_def)
  with digits show ?thesis by (auto simp: time_Format_def)
qed

lemma ReplaceAll_absent: "c \<notin> set s \<Longrightarrow> strings_ReplaceAll s c new = s"
  by (induction s) (auto simp: strings_ReplaceAll_def)

lemma lexes_time: "lexes ([CHR 0x27] @ time_Format t @ [CHR 0x27]) [TString (time_Format t)]"
  using single_quoted_plain [of "time_Format t"] time_Format_plain [of t]
  by (simp add: single_quoted_def ReplaceAll_absent)

lemma number_text_nat [simp]: "number_text (nat_string n)"
proof -
  obtain c cs where n: "nat_string n = c # cs" by (cases "nat_string n") auto
  have "is_digit x" if "x \<in> set (nat_string n)" for x using nat_string_digits that by blast
  then have "list_all is_word (nat_string n)" "is_digit c" using is_digit_word n by (auto simp: list_all_iff)
  with n show ?thesis by (auto simp: number_text_def is_digit_def)
qed

lemma number_text_Itoa [simp]: "number_text (strconv_Itoa i)"
proof (cases "i < 0")
  case True
  have "list_all is_word (nat_string (nat (- i)))" using number_text_nat unfolding number_text_def by blast
  with True show ?thesis by (simp add: strconv_Itoa_def number_text_def is_word_def)
qed (simp add: strconv_Itoa_def)

lemma lexes_literalColumn: "value_ok c v \<Longrightarrow> lexes (literalColumn c v) (value_tokens (column_value c v))"
  by (cases v) (auto simp: literalColumn_def column_value_def column_kind_def Let_def lexes_NULL lexes_hex lexes_number
    single_quoted_escaped single_quoted_plain lexes_time [simplified] split: if_splits)

section \<open>The statement that undoes a change\<close>

definition cell :: "table_meta \<Rightarrow> 'a list \<Rightarrow> string \<Rightarrow> 'a option" where
  "cell t row name =
     (case find_pos (\<lambda>c. strings_EqualFold (col_Name c) name) (t_Columns t) of
        None \<Rightarrow> None
      | Some pos \<Rightarrow> if pos < length row then Some (row ! pos) else None)"

definition row_image :: "table_meta \<Rightarrow> go_value list \<Rightarrow> sql_value list" where
  "row_image t row = map2 column_value (t_Columns t) row"

definition key_conditions :: "table_meta \<Rightarrow> sql_value list \<Rightarrow> (string \<times> sql_value) list" where
  "key_conditions t row =
     (case row_key t of None \<Rightarrow> []
      | Some key \<Rightarrow> map (\<lambda>name. (name, the (cell t row name))) (idx_Columns key))"

definition undo :: "row_change \<Rightarrow> row_sql" where
  "undo ch =
     (let t = ch_Table ch; before = row_image t (ch_Before ch); after = row_image t (ch_After ch) in
      case ch_Type ch of
        ChangeInsert \<Rightarrow> DeleteRow (t_Schema t) (t_Name t) (key_conditions t after)
      | ChangeDelete \<Rightarrow> InsertRow (t_Schema t) (t_Name t) (map col_Name (t_Columns t)) before
      | _ \<Rightarrow> UpdateRow (t_Schema t) (t_Name t) (zip (map col_Name (t_Columns t)) before) (key_conditions t after))"

text \<open>
  A change as the binlog delivers it: the row images have one value per column of the table (FULL row
  image), and every value has a plain literal.
\<close>

definition image_ok :: "table_meta \<Rightarrow> go_value list \<Rightarrow> bool" where
  "image_ok t row \<longleftrightarrow> list_all2 value_ok (t_Columns t) row"

definition change_ok :: "row_change \<Rightarrow> bool" where
  "change_ok ch \<longleftrightarrow> t_Columns (ch_Table ch) \<noteq> [] \<and>
     (case ch_Type ch of
        ChangeInsert \<Rightarrow> image_ok (ch_Table ch) (ch_After ch)
      | ChangeDelete \<Rightarrow> image_ok (ch_Table ch) (ch_Before ch)
      | ChangeUpdate \<Rightarrow> image_ok (ch_Table ch) (ch_Before ch) \<and> image_ok (ch_Table ch) (ch_After ch)
      | ChangeOther _ \<Rightarrow> False)"

text \<open>The key that the generator uses exists, is not empty and names columns of the table.\<close>

definition keyed_table :: "table_meta \<Rightarrow> bool" where
  "keyed_table t \<longleftrightarrow>
     (case row_key t of None \<Rightarrow> False
      | Some key \<Rightarrow> idx_Columns key \<noteq> [] \<and> list_all (hasColumn t) (idx_Columns key))"

lemma image_ok_length: "image_ok t row \<Longrightarrow> length row = length (t_Columns t)"
  by (simp add: image_ok_def list_all2_lengthD)

lemma cell_image: "cell t (row_image t row) name =
   (case find_pos (\<lambda>c. strings_EqualFold (col_Name c) name) (t_Columns t) of
      None \<Rightarrow> None | Some pos \<Rightarrow> if pos < length row then Some (column_value (t_Columns t ! pos) (row ! pos)) else None)"
  using find_pos_SomeD [of "\<lambda>c. strings_EqualFold (col_Name c) name" "t_Columns t"]
  by (auto simp: cell_def row_image_def split: option.split)

lemma column_value_SNull: "column_value c v = SNull \<longleftrightarrow> v = VNil"
  by (cases v) (simp_all add: column_value_def)

lemma lexes_condition:
  assumes "v \<noteq> VNil" and "value_ok c v"
  shows "lexes (quoteIdent name @ ''='' @ literalColumn c v) (condition_tokens (name, column_value c v))"
proof -
  have "condition_tokens (name, column_value c v) = [TIdent name] @ TPunct CHR ''='' # value_tokens (column_value c v)"
    using assms(1) column_value_SNull [of c v] by (cases "column_value c v") auto
  with lexes_append [OF row_ident.lexes_quoted lexes_punct [OF _ _ lexes_literalColumn [OF assms(2)]]]
  show ?thesis by simp
qed

lemma lexes_is_null: "lexes (quoteIdent name @ '' IS NULL'') (condition_tokens (name, SNull))"
proof -
  have "lexes ('' IS'' @ '' NULL'') [TWord ''IS'', TWord ''NULL'']"
    by (rule lexes_append [where ts = "[TWord ''IS'']", simplified] lexes_space lexes_word lexes_NULL
        | simp add: is_word_def is_letter_def)+
  from lexes_append [OF row_ident.lexes_quoted this] show ?thesis by simp
qed

lemma lexes_keywords:
  "lexes b us \<Longrightarrow> lexes (''INSERT INTO '' @ b) (TWord ''INSERT'' # TWord ''INTO'' # us)"
  "lexes b us \<Longrightarrow> lexes ('') VALUES ('' @ b) (TPunct CHR '')'' # TWord ''VALUES'' # TPunct CHR ''('' # us)"
  "lexes b us \<Longrightarrow> lexes (''DELETE FROM '' @ b) (TWord ''DELETE'' # TWord ''FROM'' # us)"
  "lexes b us \<Longrightarrow> lexes (''UPDATE '' @ b) (TWord ''UPDATE'' # us)"
  "lexes b us \<Longrightarrow> lexes ('' SET '' @ b) (TWord ''SET'' # us)"
  "lexes b us \<Longrightarrow> lexes ('' WHERE '' @ b) (TWord ''WHERE'' # us)"
  "lexes b us \<Longrightarrow> lexes ('' AND '' @ b) (TWord ''AND'' # us)"
  "lexes b us \<Longrightarrow> lexes ('' ('' @ b) (TPunct CHR ''('' # us)"
  "lexes b us \<Longrightarrow> lexes ('','' @ b) (TPunct CHR '','' # us)"
  by (simp_all add: lexes_def sql_lex.simps(2) is_space_def is_word_def is_letter_def is_digit_def)

lemma lexes_ends:
  "lexes '' LIMIT 1;'' [TWord ''LIMIT'', TWord ''1'', TPunct CHR '';'']"
  "lexes '');'' [TPunct CHR '')'', TPunct CHR '';'']"
  by (simp_all add: lexes_def sql_lex.simps(2) is_space_def is_word_def is_letter_def is_digit_def)

lemma key_part_lexes:
  assumes "hasColumn t name" and "image_ok t row"
  shows "\<exists>p. key_part t row name = Inr p \<and> lexes p (condition_tokens (name, the (cell t (row_image t row) name)))"
proof -
  obtain pos where pos: "find_pos (\<lambda>c. strings_EqualFold (col_Name c) name) (t_Columns t) = Some pos"
    using assms(1) by (cases "find_pos (\<lambda>c. strings_EqualFold (col_Name c) name) (t_Columns t)")
      (auto simp: hasColumn_def list_ex_iff)
  have len: "pos < length row" using find_pos_SomeD [OF pos] image_ok_length [OF assms(2)] by simp
  have ok: "value_ok (t_Columns t ! pos) (row ! pos)"
    using assms(2) len image_ok_length [OF assms(2)] by (simp add: image_ok_def list_all2_nthD2)
  show ?thesis
    using pos len lexes_is_null lexes_condition [OF _ ok] column_value_SNull [of _ VNil]
    by (cases "row ! pos = VNil") (simp_all add: key_part_def cell_image)
qed

lemma key_parts_lexes:
  assumes "list_all (hasColumn t) names" and "image_ok t row"
  shows "\<exists>ps. for_each (\<lambda>name parts. sum_bind (key_part t row name) (\<lambda>p. Inr (parts @ [p]))) names acc = Inr (acc @ ps) \<and>
    list_all2 lexes ps (map condition_tokens (map (\<lambda>name. (name, the (cell t (row_image t row) name))) names))"
  using assms(1)
proof (induction names arbitrary: acc)
  case (Cons name names)
  then obtain p where p: "key_part t row name = Inr p"
    "lexes p (condition_tokens (name, the (cell t (row_image t row) name)))"
    using key_part_lexes [OF _ assms(2)] by auto
  from Cons.IH [of "acc @ [p]"] Cons.prems obtain ps where
    "for_each (\<lambda>name parts. sum_bind (key_part t row name) (\<lambda>p. Inr (parts @ [p]))) names (acc @ [p]) = Inr ((acc @ [p]) @ ps)"
    "list_all2 lexes ps (map condition_tokens (map (\<lambda>name. (name, the (cell t (row_image t row) name))) names))"
    by auto
  with p show ?case by (intro exI [of _ "p # ps"]) simp
qed simp

lemma keyWhere_lexes:
  assumes "keyed_table t" and "image_ok t row"
  shows "\<exists>w. keyWhere t row = Inr w \<and>
    lexes w (join_tokens [TWord ''AND''] (map condition_tokens (key_conditions t (row_image t row))))"
proof -
  obtain key where key: "row_key t = Some key" "idx_Columns key \<noteq> []" "list_all (hasColumn t) (idx_Columns key)"
    using assms(1) by (auto simp: keyed_table_def split: option.splits)
  from key_parts_lexes [OF key(3) assms(2), of "[]"] obtain ps where
    ps: "for_each (\<lambda>name parts. sum_bind (key_part t row name) (\<lambda>p. Inr (parts @ [p]))) (idx_Columns key) [] = Inr ps"
    "list_all2 lexes ps (map condition_tokens (map (\<lambda>name. (name, the (cell t (row_image t row) name))) (idx_Columns key)))"
    by auto
  have "lexes (strings_Join ps '' AND '') (join_tokens [TWord ''AND'']
      (map condition_tokens (map (\<lambda>name. (name, the (cell t (row_image t row) name))) (idx_Columns key))))"
    by (rule lexes_join [OF _ _ ps(2)]) (simp_all add: lexes_keywords [simplified])
  with key ps show ?thesis by (simp add: keyWhere_def key_conditions_def)
qed

lemma lexes_where:
  assumes "lexes w (join_tokens [TWord ''AND''] (map condition_tokens conds))"
  shows "lexes ('' WHERE '' @ w @ '' LIMIT 1;'') (where_tokens conds)"
  using lexes_keywords(6) [OF lexes_append [OF assms lexes_ends(1)]] by (simp add: where_tokens_def)

lemma lexes_commas: "list_all2 lexes xs tss \<Longrightarrow> lexes (strings_Join xs '','') (comma_list tss)"
  by (rule lexes_join) (simp_all add: lexes_keywords [simplified])

lemma lexes_sets:
  assumes "list_all2 value_ok cols row"
  shows "list_all2 lexes (map2 (\<lambda>c v. quoteIdent (col_Name c) @ ''='' @ literalColumn c v) cols row)
    (map set_tokens (zip (map col_Name cols) (map2 column_value cols row)))"
  using assms
proof (induction rule: list_all2_induct)
  case (Cons c cs v vs)
  have "lexes (quoteIdent (col_Name c) @ ''='' @ literalColumn c v) (set_tokens (col_Name c, column_value c v))"
    using lexes_append [OF row_ident.lexes_quoted lexes_punct [OF _ _ lexes_literalColumn [OF Cons(1)]]]
    by (simp add: set_tokens_def)
  with Cons show ?case by simp
qed simp

lemma lexes_values:
  "list_all2 value_ok cols row \<Longrightarrow> list_all2 lexes (map2 literalColumn cols row) (map value_tokens (map2 column_value cols row))"
  by (induction rule: list_all2_induct) (simp_all add: lexes_literalColumn)

lemma lexes_columns: "list_all2 lexes (map (\<lambda>c. quoteIdent (col_Name c)) cols) (map (\<lambda>c. [TIdent c]) (map col_Name cols))"
  by (induction cols) (simp_all add: row_ident.lexes_quoted)

lemma deleteSQL_lexes:
  assumes "keyed_table t" and "image_ok t row"
  shows "\<exists>sql. deleteSQL t row = Inr sql \<and>
    sql_lex sql = Some (row_sql_tokens (DeleteRow (t_Schema t) (t_Name t) (key_conditions t (row_image t row))))"
proof -
  obtain w where w: "keyWhere t row = Inr w"
    "lexes w (join_tokens [TWord ''AND''] (map condition_tokens (key_conditions t (row_image t row))))"
    using keyWhere_lexes [OF assms] by blast
  from lexesD [OF lexes_keywords(3) [OF lexes_append [OF row_ident.lexes_qualified [of "t_Schema t" "t_Name t"] lexes_where [OF w(2)]]]]
  show ?thesis using w(1) by (simp add: deleteSQL_def)
qed

lemma insertSQL_lexes:
  assumes "image_ok t row"
  shows "\<exists>sql. insertSQL t row = Inr sql \<and>
    sql_lex sql = Some (row_sql_tokens (InsertRow (t_Schema t) (t_Name t) (map col_Name (t_Columns t)) (row_image t row)))"
proof -
  have vals: "lexes (strings_Join (map2 literalColumn (t_Columns t) row) '','') (comma_list (map value_tokens (row_image t row)))"
    using assms lexes_values unfolding image_ok_def row_image_def by (intro lexes_commas) blast
  note inner = lexes_append [OF lexes_commas [OF lexes_columns [of "t_Columns t"]] lexes_keywords(2) [OF lexes_append [OF vals lexes_ends(2)]]]
  from lexesD [OF lexes_keywords(1) [OF lexes_append [OF row_ident.lexes_qualified [of "t_Schema t" "t_Name t"] lexes_keywords(8) [OF inner]]]]
  show ?thesis using image_ok_length [OF assms] by (simp add: insertSQL_def Let_def)
qed

lemma updateSQL_lexes:
  assumes "keyed_table t" and "image_ok t before" and "image_ok t after"
  shows "\<exists>sql. updateSQL t before after = Inr sql \<and>
    sql_lex sql = Some (row_sql_tokens (UpdateRow (t_Schema t) (t_Name t)
      (zip (map col_Name (t_Columns t)) (row_image t before)) (key_conditions t (row_image t after))))"
proof -
  obtain w where w: "keyWhere t after = Inr w"
    "lexes w (join_tokens [TWord ''AND''] (map condition_tokens (key_conditions t (row_image t after))))"
    using keyWhere_lexes [OF assms(1,3)] by blast
  have sets: "lexes (strings_Join (map2 (\<lambda>c v. quoteIdent (col_Name c) @ ''='' @ literalColumn c v) (t_Columns t) before) '','')
      (comma_list (map set_tokens (zip (map col_Name (t_Columns t)) (row_image t before))))"
    using assms(2) lexes_sets unfolding image_ok_def row_image_def by (intro lexes_commas) blast
  note inner = lexes_keywords(5) [OF lexes_append [OF sets lexes_where [OF w(2)]]]
  from lexesD [OF lexes_keywords(4) [OF lexes_append [OF row_ident.lexes_qualified [of "t_Schema t" "t_Name t"] inner]]]
  show ?thesis using w(1) image_ok_length [OF assms(2)] image_ok_length [OF assms(3)] by (simp add: updateSQL_def Let_def)
qed


section \<open>A reliable key is enough\<close>

lemma nonNullIndex_columns: "nonNullIndex t i \<Longrightarrow> list_all (hasColumn t) (idx_Columns i)"
  by (auto simp: nonNullIndex_def hasColumn_def list_all_iff list_ex_iff find_None_iff split: option.splits)

lemma nonNullIndex_iff: "nonNullIndex t i \<longleftrightarrow> idx_Columns i \<noteq> [] \<and> list_all (key_column_ok t) (idx_Columns i)"
  by (simp add: nonNullIndex_def key_column_ok_def [abs_def])

text \<open>
  The audit admits an UPDATE or DELETE with backup on a table with a reliable key
  (\<^verbatim>\<open>hasReliableKey\<close>); on such a table the generator finds a key, when the columns of the primary key
  are columns of the table.
\<close>

lemma find_first: "find P xs = Some x \<Longrightarrow> P x \<and> x \<in> set xs"
  by (induction xs) (auto split: if_splits)

lemma reliable_keyed:
  assumes "hasReliableKey t"
    and "\<forall>i\<in>set (t_Indexes t). idx_Primary i \<longrightarrow> idx_Columns i \<noteq> [] \<and> list_all (hasColumn t) (idx_Columns i)"
  shows "keyed_table t"
proof (cases "find idx_Primary (t_Indexes t)")
  case (Some key)
  with find_first [OF Some] assms(2) show ?thesis by (simp add: keyed_table_def row_key_def)
next
  case None
  then have "\<forall>i\<in>set (t_Indexes t). \<not> idx_Primary i" by (simp add: find_None_iff)
  with assms(1) have "\<exists>i\<in>set (t_Indexes t). idx_Unique i \<and> nonNullIndex t i"
    by (auto simp: hasReliableKey_def list_ex_iff nonNullIndex_iff)
  then obtain key where "find (\<lambda>i. idx_Unique i \<and> nonNullIndex t i) (t_Indexes t) = Some key"
    by (cases "find (\<lambda>i. idx_Unique i \<and> nonNullIndex t i) (t_Indexes t)") (auto simp: find_None_iff)
  with None find_first [OF this] nonNullIndex_columns show ?thesis
    by (auto simp: keyed_table_def row_key_def nonNullIndex_iff)
qed

section \<open>Executing the rollback\<close>

text \<open>
  The rows of a table are a multiset of value lists along its columns. \<^verbatim>\<open>LIMIT 1\<close> without an order
  touches any one matching row, so the execution is a relation.
\<close>

type_synonym rows = "sql_value list multiset"

definition row_matches :: "table_meta \<Rightarrow> (string \<times> sql_value) list \<Rightarrow> sql_value list \<Rightarrow> bool" where
  "row_matches t conds row \<longleftrightarrow> list_all (\<lambda>(name, v). cell t row name = Some v) conds"

definition assign :: "table_meta \<Rightarrow> string \<times> sql_value \<Rightarrow> sql_value list \<Rightarrow> sql_value list" where
  "assign t nv row =
     (case find_pos (\<lambda>c. strings_EqualFold (col_Name c) (fst nv)) (t_Columns t) of
        None \<Rightarrow> row | Some pos \<Rightarrow> row[pos := snd nv])"

inductive exec_sql :: "table_meta \<Rightarrow> row_sql \<Rightarrow> rows \<Rightarrow> rows \<Rightarrow> bool" for t where
  insert: "cols = map col_Name (t_Columns t) \<Longrightarrow> exec_sql t (InsertRow s n cols vals) M (add_mset vals M)"
| delete_hit: "row \<in># M \<Longrightarrow> row_matches t conds row \<Longrightarrow> exec_sql t (DeleteRow s n conds) M (M - {#row#})"
| delete_miss: "\<forall>row\<in>#M. \<not> row_matches t conds row \<Longrightarrow> exec_sql t (DeleteRow s n conds) M M"
| update_hit: "row \<in># M \<Longrightarrow> row_matches t conds row \<Longrightarrow>
    exec_sql t (UpdateRow s n sets conds) M (add_mset (fold (assign t) sets row) (M - {#row#}))"
| update_miss: "\<forall>row\<in>#M. \<not> row_matches t conds row \<Longrightarrow> exec_sql t (UpdateRow s n sets conds) M M"

inductive_simps exec_insert: "exec_sql t (InsertRow s n cols vals) M M'"
inductive_simps exec_delete: "exec_sql t (DeleteRow s n conds) M M'"
inductive_simps exec_update: "exec_sql t (UpdateRow s n sets conds) M M'"

text \<open>The effect of a row change, as the binlog describes it.\<close>

inductive change_step :: "row_change \<Rightarrow> rows \<Rightarrow> rows \<Rightarrow> bool" for ch where
  inserted: "ch_Type ch = ChangeInsert \<Longrightarrow> change_step ch M (add_mset (row_image (ch_Table ch) (ch_After ch)) M)"
| deleted: "ch_Type ch = ChangeDelete \<Longrightarrow> row_image (ch_Table ch) (ch_Before ch) \<in># M \<Longrightarrow>
    change_step ch M (M - {#row_image (ch_Table ch) (ch_Before ch)#})"
| updated: "ch_Type ch = ChangeUpdate \<Longrightarrow> row_image (ch_Table ch) (ch_Before ch) \<in># M \<Longrightarrow>
    change_step ch M (add_mset (row_image (ch_Table ch) (ch_After ch)) (M - {#row_image (ch_Table ch) (ch_Before ch)#}))"

definition key_of :: "table_meta \<Rightarrow> sql_value list \<Rightarrow> sql_value option list" where
  "key_of t row = (case row_key t of None \<Rightarrow> [] | Some key \<Rightarrow> map (cell t row) (idx_Columns key))"

definition key_unique :: "table_meta \<Rightarrow> rows \<Rightarrow> bool" where
  "key_unique t M \<longleftrightarrow> (\<forall>r N. M = add_mset r N \<longrightarrow> (\<forall>r'\<in>#N. key_of t r' \<noteq> key_of t r))"

definition restorable :: "row_change \<Rightarrow> bool" where
  "restorable ch \<longleftrightarrow> change_ok ch \<and> keyed_table (ch_Table ch) \<and>
     distinct (map (\<lambda>c. strings_ToLower (col_Name c)) (t_Columns (ch_Table ch)))"

lemma cell_image_some:
  assumes "hasColumn t name" and "image_ok t row"
  shows "\<exists>v. cell t (row_image t row) name = Some v"
proof -
  obtain pos where pos: "find_pos (\<lambda>c. strings_EqualFold (col_Name c) name) (t_Columns t) = Some pos"
    using assms(1) by (cases "find_pos (\<lambda>c. strings_EqualFold (col_Name c) name) (t_Columns t)")
      (auto simp: hasColumn_def list_ex_iff)
  with find_pos_SomeD [OF pos] image_ok_length [OF assms(2)] show ?thesis by (simp add: cell_image)
qed

lemma row_matches_key:
  assumes "keyed_table t" and "image_ok t row"
  shows "row_matches t (key_conditions t (row_image t row)) r' \<longleftrightarrow> key_of t r' = key_of t (row_image t row)"
proof -
  obtain key where key: "row_key t = Some key" "list_all (hasColumn t) (idx_Columns key)"
    using assms(1) by (auto simp: keyed_table_def split: option.splits)
  have "cell t (row_image t row) name = Some (the (cell t (row_image t row) name))" if "name \<in> set (idx_Columns key)" for name
    using cell_image_some [OF _ assms(2), of name] key(2) that by (auto simp: list_all_iff)
  with key(1) show ?thesis
    by (auto simp: row_matches_def key_conditions_def key_of_def list_all_iff)
qed

lemma find_own_column:
  assumes "distinct (map (\<lambda>c. strings_ToLower (col_Name c)) cols)" and "i < length cols"
  shows "find_pos (\<lambda>c. strings_EqualFold (col_Name c) (col_Name (cols ! i))) cols = Some i"
proof (cases "find_pos (\<lambda>c. strings_EqualFold (col_Name c) (col_Name (cols ! i))) cols")
  case None
  with assms(2) show ?thesis by (auto simp: strings_EqualFold_def)
next
  case (Some j)
  from find_pos_SomeD [OF this] have "j < length cols"
    "map (\<lambda>c. strings_ToLower (col_Name c)) cols ! j = map (\<lambda>c. strings_ToLower (col_Name c)) cols ! i"
    using assms(2) by (auto simp: strings_EqualFold_def)
  with assms have "j = i" by (simp add: distinct_conv_nth) (metis nth_map)
  with Some show ?thesis by simp
qed

lemma assign_prefix:
  assumes "distinct (map (\<lambda>c. strings_ToLower (col_Name c)) (t_Columns t))"
    and "length vals = length (t_Columns t)" and "length row = length (t_Columns t)" and "i \<le> length vals"
  shows "fold (assign t) (take i (zip (map col_Name (t_Columns t)) vals)) row = take i vals @ drop i row"
  using assms(4)
proof (induction i)
  case (Suc i)
  with assms have "take (Suc i) (zip (map col_Name (t_Columns t)) vals)
      = take i (zip (map col_Name (t_Columns t)) vals) @ [(col_Name (t_Columns t ! i), vals ! i)]"
    by (simp add: take_Suc_conv_app_nth)
  with Suc assms find_own_column [OF assms(1), of i] show ?case
    by (simp add: assign_def take_Suc_conv_app_nth list_update_append Cons_nth_drop_Suc [symmetric])
qed simp

lemma assign_all:
  assumes "distinct (map (\<lambda>c. strings_ToLower (col_Name c)) (t_Columns t))"
    and "length vals = length (t_Columns t)" and "length row = length (t_Columns t)"
  shows "fold (assign t) (zip (map col_Name (t_Columns t)) vals) row = vals"
  using assign_prefix [OF assms, of "length vals"] assms by simp

lemma key_hit:
  assumes "key_unique t (add_mset r N)" and "row \<in># add_mset r N" and "key_of t row = key_of t r"
  shows "row = r"
  using assms unfolding key_unique_def by auto

text \<open>When one row matches, \<^verbatim>\<open>LIMIT 1\<close> is deterministic.\<close>

lemma exec_delete_one:
  assumes "row \<in># M" and "\<forall>x\<in>#M. row_matches t conds x \<longleftrightarrow> x = row"
  shows "exec_sql t (DeleteRow s n conds) M M' \<longleftrightarrow> M' = M - {#row#}"
proof
  assume "exec_sql t (DeleteRow s n conds) M M'"
  then show "M' = M - {#row#}" using assms by cases auto
qed (use assms in \<open>auto intro: exec_sql.delete_hit\<close>)

lemma exec_update_one:
  assumes "row \<in># M" and "\<forall>x\<in>#M. row_matches t conds x \<longleftrightarrow> x = row"
  shows "exec_sql t (UpdateRow s n sets conds) M M' \<longleftrightarrow> M' = add_mset (fold (assign t) sets row) (M - {#row#})"
proof
  assume "exec_sql t (UpdateRow s n sets conds) M M'"
  then show "M' = add_mset (fold (assign t) sets row) (M - {#row#})" using assms by cases auto
qed (use assms in \<open>auto intro: exec_sql.update_hit\<close>)

lemma key_matches_one:
  assumes "keyed_table t" and "image_ok t r" and "key_unique t (add_mset (row_image t r) N)"
  shows "\<forall>x\<in>#add_mset (row_image t r) N. row_matches t (key_conditions t (row_image t r)) x \<longleftrightarrow> x = row_image t r"
  using key_hit [OF assms(3)] unfolding row_matches_key [OF assms(1,2)] by blast

lemma undo_exec:
  assumes "restorable ch" and "change_step ch M M'" and "key_unique (ch_Table ch) M'"
  shows "exec_sql (ch_Table ch) (undo ch) M' M'' \<longleftrightarrow> M'' = M"
  using assms(2)
proof cases
  case inserted
  have img: "image_ok (ch_Table ch) (ch_After ch)" and keyed: "keyed_table (ch_Table ch)"
    using assms(1) inserted by (simp_all add: restorable_def change_ok_def)
  have "exec_sql (ch_Table ch) (undo ch) M' M'' \<longleftrightarrow> M'' = M' - {#row_image (ch_Table ch) (ch_After ch)#}"
    using exec_delete_one [OF _ key_matches_one [OF keyed img assms(3) [unfolded inserted(1)]]] inserted
    by (simp add: undo_def Let_def)
  with inserted show ?thesis by simp
next
  case deleted
  then show ?thesis by (simp add: undo_def exec_insert Let_def)
next
  case updated
  let ?b = "row_image (ch_Table ch) (ch_Before ch)" and ?r = "row_image (ch_Table ch) (ch_After ch)"
  have img: "image_ok (ch_Table ch) (ch_Before ch)" "image_ok (ch_Table ch) (ch_After ch)" and keyed: "keyed_table (ch_Table ch)"
    and cols: "distinct (map (\<lambda>c. strings_ToLower (col_Name c)) (t_Columns (ch_Table ch)))"
    using assms(1) updated by (simp_all add: restorable_def change_ok_def)
  have restored: "fold (assign (ch_Table ch)) (zip (map col_Name (t_Columns (ch_Table ch))) ?b) ?r = ?b"
    using image_ok_length [OF img(1)] image_ok_length [OF img(2)] by (intro assign_all [OF cols]) (simp_all add: row_image_def)
  have "exec_sql (ch_Table ch) (undo ch) M' M'' \<longleftrightarrow> M'' = add_mset ?b (M' - {#?r#})"
    using exec_update_one [OF _ key_matches_one [OF keyed img(2) assms(3) [unfolded updated(1)]]] updated restored
    by (simp add: undo_def Let_def)
  with updated show ?thesis by simp
qed

section \<open>Rolling a sequence of changes back\<close>

type_synonym database = "string \<times> string \<Rightarrow> rows"

definition change_table :: "row_change \<Rightarrow> string \<times> string" where
  "change_table ch = (t_Schema (ch_Table ch), t_Name (ch_Table ch))"

inductive db_changes :: "row_change list \<Rightarrow> database \<Rightarrow> database \<Rightarrow> bool" where
  none: "db_changes [] D D"
| step: "change_step ch (D (change_table ch)) M \<Longrightarrow> key_unique (ch_Table ch) M \<Longrightarrow>
    db_changes chs (D(change_table ch := M)) D' \<Longrightarrow> db_changes (ch # chs) D D'"

inductive db_rollback :: "row_change list \<Rightarrow> database \<Rightarrow> database \<Rightarrow> bool" where
  none: "db_rollback [] D D"
| step: "exec_sql (ch_Table ch) (undo ch) (D (change_table ch)) M \<Longrightarrow>
    db_rollback chs (D(change_table ch := M)) D' \<Longrightarrow> db_rollback (ch # chs) D D'"

inductive_simps db_changes_simps [simp]: "db_changes [] D D'" "db_changes (ch # chs) D D'"
inductive_simps db_rollback_simps [simp]: "db_rollback [] D D'" "db_rollback (ch # chs) D D'"

lemma db_rollback_append: "db_rollback (xs @ ys) D D' \<longleftrightarrow> (\<exists>E. db_rollback xs D E \<and> db_rollback ys E D')"
  by (induction xs arbitrary: D) auto

lemma db_rollback_last:
  assumes "restorable ch" and "change_step ch (D (change_table ch)) M" and "key_unique (ch_Table ch) M"
  shows "db_rollback [ch] (D(change_table ch := M)) D' \<longleftrightarrow> D' = D"
  using undo_exec [OF assms] by auto


text \<open>
  C23. The audit's key test is enough for the rollback: for a table that \<^verbatim>\<open>hasReliableKey\<close> accepts,
  whose primary key (if any) names columns of the table, the generator never fails on a FULL row image.
\<close>

theorem reliable_key_generates:
  assumes "hasReliableKey (ch_Table ch)" and "change_ok ch"
    and "\<forall>i\<in>set (t_Indexes (ch_Table ch)). idx_Primary i \<longrightarrow>
      idx_Columns i \<noteq> [] \<and> list_all (hasColumn (ch_Table ch)) (idx_Columns i)"
  shows "\<exists>sql. Generate ch = Inr sql"
proof -
  have keyed: "keyed_table (ch_Table ch)" using reliable_keyed assms(1,3) by blast
  show ?thesis
    using assms(2) deleteSQL_lexes [OF keyed, of "ch_After ch"] insertSQL_lexes [of "ch_Table ch" "ch_Before ch"]
      updateSQL_lexes [OF keyed, of "ch_Before ch" "ch_After ch"]
    by (auto simp: Generate_def change_ok_def split: change_type.splits)
qed

section \<open>A change for the witnesses\<close>

definition accounts :: table_meta where
  "accounts = zero_table_meta\<lparr>t_Schema := ''app'', t_Name := ''accounts'',
     t_Columns := [zero_column_meta\<lparr>col_Name := ''id'', col_ColumnType := ''bigint''\<rparr>,
       zero_column_meta\<lparr>col_Name := ''owner'', col_ColumnType := ''varchar(20)'', col_Nullable := True\<rparr>],
     t_Indexes := [zero_index_meta\<lparr>idx_Name := ''PRIMARY'', idx_Columns := [''id''], idx_Unique := True, idx_Primary := True\<rparr>]\<rparr>"

definition account_row :: "nat \<Rightarrow> string \<Rightarrow> go_value list" where
  "account_row n s = [VInt64 (of_nat n), VString s]"

definition account_change :: "change_type \<Rightarrow> go_value list \<Rightarrow> go_value list \<Rightarrow> row_change" where
  "account_change ty before after = \<lparr> ch_Sequence = 0, ch_Type = ty, ch_Table = accounts, ch_Before = before, ch_After = after \<rparr>"

lemmas accounts_simps = accounts_def zero_table_meta_def zero_column_meta_def zero_index_meta_def

lemma accounts_kinds [simp]:
  "\<not> decimal_kind ''bigint''" "\<not> decimal_kind ''varchar(20)''" "\<not> binary_kind ''varchar(20)''"
  by (simp_all add: decimal_kind_def binary_kind_def go_defs)

lemma accounts_key [simp]: "row_key accounts = Some (zero_index_meta\<lparr>idx_Name := ''PRIMARY'', idx_Columns := [''id''], idx_Unique := True, idx_Primary := True\<rparr>)"
  by (simp add: row_key_def accounts_simps)

lemma accounts_image [simp]: "image_ok accounts (account_row n s)"
  by (simp add: image_ok_def account_row_def accounts_simps column_value_def column_kind_def strings_ToLower_def lower_byte_def)

lemma accounts_columns [simp]: "hasColumn accounts ''id''" "keyed_table accounts"
  by (simp_all add: hasColumn_def keyed_table_def strings_EqualFold_def) (simp_all add: accounts_simps)

lemma account_change_ok [simp]:
  "change_ok (account_change ChangeUpdate (account_row n s) (account_row m r))"
  by (simp add: change_ok_def account_change_def) (simp add: accounts_def)

lemma account_change_simps [simp]:
  "ch_Table (account_change ty b a) = accounts" "ch_Type (account_change ty b a) = ty"
  "ch_Before (account_change ty b a) = b" "ch_After (account_change ty b a) = a"
  "change_table (account_change ty b a) = (''app'', ''accounts'')"
  by (simp_all add: account_change_def change_table_def accounts_def)

lemma account_image [simp]:
  "row_image accounts (account_row 1 s) = [SNumber ''1'', SText s]"
  "row_image accounts (account_row (Suc 0) s) = [SNumber ''1'', SText s]"
  "row_image accounts (account_row 2 s) = [SNumber ''2'', SText s]"
  "row_image accounts (account_row 3 s) = [SNumber ''3'', SText s]"
  by (simp_all add: row_image_def account_row_def accounts_simps column_value_def column_kind_def strings_ToLower_def
      lower_byte_def strconv_Itoa_def nat_string_def nat_digits_rev.simps digit_char_def)

lemma account_cells [simp]: "cell accounts (x # xs) ''id'' = Some x" "key_of accounts (x # xs) = [Some x]"
  by (simp_all add: key_of_def) (simp_all add: cell_def accounts_simps strings_EqualFold_def)

lemma account_restorable [simp]: "restorable (account_change ChangeUpdate (account_row n s) (account_row m r))"
  by (simp add: restorable_def) (simp add: accounts_simps strings_ToLower_def lower_byte_def)

lemma key_unique_pair: "key_unique t {#a, b#} \<longleftrightarrow> key_of t a \<noteq> key_of t b"
  by (auto simp: key_unique_def add_eq_conv_ex)


theorem reliable_key_generates_witness:
  "\<exists>sql. Generate (account_change ChangeUpdate (account_row 1 ''a'') (account_row 2 ''b'')) = Inr sql"
  by (rule reliable_key_generates) (simp_all, simp_all add: hasReliableKey_def accounts_simps hasColumn_def strings_EqualFold_def)

text \<open>\<^verbatim>\<open>UPDATE accounts SET id = id + 1\<close> on two rows, which MySQL can run from the larger key down.\<close>

definition shift_changes :: "row_change list" where
  "shift_changes = [account_change ChangeUpdate (account_row 2 ''b'') (account_row 3 ''b''),
     account_change ChangeUpdate (account_row 1 ''a'') (account_row 2 ''a'')]"

definition accounts_db :: "sql_value list multiset \<Rightarrow> database" where
  "accounts_db M k = (if k = (''app'', ''accounts'') then M else {#})"

lemma accounts_db_simps [simp]:
  "accounts_db M (''app'', ''accounts'') = M"
  "(accounts_db M)((''app'', ''accounts'') := N) = accounts_db N"
  "accounts_db M = accounts_db N \<longleftrightarrow> M = N"
  by (auto simp: accounts_db_def fun_eq_iff split: if_splits)

lemma shift_run: "db_changes shift_changes (accounts_db {#[SNumber ''1'', SText ''a''], [SNumber ''2'', SText ''b'']#})
   (accounts_db {#[SNumber ''2'', SText ''a''], [SNumber ''3'', SText ''b'']#})"
proof -
  have "change_step (account_change ChangeUpdate (account_row 2 ''b'') (account_row 3 ''b''))
      {#[SNumber ''1'', SText ''a''], [SNumber ''2'', SText ''b'']#} {#[SNumber ''3'', SText ''b''], [SNumber ''1'', SText ''a'']#}"
    using change_step.updated [of "account_change ChangeUpdate (account_row 2 ''b'') (account_row 3 ''b'')"
        "{#[SNumber ''1'', SText ''a''], [SNumber ''2'', SText ''b'']#}"] by simp
  moreover have "change_step (account_change ChangeUpdate (account_row 1 ''a'') (account_row 2 ''a''))
      {#[SNumber ''3'', SText ''b''], [SNumber ''1'', SText ''a'']#} {#[SNumber ''2'', SText ''a''], [SNumber ''3'', SText ''b'']#}"
    using change_step.updated [of "account_change ChangeUpdate (account_row 1 ''a'') (account_row 2 ''a'')"
        "{#[SNumber ''3'', SText ''b''], [SNumber ''1'', SText ''a'']#}"] by simp
  ultimately show ?thesis
    by (auto simp: shift_changes_def key_unique_pair intro!: exI)
qed


text \<open>
  The order of the rollback statements matters: executed in the order in which the changes were
  captured, which is the order in which the engine stores them, they can destroy a row. Here a
  shifted key loses the row \<open>(2, b)\<close>.
\<close>

theorem capture_order_loses_row:
  "\<exists>D. db_rollback shift_changes (accounts_db {#[SNumber ''2'', SText ''a''], [SNumber ''3'', SText ''b'']#}) D \<and>
     D = accounts_db {#[SNumber ''1'', SText ''a''], [SNumber ''2'', SText ''a'']#}"
proof -
  let ?c1 = "account_change ChangeUpdate (account_row 2 ''b'') (account_row 3 ''b'')"
  let ?c2 = "account_change ChangeUpdate (account_row 1 ''a'') (account_row 2 ''a'')"
  have set1: "fold (assign accounts) (zip (map col_Name (t_Columns accounts)) [x, y]) [u, v] = [x, y]" for x y u v
    by (simp add: assign_def accounts_simps strings_EqualFold_def strings_ToLower_def lower_byte_def)
  have undo: "undo (account_change ChangeUpdate b a) = UpdateRow ''app'' ''accounts''
      (zip (map col_Name (t_Columns accounts)) (row_image accounts b)) [(''id'', the (cell accounts (row_image accounts a) ''id''))]" for a b
    by (simp add: undo_def key_conditions_def Let_def) (simp add: accounts_def zero_index_meta_def)
  have "exec_sql accounts (undo ?c1) {#[SNumber ''2'', SText ''a''], [SNumber ''3'', SText ''b'']#}
      {#[SNumber ''2'', SText ''b''], [SNumber ''2'', SText ''a'']#}"
    using exec_sql.update_hit [of "[SNumber ''3'', SText ''b'']" "{#[SNumber ''2'', SText ''a''], [SNumber ''3'', SText ''b'']#}" accounts
        "[(''id'', SNumber ''3'')]" "''app''" "''accounts''" "zip (map col_Name (t_Columns accounts)) [SNumber ''2'', SText ''b'']"]
    by (simp add: undo row_matches_def set1)
  moreover have "exec_sql accounts (undo ?c2) {#[SNumber ''2'', SText ''b''], [SNumber ''2'', SText ''a'']#}
      {#[SNumber ''1'', SText ''a''], [SNumber ''2'', SText ''a'']#}"
    using exec_sql.update_hit [of "[SNumber ''2'', SText ''b'']" "{#[SNumber ''2'', SText ''b''], [SNumber ''2'', SText ''a'']#}" accounts
        "[(''id'', SNumber ''2'')]" "''app''" "''accounts''" "zip (map col_Name (t_Columns accounts)) [SNumber ''1'', SText ''a'']"]
    by (simp add: undo row_matches_def set1)
  ultimately show ?thesis by (auto simp: shift_changes_def intro!: exI)
qed

end
