(* ===== verification/ExecEngineFacts.thy ===== *)
theory ExecEngineFacts
  imports ExecEngine SessionFacts RollbackFacts
begin

text \<open>
  Properties of the execution engine: it stops at the first failure, it never executes a statement
  whose effect it could not back up, its operation identifiers are unique, the rollback of an ALTER
  TABLE restores the table; and, composed with the session, what the records say of a request.
\<close>

section \<open>One step\<close>

lemma finish_step_Returns:
  "finish_step env options i r w = (Returns (r', go), w') \<longleftrightarrow> executionDelay env options i w = (go, w') \<and> r' = r"
  by (auto simp: finish_step_def split: prod.split)

lemma result_simps [simp]:
  "res_Sequence (new_result s) = s_Sequence s" "res_Error (new_result s) = []"
  "res_Sequence (executed_result r d n) = res_Sequence r" "res_Error (executed_result r d n) = res_Error r"
  "res_Executed (executed_result r d n)" "res_BackupCompleted (executed_result r d n) = res_BackupCompleted r"
  "res_BackupCompleted (new_result s) = False"
  by (simp_all add: new_result_def executed_result_def zero_execution_result_def)

text \<open>A step that lets the loop go on has executed its statement without an error.\<close>

definition step_ok :: "statement \<Rightarrow> step_result \<Rightarrow> bool" where
  "step_ok s x \<longleftrightarrow> res_Sequence (fst x) = s_Sequence s \<and> (snd x \<longrightarrow> res_Executed (fst x) \<and> res_Error (fst x) = [])"

lemma failed_step_ok [simp]: "res_Sequence r = s_Sequence s \<Longrightarrow> step_ok s (failed_step r rule err)"
  by (simp add: step_ok_def failed_step_def)

lemma finish_step_ok:
  "finish_step env options i r w = (Returns x, w') \<Longrightarrow> res_Sequence r = s_Sequence s \<Longrightarrow> res_Executed r \<Longrightarrow> res_Error r = [] \<Longrightarrow> step_ok s x"
  by (cases x) (auto simp: finish_step_Returns step_ok_def)

lemma execute_plain_ok: "execute_plain env options i s w = (Returns x, w') \<Longrightarrow> step_ok s x"
  by (auto simp: execute_plain_def Let_def dest: finish_step_ok [where s = s] split: prod.splits sum.splits)

lemma backup_statement_ok:
  "backup_statement env store options tid i s t start ddl r w = (Returns x, w') \<Longrightarrow>
   res_Sequence r = s_Sequence s \<Longrightarrow> res_Executed r \<Longrightarrow> res_Error r = [] \<Longrightarrow> step_ok s x"
  by (auto simp: backup_statement_def Let_def dest: finish_step_ok [where s = s] split: prod.splits sum.splits outcome.splits)

lemma execute_with_backup_ok: "execute_with_backup env store options tid i s w = (Returns x, w') \<Longrightarrow> step_ok s x"
  by (auto simp: execute_with_backup_def Let_def dest: backup_statement_ok split: prod.splits sum.splits outcome.splits)

lemma execute_one_ok: "execute_one env bk options i s w = (Returns x, w') \<Longrightarrow> step_ok s x"
  by (auto simp: execute_one_def dest: execute_plain_ok execute_with_backup_ok split: option.splits prod.splits if_splits)

section \<open>The loop stops at the first failure\<close>

lemma execute_loop_results:
  "execute_loop env bk options i ss w = (Returns rs, w') \<Longrightarrow> prefix_results ss rs \<and> (ss \<noteq> [] \<longrightarrow> rs \<noteq> [])"
proof (induction ss arbitrary: i w rs)
  case Nil
  then show ?case by (simp add: io_apply prefix_results_def)
next
  case (Cons s ss)
  then obtain r go w1 where step: "execute_one env bk options i s w = (Returns (r, go), w1)" and
    rest: "(if go then io_bind (execute_loop env bk options (Suc i) ss) (\<lambda>rs. io_return (r # rs)) else io_return [r]) w1 = (Returns rs, w')"
    by (auto simp: io_bind_Returns)
  have ok: "step_ok s (r, go)" using execute_one_ok [OF step] .
  show ?case
  proof (cases go)
    case True
    with rest obtain rs' where run: "execute_loop env bk options (Suc i) ss w1 = (Returns rs', w')" "rs = r # rs'"
      by (auto simp: io_bind_Returns io_apply)
    from Cons.IH [OF run(1)] ok True run(2) show ?thesis by (auto simp: prefix_results_def step_ok_def)
  next
    case False
    with rest ok show ?thesis by (auto simp: io_apply prefix_results_def step_ok_def)
  qed
qed

section \<open>Statements that cannot be backed up are not executed\<close>

lemma execute_loop_append_stuck:
  assumes "\<And>i w. \<exists>x. execute_one env bk options i s w = (Returns (x, False), w)"
  shows "snd (execute_loop env bk options i (pre @ s # post) w) = snd (execute_loop env bk options i pre w)"
proof (induction pre arbitrary: i w)
  case Nil
  from assms [of i w] show ?case by (auto simp: io_bind_def io_apply)
next
  case (Cons p pre)
  obtain out w1 where p: "execute_one env bk options i p w = (out, w1)" by fastforce
  show ?case
  proof (cases out)
    case (Returns x)
    with Cons p show ?thesis by (cases x) (simp add: io_bind_cases(1) io_apply)
  qed (use p in \<open>simp_all add: io_bind_cases\<close>)
qed

text \<open>
  Statements that the engine cannot undo: DROP DATABASE, TRUNCATE, DROP INDEX, the view statements and
  ALTER DATABASE, and every ALTER TABLE with an operation other than adding columns, adding an index or
  renaming a column.
\<close>

definition undoable_alter :: "alter_action \<Rightarrow> bool" where
  "undoable_alter a \<longleftrightarrow> a = AlterAddColumns \<or> a = AlterAddIndex \<or> a = AlterRenameColumn"

fun undoable_ddl :: "ddl_spec \<Rightarrow> bool" where
  "undoable_ddl d \<longleftrightarrow>
     (case d_Action d of
        DDLCreateDatabase \<Rightarrow> True | DDLCreateTable \<Rightarrow> True | DDLDropTable \<Rightarrow> True | DDLRenameTable \<Rightarrow> True
      | DDLCreateIndex \<Rightarrow> True
      | DDLAlterTable \<Rightarrow> (\<forall>op\<in>set (d_AlterOperations d). undoable_alter (op_Action op))
      | _ \<Rightarrow> False)"

definition projected_indexes :: "ddl_spec \<Rightarrow> bool" where
  "projected_indexes d \<longleftrightarrow> (\<forall>op\<in>set (d_AlterOperations d). op_Action op = AlterAddIndex \<longrightarrow> op_Index op \<noteq> None)"

lemma alter_rollbacks_raise:
  "\<forall>op\<in>set ops. op_Action op = AlterAddIndex \<longrightarrow> op_Index op \<noteq> None \<Longrightarrow>
   \<exists>op\<in>set ops. \<not> undoable_alter (op_Action op) \<Longrightarrow> \<exists>err. alter_rollbacks d ops = Raises err"
proof (induction ops)
  case (Cons op ops)
  show ?case
  proof (cases "undoable_alter (op_Action op)")
    case True
    then have "\<exists>rs. alter_rollback d op = Returns rs" using Cons.prems(1)
      by (auto simp: undoable_alter_def alter_rollback_def)
    moreover have "\<exists>err. alter_rollbacks d ops = Raises err" using Cons True by auto
    ultimately show ?thesis by auto
  next
    case False
    then have "\<exists>err. alter_rollback d op = Raises err"
      by (auto simp: undoable_alter_def alter_rollback_def split: alter_action.split)
    then show ?thesis by auto
  qed
qed simp

lemma prepareDDLRollback_raises:
  assumes "s_DDL s = Some d" and "\<not> undoable_ddl d" and "projected_indexes d"
  shows "\<exists>err. prepareDDLRollback env w s = Raises err"
  using assms alter_rollbacks_raise [of "rev (d_AlterOperations d)" d]
  by (auto simp: prepareDDLRollback_def projected_indexes_def split: ddl_action.splits)

lemma not_undoable_stuck:
  assumes "s_DDL s = Some d" and "\<not> undoable_ddl d" and "projected_indexes d"
    and "s_Kind s \<noteq> StatementUse" and "s_Kind s \<noteq> StatementSelect"
  shows "\<exists>x. execute_one env (Some bk) options i s w = (Returns (x, False), w)"
proof -
  obtain err where "prepareDDLRollback env w s = Raises err" using prepareDDLRollback_raises [OF assms(1-3), of env w] by blast
  with assms(4,5) show ?thesis
    by (cases bk) (auto simp: execute_one_def execute_with_backup_def failed_step_def Let_def split: sum.split)
qed

text \<open>
  C19. With backup, a DDL statement that the engine cannot undo is not executed, and nothing after it is:
  the target and the backup server end as if the request had stopped before the statement.
\<close>

theorem not_undoable_not_executed:
  assumes "s_DDL s = Some d" and "\<not> undoable_ddl d" and "projected_indexes d"
    and "s_Kind s \<noteq> StatementUse" and "s_Kind s \<noteq> StatementSelect"
  shows "snd (execute_loop env (Some bk) options i (pre @ s # post) w) = snd (execute_loop env (Some bk) options i pre w)"
  by (rule execute_loop_append_stuck) (rule not_undoable_stuck [OF assms])

section \<open>The engine always returns\<close>

text \<open>The projections the parser makes of CREATE INDEX and ADD INDEX carry the index.\<close>

definition projected :: "statement \<Rightarrow> bool" where
  "projected s \<longleftrightarrow> (case s_DDL s of None \<Rightarrow> True
     | Some d \<Rightarrow> (d_Action d = DDLCreateIndex \<longrightarrow> d_Indexes d \<noteq> []) \<and> projected_indexes d)"

lemma returns_finish: "\<exists>x w'. finish_step env options i r w = (Returns x, w')"
  by (auto simp: finish_step_def split: prod.split)

lemma execute_plain_returns: "\<exists>x w'. execute_plain env options i s w = (Returns x, w')"
  using returns_finish by (auto simp: execute_plain_def Let_def split: prod.split sum.split)

lemma alter_rollbacks_no_panic:
  "\<forall>op\<in>set ops. op_Action op = AlterAddIndex \<longrightarrow> op_Index op \<noteq> None \<Longrightarrow> alter_rollbacks d ops \<noteq> Panics m"
proof (induction ops)
  case (Cons op ops)
  have "alter_rollback d op \<noteq> Panics m" using Cons.prems by (auto simp: alter_rollback_def split: alter_action.split option.split)
  with Cons show ?case by (auto split: outcome.split)
qed simp

lemma prepareDDLRollback_no_panic: "projected s \<Longrightarrow> prepareDDLRollback env w s \<noteq> Panics m"
  using alter_rollbacks_no_panic
  by (auto simp: projected_def projected_indexes_def prepareDDLRollback_def outcome_of_def
      split: option.splits ddl_action.split sum.split list.split)

lemma Save_no_panic: "fair_order (sd_order st) \<Longrightarrow> Save st op w \<noteq> (Panics m, w')"
  using Save_safe unfolding io_safe_def by blast

lemma backup_statement_returns:
  assumes "fair_order (sd_order store)"
  shows "\<exists>x w'. backup_statement env store options tid i s t start ddl r w = (Returns x, w')"
proof (cases "MasterPosition (ee_MasterStatus env w)")
  case (Inr stop)
  show ?thesis
  proof (cases "statement_rollbacks env w s start stop tid (res_AffectedRows r) ddl")
    case (Inr rollbacks)
    let ?op = "backup_operation options s (opid_text (t div 1000000000) tid (s_Sequence s)) start stop tid rollbacks"
    obtain o' w1 where save: "Save store ?op w = (o', w1)" by fastforce
    show ?thesis
      using \<open>MasterPosition _ = Inr stop\<close> Inr save Save_no_panic [OF assms, of ?op w] returns_finish
      by (cases o') (auto simp: backup_statement_def Let_def)
  qed (use Inr in \<open>simp add: backup_statement_def Let_def\<close>)
qed (simp add: backup_statement_def)

lemma execute_with_backup_returns:
  assumes "fair_order (sd_order store)" and "projected s"
  shows "\<exists>x w'. execute_with_backup env store options tid i s w = (Returns x, w')"
proof (cases "MasterPosition (ee_MasterStatus env w)")
  case (Inr start)
  show ?thesis
  proof (cases "prepareDDLRollback env w s")
    case (Returns ddl)
    with Inr backup_statement_returns [OF assms(1)] show ?thesis
      by (auto simp: execute_with_backup_def Let_def split: prod.split sum.split)
  qed (use Inr prepareDDLRollback_no_panic [OF assms(2), of env w] in \<open>auto simp: execute_with_backup_def Let_def\<close>)
qed (simp add: execute_with_backup_def Let_def)

definition backup_fair :: "('w store_db \<times> 32 word) option \<Rightarrow> bool" where
  "backup_fair bk \<longleftrightarrow> (case bk of None \<Rightarrow> True | Some (store, tid) \<Rightarrow> fair_order (sd_order store))"

lemma execute_one_returns:
  assumes "backup_fair bk" and "projected s"
  shows "\<exists>x w'. execute_one env bk options i s w = (Returns x, w')"
proof (cases bk)
  case None
  then show ?thesis using execute_plain_returns by (simp add: execute_one_def)
next
  case (Some b)
  obtain store tid where "b = (store, tid)" by fastforce
  with Some assms execute_plain_returns execute_with_backup_returns show ?thesis
    by (auto simp: execute_one_def backup_fair_def)
qed

lemma execute_loop_returns:
  assumes "backup_fair bk" and "\<forall>s\<in>set ss. projected s"
  shows "\<exists>rs w'. execute_loop env bk options i ss w = (Returns rs, w')"
  using assms(2)
proof (induction ss arbitrary: i w)
  case (Cons s ss)
  then obtain r go w1 where one: "execute_one env bk options i s w = (Returns (r, go), w1)"
    using execute_one_returns [OF assms(1)] by (metis list.set_intros(1) surj_pair)
  show ?case
  proof (cases go)
    case True
    from Cons obtain rs w2 where "execute_loop env bk options (Suc i) ss w1 = (Returns rs, w2)" by fastforce
    with one True show ?thesis by (simp add: io_bind_cases io_apply)
  qed (use one in \<open>simp add: io_bind_cases io_apply\<close>)
qed (simp add: io_apply)

lemma configureSession_safe: "io_safe (configureSession env options)"
  unfolding configureSession_def exec_setting_def Let_def by (auto intro!: io_safeI)

lemma Execute_returns:
  assumes "\<forall>t store. ee_OpenStore env t = Inr store \<longrightarrow> fair_order (sd_order store)" and "\<forall>s\<in>set ss. projected s"
  shows "\<exists>rs w'. Execute env target options ss w = (Returns rs, w')"
proof -
  obtain c w1 where conn: "ee_Conn env w = (c, w1)" by fastforce
  obtain o' w2 where conf: "configureSession env (opt_Target options) w1 = (o', w2)" by fastforce
  have "o' \<noteq> Panics m" for m using configureSession_safe [of env "opt_Target options"] conf unfolding io_safe_def by auto
  moreover have "backup_fair (Some bk)" if "open_backup env target w2 = Inr bk" for bk
    using that assms(1) by (auto simp: open_backup_def backup_fair_def split: option.splits if_splits sum.splits)
  moreover have "backup_fair None" by (simp add: backup_fair_def)
  ultimately show ?thesis
    using conn conf execute_loop_returns [OF _ assms(2)]
    by (cases c; cases o') (auto simp: Execute_def split: sum.split)
qed

text \<open>
  The engine always answers: for every behaviour of the target and the backup server it returns a list of
  results and never panics, as long as the statements are projected as the parser projects them.
\<close>

theorem Execute_total:
  assumes "\<forall>t store. ee_OpenStore env t = Inr store \<longrightarrow> fair_order (sd_order store)" and "\<forall>s\<in>set ss. projected s"
  shows "\<exists>rs w'. Execute env target options ss w = (Returns rs, w')"
  by (rule Execute_returns [OF assms])

section \<open>A completed backup is complete\<close>

lemma generate_rollbacks_length: "generate_rollbacks chs = Inr rs \<Longrightarrow> length rs = length chs"
  by (induction chs arbitrary: rs) (auto simp: sum_bind_Inr_iff)

lemma Collect_length:
  "Collect_changes lib load start stop tid n = Inr chs \<Longrightarrow> start \<noteq> stop \<Longrightarrow> int (length chs) = n"
  by (auto simp: Collect_changes_def Let_def sum_bind_Inr_iff split: if_splits sum.splits)

lemma statement_rollbacks_length:
  assumes "statement_rollbacks env w s start stop tid n ddl = Inr rs" and "s_DML s \<noteq> None" and "start \<noteq> stop"
  shows "int (length rs) = n"
proof -
  obtain chs where "Collect_changes (ee_Binlog env w) (ee_LoadTable env w) start stop tid n = Inr chs" "generate_rollbacks chs = Inr rs"
    using assms(1,2) by (auto simp: statement_rollbacks_def sum_bind_Inr_iff)
  with generate_rollbacks_length Collect_length assms(3) show ?thesis by metis
qed

lemma failed_step_incomplete: "failed_step r rule err = (r', go) \<Longrightarrow> res_BackupCompleted r' = res_BackupCompleted r"
  by (auto simp: failed_step_def)

lemma backup_statement_complete:
  assumes "backup_statement env store options tid i s t start ddl r w = (Returns (r', go), w')"
    and "res_BackupCompleted r'" and "\<not> res_BackupCompleted r"
  shows "\<exists>stop rollbacks w1. statement_rollbacks env w s start stop tid (res_AffectedRows r) ddl = Inr rollbacks \<and>
    Save store (backup_operation options s (res_SequenceID r') start stop tid rollbacks) w = (Returns (res_BackupDatabase r'), w1) \<and>
    res_AffectedRows r' = res_AffectedRows r"
  using assms
  by (auto simp: backup_statement_def Let_def finish_step_Returns dest: failed_step_incomplete split: sum.splits prod.splits outcome.splits)

text \<open>
  C12. A statement reported as backed up is backed up completely: the store saved, under the reported identifier
  and in the reported database, an operation whose rollback statements are as many as the affected
  rows, for a DML statement that wrote to the binary log.
\<close>

theorem backup_completed_complete:
  assumes "execute_with_backup env store options tid i s w = (Returns (r, go), w')" and "res_BackupCompleted r"
  shows "\<exists>op w1 w2. Save store op w1 = (Returns (res_BackupDatabase r), w2) \<and> bo_OPID op = res_SequenceID r \<and>
    bo_Statement op = s \<and> bo_ThreadID op = tid \<and>
    (s_DML s \<noteq> None \<and> bo_Start op \<noteq> bo_End op \<longrightarrow> int (length (bo_Rollbacks op)) = res_AffectedRows r)"
proof -
  obtain t start ddl r1 w1 where run: "backup_statement env store options tid i s t start ddl r1 w1 = (Returns (r, go), w')"
    "\<not> res_BackupCompleted r1"
    using assms by (auto simp: execute_with_backup_def Let_def dest!: failed_step_incomplete split: sum.splits prod.splits outcome.splits)
  from backup_statement_complete [OF run(1) assms(2) run(2)] obtain stop rollbacks w2 where
    "statement_rollbacks env w1 s start stop tid (res_AffectedRows r1) ddl = Inr rollbacks"
    "Save store (backup_operation options s (res_SequenceID r) start stop tid rollbacks) w1 = (Returns (res_BackupDatabase r), w2)"
    "res_AffectedRows r = res_AffectedRows r1" by blast
  with statement_rollbacks_length [of env w1 s start stop tid "res_AffectedRows r1" ddl rollbacks] show ?thesis
    by (intro exI [of _ "backup_operation options s (res_SequenceID r) start stop tid rollbacks"] exI [of _ w1] exI [of _ w2])
       (simp add: backup_operation_def)
qed

section \<open>The engine is an executor of the session\<close>

lemma first_failure_prefix: "numbered ss \<Longrightarrow> ss \<noteq> [] \<Longrightarrow> prefix_results ss (first_failure rule message)"
  by (cases ss) (auto simp: prefix_results_def first_failure_def zero_execution_result_def numbered_def upt_conv_Cons simp del: upt_Suc)

lemma Execute_prefix:
  assumes "Execute env target opts ss w = (Returns rs, w')" and "numbered ss" and "ss \<noteq> []"
  shows "prefix_results ss rs"
  using assms first_failure_prefix [OF assms(2,3)]
  by (auto simp: Execute_def dest: execute_loop_results split: prod.splits sum.splits outcome.splits if_splits)

interpretation mysql: prefix_executor "Execute env target" for env :: "'w exec_env" and target
  by unfold_locales (rule Execute_prefix)

lemma same_numbered: "list_all2 same_statement ss ss' \<Longrightarrow> numbered ss \<Longrightarrow> numbered ss'"
proof -
  assume same: "list_all2 same_statement ss ss'" and "numbered ss"
  have "map s_Sequence ss' = map s_Sequence ss" using same by (induction rule: list_all2_induct) (simp_all add: same_statement_def)
  with \<open>numbered ss\<close> list_all2_lengthD [OF same] show ?thesis by (simp add: numbered_def)
qed

lemma audited_statements:
  assumes "audited ses input w opts parsed records" and "ses_engine ses = program_rules"
  shows "\<exists>stmts. list_all2 same_statement (pr_Statements parsed) stmts \<and> length records = length stmts \<and>
    Audit ses input w = execute_phase ses opts records stmts w"
proof -
  obtain stmts lp lp0 where run: "audit_statements program_rules (session_policy ses) (opt_Execute opts) (pr_Warnings parsed)
      (pr_Statements parsed) lp0 = Returns (records, stmts, lp)" and "Audit ses input w = execute_phase ses opts records stmts w"
    using assms by (auto simp: audited_def Audit_def Let_def)
  with audit_statements_run [OF run] show ?thesis by (metis list_all2_lengthD)
qed


section \<open>Operation identifiers\<close>

lemma underscore_not_digit: "CHR ''_'' \<notin> set (nat_string n)"
  using nat_string_digits [of n] by (auto simp: is_digit_def)

lemma underscore_free: "CHR ''_'' \<notin> set (strconv_Itoa i)"
  by (simp add: strconv_Itoa_def underscore_not_digit)

lemma first_field:
  "CHR ''_'' \<notin> set a \<Longrightarrow> CHR ''_'' \<notin> set b \<Longrightarrow> a @ ''_'' @ x = b @ ''_'' @ y \<Longrightarrow> a = b \<and> x = y"
proof (induction a arbitrary: b)
  case Nil
  then show ?case by (cases b) auto
next
  case (Cons c cs)
  then show ?case by (cases b) auto
qed

lemma nat_string_inject: "nat_string m = nat_string n \<Longrightarrow> m = n"
proof -
  assume "nat_string m = nat_string n"
  then have "scan_uint (m + n) 0 (nat_string m) = scan_uint (m + n) 0 (nat_string n)" by simp
  then show ?thesis by (simp add: scan_uint_nat_string)
qed

lemma hd_digits_nonzero: "0 < n \<Longrightarrow> hd (nat_string n) \<noteq> CHR ''0''"
proof (induction n rule: nat_digits_rev.induct)
  case (1 n)
  show ?case
  proof (cases "n < 10")
    case True
    with 1 show ?thesis
      by (auto simp: nat_string_def nat_digits_rev.simps [of n] dest!: arg_cong [where f = byte_val])
  next
    case False
    then have "nat_string n = nat_string (n div 10) @ [digit_char (n mod 10)]"
      by (simp add: nat_string_def nat_digits_rev.simps [of n])
    with 1 False show ?thesis by (simp add: hd_append)
  qed
qed

text \<open>Zero padding is undone by removing the leading zeros (all but the last digit of zero).\<close>

lemma fmt_08d_inject:
  assumes "0 \<le> a" and "0 \<le> b" and "fmt_08d a = fmt_08d b"
  shows "a = b"
proof -
  have strip: "dropWhile (\<lambda>c. c = CHR ''0'') (fmt_08d i) = (if i = 0 then [] else nat_string (nat i))" if "0 \<le> i" for i
  proof (cases "i = 0")
    case True
    then show ?thesis by (simp add: fmt_08d_def nat_string_def nat_digits_rev.simps digit_char_def dropWhile_append)
  next
    case False
    with that hd_digits_nonzero [of "nat i"] have "dropWhile (\<lambda>c. c = CHR ''0'') (nat_string (nat i)) = nat_string (nat i)"
      by (cases "nat_string (nat i)") auto
    with that False show ?thesis by (simp add: fmt_08d_def dropWhile_append)
  qed
  have "(if a = 0 then [] else nat_string (nat a)) = (if b = 0 then [] else nat_string (nat b))"
    using assms(3) strip [OF assms(1)] strip [OF assms(2)] by simp
  with nat_string_inject [of "nat a" "nat b"] assms(1,2) show ?thesis
    by (cases "a = 0"; cases "b = 0") (simp_all, metis nat_string_nonempty)
qed

lemma strconv_Itoa_nat_inject: "0 \<le> a \<Longrightarrow> 0 \<le> b \<Longrightarrow> strconv_Itoa a = strconv_Itoa b \<Longrightarrow> a = b"
  using nat_string_inject [of "nat a" "nat b"] by (auto simp: strconv_Itoa_def)

text \<open>
  Operation identifiers are unique: the identifier determines the second of the statement's start, the
  connection and the statement's number, so two statements never share the key of their backup.
\<close>

theorem opid_inject:
  assumes "opid_text t c n = opid_text t' c' n'" and "0 \<le> t" and "0 \<le> t'" and "1 \<le> n" and "1 \<le> n'"
  shows "t = t' \<and> c = c' \<and> n = n'"
proof -
  have "strconv_Itoa t = strconv_Itoa t'" and
    rest: "nat_string (unat c) @ ''_'' @ fmt_08d (n - 1) = nat_string (unat c') @ ''_'' @ fmt_08d (n' - 1)"
    using first_field [OF underscore_free underscore_free, of t _ t'] assms(1) by (auto simp: opid_text_def)
  moreover have "unat c = unat c'" "fmt_08d (n - 1) = fmt_08d (n' - 1)"
    using first_field [OF underscore_not_digit underscore_not_digit rest] nat_string_inject by blast+
  ultimately show ?thesis
    using strconv_Itoa_nat_inject assms(2-5) fmt_08d_inject [of "n - 1" "n' - 1"] by (auto simp: word_unat_eq_iff)
qed

theorem opid_inject_witness:
  "opid_text 1700000000 7 3 \<noteq> opid_text 1700000000 7 12"
  using opid_inject [of 1700000000 7 3 1700000000 7 12] by auto

section \<open>A target for the witnesses\<close>

text \<open>The world counts the executed statements; every call succeeds.\<close>

definition quiet_store :: "nat store_db" where
  "quiet_store = \<lparr> sd_Exec = (\<lambda>sql args w. (Inr (), w)), sd_BeginTx = (\<lambda>w. (Inr (), w)), sd_TxExec = (\<lambda>sql args w. (Inr (), w)),
     sd_Commit = (\<lambda>w. (Inr (), w)), sd_Rollback = (\<lambda>w. w), sd_order = (\<lambda>ks. ks) \<rparr>"

definition quiet_env :: "nat exec_env" where
  "quiet_env = \<lparr> ee_Conn = (\<lambda>w. (Inr (), w)), ee_Exec = (\<lambda>sql args w. (Inr (Some 1), w + 1)),
     ee_BinlogVariables = (\<lambda>w. Inr (''1'', ''ROW'', ''FULL'')), ee_OpenStore = (\<lambda>t. Inr quiet_store), ee_PingStore = (\<lambda>w. None),
     ee_ConnectionID = (\<lambda>w. Inr 7), ee_MasterStatus = (\<lambda>w. Inr \<lparr> qr_columns = Inr [], qr_rows = [Inr [VString ''b.1'', VInt64 4]] \<rparr>),
     ee_Query = (\<lambda>sql w. Inl (errorf ''offline'')), ee_Binlog = (\<lambda>w. demo_library), ee_LoadTable = (\<lambda>w s t. Inr demo_table),
     ee_Now = (\<lambda>w. 0), ee_Wait = (\<lambda>d w. (True, w)) \<rparr>"

lemma quiet_fair: "\<forall>t store. ee_OpenStore quiet_env t = Inr store \<longrightarrow> fair_order (sd_order store)"
  by (auto simp: quiet_env_def quiet_store_def fair_order_def)

definition truncate_logs :: statement where
  "truncate_logs = (zero_statement StatementTruncateTable)\<lparr>s_Sequence := 2, s_Supported := True,
     s_DDL := Some ((zero_ddl_spec DDLTruncateTable)\<lparr>d_Schema := ''app'', d_Table := ''logs''\<rparr>)\<rparr>"

theorem not_undoable_not_executed_witness:
  "snd (execute_loop quiet_env (Some (quiet_store, 7)) sample_options 0 ([plain_select] @ truncate_logs # [plain_select]) 0) =
   snd (execute_loop quiet_env (Some (quiet_store, 7)) sample_options 0 [plain_select] 0)"
  by (rule not_undoable_not_executed [where d = "(zero_ddl_spec DDLTruncateTable)\<lparr>d_Schema := ''app'', d_Table := ''logs''\<rparr>"])
     (simp_all add: truncate_logs_def zero_statement_def zero_ddl_spec_def projected_indexes_def)

lemma audited_executor [simp]: "audited (ses\<lparr>ses_openExecutor := x\<rparr>) = audited ses"
  by (simp add: fun_eq_iff audited_def)

definition demo_backup :: backup_target where
  "demo_backup = \<lparr> bt_Host = ''b'', bt_Port = 3306, bt_User = ''u'', bt_Password = [] \<rparr>"


theorem Execute_total_witness:
  "\<exists>rs w'. Execute quiet_env demo_backup (sample_options\<lparr>opt_Backup := True\<rparr>) [plain_select, truncate_logs] 0 = (Returns rs, w')"
  by (rule Execute_total [OF quiet_fair])
     (simp add: projected_def projected_indexes_def plain_select_def truncate_logs_def zero_statement_def zero_ddl_spec_def)

definition create_logs_statement :: statement where
  "create_logs_statement = (zero_statement StatementCreateTable)\<lparr>s_Sequence := 1, s_Supported := True,
     s_DDL := Some ((zero_ddl_spec DDLCreateTable)\<lparr>d_Schema := ''app'', d_Table := ''logs''\<rparr>)\<rparr>"

lemma quiet_backup_run:
  "\<exists>r go w'. execute_with_backup quiet_env quiet_store sample_options 7 0 create_logs_statement 0 = (Returns (r, go), w') \<and> res_BackupCompleted r"
  by (simp add: execute_with_backup_def quiet_env_def quiet_store_def MasterPosition_def scan_position_def prepareDDLRollback_def
      create_logs_statement_def zero_statement_def zero_ddl_spec_def backup_statement_def statement_rollbacks_def Save_def
      backup_operation_def statementObject_def effective_rollbacks_def group_names_def save_one_def ensureSchema_def saveGroup_def
      group_records_def storage_table_def io_bind_def io_call_def io_apply finish_step_def executionDelay_def sample_options_def Let_def)
     blast

theorem backup_completed_complete_witness:
  "\<exists>(r :: execution_result) go w' op w1 w2.
     execute_with_backup quiet_env quiet_store sample_options 7 0 create_logs_statement 0 = (Returns (r, go), w') \<and> res_BackupCompleted r \<and>
     Save quiet_store op w1 = (Returns (res_BackupDatabase r), w2) \<and> bo_OPID op = res_SequenceID r \<and> bo_Statement op = create_logs_statement"
proof -
  obtain r go w' where run: "execute_with_backup quiet_env quiet_store sample_options 7 0 create_logs_statement 0 = (Returns (r, go), w')"
    "res_BackupCompleted r" using quiet_backup_run by blast
  from backup_completed_complete [OF this] run show ?thesis by blast
qed

end
