(* ===== verification/SqlParserFacts.thy ===== *)
theory SqlParserFacts
  imports SqlParser ExecEngineFacts
begin

text \<open>
  Facts about the projection: every statement it returns has the shape the audit and the execution engine rely on, the
  collector finds exactly the tables and conditions of the tree, and the indexes of CREATE TABLE are those of ALTER TABLE.
\<close>

section \<open>Shapes\<close>

lemma fold_invariant:
  assumes "\<And>x s. x \<in> set xs \<Longrightarrow> P s \<Longrightarrow> P (f x s)" and "P s"
  shows "P (fold f xs s)"
  using assms by (induction xs arbitrary: s) auto

lemma fold_keeps:
  assumes "\<And>x s. g (f x s) = g s"
  shows "g (fold f xs s) = g s"
  using assms by (induction xs arbitrary: s) auto

lemma option_steps_keep [simp]:
  "d_Action (database_option o' d) = d_Action d" "d_AlterOperations (database_option o' d) = d_AlterOperations d"
  "d_CreateLike (database_option o' d) = d_CreateLike d" "d_Reference (database_option o' d) = d_Reference d"
  "d_FullyProjected (database_option o' d) = d_FullyProjected d"
  "d_Action (alter_table_option p s) = d_Action s" "d_AlterOperations (alter_table_option p s) = d_AlterOperations s"
  "d_CreateLike (alter_table_option p s) = d_CreateLike s" "d_Reference (alter_table_option p s) = d_Reference s"
  "d_FullyProjected (alter_table_option p s) = d_FullyProjected s" "d_Indexes (alter_table_option p s) = d_Indexes s"
  "d_Columns (alter_table_option p s) = d_Columns s" "d_HasPrimaryKey (alter_table_option p s) = d_HasPrimaryKey s"
  by (simp_all add: database_option_def alter_table_option_def split: database_option_type.split table_option_type.split)

lemma create_option_keep [simp]:
  "d_Action (create_table_option p s) = d_Action s" "d_AlterOperations (create_table_option p s) = d_AlterOperations s"
  "d_CreateLike (create_table_option p s) = d_CreateLike s" "d_Reference (create_table_option p s) = d_Reference s"
  "d_FullyProjected (create_table_option p s) = d_FullyProjected s" "d_Indexes (create_table_option p s) = d_Indexes s"
  "d_Columns (create_table_option p s) = d_Columns s" "d_HasPrimaryKey (create_table_option p s) = d_HasPrimaryKey s"
  by (simp_all add: create_table_option_def split: table_option_type.split)

lemma create_column_keep [simp]:
  "d_Action (create_column c s) = d_Action s" "d_AlterOperations (create_column c s) = d_AlterOperations s"
  "d_CreateLike (create_column c s) = d_CreateLike s" "d_Reference (create_column c s) = d_Reference s"
  "d_FullyProjected (create_column c s) = d_FullyProjected s" "d_Indexes (create_column c s) = d_Indexes s"
  "d_Columns (create_column c s) = d_Columns s @ [projectColumn c]"
  "d_HasPrimaryKey (create_column c s) \<longleftrightarrow> d_HasPrimaryKey s \<or> c_PrimaryKey (projectColumn c)"
  by (simp_all add: create_column_def Let_def)

text \<open>CREATE TABLE and ALTER TABLE ... ADD project an index constraint alike.\<close>

lemma create_constraint_eq:
  "create_constraint c s = (case projectConstraint c of
     None \<Rightarrow> s\<lparr>d_HasForeignKey := d_HasForeignKey s \<or> ct_Tp c = ConstraintForeignKey\<rparr>
   | Some i \<Rightarrow> s\<lparr>d_HasPrimaryKey := d_HasPrimaryKey s \<or> ct_Tp c = ConstraintPrimaryKey, d_Indexes := d_Indexes s @ [i]\<rparr>)"
  by (cases "ct_Tp c") (simp_all add: create_constraint_def projectConstraint_def Let_def)

lemma create_constraint_keep [simp]:
  "d_Action (create_constraint c s) = d_Action s" "d_AlterOperations (create_constraint c s) = d_AlterOperations s"
  "d_CreateLike (create_constraint c s) = d_CreateLike s" "d_Reference (create_constraint c s) = d_Reference s"
  "d_FullyProjected (create_constraint c s) = d_FullyProjected s" "d_Columns (create_constraint c s) = d_Columns s"
  "d_Indexes (create_constraint c s) = d_Indexes s @ (case projectConstraint c of None \<Rightarrow> [] | Some i \<Rightarrow> [i])"
  by (simp_all add: create_constraint_eq split: option.split)

lemma add_column_primary_keep [simp]:
  "d_Action (add_column_primary s) = d_Action s" "d_AlterOperations (add_column_primary s) = d_AlterOperations s"
  "d_CreateLike (add_column_primary s) = d_CreateLike s" "d_Reference (add_column_primary s) = d_Reference s"
  "d_FullyProjected (add_column_primary s) = d_FullyProjected s" "d_Columns (add_column_primary s) = d_Columns s"
  "d_HasPrimaryKey (add_column_primary s) = d_HasPrimaryKey s"
  by (simp_all add: add_column_primary_def)

lemma projectCreateTable_fields [simp]:
  "d_Action (projectCreateTable c) = DDLCreateTable" "d_AlterOperations (projectCreateTable c) = []"
  "d_CreateLike (projectCreateTable c) \<longleftrightarrow> ctb_ReferTable c \<noteq> None"
  "d_Reference (projectCreateTable c) = map_option tableRef (ctb_ReferTable c)"
  "d_FullyProjected (projectCreateTable c) \<longleftrightarrow> \<not> ctb_Select c"
  by (simp_all add: projectCreateTable_def Let_def fold_keeps zero_ddl_spec_def split: option.split)

text \<open>The steps of ALTER TABLE: an operation is appended, or the statement is no longer fully projected.\<close>

definition spec_understood :: "ast_alter_spec \<Rightarrow> bool" where
  "spec_understood a \<longleftrightarrow> (case al_Tp a of
       AlterTableAddConstraint \<Rightarrow> (case al_Constraint a of None \<Rightarrow> False
         | Some c \<Rightarrow> ct_Tp c \<noteq> ConstraintForeignKey \<and> ct_Tp c \<noteq> ConstraintOther)
     | AlterTableRenameTable \<Rightarrow> al_NewTable a \<noteq> None
     | AlterTableOther \<Rightarrow> False
     | _ \<Rightarrow> True)"

lemma projectConstraint_None: "projectConstraint c = None \<longleftrightarrow> ct_Tp c = ConstraintForeignKey \<or> ct_Tp c = ConstraintOther"
  by (cases "ct_Tp c") (simp_all add: projectConstraint_def Let_def)

lemma alter_specification_shape:
  "d_Action (alter_specification a s) = d_Action s \<and> d_CreateLike (alter_specification a s) = d_CreateLike s \<and>
   d_Reference (alter_specification a s) = d_Reference s \<and>
   (d_FullyProjected (alter_specification a s) \<longleftrightarrow> d_FullyProjected s \<and> spec_understood a) \<and>
   (projected_indexes s \<longrightarrow> projected_indexes (alter_specification a s))"
  using projectConstraint_None [of "the (al_Constraint a)"]
  by (cases "al_Tp a")
     (auto simp: alter_specification_def spec_understood_def projected_indexes_def new_operation_def Let_def fold_keeps
       split: option.split)

lemma alter_fold_shape:
  "d_Action (fold alter_specification specs s) = d_Action s \<and> d_CreateLike (fold alter_specification specs s) = d_CreateLike s \<and>
   d_Reference (fold alter_specification specs s) = d_Reference s \<and>
   (d_FullyProjected (fold alter_specification specs s) \<longleftrightarrow> d_FullyProjected s \<and> (\<forall>a\<in>set specs. spec_understood a)) \<and>
   (projected_indexes s \<longrightarrow> projected_indexes (fold alter_specification specs s))"
proof (induction specs arbitrary: s)
  case (Cons a specs)
  from alter_specification_shape [of a s] Cons.IH [of "alter_specification a s"] show ?case by auto
qed simp

lemma projectAlterTable_shape:
  "d_Action (projectAlterTable t specs) = DDLAlterTable" "\<not> d_CreateLike (projectAlterTable t specs)"
  "d_FullyProjected (projectAlterTable t specs) \<longleftrightarrow> (\<forall>a\<in>set specs. spec_understood a)"
  "projected_indexes (projectAlterTable t specs)"
  using alter_fold_shape [of specs "table_spec DDLAlterTable t"]
  by (simp_all add: projectAlterTable_def table_spec_def zero_ddl_spec_def projected_indexes_def)

section \<open>Well-formed statements\<close>

fun kind_action :: "statement_kind \<Rightarrow> ddl_action option" where
  "kind_action StatementCreateDatabase = Some DDLCreateDatabase"
| "kind_action StatementAlterDatabase = Some DDLAlterDatabase"
| "kind_action StatementDropDatabase = Some DDLDropDatabase"
| "kind_action StatementCreateTable = Some DDLCreateTable"
| "kind_action StatementAlterTable = Some DDLAlterTable"
| "kind_action StatementDropTable = Some DDLDropTable"
| "kind_action StatementRenameTable = Some DDLRenameTable"
| "kind_action StatementTruncateTable = Some DDLTruncateTable"
| "kind_action StatementCreateIndex = Some DDLCreateIndex"
| "kind_action StatementDropIndex = Some DDLDropIndex"
| "kind_action StatementCreateView = Some DDLCreateView"
| "kind_action StatementDropView = Some DDLDropView"
| "kind_action _ = None"

definition dml_kind :: "statement_kind \<Rightarrow> bool" where
  "dml_kind k \<longleftrightarrow> k \<in> {StatementInsert, StatementUpdate, StatementDelete, StatementSelect}"

text \<open>The kind says which projection is present and which action it has; a supported statement has a complete one.\<close>

definition well_typed :: "statement \<Rightarrow> bool" where
  "well_typed s \<longleftrightarrow> kind_action (s_Kind s) = map_option d_Action (s_DDL s) \<and> (s_DML s \<noteq> None \<longleftrightarrow> dml_kind (s_Kind s)) \<and>
     (s_Supported s \<longleftrightarrow> s_Kind s = StatementUse \<or> s_DML s \<noteq> None \<or> (\<exists>d. s_DDL s = Some d \<and> d_FullyProjected d)) \<and>
     s_EndOffset s - s_StartOffset s = int (length (s_Original s))"

lemma projectDDL_action: "map_option d_Action (projectDDL n) = kind_action (classify n)"
  by (cases n) (simp_all add: projectDDL_def classify_def projectDatabaseOptions_def fold_keeps table_spec_def zero_ddl_spec_def
      projectAlterTable_shape)

lemma assignments_keep [simp]: "m_FullyProjected (fold project_assignment as s) = m_FullyProjected s"
  by (rule fold_keeps) (simp add: project_assignment_def)

lemma projectDML_shape:
  "projectDML n \<noteq> None \<longleftrightarrow> dml_kind (classify (an_Stmt n))" "projectDML n = Some m \<Longrightarrow> m_FullyProjected m"
  by (cases "an_Stmt n"; auto simp: projectDML_def classify_def dml_kind_def Let_def)+

lemma projectDDL_projected:
  assumes "projectDDL n = Some d"
  shows "(d_Action d = DDLCreateIndex \<longrightarrow> d_Indexes d \<noteq> []) \<and> projected_indexes d \<and> (d_CreateLike d \<longrightarrow> d_Reference d \<noteq> None)"
  using assms projectAlterTable_shape
  by (cases n) (auto simp: projectDDL_def projectDatabaseOptions_def fold_keeps table_spec_def zero_ddl_spec_def projected_indexes_def
      split: if_splits)

lemma isSupported_iff:
  assumes "kind_action (s_Kind s) = map_option d_Action (s_DDL s)" and "s_DML s \<noteq> None \<longleftrightarrow> dml_kind (s_Kind s)"
    and "\<And>m. s_DML s = Some m \<Longrightarrow> m_FullyProjected m"
  shows "isSupported s \<longleftrightarrow> s_Kind s = StatementUse \<or> s_DML s \<noteq> None \<or> (\<exists>d. s_DDL s = Some d \<and> d_FullyProjected d)"
  using assms by (cases "s_Kind s") (auto simp: isSupported_def dml_kind_def split: option.split)

lemma isSupported_cong: "s_Kind s = s_Kind t \<Longrightarrow> s_DDL s = s_DDL t \<Longrightarrow> s_DML s = s_DML t \<Longrightarrow> isSupported s = isSupported t"
  by (simp add: isSupported_def)

lemma project_statement_fields [simp]:
  "s_Sequence (project_statement i n) = int i + 1" "s_Kind (project_statement i n) = classify (an_Stmt n)"
  "s_DDL (project_statement i n) = projectDDL (an_Stmt n)" "s_DML (project_statement i n) = projectDML n"
  "s_Original (project_statement i n) = an_OriginalText n"
  "s_StartOffset (project_statement i n) = an_OriginTextPosition n"
  "s_EndOffset (project_statement i n) = an_OriginTextPosition n + int (length (an_OriginalText n))"
  by (simp_all add: project_statement_def Let_def zero_statement_def)

lemma project_statement_supported: "s_Supported (project_statement i n) = isSupported (project_statement i n)"
  by (simp add: project_statement_def Let_def) (rule isSupported_cong; simp)

lemma project_statement_ok:
  "well_typed (project_statement i n)" "projected (project_statement i n)" "like_ok (project_statement i n)"
proof -
  have ddl: "kind_action (classify (an_Stmt n)) = map_option d_Action (projectDDL (an_Stmt n))" using projectDDL_action by simp
  have "isSupported (project_statement i n) \<longleftrightarrow> classify (an_Stmt n) = StatementUse \<or> projectDML n \<noteq> None \<or>
    (\<exists>d. projectDDL (an_Stmt n) = Some d \<and> d_FullyProjected d)"
    using isSupported_iff [of "project_statement i n"] ddl projectDML_shape by simp
  then show "well_typed (project_statement i n)"
    using ddl projectDML_shape(1) by (simp add: well_typed_def project_statement_supported)
  show "projected (project_statement i n)" "like_ok (project_statement i n)"
    using projectDDL_projected by (auto simp: projected_def like_ok_def split: option.split)
qed

lemma numbered_enumerate:
  "map (\<lambda>(i, n). s_Sequence (project_statement i n)) (enumerate k nodes) = map int [Suc k..<Suc (k + length nodes)]"
  by (induction nodes arbitrary: k) (simp_all add: upt_conv_Cons del: upt_Suc)

lemma Parse_statements:
  assumes "Parse tidb sql mode = Inr r"
  shows "numbered (pr_Statements r) \<and> (\<forall>s\<in>set (pr_Statements r). well_typed s \<and> projected s \<and> like_ok s)"
proof -
  obtain nodes where "pr_Statements r = map (\<lambda>(i, node). project_statement i node) (enumerate 0 nodes)"
    using assms by (auto simp: Parse_def split: sum.splits)
  then show ?thesis using numbered_enumerate [of 0 nodes] project_statement_ok
    by (auto simp: numbered_def case_prod_unfold comp_def)
qed

text \<open>
  C5. The parser adapter gives every later phase what it relies on: the statements are numbered from 1; the kind of each
  determines which projection it has and the action in it; it is supported exactly when it is USE, a DML statement, or
  a DDL statement all of whose parts were projected; and a CREATE TABLE LIKE has its source, an added index its description.
\<close>

theorem Parse_well_typed:
  assumes "Parse tidb sql mode = Inr r"
  shows "numbered (pr_Statements r) \<and> (\<forall>s\<in>set (pr_Statements r). well_typed s \<and> projected s \<and> like_ok s)"
  by (rule Parse_statements [OF assms])

section \<open>The table collector\<close>

text \<open>The nodes that the visitor is shown, in the order of the traversal, and what each contributes.\<close>

definition skips :: "ast_node \<Rightarrow> bool" where
  "skips n = (case n of DeleteTableList \<Rightarrow> True | TableSource t _ \<Rightarrow> t \<noteq> None | _ \<Rightarrow> False)"

fun visited :: "ast_visit \<Rightarrow> ast_node list" where
  "visited (Visit n children) = n # (if skips n then [] else concat (map visited children))"

definition named_table :: "string list \<Rightarrow> ast_node \<Rightarrow> table_ref option" where
  "named_table ctes n = (case n of
       TableName t \<Rightarrow> if strings_ToLower (tn_Name t) \<in> set ctes then None else Some (tableRef t)
     | TableSource (Some t) alias \<Rightarrow>
         if strings_ToLower (tn_Name t) \<in> set ctes then None else Some ((tableRef t)\<lparr>tr_Alias := alias\<rparr>)
     | _ \<Rightarrow> None)"

definition join_without_condition :: "ast_node \<Rightarrow> bool" where
  "join_without_condition n \<longleftrightarrow> (\<exists>j. n = Join j \<and> jn_Right j \<and> \<not> jn_On j \<and> jn_Using j = [] \<and> \<not> jn_NaturalJoin j)"

definition constant_and :: "ast_node \<Rightarrow> bool" where
  "constant_and n \<longleftrightarrow> (\<exists>op l r. n = ExprNode (BinaryOperationExpr op l r) \<and> strings_ToLower op = ''and'' \<and>
     (isConstantExpr l \<or> isConstantExpr r))"

definition literal_comparison :: "ast_node \<Rightarrow> comparison_spec option" where
  "literal_comparison n = (case n of
       ExprNode (BinaryOperationExpr op l r) \<Rightarrow>
         if strings_ToLower op \<in> set comparison_ops
         then (case projectComparison l r of Some c \<Rightarrow> Some c | None \<Rightarrow> projectComparison r l) else None
     | _ \<Rightarrow> None)"

lemma Enter_skips: "snd (Enter ctes n v) = skips n"
  by (auto simp: Enter_def skips_def split: ast_node.split option.split ast_expr.split)

text \<open>One node: each of the four parts of the state changes on its own.\<close>

lemma addTable_parts [simp]:
  "tc_joinWithoutOn (addTable r v) = tc_joinWithoutOn v" "tc_wrongAnd (addTable r v) = tc_wrongAnd v"
  "tc_comparisons (addTable r v) = tc_comparisons v"
  by (simp_all add: addTable_def)

lemma enter_binary_parts [simp]:
  "tc_joinWithoutOn (enter_binary op l r v) = tc_joinWithoutOn v" "tc_tables (enter_binary op l r v) = tc_tables v"
  "tc_wrongAnd (enter_binary op l r v) \<longleftrightarrow> tc_wrongAnd v \<or> constant_and (ExprNode (BinaryOperationExpr op l r))"
  "tc_comparisons (enter_binary op l r v) = tc_comparisons v @
     (case literal_comparison (ExprNode (BinaryOperationExpr op l r)) of None \<Rightarrow> [] | Some c \<Rightarrow> [c])"
  by (auto simp: enter_binary_def Let_def constant_and_def literal_comparison_def split: option.split)

lemma Enter_tables:
  "tc_tables (fst (Enter ctes n v)) = (case named_table ctes n of None \<Rightarrow> tc_tables v | Some r \<Rightarrow> tc_tables (addTable r v))"
  by (auto simp: Enter_def named_table_def split: ast_node.split option.split ast_expr.split)

lemma Enter_join: "tc_joinWithoutOn (fst (Enter ctes n v)) \<longleftrightarrow> tc_joinWithoutOn v \<or> join_without_condition n"
  by (auto simp: Enter_def join_without_condition_def split: ast_node.split option.split ast_expr.split)

lemma Enter_and: "tc_wrongAnd (fst (Enter ctes n v)) \<longleftrightarrow> tc_wrongAnd v \<or> constant_and n"
  by (auto simp: Enter_def constant_and_def split: ast_node.split option.split ast_expr.split)

lemma Enter_comparisons:
  "tc_comparisons (fst (Enter ctes n v)) = tc_comparisons v @ (case literal_comparison n of None \<Rightarrow> [] | Some c \<Rightarrow> [c])"
  by (auto simp: Enter_def literal_comparison_def split: ast_node.split option.split ast_expr.split)

lemma fold_concat_map: "fold f (concat (map g xs)) v = fold (\<lambda>x. fold f (g x)) xs v"
  by (induction xs arbitrary: v) simp_all

lemma Accept_fold: "Accept ctes t v = fold (\<lambda>n v. fst (Enter ctes n v)) (visited t) v"
proof (induction t arbitrary: v)
  case (Visit n children)
  have "fold (Accept ctes) children w = fold (\<lambda>c. fold (\<lambda>n v. fst (Enter ctes n v)) (visited c)) children w" for w
    by (rule fold_cong) (simp_all add: Visit fun_eq_iff)
  then show ?case using Enter_skips [of ctes n v] by (cases "Enter ctes n v") (simp add: fold_concat_map)
qed

definition separate :: "table_ref list \<Rightarrow> bool" where
  "separate ts \<longleftrightarrow> sorted_wrt (\<lambda>a b. \<not> same_table a b) ts"

lemma same_table_refl [simp]: "same_table r r"
  by (simp add: same_table_def)

lemma same_table_member [intro]: "r \<in> set ts \<Longrightarrow> \<exists>e\<in>set ts. same_table e r"
  using same_table_refl by blast

lemma same_table_trans: "same_table a b \<Longrightarrow> same_table b c \<Longrightarrow> same_table a c"
  by (simp add: same_table_def strings_EqualFold_def)

lemma map_filter_Cons: "set (List.map_filter f (x # xs)) = set_option (f x) \<union> set (List.map_filter f xs)"
  by (auto simp: map_filter_simps split: option.split)

lemma collect_tables:
  assumes "separate (tc_tables v)"
  shows "separate (tc_tables (fold (\<lambda>n v. fst (Enter ctes n v)) ns v))
    \<and> set (tc_tables (fold (\<lambda>n v. fst (Enter ctes n v)) ns v)) \<subseteq> set (tc_tables v) \<union> set (List.map_filter (named_table ctes) ns)
    \<and> (\<forall>r\<in>set (tc_tables v) \<union> set (List.map_filter (named_table ctes) ns).
        \<exists>e\<in>set (tc_tables (fold (\<lambda>n v. fst (Enter ctes n v)) ns v)). same_table e r)"
  using assms
proof (induction ns arbitrary: v)
  case Nil
  then show ?case by auto
next
  case (Cons n ns)
  define w where "w = fst (Enter ctes n v)"
  let ?last = "fold (\<lambda>n v. fst (Enter ctes n v)) ns w"
  have w: "separate (tc_tables w)" "set (tc_tables w) \<subseteq> set (tc_tables v) \<union> set_option (named_table ctes n)"
    "\<forall>r\<in>set (tc_tables v) \<union> set_option (named_table ctes n). \<exists>e\<in>set (tc_tables w). same_table e r"
    using Cons.prems
    by (auto simp: w_def Enter_tables addTable_def separate_def sorted_wrt_append map_filter_simps split: option.split)
  from Cons.IH [OF w(1)] have rest: "separate (tc_tables ?last)"
    "set (tc_tables ?last) \<subseteq> set (tc_tables w) \<union> set (List.map_filter (named_table ctes) ns)"
    "\<forall>r\<in>set (tc_tables w) \<union> set (List.map_filter (named_table ctes) ns). \<exists>e\<in>set (tc_tables ?last). same_table e r" by simp_all
  have "\<exists>e\<in>set (tc_tables ?last). same_table e r"
    if r: "r \<in> set (tc_tables v) \<union> set (List.map_filter (named_table ctes) (n # ns))" for r
  proof (cases "r \<in> set (tc_tables v) \<union> set_option (named_table ctes n)")
    case True
    then obtain e where "e \<in> set (tc_tables w)" "same_table e r" using w(3) by blast
    with rest(3) same_table_trans show ?thesis by (meson UnI1)
  next
    case False
    with r have "r \<in> set (List.map_filter (named_table ctes) ns)" unfolding map_filter_Cons by blast
    with rest(3) show ?thesis by blast
  qed
  moreover have "set (tc_tables ?last) \<subseteq> set (tc_tables v) \<union> set (List.map_filter (named_table ctes) (n # ns))"
    using rest(2) w(2) unfolding map_filter_Cons by blast
  ultimately show ?case using rest(1) by (simp add: w_def)
qed

lemma collect_flags:
  "tc_joinWithoutOn (fold (\<lambda>n v. fst (Enter ctes n v)) ns v) \<longleftrightarrow> tc_joinWithoutOn v \<or> (\<exists>n\<in>set ns. join_without_condition n)"
  "tc_wrongAnd (fold (\<lambda>n v. fst (Enter ctes n v)) ns v) \<longleftrightarrow> tc_wrongAnd v \<or> (\<exists>n\<in>set ns. constant_and n)"
  "tc_comparisons (fold (\<lambda>n v. fst (Enter ctes n v)) ns v) = tc_comparisons v @ List.map_filter literal_comparison ns"
  by (induction ns arbitrary: v) (auto simp: Enter_join Enter_and Enter_comparisons map_filter_simps split: option.split)

lemma assignments_collected [simp]:
  "m_Tables (fold project_assignment as s) = m_Tables s"
  "m_HasJoinWithoutOn (fold project_assignment as s) = m_HasJoinWithoutOn s"
  "m_Comparisons (fold project_assignment as s) = m_Comparisons s"
  by (rule fold_keeps; simp add: project_assignment_def)+

lemma assignments_and:
  "m_WrongAndExpr (fold project_assignment as s) \<longleftrightarrow> m_WrongAndExpr s \<or> (\<exists>a\<in>set as. is_and (as_Expr a))"
  by (induction as arbitrary: s) (auto simp: project_assignment_def)

lemma projectDML_parts:
  assumes "projectDML n = Some m"
  shows "m_Tables m = tc_tables (Accept (cteNames (an_Stmt n)) (an_Visit n) new_collector)"
    and "m_HasJoinWithoutOn m = tc_joinWithoutOn (Accept (cteNames (an_Stmt n)) (an_Visit n) new_collector)"
    and "m_Comparisons m = tc_comparisons (Accept (cteNames (an_Stmt n)) (an_Visit n) new_collector)"
    and "m_WrongAndExpr m \<longleftrightarrow> tc_wrongAnd (Accept (cteNames (an_Stmt n)) (an_Visit n) new_collector) \<or>
      (\<exists>u. an_Stmt n = UpdateStmt u \<and> (\<exists>a\<in>set (up_List u). is_and (as_Expr a)))"
  using assms by (cases "an_Stmt n"; auto simp: projectDML_def Let_def assignments_and)+

lemma collector_spec:
  fixes ctes t defines "v \<equiv> Accept ctes t new_collector"
  shows "separate (tc_tables v)" and "set (tc_tables v) \<subseteq> set (List.map_filter (named_table ctes) (visited t))"
    and "\<forall>r\<in>set (List.map_filter (named_table ctes) (visited t)). \<exists>e\<in>set (tc_tables v). same_table e r"
    and "tc_joinWithoutOn v \<longleftrightarrow> (\<exists>x\<in>set (visited t). join_without_condition x)"
    and "tc_wrongAnd v \<longleftrightarrow> (\<exists>x\<in>set (visited t). constant_and x)"
    and "tc_comparisons v = List.map_filter literal_comparison (visited t)"
proof -
  have "separate (tc_tables new_collector)" by (simp add: new_collector_def separate_def)
  from collect_tables [OF this, of ctes "visited t"] show "separate (tc_tables v)"
    "set (tc_tables v) \<subseteq> set (List.map_filter (named_table ctes) (visited t))"
    "\<forall>r\<in>set (List.map_filter (named_table ctes) (visited t)). \<exists>e\<in>set (tc_tables v). same_table e r"
    by (simp_all add: v_def Accept_fold new_collector_def)
  show "tc_joinWithoutOn v \<longleftrightarrow> (\<exists>x\<in>set (visited t). join_without_condition x)" "tc_wrongAnd v \<longleftrightarrow> (\<exists>x\<in>set (visited t). constant_and x)"
    "tc_comparisons v = List.map_filter literal_comparison (visited t)"
    by (simp_all add: v_def Accept_fold collect_flags) (simp_all add: new_collector_def)
qed


section \<open>Indexes of a new table\<close>

lemma add_keys_keep [simp]:
  "i_Primary (fold add_key ks i) = i_Primary i" "i_Unique (fold add_key ks i) = i_Unique i" "i_Name (fold add_key ks i) = i_Name i"
  by (rule fold_keeps; simp add: add_key_def split: option.split)+

lemma add_keys_lengths:
  "length (i_PrefixLengths i) = length (i_Columns i) \<Longrightarrow>
   length (i_PrefixLengths (fold add_key ks i)) = length (i_Columns (fold add_key ks i))"
  by (induction ks arbitrary: i) (simp_all add: add_key_def split: option.split)

lemma projectConstraint_Some:
  assumes "projectConstraint c = Some i"
  shows "(i_Primary i \<longleftrightarrow> ct_Tp c = ConstraintPrimaryKey) \<and> (i_Primary i \<longrightarrow> i_Unique i) \<and>
    length (i_PrefixLengths i) = length (i_Columns i)"
  using assms by (cases "ct_Tp c") (auto simp: projectConstraint_def zero_index_spec_def Let_def add_keys_lengths)

lemma create_columns:
  "d_Columns (fold create_column cs s) = d_Columns s @ map projectColumn cs"
  "d_HasPrimaryKey (fold create_column cs s) \<longleftrightarrow> d_HasPrimaryKey s \<or> (\<exists>c\<in>set cs. c_PrimaryKey (projectColumn c))"
  by (induction cs arbitrary: s) auto

lemma create_constraints:
  "d_Indexes (fold create_constraint cs s) = d_Indexes s @ List.map_filter projectConstraint cs"
  "d_HasPrimaryKey (fold create_constraint cs s) \<longleftrightarrow> d_HasPrimaryKey s \<or> (\<exists>c\<in>set cs. ct_Tp c = ConstraintPrimaryKey)"
proof (induction cs arbitrary: s)
  case (Cons c cs)
  { case 1 show ?case using Cons.IH(1) [of "create_constraint c s"] by (simp add: map_filter_simps split: option.split)
  next
    case 2 show ?case using Cons.IH(2) [of "create_constraint c s"] projectConstraint_None [of c]
      by (auto simp: create_constraint_eq split: option.split) }
qed (simp_all add: map_filter_simps)

lemma projectCreateTable_split:
  "\<exists>s0. projectCreateTable c = add_column_primary (fold create_constraint (ctb_Constraints c) (fold create_column (ctb_Cols c) s0)) \<and>
     d_Indexes s0 = [] \<and> d_Columns s0 = [] \<and> \<not> d_HasPrimaryKey s0"
  unfolding projectCreateTable_def Let_def
  by (intro exI conjI, rule refl) (simp_all add: fold_keeps zero_ddl_spec_def split: option.split)

definition index_constraints :: "ast_create_table \<Rightarrow> index_spec list" where
  "index_constraints c = List.map_filter projectConstraint (ctb_Constraints c)"

lemma index_constraints_primary:
  "(\<exists>i\<in>set (index_constraints c). i_Primary i) \<longleftrightarrow> (\<exists>k\<in>set (ctb_Constraints c). ct_Tp k = ConstraintPrimaryKey)"
proof -
  have "\<exists>i. projectConstraint k = Some i \<and> i_Primary i" if "ct_Tp k = ConstraintPrimaryKey" for k
    using that projectConstraint_None [of k] projectConstraint_Some [of k] by (cases "projectConstraint k") simp_all
  then show ?thesis
    by (auto simp: index_constraints_def map_filter_def) (use projectConstraint_Some in \<open>force+\<close>)
qed

text \<open>
  C21. The indexes of a CREATE TABLE projection are those that ALTER TABLE ... ADD would give for each of its index constraints, in order;
  only when none of these is a primary key does a column marked PRIMARY KEY give one. The flag of the primary key rule is
  set exactly when the index list has a primary key, so the rule and the simulated table agree.
\<close>

theorem projectCreateTable_indexes:
  "d_Indexes (projectCreateTable c) = index_constraints c @
     (if \<exists>i\<in>set (index_constraints c). i_Primary i then []
      else map column_primary (filter c_PrimaryKey (map projectColumn (ctb_Cols c)))) \<and>
   (d_HasPrimaryKey (projectCreateTable c) \<longleftrightarrow> (\<exists>i\<in>set (d_Indexes (projectCreateTable c)). i_Primary i))"
proof -
  obtain s0 where split: "projectCreateTable c = add_column_primary (fold create_constraint (ctb_Constraints c) (fold create_column (ctb_Cols c) s0))"
    and s0: "d_Indexes s0 = []" "d_Columns s0 = []" "\<not> d_HasPrimaryKey s0"
    using projectCreateTable_split by blast
  have indexes: "d_Indexes (projectCreateTable c) = index_constraints c @
     (if \<exists>i\<in>set (index_constraints c). i_Primary i then []
      else map column_primary (filter c_PrimaryKey (map projectColumn (ctb_Cols c))))"
    by (simp add: split add_column_primary_def create_constraints create_columns fold_keeps s0 index_constraints_def list_ex_iff)
  have "d_HasPrimaryKey (projectCreateTable c) \<longleftrightarrow>
      (\<exists>k\<in>set (ctb_Cols c). c_PrimaryKey (projectColumn k)) \<or> (\<exists>i\<in>set (index_constraints c). i_Primary i)"
    by (simp add: split create_constraints create_columns s0 index_constraints_primary)
  moreover have "i_Primary (column_primary k)" for k by (simp add: column_primary_def)
  ultimately show ?thesis by (auto simp: indexes bex_Un)
qed

section \<open>What the projection understands\<close>

text \<open>A statement all of whose parts have a place in the data model, read off the syntax tree alone.\<close>

definition understood :: "stmt_node \<Rightarrow> bool" where
  "understood n = (case n of
       AlterDatabaseStmt _ options \<Rightarrow> options \<noteq> []
     | CreateTableStmt c \<Rightarrow> \<not> ctb_Select c
     | AlterTableStmt _ specs \<Rightarrow> \<forall>a\<in>set specs. spec_understood a
     | CreateIndexStmt _ _ keyType _ \<Rightarrow> keyType \<notin> {IndexKeyTypeSpatial, IndexKeyTypeFullText, IndexKeyTypeVector}
     | DropIndexStmt _ _ isHypo \<Rightarrow> \<not> isHypo
     | OtherStmt \<Rightarrow> False
     | _ \<Rightarrow> True)"

lemma supported_iff_understood: "s_Supported (project_statement i n) \<longleftrightarrow> understood (an_Stmt n)"
proof -
  have "s_Supported (project_statement i n) \<longleftrightarrow> classify (an_Stmt n) = StatementUse \<or> dml_kind (classify (an_Stmt n)) \<or>
      (\<exists>d. projectDDL (an_Stmt n) = Some d \<and> d_FullyProjected d)"
    using project_statement_ok(1) [of i n] projectDML_shape(1) [of n] by (simp add: well_typed_def)
  then show ?thesis
    by (cases "an_Stmt n") (simp_all add: understood_def classify_def dml_kind_def projectDDL_def projectDatabaseOptions_def
        fold_keeps table_spec_def zero_ddl_spec_def projectAlterTable_shape)
qed

lemma Parse_nodes:
  assumes "Parse tidb sql mode = Inr r"
  shows "\<exists>m nodes warnings. td_ParseSQL tidb m sql = Inr (nodes, warnings) \<and>
    pr_Statements r = map (\<lambda>(i, node). project_statement i node) (enumerate 0 nodes)"
proof -
  obtain m where "td_GetSQLMode tidb mode = Inr m" using assms by (auto simp: Parse_def split: sum.splits)
  moreover obtain nodes warnings where "td_ParseSQL tidb m sql = Inr (nodes, warnings)"
    using assms calculation by (auto simp: Parse_def split: sum.splits)
  ultimately show ?thesis using assms by (intro exI [of _ m] exI [of _ nodes] exI [of _ warnings]) (auto simp: Parse_def)
qed

lemma Parse_understood:
  assumes "Parse tidb sql mode = Inr r" and "\<forall>s\<in>set (pr_Statements r). s_Supported s"
  shows "\<exists>m nodes warnings. td_ParseSQL tidb m sql = Inr (nodes, warnings) \<and> (\<forall>n\<in>set nodes. understood (an_Stmt n))"
proof -
  obtain m nodes warnings where nodes: "td_ParseSQL tidb m sql = Inr (nodes, warnings)"
    "pr_Statements r = map (\<lambda>(i, node). project_statement i node) (enumerate 0 nodes)"
    using Parse_nodes [OF assms(1)] by blast
  have "understood (an_Stmt n)" if n: "n \<in> set nodes" for n
  proof -
    obtain i where "i < length nodes" "nodes ! i = n" using n by (meson in_set_conv_nth)
    then have "(i, n) \<in> set (enumerate 0 nodes)" by (simp add: in_set_enumerate_eq)
    then have "project_statement i n \<in> set (pr_Statements r)" by (force simp: nodes(2))
    with assms(2) supported_iff_understood show ?thesis by blast
  qed
  with nodes(1) show ?thesis by blast
qed

section \<open>A name that hides a table\<close>

definition delete_node :: "string list option \<Rightarrow> ast_stmt" where
  "delete_node ctes = \<lparr> an_Stmt = DeleteStmt \<lparr> de_With = ctes, de_Where = True, de_Limit = False, de_Order = False, de_IsMultiTable = False \<rparr>,
     an_OriginTextPosition = 0, an_OriginalText = ''delete from app.users where id > 0'', an_Text = \<lparr> tx_Restore = None, tx_Text = [] \<rparr>,
     an_Visit = Visit OtherNode [Visit (TableSource (Some \<lparr> tn_Schema = ''app'', tn_Name = ''users'' \<rparr>) []) []] \<rparr>"

lemma delete_node_tables:
  "map_option m_Tables (projectDML (delete_node None)) = Some [\<lparr> tr_Schema = ''app'', tr_Name = ''users'', tr_Alias = [] \<rparr>]"
  "map_option m_Tables (projectDML (delete_node (Some [''users'']))) = Some []"
  by (simp_all add: projectDML_def delete_node_def Let_def Enter_def cteNames_def new_collector_def addTable_def tableRef_def)


section \<open>Witnesses\<close>

definition demo_where :: ast_node where
  "demo_where = ExprNode (BinaryOperationExpr ''eq'' (ColumnNameExpr \<lparr> cn_Schema = [], cn_Table = [], cn_Name = ''id'' \<rparr>)
     (ValueExpr (Some \<lparr> ft_Type = TypeVarString, ft_IsBoolean = False, ft_Unsigned = False, ft_Binary = False \<rparr>)))"

definition demo_select_node :: ast_stmt where
  "demo_select_node = \<lparr> an_Stmt = SelectStmt \<lparr> se_With = None, se_Where = True, se_Limit = False, se_OrderBy = False, se_Fields = [True] \<rparr>,
     an_OriginTextPosition = 0, an_OriginalText = ''select * from app.users where id = 7; '',
     an_Text = \<lparr> tx_Restore = None, tx_Text = [] \<rparr>,
     an_Visit = Visit OtherNode [Visit (TableSource (Some \<lparr> tn_Schema = ''app'', tn_Name = ''users'' \<rparr>) ''u'') [], Visit demo_where []] \<rparr>"

definition demo_alter_node :: ast_stmt where
  "demo_alter_node = \<lparr> an_Stmt = AlterTableStmt \<lparr> tn_Schema = ''app'', tn_Name = ''users'' \<rparr>
       [\<lparr> al_Tp = AlterTableOther, al_Options = [], al_NewColumns = [], al_Position = None, al_Name = [], al_OldColumnName = None,
          al_NewColumnName = None, al_Constraint = None, al_FromKey = [], al_ToKey = [], al_NewTable = None \<rparr>],
     an_OriginTextPosition = 40, an_OriginalText = ''alter table app.users order by id'', an_Text = \<lparr> tx_Restore = None, tx_Text = [] \<rparr>,
     an_Visit = Visit OtherNode [] \<rparr>"

definition demo_tidb :: "ast_stmt list \<Rightarrow> tidb_parser" where
  "demo_tidb nodes = \<lparr> td_GetSQLMode = (\<lambda>m. Inr 0), td_ParseSQL = (\<lambda>mode sql. Inr (nodes, [])) \<rparr>"

lemma demo_tidb_Parse:
  "Parse (demo_tidb nodes) sql mode =
     Inr \<lparr> pr_Statements = map (\<lambda>(i, node). project_statement i node) (enumerate 0 nodes), pr_Warnings = [] \<rparr>"
  by (simp add: Parse_def demo_tidb_def)

theorem Parse_well_typed_witness:
  "\<exists>r. Parse (demo_tidb [demo_select_node, demo_alter_node]) [] [] = Inr r \<and> length (pr_Statements r) = 2 \<and> numbered (pr_Statements r) \<and>
     (\<forall>s\<in>set (pr_Statements r). well_typed s)"
  using Parse_well_typed [OF demo_tidb_Parse [of "[demo_select_node, demo_alter_node]" "[]" "[]"]] demo_tidb_Parse [of "[demo_select_node, demo_alter_node]" "[]" "[]"]
  by simp

lemma demo_select_collected:
  "List.map_filter (named_table (cteNames (an_Stmt demo_select_node))) (visited (an_Visit demo_select_node)) =
     [\<lparr> tr_Schema = ''app'', tr_Name = ''users'', tr_Alias = ''u'' \<rparr>]"
  "List.map_filter literal_comparison (visited (an_Visit demo_select_node)) =
     [\<lparr> cmp_Column = \<lparr> cr_Schema = [], cr_Table = [], cr_Name = ''id'' \<rparr>, cmp_LiteralKind = LiteralString \<rparr>]"
  by code_simp+


end
