(* ===== verification/ConfigTables.thy ===== *)
theory ConfigTables
  imports Config
begin

text \<open>
  Facts about the tables of the configuration: the level names and their rules, the level each name
  writes, and the variables each field of \<open>inc\<close> shows in.
\<close>

section \<open>The tables of names\<close>

lemma levelBindings_names: "map fst levelBindings = map fst legacyLevelRule"
  by (simp add: levelBindings_def legacyLevelRule_def)

lemma legacyLevelRule_names_distinct: "distinct (map fst legacyLevelRule)"
  by (simp add: legacyLevelRule_def)

lemma legacyLevelRule_codes_distinct: "distinct (map snd legacyLevelRule)"
  by code_simp

lemma legacyLevelRule_catalogued: "\<forall>(name, code)\<in>set legacyLevelRule. catalogued code"
  by (simp add: legacyLevelRule_def)

definition level_values :: "inc_level \<Rightarrow> int list" where
  "level_values l = map (\<lambda>(name, ref). lr_get ref l) levelBindings"

text \<open>The binding at position \<open>k\<close> writes the value at position \<open>k\<close> and no other.\<close>

fun writes_own :: "nat \<Rightarrow> (string \<times> level_ref) list \<Rightarrow> bool" where
  "writes_own k [] \<longleftrightarrow> True"
| "writes_own k ((name, ref) # bs) \<longleftrightarrow>
     (\<forall>v l. level_values (lr_set ref v l) = (level_values l)[k := v]) \<and> writes_own (Suc k) bs"

lemmas level_values_simp = level_values_def [unfolded levelBindings_def list.map split_def fst_conv snd_conv level_ref.simps]

lemma bindings_write_own: "writes_own 0 levelBindings"
  by (simp only: levelBindings_def writes_own.simps level_ref.simps)
     (simp add: level_values_simp)

section \<open>Fields and variables\<close>

text \<open>Two tables with the same keys that differ at most at one of them.\<close>

definition changes_only :: "string \<Rightarrow> (string \<times> string) list \<Rightarrow> (string \<times> string) list \<Rightarrow> bool" where
  "changes_only tag xs ys \<longleftrightarrow> list_all2 (\<lambda>(k, a) (l, b). k = l \<and> (if a = b then True else k = tag)) xs ys"

lemma changes_only_map_of: "changes_only tag xs ys \<Longrightarrow> n \<noteq> tag \<Longrightarrow> map_of ys n = map_of xs n"
  unfolding changes_only_def by (induction rule: list_all2_induct) (auto split: if_splits)

lemma changes_only_keys: "changes_only tag xs ys \<Longrightarrow> map fst ys = map fst xs"
  unfolding changes_only_def by (induction rule: list_all2_induct) auto

lemma changes_only_refl [simp]: "changes_only tag xs xs"
  by (auto simp: changes_only_def intro!: list_all2_refl)

fun field_keeps :: "string \<Rightarrow> inc_field \<Rightarrow> bool" where
  "field_keeps tag (BoolField put) \<longleftrightarrow> (\<forall>v i. changes_only tag (legacyVariables i) (legacyVariables (put v i)))"
| "field_keeps tag (IntField put) \<longleftrightarrow> (\<forall>v i. changes_only tag (legacyVariables i) (legacyVariables (put v i)))"
| "field_keeps tag (StringField put) \<longleftrightarrow> (\<forall>v i. changes_only tag (legacyVariables i) (legacyVariables (put v i)))"
| "field_keeps tag (SliceField put) \<longleftrightarrow> (\<forall>v i. changes_only tag (legacyVariables i) (legacyVariables (put v i)))"

lemma inc_fields_keep1: "list_all (\<lambda>(tag, f). field_keeps tag f) (take 20 inc_fields)"
  by (simp add: inc_fields_def) (simp add: changes_only_def legacyVariables_def)

lemma inc_fields_keep2: "list_all (\<lambda>(tag, f). field_keeps tag f) (take 20 (drop 20 inc_fields))"
  by (simp add: inc_fields_def) (simp add: changes_only_def legacyVariables_def)

lemma inc_fields_keep3: "list_all (\<lambda>(tag, f). field_keeps tag f) (drop 40 inc_fields)"
  by (simp add: inc_fields_def) (simp add: changes_only_def legacyVariables_def)

lemma inc_fields_keep: "list_all (\<lambda>(tag, f). field_keeps tag f) inc_fields"
proof -
  have "inc_fields = take 20 inc_fields @ take 20 (drop 20 inc_fields) @ drop 40 inc_fields"
    by (metis append_take_drop_id drop_drop numeral_Bit0)
  with inc_fields_keep1 inc_fields_keep2 inc_fields_keep3 show ?thesis by (metis list_all_append)
qed

end
