(* ===== verification/ConfigFacts.thy ===== *)
theory ConfigFacts
  imports ConfigTables Rollback
begin

text \<open>
  What the configuration promises: a loaded configuration is within its documented bounds, the
  management commands keep it there, and each of them changes exactly what it names.
\<close>

section \<open>Reading and writing levels\<close>

lemma writes_own_nth:
  "writes_own k bs \<Longrightarrow> j < length bs \<Longrightarrow> level_values (lr_set (snd (bs ! j)) v l) = (level_values l)[k + j := v]"
  by (induction k bs arbitrary: j rule: writes_own.induct) (auto simp: nth_Cons split: nat.splits)

lemma level_values_nth: "j < length levelBindings \<Longrightarrow> level_values l ! j = lr_get (snd (levelBindings ! j)) l"
  by (simp add: level_values_def split_def)

lemma level_get_set:
  assumes "(n, r) \<in> set levelBindings" and "(m, r') \<in> set levelBindings"
  shows "lr_get r' (lr_set r v l) = (if n = m then v else lr_get r' l)"
proof -
  have distinct: "distinct (map fst levelBindings)" by (simp only: levelBindings_names legacyLevelRule_names_distinct)
  from assms obtain i j where i: "i < length levelBindings" "levelBindings ! i = (n, r)"
    and j: "j < length levelBindings" "levelBindings ! j = (m, r')" by (metis in_set_conv_nth)
  have eq: "n = m \<longleftrightarrow> i = j"
    using distinct i j by (metis fst_conv length_map nth_eq_iff_index_eq nth_map)
  have "lr_get r' (lr_set r v l) = level_values (lr_set r v l) ! j" using j level_values_nth [of j] by simp
  also have "level_values (lr_set r v l) = (level_values l)[i := v]" using writes_own_nth [OF bindings_write_own i(1)] i(2) by simp
  also have "\<dots> ! j = (if n = m then v else level_values l ! j)"
    using i(1) eq by (auto simp: level_values_def nth_list_update)
  finally show ?thesis using j level_values_nth [of j] by simp
qed

lemma level_ref_rule: "map_of levelBindings n = Some r \<Longrightarrow> \<exists>code. map_of legacyLevelRule n = Some code \<and> catalogued code"
proof -
  assume "map_of levelBindings n = Some r"
  then have "n \<in> fst ` set levelBindings" by (metis domI dom_map_of_conv_image_fst)
  then have "n \<in> set (map fst legacyLevelRule)" by (simp flip: levelBindings_names)
  then obtain code where "map_of legacyLevelRule n = Some code" by (metis list.set_map map_of_eq_None_iff not_None_eq)
  with legacyLevelRule_catalogued map_of_SomeD [OF this] show ?thesis by fastforce
qed

lemma legacyLevelRule_inject:
  "map_of legacyLevelRule n = Some code \<Longrightarrow> map_of legacyLevelRule m = Some code \<Longrightarrow> n = m"
  using legacyLevelRule_codes_distinct
  by (metis distinct_map inj_onD map_of_SomeD prod.inject snd_conv)

lemma catalogued_nonempty: "catalogued code \<Longrightarrow> code \<noteq> []"
proof -
  have "\<not> ruleCodePattern []" by code_simp
  then show "catalogued code \<Longrightarrow> code \<noteq> []" using definitions_facts by (auto simp: catalogued_iff)
qed

section \<open>The level of a rule\<close>

text \<open>
  The rules of the file decide first, then the legacy level bound to the rule, then the catalog.
\<close>

definition bound_level :: "inc_level \<Rightarrow> string \<Rightarrow> int option" where
  "bound_level lv code =
     (case find (\<lambda>(name, ref). map_of legacyLevelRule name = Some code) levelBindings of
        Some (name, ref) \<Rightarrow> Some (lr_get ref lv) | None \<Rightarrow> None)"

definition configured_level :: "config \<Rightarrow> string \<Rightarrow> severity" where
  "configured_level c code =
     (case map_of (cf_Rules c) code of
        Some v \<Rightarrow> severity_of v
      | None \<Rightarrow> (case bound_level (cf_IncLevel c) code of
          Some v \<Rightarrow> severity_of v
        | None \<Rightarrow> (case RuleByCode code of Some d \<Rightarrow> rd_DefaultLevel d | None \<Rightarrow> SeverityWarning)))"

lemma set_rules_apply:
  assumes "distinct (map fst rules)"
  shows "set_rules rules m code = (case map_of rules code of Some v \<Rightarrow> Some (severity_of v) | None \<Rightarrow> m code)"
  using assms unfolding set_rules_def
proof (induction rules arbitrary: m)
  case (Cons r rules)
  obtain k v where r: "r = (k, v)" by fastforce
  with Cons.prems have "k = code \<Longrightarrow> map_of rules code = None" by (auto simp: map_of_eq_None_iff)
  with Cons show ?case by (auto simp: r split: option.splits)
qed simp

lemma foldl_levels:
  assumes "\<forall>(name, ref)\<in>set bs. \<exists>code. map_of legacyLevelRule name = Some code \<and> code \<noteq> []" and "distinct (map fst bs)"
  shows "foldl (\<lambda>m (name, ref). case map_of legacyLevelRule name of None \<Rightarrow> m
      | Some code \<Rightarrow> if code \<noteq> [] then m(code \<mapsto> severity_of (lr_get ref lv)) else m) m bs code =
    (case find (\<lambda>(name, ref). map_of legacyLevelRule name = Some code) bs of
       Some (name, ref) \<Rightarrow> Some (severity_of (lr_get ref lv)) | None \<Rightarrow> m code)"
  using assms
proof (induction bs arbitrary: m)
  case (Cons b bs)
  obtain name ref where b: "b = (name, ref)" by fastforce
  with Cons.prems obtain c where c: "map_of legacyLevelRule name = Some c" "c \<noteq> []" by auto
  have none: "find (\<lambda>(name, ref). map_of legacyLevelRule name = Some code) bs = None" if "c = code"
    using that c Cons.prems(2) b legacyLevelRule_inject by (force simp: find_None_iff)
  from Cons show ?case by (auto simp: b c none split: option.splits)
qed simp

lemma bindings_coded: "\<forall>(name, ref)\<in>set levelBindings. \<exists>code. map_of legacyLevelRule name = Some code \<and> code \<noteq> []"
proof clarify
  fix name ref
  assume "(name, ref) \<in> set levelBindings"
  then have "map_of levelBindings name \<noteq> None" by (simp add: map_of_eq_None_iff rev_image_eqI)
  with level_ref_rule catalogued_nonempty show "\<exists>code. map_of legacyLevelRule name = Some code \<and> code \<noteq> []" by blast
qed

lemma set_levels_apply:
  "set_levels lv m code = (case bound_level lv code of Some v \<Rightarrow> Some (severity_of v) | None \<Rightarrow> m code)"
  unfolding set_levels_def
  using foldl_levels [OF bindings_coded, of lv m code] levelBindings_names legacyLevelRule_names_distinct
  by (auto simp: bound_level_def split: option.splits)

lemma policy_level:
  assumes "distinct (map fst (cf_Rules c))"
  shows "Level (Policy c) code = configured_level c code"
  using assms
  by (simp add: Level_def Policy_def Let_def set_rules_apply set_levels_apply LegacyDefaults_RuleLevels configured_level_def
      split: option.splits)

text \<open>
  C26. The level of a rule: an entry of \<open>[rules]\<close> is authoritative, then the legacy level bound to the rule,
  then the level of the catalog, in the policy of every configuration.
\<close>

theorem Policy_Level:
  assumes "distinct (map fst (cf_Rules c))"
  shows "Level (Policy c) code = configured_level c code"
  by (rule policy_level [OF assms])

section \<open>The invariant of the running configuration\<close>

definition levels_ok :: "config \<Rightarrow> bool" where
  "levels_ok c \<longleftrightarrow> distinct (map fst (cf_Rules c)) \<and>
     (\<forall>(code, v)\<in>set (cf_Rules c). catalogued code \<and> v \<in> {0..2}) \<and>
     (\<forall>(name, ref)\<in>set levelBindings. lr_get ref (cf_IncLevel c) \<in> {0..2})"

definition inc_ok :: "inc \<Rightarrow> bool" where
  "inc_ok i \<longleftrightarrow> inc_ExplainRule i \<in> {''first'', ''max''} \<and> inc_SQLSafeUpdates i \<in> {-1..1} \<and> -1 \<le> inc_LockWaitTimeout i"

definition runtime_ok :: "config \<Rightarrow> bool" where
  "runtime_ok c \<longleftrightarrow> levels_ok c \<and> inc_ok (cf_Inc c)"

lemma validateIncRuntime_ok: "validateIncRuntime i = None \<Longrightarrow> inc_ok i"
  by (auto simp: validateIncRuntime_def inc_ok_def split: if_splits)

lemma set_candidate_levels: "set_candidate c name v = Inr c' \<Longrightarrow> cf_Rules c' = cf_Rules c \<and> cf_IncLevel c' = cf_IncLevel c"
  by (auto simp: set_candidate_def sum_bind_Inr_iff split: if_splits prod.splits)

lemma SetVariable_candidate:
  "SetVariable c name v = Inr c' \<Longrightarrow>
     set_candidate c (strings_ToLower (strings_TrimSpace name)) v = Inr c' \<and> validateIncRuntime (cf_Inc c') = None"
  by (auto simp: SetVariable_def sum_bind_Inr_iff split: option.splits)

lemma SetVariable_ok: "runtime_ok c \<Longrightarrow> SetVariable c name v = Inr c' \<Longrightarrow> runtime_ok c'"
  using SetVariable_candidate [of c name v c'] set_candidate_levels [of c "strings_ToLower (strings_TrimSpace name)" v c']
    validateIncRuntime_ok [of "cf_Inc c'"]
  by (auto simp: runtime_ok_def levels_ok_def)

text \<open>The rule a level command addresses.\<close>

definition level_target :: "string \<Rightarrow> string option" where
  "level_target name =
     (let code = strings_ToUpper (strings_TrimSpace name) in
      if strings_HasPrefix code ''GIP-'' then (if RuleByCode code = None then None else Some code)
      else map_of legacyLevelRule (canonicalLevelAlias (strings_ToLower (strings_TrimSpace name))))"

lemma update_bounded:
  "\<forall>(k, v)\<in>set m. P k v \<Longrightarrow> P k v \<Longrightarrow> \<forall>(k, v)\<in>set (AList.update k v m). P k v"
  by (induction m) auto

lemma SetLevel_cases:
  assumes "SetLevel c name v = Inr c'"
  obtains (rule) code where "level_target name = Some code" "catalogued code" "v \<in> {0..2}"
      "c' = c\<lparr>cf_Rules := AList.update code v (cf_Rules c)\<rparr>"
    | (legacy) n ref code where "level_target name = Some code" "catalogued code" "v \<in> {0..2}" "map_of levelBindings n = Some ref"
      "map_of legacyLevelRule n = Some code" "map_of (cf_Rules c) code = None" "c' = c\<lparr>cf_IncLevel := lr_set ref v (cf_IncLevel c)\<rparr>"
proof (cases "strings_HasPrefix (strings_ToUpper (strings_TrimSpace name)) ''GIP-''")
  case True
  with assms rule [of "strings_ToUpper (strings_TrimSpace name)"] show ?thesis
    by (auto simp: SetLevel_def Let_def level_target_def catalogued_def split: if_splits)
next
  case False
  let ?n = "canonicalLevelAlias (strings_ToLower (strings_TrimSpace name))"
  from assms False obtain ref where ref: "map_of levelBindings ?n = Some ref" and v: "v \<in> {0..2}"
    by (auto simp: SetLevel_def Let_def split: if_splits option.splits)
  from level_ref_rule [OF ref] obtain code where code: "map_of legacyLevelRule ?n = Some code" "catalogued code" by blast
  with False have target: "level_target name = Some code" by (simp add: level_target_def)
  show ?thesis
  proof (cases "map_of (cf_Rules c) code")
    case None
    with assms False ref code have "c' = c\<lparr>cf_IncLevel := lr_set ref v (cf_IncLevel c)\<rparr>"
      by (auto simp: SetLevel_def Let_def split: if_splits)
    from legacy [OF target code(2) v ref code(1) None this] show ?thesis .
  next
    case (Some x)
    with assms False ref code catalogued_nonempty have "c' = c\<lparr>cf_Rules := AList.update code v (cf_Rules c)\<rparr>"
      by (auto simp: SetLevel_def Let_def split: if_splits)
    from rule [OF target code(2) v this] show ?thesis .
  qed
qed

lemma SetLevel_ok: "runtime_ok c \<Longrightarrow> SetLevel c name v = Inr c' \<Longrightarrow> runtime_ok c'"
proof -
  assume ok: "runtime_ok c" and set: "SetLevel c name v = Inr c'"
  from set show "runtime_ok c'"
  proof (cases rule: SetLevel_cases)
    case (rule code)
    have "\<forall>(k, v)\<in>set (AList.update code v (cf_Rules c)). catalogued k \<and> v \<in> {0..2}"
      by (rule update_bounded) (use rule(2,3) ok in \<open>auto simp: runtime_ok_def levels_ok_def\<close>)
    with rule(4) ok distinct_update show ?thesis by (auto simp: runtime_ok_def levels_ok_def)
  next
    case (legacy n ref code)
    have "lr_get r (lr_set ref v (cf_IncLevel c)) \<in> {0..2}" if "(m, r) \<in> set levelBindings" for m r
      using level_get_set [OF map_of_SomeD [OF legacy(4)] that] that legacy(3) ok by (auto simp: runtime_ok_def levels_ok_def)
    with legacy(7) ok show ?thesis by (auto simp: runtime_ok_def levels_ok_def)
  qed
qed

text \<open>The management commands, as steps of the running configuration.\<close>

inductive runtime_step :: "config \<Rightarrow> config \<Rightarrow> bool" where
  set_variable: "SetVariable c name v = Inr c' \<Longrightarrow> runtime_step c c'"
| set_level: "SetLevel c name n = Inr c' \<Longrightarrow> runtime_step c c'"

inductive_cases runtime_stepE: "runtime_step c c'"

lemma runtime_steps_ok: "runtime_step\<^sup>*\<^sup>* c c' \<Longrightarrow> runtime_ok c \<Longrightarrow> runtime_ok c'"
  by (induction rule: rtranclp_induct) (auto elim!: runtime_stepE intro: SetVariable_ok SetLevel_ok)

section \<open>A loaded configuration\<close>

definition any_order :: "(string list \<Rightarrow> string list) \<Rightarrow> bool" where
  "any_order ord \<longleftrightarrow> (\<forall>ks. set (ord ks) = set ks)"

lemma problem_empty [simp]: "problem bad m = [] \<longleftrightarrow> \<not> bad"
  by (simp add: problem_def)

lemma level_problems_empty:
  assumes "level_problems names lv = []" and "set names = set (map fst levelBindings)"
  shows "\<forall>(name, ref)\<in>set levelBindings. lr_get ref lv \<in> {0..2}"
proof clarify
  fix name ref
  assume mem: "(name, ref) \<in> set levelBindings"
  have "distinct (map fst levelBindings)" by (simp only: levelBindings_names legacyLevelRule_names_distinct)
  then have "map_of levelBindings name = Some ref" using mem by simp
  moreover have "name \<in> set names" using mem assms(2) by force
  ultimately have "\<not> (lr_get ref lv < 0 \<or> lr_get ref lv > 2)"
    using assms(1) by (force simp: level_problems_def)
  then show "lr_get ref lv \<in> {0..2}" by simp
qed

lemma rule_problems_empty:
  assumes "rule_problems codes rules = []" and "set codes = set (map fst rules)" and "distinct (map fst rules)"
  shows "\<forall>(code, v)\<in>set rules. catalogued code \<and> v \<in> {0..2}"
proof clarify
  fix code v
  assume mem: "(code, v) \<in> set rules"
  then have "map_of rules code = Some v" using assms(3) by simp
  moreover have "code \<in> set codes" using mem assms(2) by force
  ultimately show "catalogued code \<and> v \<in> {0..2}"
    using assms(1) by (force simp: rule_problems_def catalogued_def split: if_splits)
qed

definition loaded_ok :: "config \<Rightarrow> bool" where
  "loaded_ok c \<longleftrightarrow> runtime_ok c \<and> sv_Port (cf_Server c) \<in> {1..65535} \<and> 1 \<le> sv_MaxConnections (cf_Server c) \<and>
     sv_MaxAllowedPacket (cf_Server c) \<in> {1024..2 ^ 30} \<and> 0 < sv_AuditTimeout (cf_Server c) \<and>
     (bc_Host (cf_Backup c) \<noteq> [] \<longrightarrow> bc_Port (cf_Backup c) \<in> {1..65535} \<and> bc_User (cf_Backup c) \<noteq> [])"

lemma Validate_config_ok:
  assumes "Validate_config order c = None" and "any_order order" and "distinct (map fst (cf_Rules c))"
  shows "loaded_ok c"
proof -
  have none: "server_problems (cf_Server c) = []" "level_problems (order (map fst levelBindings)) (cf_IncLevel c) = []"
    "rule_problems (order (map fst (cf_Rules c))) (cf_Rules c) = []" "inc_problems (cf_Inc c) = []" "backup_problems (cf_Backup c) = []"
    using assms(1) by (auto simp: Validate_config_def Let_def split: if_splits)
  have order: "set (order ks) = set ks" for ks using assms(2) by (simp add: any_order_def)
  show ?thesis
    using none(1,4,5) level_problems_empty [OF none(2) order] rule_problems_empty [OF none(3) order assms(3)] assms(3)
    by (auto simp: loaded_ok_def runtime_ok_def levels_ok_def inc_ok_def server_problems_def inc_problems_def backup_problems_def
        split: if_splits)
qed

lemma Load_ok:
  assumes "Load order decode path = Inr c" and "any_order order"
    and "\<And>d meta. decode path Defaults = Inr (d, meta) \<Longrightarrow> distinct (map fst (cf_Rules d))"
  shows "loaded_ok c"
proof -
  obtain d meta where dec: "decode path Defaults = Inr (d, meta)" and norm: "normalizeLegacyConfig d meta = Inr c"
    and val: "Validate_config order c = None"
    using assms(1) by (auto simp: Load_def sum_bind_Inr_iff split: if_splits option.splits)
  have "cf_Rules c = cf_Rules d"
    using norm by (auto simp: normalizeLegacyConfig_def alias_level_def legacy_backup_def sum_bind_Inr_iff split: if_splits)
  with Validate_config_ok [OF val assms(2)] assms(3) [OF dec] show ?thesis by simp
qed

lemma find_member: "find P xs = Some x \<Longrightarrow> x \<in> set xs \<and> P x"
  by (induction xs) (auto split: if_splits)

lemma severity_bounded: "v \<in> {0..2} \<Longrightarrow> severity_of v \<le> SeverityError"
proof -
  assume "v \<in> {0..2}"
  then consider "v = 0" | "v = 1" | "v = 2" by fastforce
  then show ?thesis by cases (simp_all add: severity_of_def)
qed

lemma configured_level_bounded:
  assumes "levels_ok c"
  shows "configured_level c code \<le> SeverityError"
proof -
  have default: "rd_DefaultLevel d \<le> SeverityError" if "RuleByCode code = Some d" for d
    using that by (rule catalog_levels)
  have bound: "severity_of v \<le> SeverityError" if "bound_level (cf_IncLevel c) code = Some v" for v
  proof -
    from that obtain name ref where "find (\<lambda>(name, ref). map_of legacyLevelRule name = Some code) levelBindings = Some (name, ref)"
      "v = lr_get ref (cf_IncLevel c)" by (auto simp: bound_level_def split: option.splits)
    with assms severity_bounded show ?thesis by (fastforce simp: levels_ok_def dest: find_member)
  qed
  have rules: "severity_of v \<le> SeverityError" if "map_of (cf_Rules c) code = Some v" for v
    using map_of_SomeD [OF that] assms severity_bounded by (fastforce simp: levels_ok_def)
  show ?thesis using default bound rules by (auto simp: configured_level_def split: option.splits)
qed

text \<open>
  C25. From the file to the running server: whatever configuration file the server accepts and whatever
  management commands it then accepts, every level of the policy is none, warning or error, and the
  settings sent to the targets stay in their ranges.
\<close>

theorem runtime_invariant:
  assumes "Load order decode path = Inr c" and "any_order order"
    and "\<And>d meta. decode path Defaults = Inr (d, meta) \<Longrightarrow> distinct (map fst (cf_Rules d))"
    and "runtime_step\<^sup>*\<^sup>* c c'"
  shows "Level (Policy c') code \<le> SeverityError \<and> inc_SQLSafeUpdates (cf_Inc c') \<in> {-1..1} \<and>
    inc_ExplainRule (cf_Inc c') \<in> {''first'', ''max''} \<and> -1 \<le> inc_LockWaitTimeout (cf_Inc c')"
proof -
  have ok: "runtime_ok c'" using runtime_steps_ok [OF assms(4)] Load_ok [OF assms(1-3)] by (simp add: loaded_ok_def)
  then have "Level (Policy c') code = configured_level c' code"
    by (simp add: policy_level runtime_ok_def levels_ok_def)
  with ok configured_level_bounded show ?thesis by (simp add: runtime_ok_def inc_ok_def)
qed

section \<open>What the commands change\<close>

lemma bound_level_set:
  assumes "map_of levelBindings n = Some ref" and "map_of legacyLevelRule n = Some code"
  shows "bound_level (lr_set ref v lv) code' = (if code' = code then Some v else bound_level lv code')"
proof -
  have mem: "(n, ref) \<in> set levelBindings" by (rule map_of_SomeD [OF assms(1)])
  show ?thesis
  proof (cases "find (\<lambda>(name, ref). map_of legacyLevelRule name = Some code') levelBindings")
    case None
    with mem assms(2) have "code' \<noteq> code" by (auto simp: find_None_iff)
    with None show ?thesis by (simp add: bound_level_def)
  next
    case (Some b)
    obtain m r where b: "b = (m, r)" by fastforce
    with Some have m: "(m, r) \<in> set levelBindings" "map_of legacyLevelRule m = Some code'" by (auto dest: find_member)
    have "n = m \<longleftrightarrow> code' = code" using m(2) assms(2) legacyLevelRule_inject by auto
    with level_get_set [OF mem m(1)] Some b show ?thesis by (simp add: bound_level_def)
  qed
qed

text \<open>
  C27. Setting a level takes effect and nothing else does: after an accepted \<open>inception set level\<close>, under
  any of its names, the rule it addresses has that level and every other rule keeps its own.
\<close>

theorem SetLevel_effect:
  assumes "SetLevel c name v = Inr c'" and "distinct (map fst (cf_Rules c))"
  shows "\<exists>code. level_target name = Some code \<and> (\<forall>other. Level (Policy c') other =
    (if other = code then severity_of v else Level (Policy c) other))"
  using assms(1)
proof (cases rule: SetLevel_cases)
  case (rule code)
  with assms(2) distinct_update [OF assms(2), of code v] show ?thesis
    by (intro exI [of _ code]) (simp add: policy_level configured_level_def update_conv' split: option.split)
next
  case (legacy n ref code)
  with assms(2) show ?thesis
    by (intro exI [of _ code]) (simp add: policy_level configured_level_def bound_level_set [OF legacy(4,5)] split: option.split)
qed

definition shown :: "config \<Rightarrow> string \<Rightarrow> string option" where
  "shown c n = map_of (map (\<lambda>v. (va_Name v, va_Value v)) (Variables c)) n"

lemma legacyVariables_distinct: "distinct (map fst (legacyVariables i))"
  by (simp add: legacyVariables_def)

lemma legacyVariables_shown:
  "map_of (legacyVariables i) ''max_column_count'' = Some (strconv_Itoa (inc_MaxColumnCount i))"
  "map_of (legacyVariables i) ''max_update_rows'' = Some (strconv_Itoa (inc_MaxUpdateRows i))"
  "map_of (legacyVariables i) ''max_insert_rows'' = Some (strconv_Itoa (inc_MaxInsertRows i))"
  "map_of (legacyVariables i) ''check_insert_field'' = Some (strconv_FormatBool (inc_CheckInsertField i))"
  "map_of (legacyVariables i) ''enable_select_star'' = Some (strconv_FormatBool (inc_EnableSelectStar i))"
  by (simp_all add: legacyVariables_def)

lemma map_upd_same: "m k = Some v \<Longrightarrow> m(k \<mapsto> v) = m"
  by auto

lemma variable_table_map_of:
  "map_of (variable_table c) = (map_of (legacyVariables (cf_Inc c)))(''backup_host'' \<mapsto> bc_Host (cf_Backup c),
     ''backup_port'' \<mapsto> strconv_Itoa (bc_Port (cf_Backup c)), ''backup_user'' \<mapsto> bc_User (cf_Backup c),
     ''backup_password'' \<mapsto> maskSecret (bc_Password (cf_Backup c)), ''max_allowed_packet'' \<mapsto> strconv_Itoa (sv_MaxAllowedPacket (cf_Server c)))"
  by (simp add: variable_table_def Let_def update_conv' map_upd_same legacyVariables_shown del: fun_upd_apply)

lemma variable_table_distinct: "distinct (map fst (variable_table c))"
  by (auto simp: variable_table_def Let_def intro!: distinct_update legacyVariables_distinct)

lemma shown_table: "shown c = map_of (variable_table c)"
proof -
  let ?pairs = "map (\<lambda>v. (va_Name v, va_Value v))"
  have "map fst (?pairs (Variables c)) = map va_Name (Variables c)" by simp
  also have "distinct \<dots>"
    using variable_table_distinct [of c] by (auto simp: Variables_def distinct_map comp_def split_def inj_on_def)
  finally have d: "distinct (map fst (?pairs (Variables c)))" .
  have "set (?pairs (Variables c)) = set (variable_table c)" by (simp add: Variables_def image_image split_def)
  with map_of_inject_set [OF d variable_table_distinct [of c]] show ?thesis by (simp add: shown_def fun_eq_iff)
qed

definition variable_target :: "string \<Rightarrow> string" where
  "variable_target name =
     (let n = strings_ToLower (strings_TrimSpace name) in if n = ''er_sql_no_where'' then ''check_dml_where'' else n)"

lemma set_field_keeps: "field_keeps tag f \<Longrightarrow> set_field f tag text i = Inr i' \<Longrightarrow> changes_only tag (legacyVariables i) (legacyVariables i')"
  by (cases f) (auto simp: set_field_def sum_bind_Inr_iff split: if_splits prod.splits)

lemma setIncByTag_keeps:
  assumes "setIncByTag i name text = Inr i'" and "n \<noteq> (if name = ''er_sql_no_where'' then ''check_dml_where'' else name)"
  shows "map_of (legacyVariables i') n = map_of (legacyVariables i) n"
proof -
  let ?tag = "if name = ''er_sql_no_where'' then ''check_dml_where'' else name"
  obtain f where f: "map_of inc_fields ?tag = Some f" "set_field f ?tag text i = Inr i'"
    using assms(1) by (auto simp: setIncByTag_def Let_def split: option.splits)
  have "field_keeps ?tag f" using inc_fields_keep map_of_SomeD [OF f(1)] by (auto simp: list_all_iff)
  from changes_only_map_of [OF set_field_keeps [OF this f(2)] assms(2)] show ?thesis .
qed

text \<open>
  Setting a variable changes at most that variable: after an accepted \<open>inception set\<close>, every other
  variable \<open>inception show variables\<close> lists has its old value, and no level changes.
\<close>

theorem SetVariable_frame:
  assumes "SetVariable c name v = Inr c'" and "n \<noteq> variable_target name"
  shows "shown c' n = shown c n \<and> Level (Policy c') code = Level (Policy c) code"
proof -
  let ?n = "strings_ToLower (strings_TrimSpace name)"
  from SetVariable_candidate [OF assms(1)] have cand: "set_candidate c ?n v = Inr c'" by simp
  have levels: "Level (Policy c') code = Level (Policy c) code"
    using set_candidate_levels [OF cand] by (simp add: Level_def Policy_def Let_def)
  consider (backup) b where "c' = c\<lparr>cf_Backup := b\<rparr>" "?n \<in> {''backup_host'', ''backup_user'', ''backup_password'', ''backup_port''}"
      "bc_Host b = bc_Host (cf_Backup c) \<or> ?n = ''backup_host''" "bc_User b = bc_User (cf_Backup c) \<or> ?n = ''backup_user''"
      "bc_Password b = bc_Password (cf_Backup c) \<or> ?n = ''backup_password''" "bc_Port b = bc_Port (cf_Backup c) \<or> ?n = ''backup_port''"
    | (packet) x where "c' = c\<lparr>cf_Server := (cf_Server c)\<lparr>sv_MaxAllowedPacket := x\<rparr>\<rparr>" "?n = ''max_allowed_packet''"
    | (field) i where "setIncByTag (cf_Inc c) ?n v = Inr i" "c' = c\<lparr>cf_Inc := i\<rparr>"
    using cand by (auto simp: set_candidate_def sum_bind_Inr_iff split: if_splits prod.splits)
  then have "shown c' n = shown c n"
  proof cases
    case backup
    then have "variable_target name = ?n" by (auto simp: variable_target_def)
    with assms(2) have other: "n \<noteq> ?n" by simp
    have "n = ''backup_host'' \<Longrightarrow> bc_Host b = bc_Host (cf_Backup c)" using other backup(3) by metis
    moreover have "n = ''backup_user'' \<Longrightarrow> bc_User b = bc_User (cf_Backup c)" using other backup(4) by metis
    moreover have "n = ''backup_password'' \<Longrightarrow> bc_Password b = bc_Password (cf_Backup c)" using other backup(5) by metis
    moreover have "n = ''backup_port'' \<Longrightarrow> bc_Port b = bc_Port (cf_Backup c)" using other backup(6) by metis
    ultimately show ?thesis by (simp add: backup(1) shown_table variable_table_map_of)
  next
    case packet
    then have "variable_target name = ''max_allowed_packet''" by (simp add: variable_target_def)
    with packet(1) assms(2) show ?thesis by (simp add: shown_table variable_table_map_of)
  next
    case field
    with setIncByTag_keeps [OF field(1), of n] assms(2) show ?thesis
      by (simp add: shown_table variable_table_map_of variable_target_def Let_def)
  qed
  with levels show ?thesis by simp
qed

section \<open>The backup target and secrets\<close>

definition BackupOptions :: "(string \<rightharpoonup> string) \<Rightarrow> config \<Rightarrow> backup_target \<times> gerror option" where
  "BackupOptions environ c =
     (let b = cf_Backup c in
      if bc_Host b = [] then (\<lparr> bt_Host = [], bt_Port = 0, bt_User = [], bt_Password = [] \<rparr>, None)
      else (case secret environ (bc_Password b) (bc_PasswordEnv b) ''backup'' of
          Inr p \<Rightarrow> (\<lparr> bt_Host = bc_Host b, bt_Port = word_of_int (bc_Port b), bt_User = bc_User b, bt_Password = p \<rparr>, None)
        | Inl err \<Rightarrow> (\<lparr> bt_Host = bc_Host b, bt_Port = word_of_int (bc_Port b), bt_User = bc_User b, bt_Password = [] \<rparr>, Some err)))"

text \<open>
  A loaded configuration with a backup host gives a target the execution engine accepts: the port is not
  truncated to zero when it is narrowed to sixteen bits.
\<close>

lemma BackupOptions_usable:
  assumes "loaded_ok c" and "bc_Host (cf_Backup c) \<noteq> []"
  shows "bt_Host (fst (BackupOptions environ c)) \<noteq> [] \<and> bt_User (fst (BackupOptions environ c)) \<noteq> [] \<and>
    uint (bt_Port (fst (BackupOptions environ c))) = bc_Port (cf_Backup c) \<and> bt_Port (fst (BackupOptions environ c)) \<noteq> 0"
proof -
  have port: "bc_Port (cf_Backup c) \<in> {1..65535}" and user: "bc_User (cf_Backup c) \<noteq> []"
    using assms by (simp_all add: loaded_ok_def)
  have "uint (word_of_int (bc_Port (cf_Backup c)) :: 16 word) = bc_Port (cf_Backup c)"
    using port by (simp add: uint_word_of_int)
  moreover from this port have "(word_of_int (bc_Port (cf_Backup c)) :: 16 word) \<noteq> 0" by (metis atLeastAtMost_iff not_one_le_zero uint_0_eq)
  ultimately show ?thesis using assms(2) user by (auto simp: BackupOptions_def Let_def split: sum.splits)
qed

text \<open>
  The listing of the variables does not depend on the backup password beyond whether there is one.
\<close>

lemma Variables_hide_password:
  "p \<noteq> [] \<Longrightarrow> q \<noteq> [] \<Longrightarrow>
   Variables (c\<lparr>cf_Backup := (cf_Backup c)\<lparr>bc_Password := p\<rparr>\<rparr>) = Variables (c\<lparr>cf_Backup := (cf_Backup c)\<lparr>bc_Password := q\<rparr>\<rparr>)"
  by (simp add: Variables_def variable_table_def maskSecret_def)

text \<open>
  \<open>Validate\<close> does not check the limits \<open>validateIncRuntime\<close> checks: a file with two negative limits loads, and
  afterwards no \<open>inception set\<close> of any of the fields is accepted.
\<close>

lemma negative_limits_lock:
  "inc_ok (cf_Inc c) \<Longrightarrow> SetVariable (c\<lparr>cf_Inc := (cf_Inc c)\<lparr>inc_MaxKeys := -1, inc_MaxKeyParts := -1\<rparr>\<rparr>) ''check_primary_key'' ''1'' =
     Inl (errorf ''numeric audit limits must be non-negative'')"
proof -
  assume ok: "inc_ok (cf_Inc c)"
  have "map_of inc_fields ''check_primary_key'' = Some (BoolField (\<lambda>x. inc_CheckPrimaryKey_update (\<lambda>_. x)))"
    by (simp add: inc_fields_def)
  moreover have "strings_ToLower (strings_TrimSpace ''check_primary_key'') = ''check_primary_key''" by code_simp
  moreover have "setBool ''check_primary_key'' ''1'' = Inr True" by code_simp
  ultimately show ?thesis
    using ok by (auto simp: SetVariable_def set_candidate_def setIncByTag_def set_field_def inc_ok_def validateIncRuntime_def)
qed

section \<open>Witnesses\<close>

definition demo_config :: config where
  "demo_config = Defaults\<lparr>cf_Auth := \<lparr> au_Username = ''root'', au_Password = ''pw'', au_PasswordEnv = [] \<rparr>, cf_Rules := [(RuleDDLDropTable, 1)]\<rparr>"

definition demo_meta :: toml_meta where
  "demo_meta = \<lparr> tm_IsDefined = (\<lambda>_. False), tm_Undecoded = [] \<rparr>"

lemma demo_validates: "Validate_config (\<lambda>ks. ks) demo_config = None"
  by code_simp

lemma demo_loads: "Load (\<lambda>ks. ks) (\<lambda>path d. Inr (demo_config, demo_meta)) ''config.toml'' = Inr demo_config"
proof -
  have "inc_LegacyBackupHost (cf_Inc demo_config) = []" by (simp add: demo_config_def Defaults_def default_inc_def)
  then show ?thesis
    by (simp add: Load_def normalizeLegacyConfig_def alias_level_def legacy_backup_def demo_meta_def demo_validates)
qed

lemma demo_rules: "cf_Rules demo_config = [(RuleDDLDropTable, 1)]"
  by (simp add: demo_config_def)

lemma demo_set: "SetVariable demo_config ''backup_host'' ''b1'' = Inr (demo_config\<lparr>cf_Backup := (cf_Backup demo_config)\<lparr>bc_Host := ''b1''\<rparr>\<rparr>)"
proof -
  have "strings_ToLower (strings_TrimSpace ''backup_host'') = ''backup_host''" "trim_quotes ''b1'' = ''b1''" by code_simp+
  then show ?thesis
    by (simp add: SetVariable_def set_candidate_def validateIncRuntime_def demo_config_def Defaults_def default_inc_def)
qed

lemma demo_level: "\<exists>c'. SetLevel demo_config RuleDDLDropTable 2 = Inr c'"
proof -
  have "strings_ToUpper (strings_TrimSpace RuleDDLDropTable) = RuleDDLDropTable" "strings_HasPrefix RuleDDLDropTable ''GIP-''" by code_simp+
  moreover have "RuleByCode RuleDDLDropTable \<noteq> None" using catalogued_rules by (simp add: catalogued_def)
  ultimately show ?thesis by (simp add: SetLevel_def)
qed

theorem Policy_Level_witness: "Level (Policy demo_config) RuleDDLDropTable = SeverityWarning"
  using Policy_Level [of demo_config RuleDDLDropTable] by (simp add: demo_rules configured_level_def severity_of_def)

theorem runtime_invariant_witness:
  "Level (Policy (demo_config\<lparr>cf_Backup := (cf_Backup demo_config)\<lparr>bc_Host := ''b1''\<rparr>\<rparr>)) RuleDDLDropTable \<le> SeverityError"
  using runtime_invariant [OF demo_loads _ _ r_into_rtranclp [of runtime_step, OF set_variable [OF demo_set]], of RuleDDLDropTable]
  by (simp add: any_order_def demo_rules)

theorem SetLevel_effect_witness:
  "\<exists>c' code. SetLevel demo_config RuleDDLDropTable 2 = Inr c' \<and> Level (Policy c') code = severity_of 2"
proof -
  obtain c' where c': "SetLevel demo_config RuleDDLDropTable 2 = Inr c'" using demo_level by blast
  from SetLevel_effect [OF this] c' show ?thesis by (auto simp: demo_rules)
qed

theorem SetVariable_frame_witness:
  "shown (demo_config\<lparr>cf_Backup := (cf_Backup demo_config)\<lparr>bc_Host := ''b1''\<rparr>\<rparr>) ''backup_port'' = shown demo_config ''backup_port''"
proof -
  have "variable_target ''backup_host'' = ''backup_host''" by code_simp
  with SetVariable_frame [OF demo_set, of "''backup_port''"] show ?thesis by simp
qed

end
