(* ===== verification/ProtocolFacts.thy ===== *)
theory ProtocolFacts
  imports Protocol ManagementFacts ConfigFacts SessionFacts
begin

text \<open>
  What the server promises over all connections and queries: the configuration and the registry stay well formed, an
  audit-only server executes nothing, and what is executed passed the audit under the configuration of that moment.
\<close>

section \<open>Steps of the handler\<close>

lemma set_command_step: "set_command c m = Inr c' \<Longrightarrow> runtime_step c c'"
  by (auto simp: set_command_def Let_def intro: runtime_step.intros split: if_splits prod.splits)

lemma management_runtime:
  assumes "management env v q = Some (r, c, effects)"
  shows "c = mv_runtime v \<or> runtime_step (mv_runtime v) c"
  using assms set_command_step
  by (auto simp: management_def Let_def split: option.splits sum.splits if_splits prod.splits)

lemma audit_query_shape:
  assumes "audit_query env ses clock h s q = (r, h', s')"
  shows "ss_runtime s' = ss_runtime s \<and> hd_id h' = hd_id h \<and>
    ss_registry s' = (case ParseLegacyEnvelope q of Inl _ \<Rightarrow> ss_registry s
      | Inr e \<Rightarrow> let t = opt_Target (env_Options e) in setTarget (ss_registry s) (hd_id h) (tgt_User t) (tgt_Host t) (tgt_Port t)) \<and>
    mt_active (ss_metrics s') = mt_active (ss_metrics s) \<and> mt_total (ss_metrics s') = mt_total (ss_metrics s) + 1"
  using assms
  by (cases "ParseLegacyEnvelope q")
     (auto simp: audit_query_defs Let_def metrics_Begin_def metrics_finish_def split: if_splits outcome.splits prod.splits)

lemma session_query_shape:
  assumes "session_query env h s t = (r, h', s')"
  shows "ss_runtime s' = ss_runtime s \<and> ss_world s' = ss_world s \<and> ss_metrics s' = ss_metrics s \<and> hd_id h' = hd_id h \<and>
    (ss_registry s' = ss_registry s \<or> (\<exists>db. ss_registry s' = setDB (ss_registry s) (hd_id h) db))"
  using assms by (auto simp: session_query_def UseDB_def Let_def split: if_splits)

text \<open>The changes a query makes to the registry touch the entry of its own connection only.\<close>

definition own_entry :: "32 word \<Rightarrow> processRegistry \<Rightarrow> processRegistry \<Rightarrow> bool" where
  "own_entry k r r' \<longleftrightarrow> (\<forall>j. j \<noteq> k \<longrightarrow> map_of r' j = map_of r j) \<and> (map_of r' k = None \<longleftrightarrow> map_of r k = None) \<and>
     (registry_ok r \<longrightarrow> registry_ok r')"

lemma own_entry_refl [simp]: "own_entry k r r"
  by (simp add: own_entry_def)

lemma own_entry_trans: "own_entry k r r' \<Longrightarrow> own_entry k r' r'' \<Longrightarrow> own_entry k r r''"
  by (simp add: own_entry_def)

lemma own_entry_steps:
  "own_entry k r (setDB r k db)" "own_entry k r (setTarget r k u host port)"
  "own_entry k r (registry_begin r k cmd info now c)" "own_entry k r (registry_end r k)"
  by (auto simp: own_entry_def registry_changes registry_modify_lookup intro!: registry_modify_ok)

lemma dispatch_cases:
  assumes "dispatch env ses clock h s q = (r, h', s', effects)"
  obtains (management) c where "management env (management_view_of clock h s) q = Some (r, c, effects)"
      "s' = s\<lparr>ss_runtime := c\<rparr>" "hd_id h' = hd_id h"
    | (audit) "audit_query env ses clock h s q = (r, h', s')"
    | (plain) "session_query env h s (strings_TrimSpace q) = (r, h', s')"
proof (cases "management env (management_view_of clock h s) q")
  case None
  show ?thesis
  proof (cases "strings_Contains (strings_ToLower (strings_TrimSpace q)) ''inception_magic_start''")
    case True
    with None assms have "audit_query env ses clock h s q = (r, h', s')" by (simp add: dispatch_def split: prod.splits)
    then show ?thesis by (rule audit)
  next
    case False
    with None assms have "session_query env h s (strings_TrimSpace q) = (r, h', s')" by (simp add: dispatch_def split: prod.splits)
    then show ?thesis by (rule plain)
  qed
next
  case (Some x)
  obtain r0 c e where x: "x = (r0, c, e)" by (metis prod_cases3)
  with assms Some have "r0 = r" "e = effects" "s' = s\<lparr>ss_runtime := c\<rparr>" "hd_id h' = hd_id h"
    by (simp_all add: dispatch_def split: reply_outcome.splits) auto
  with Some x show ?thesis by (intro management) auto
qed

lemma dispatch_shape:
  assumes "dispatch env ses clock h s q = (r, h', s', effects)"
  shows "(ss_runtime s' = ss_runtime s \<or> runtime_step (ss_runtime s) (ss_runtime s')) \<and> hd_id h' = hd_id h \<and>
    own_entry (hd_id h) (ss_registry s) (ss_registry s') \<and> mt_active (ss_metrics s') = mt_active (ss_metrics s)"
  using assms
proof (cases rule: dispatch_cases)
  case (management c)
  from management_runtime [OF management(1)] management(2,3) show ?thesis by (simp add: management_view_of_def)
next
  case audit
  from audit_query_shape [OF this] own_entry_steps(2) [of "hd_id h" "ss_registry s"] show ?thesis
    by (simp add: Let_def split: sum.split)
next
  case plain
  from session_query_shape [OF this] own_entry_steps(1) [of "hd_id h" "ss_registry s"] show ?thesis by auto
qed

lemma HandleQuery_shape:
  assumes "HandleQuery env ses clock h s q = (r, h', s', effects)"
  shows "(ss_runtime s' = ss_runtime s \<or> runtime_step (ss_runtime s) (ss_runtime s')) \<and> hd_id h' = hd_id h \<and>
    own_entry (hd_id h) (ss_registry s) (ss_registry s') \<and> mt_active (ss_metrics s') = mt_active (ss_metrics s)"
proof (cases "int (length q) > hd_maxPacket h")
  case True
  with assms show ?thesis by (simp add: HandleQuery_def)
next
  case False
  let ?begun = "s\<lparr>ss_registry := registry_begin (ss_registry s) (hd_id h) ''Query'' (strings_TrimSpace q) (qc_now clock) (qc_cancel clock)\<rparr>"
  obtain s1 where s1: "dispatch env ses clock h ?begun q = (r, h', s1, effects)"
    "s' = s1\<lparr>ss_registry := registry_end (ss_registry s1) (hd_id h)\<rparr>"
    using assms False by (auto simp: HandleQuery_def Let_def split: prod.splits)
  note shape = dispatch_shape [OF s1(1)]
  have "own_entry (hd_id h) (ss_registry s) (ss_registry ?begun)" by (simp add: own_entry_steps)
  moreover have "own_entry (hd_id h) (ss_registry ?begun) (ss_registry s1)" using shape by simp
  moreover have "own_entry (hd_id h) (ss_registry s1) (ss_registry s')" by (simp add: s1(2) own_entry_steps)
  ultimately have "own_entry (hd_id h) (ss_registry s) (ss_registry s')" using own_entry_trans by blast
  with shape show ?thesis by (simp add: s1(2))
qed

section \<open>Reachable states of the server\<close>

inductive server_reachable :: "protocol_env \<Rightarrow> 'w session \<Rightarrow> config \<Rightarrow> 'w server_state \<Rightarrow> bool"
  for env ses c0 where
  start: "ss_runtime s = c0 \<Longrightarrow> ss_registry s = newProcessRegistry \<Longrightarrow> server_reachable env ses c0 s"
| connect: "server_reachable env ses c0 s \<Longrightarrow> server_reachable env ses c0 (s\<lparr>ss_registry := registry_add (ss_registry s) p\<rparr>)"
| disconnect: "server_reachable env ses c0 s \<Longrightarrow> server_reachable env ses c0 (s\<lparr>ss_registry := registry_remove (ss_registry s) k\<rparr>)"
| query: "server_reachable env ses c0 s \<Longrightarrow> HandleQuery env ses clock h s q = (r, h', s', effects) \<Longrightarrow> server_reachable env ses c0 s'"
| outside: "server_reachable env ses c0 s \<Longrightarrow> server_reachable env ses c0 (s\<lparr>ss_world := w\<rparr>)"

lemma server_reachable_ok: "server_reachable env ses c0 s \<Longrightarrow> runtime_ok c0 \<Longrightarrow> runtime_ok (ss_runtime s) \<and> registry_ok (ss_registry s)"
proof (induction rule: server_reachable.induct)
  case (query s clock h q r h' s' effects)
  with HandleQuery_shape [OF query.hyps(2)] show ?case
    by (auto simp: own_entry_def elim!: runtime_stepE intro: SetVariable_ok SetLevel_ok)
qed auto

section \<open>What is executed\<close>

lemma Policy_bounded: "levels_ok c \<Longrightarrow> policy_bounded (Policy c)"
proof -
  assume ok: "levels_ok c"
  have "level \<le> SeverityError" if "p_RuleLevels (Policy c) code = Some level" for code level
  proof -
    have "Level (Policy c) code = level" using that by (simp add: Level_def)
    with ok policy_level [of c code] configured_level_bounded [OF ok, of code] show ?thesis by (simp add: levels_ok_def)
  qed
  then show "policy_bounded (Policy c)" by (auto simp: policy_bounded_def)
qed

lemma executed_not_refused:
  assumes "snd (Audit ses input w) \<noteq> w" and "ses_engine ses = program_rules" and "policy_bounded (session_policy ses)"
  shows "\<exists>opts parsed records. audited ses input w opts parsed records \<and> opt_Execute opts \<and>
    (\<forall>st\<in>set (pr_Statements parsed). \<not> refused (session_policy ses) st)"
proof -
  obtain opts parsed records where run: "audited ses input w opts parsed records" and exec: "opt_Execute opts"
    using Audit_world [OF assms(1)] by blast
  obtain opts' parsed' records' where run': "audited ses input w opts' parsed' records'"
    and clean: "\<forall>s\<in>set (pr_Statements parsed'). \<exists>a u. a_Policy a = session_policy ses \<and> same_statement s u \<and>
       (\<forall>i\<in>set (fst (Engine_Check program_rules a u)). iss_Level i \<noteq> SeverityError)"
    using engine_error_blocks [OF assms] by blast
  have "parsed' = parsed" using audited_unique [OF run run'] by simp
  moreover have "\<not> refused (session_policy ses) st" if "st \<in> set (pr_Statements parsed')" for st
    using clean that refused_reported refused_same by metis
  ultimately show ?thesis using run exec by blast
qed

lemma audit_query_world:
  assumes "audit_query env ses clock h s q = (r, h', s')" and "ss_world s' \<noteq> ss_world s"
  shows "snd (Audit (WithPolicyProvider (Policy (ss_runtime s)) ses) q (ss_world s)) \<noteq> ss_world s \<and>
    (\<forall>e. ParseLegacyEnvelope q = Inr e \<longrightarrow> \<not> (hd_auditOnly h \<and> opt_Execute (env_Options e)))"
  using assms
  by (cases "ParseLegacyEnvelope q") (auto simp: audit_query_defs Let_def split: if_splits outcome.splits prod.splits)

lemma HandleQuery_world:
  assumes "HandleQuery env ses clock h s q = (r, h', s', effects)" and "ss_world s' \<noteq> ss_world s"
  shows "snd (Audit (WithPolicyProvider (Policy (ss_runtime s)) ses) q (ss_world s)) \<noteq> ss_world s \<and>
    (\<forall>e. ParseLegacyEnvelope q = Inr e \<longrightarrow> \<not> (hd_auditOnly h \<and> opt_Execute (env_Options e)))"
proof -
  let ?begun = "s\<lparr>ss_registry := registry_begin (ss_registry s) (hd_id h) ''Query'' (strings_TrimSpace q) (qc_now clock) (qc_cancel clock)\<rparr>"
  obtain s1 where s1: "dispatch env ses clock h ?begun q = (r, h', s1, effects)" "ss_world s1 \<noteq> ss_world ?begun"
    using assms by (auto simp: HandleQuery_def Let_def split: if_splits prod.splits)
  from s1(1) show ?thesis
  proof (cases rule: dispatch_cases)
    case audit
    from audit_query_world [OF this s1(2)] show ?thesis by simp
  next
    case plain
    from session_query_shape [OF this] s1(2) show ?thesis by simp
  qed (use s1(2) in simp)
qed

lemma audited_envelope:
  "audited ses input w opts parsed records \<Longrightarrow> \<exists>e. ParseLegacyEnvelope input = Inr e \<and> opt_Execute opts = opt_Execute (env_Options e)"
  by (auto simp: audited_def effective_options_def Let_def)

text \<open>
  C6. An audit-only server executes nothing: whatever a client sends it, neither the targets nor the backup
  databases change.
\<close>

theorem audit_only_executes_nothing:
  assumes "hd_auditOnly h" and "HandleQuery env ses clock h s q = (r, h', s', effects)"
  shows "ss_world s' = ss_world s"
proof (rule ccontr)
  assume "ss_world s' \<noteq> ss_world s"
  from HandleQuery_world [OF assms(2) this] have
    changed: "snd (Audit (WithPolicyProvider (Policy (ss_runtime s)) ses) q (ss_world s)) \<noteq> ss_world s" and
    gate: "\<forall>e. ParseLegacyEnvelope q = Inr e \<longrightarrow> \<not> (hd_auditOnly h \<and> opt_Execute (env_Options e))" by auto
  from Audit_world [OF changed] obtain opts parsed records where
    run: "audited (WithPolicyProvider (Policy (ss_runtime s)) ses) q (ss_world s) opts parsed records" and "opt_Execute opts" by blast
  with audited_envelope [OF run] gate assms(1) show False by auto
qed

text \<open>
  The server as a whole: in every state it reaches from a configuration file it accepted, by any queries of any
  connections, a query that changes a target or a backup database is a request that asked for
  execution and none of whose statements is refused under the configuration of that moment.
\<close>

theorem server_executes_audited_only:
  assumes "Load order decode path = Inr c0" and "any_order order"
    and "\<And>d meta. decode path Defaults = Inr (d, meta) \<Longrightarrow> distinct (map fst (cf_Rules d))"
    and "server_reachable env ses c0 s" and "ses_engine ses = program_rules"
    and "HandleQuery env ses clock h s q = (r, h', s', effects)" and "ss_world s' \<noteq> ss_world s"
  shows "\<exists>opts parsed records. audited (WithPolicyProvider (Policy (ss_runtime s)) ses) q (ss_world s) opts parsed records \<and>
    opt_Execute opts \<and> (\<forall>st\<in>set (pr_Statements parsed). \<not> refused (Policy (ss_runtime s)) st)"
proof -
  have "runtime_ok c0" using Load_ok [OF assms(1-3)] by (simp add: loaded_ok_def)
  with server_reachable_ok [OF assms(4)] have "policy_bounded (Policy (ss_runtime s))"
    by (simp add: Policy_bounded runtime_ok_def)
  with executed_not_refused [of "WithPolicyProvider (Policy (ss_runtime s)) ses" q "ss_world s"] HandleQuery_world [OF assms(6,7)] assms(5)
  show ?thesis by (simp add: WithPolicyProvider_def session_policy_def)
qed

text \<open>
  A query concerns its own connection: it leaves the entries of all others as they are, its own
  entry is idle when it has answered, and the number of active audits is what it was.
\<close>

theorem HandleQuery_own_connection:
  assumes "HandleQuery env ses clock h s q = (r, h', s', effects)" and "j \<noteq> hd_id h" and "int (length q) \<le> hd_maxPacket h"
    and "map_of (ss_registry s) (hd_id h) \<noteq> None"
  shows "map_of (ss_registry s') j = map_of (ss_registry s) j \<and>
    (\<exists>p. map_of (ss_registry s') (hd_id h) = Some p \<and> pi_Command p = ''Sleep'' \<and> pi_cancel p = None) \<and>
    mt_active (ss_metrics s') = mt_active (ss_metrics s)"
proof -
  from HandleQuery_shape [OF assms(1)] have shape: "own_entry (hd_id h) (ss_registry s) (ss_registry s')"
    "mt_active (ss_metrics s') = mt_active (ss_metrics s)" by auto
  obtain s1 where s': "s' = s1\<lparr>ss_registry := registry_end (ss_registry s1) (hd_id h)\<rparr>"
    using assms(1,3) by (auto simp: HandleQuery_def Let_def split: prod.splits)
  have "map_of (ss_registry s') (hd_id h) \<noteq> None" using shape(1) assms(4) by (simp add: own_entry_def)
  then obtain p0 where "map_of (ss_registry s1) (hd_id h) = Some p0"
    by (auto simp: s' registry_end_def registry_modify_lookup)
  with shape assms(2) show ?thesis by (simp add: own_entry_def s' registry_end_def registry_modify_lookup)
qed

section \<open>Witnesses\<close>

lemma find_head:
  assumes "s \<noteq> []" and "lower_byte (hd s) \<noteq> lower_byte c"
  shows "FindStringSubmatch (re_seq (Lit (c # w) # rs)) s = None"
proof -
  have "matches (Lit (c # w)) s = []" using assms by (cases s) (auto simp: strings_EqualFold_def strings_ToLower_def)
  from matches_re_seq_Nil [OF this] show ?thesis by (simp add: FindStringSubmatch_def)
qed

lemma slash_unknown:
  "FindStringSubmatch reInceptionShow (CHR ''/'' # t) = None" "FindStringSubmatch reInceptionSet (CHR ''/'' # t) = None"
  "FindStringSubmatch reKill (CHR ''/'' # t) = None" "FindStringSubmatch reShowDB (CHR ''/'' # t) = None"
  "FindStringSubmatch reShowTables (CHR ''/'' # t) = None" "FindStringSubmatch reTableStatus (CHR ''/'' # t) = None"
  "FindStringSubmatch reColumns (CHR ''/'' # t) = None" "FindStringSubmatch reShowGrants (CHR ''/'' # t) = None"
  unfolding reInceptionShow_def reInceptionSet_def reKill_def reShowDB_def reShowTables_def reTableStatus_def reColumns_def reShowGrants_def
  by (rule find_head; simp add: lower_byte_def)+

text \<open>A request opens with a comment, so no management command takes it.\<close>

lemma comment_not_management:
  assumes "strings_TrimSpace (strings_TrimSuffix (strings_TrimSpace q) '';'') = CHR ''/'' # t"
  shows "management env v q = None"
  using assms
  by (simp add: management_def catalog_command_def MatchString_def slash_unknown strings_HasPrefix_def strings_ToLower_def lower_byte_def)

lemma demo_input_text:
  "\<exists>t. strings_TrimSpace (strings_TrimSuffix (strings_TrimSpace demo_input) '';'') = CHR ''/'' # t"
  "strings_Contains (strings_ToLower (strings_TrimSpace demo_input)) ''inception_magic_start''" "length demo_input < 1000"
proof -
  have "case strings_TrimSpace (strings_TrimSuffix (strings_TrimSpace demo_input) '';'') of [] \<Rightarrow> False | c # t \<Rightarrow> c = CHR ''/''" by code_simp
  then show "\<exists>t. strings_TrimSpace (strings_TrimSuffix (strings_TrimSpace demo_input) '';'') = CHR ''/'' # t" by (auto split: list.splits)
  show "strings_Contains (strings_ToLower (strings_TrimSpace demo_input)) ''inception_magic_start''" "length demo_input < 1000" by code_simp+
qed

lemma plain_select_policy_run:
  "\<exists>ss lp. audit_statements program_rules pol True [] [plain_select] (initial_state opts source server pol) =
     Returns ([makeRecord plain_select []], ss, lp)"
  by (simp add: audit_statement_def select_database_def plain_select_def zero_statement_def resolveStatementDatabase_def
      requiresDatabase_def estimate_rows_def prepare_statement_def Engine_Check_def program_rules_def
      KnownStatement_Check_def DDLSafety_Check_def LegacyDDL_Check_def RequirePrimaryKey_Check_def
      RequireTableComment_Check_def RequireColumnComments_Check_def LimitColumnCount_Check_def DMLSafety_Check_def
      appliesToCreateTable_def parser_warnings_def finish_statement_def makeRecord_def max_level_def report_def Let_def)

lemma demo_audit_executes: "snd (Audit (WithPolicyProvider pol (demo_session [plain_select])) demo_input 0) = 1"
proof -
  let ?opts = "effective_options sample_options server8 pol"
  have env: "ParseLegacyEnvelope demo_input = Inr \<lparr> env_Options = sample_options, env_SQL = quoted_statement @ '';'' \<rparr>"
    unfolding demo_input_def by (rule sample_request_run)
  have exec: "opt_Execute ?opts" by (simp add: effective_options_def sample_options_def Let_def)
  obtain ss lp where run: "audit_statements program_rules pol True [] [plain_select] (initial_state ?opts users_source server8 pol) =
     Returns ([makeRecord plain_select []], ss, lp)" using plain_select_policy_run by blast
  have "Audit (WithPolicyProvider pol (demo_session [plain_select])) demo_input 0 =
      execute_phase (WithPolicyProvider pol (demo_session [plain_select])) ?opts [makeRecord plain_select []] ss 0"
    using env exec server8_supported
    by (simp add: Audit_def Let_def demo_defs WithPolicyProvider_def run del: audit_statements.simps)
  with exec show ?thesis
    by (simp add: execute_phase_def blocks_def makeRecord_def max_level_def counting_executor_def demo_defs WithPolicyProvider_def)
qed

definition demo_env :: protocol_env where
  "demo_env = \<lparr> pe_build = (\<lambda>_ _. None), pe_ErrorText = (\<lambda>_ m. m), pe_duration = (\<lambda>_. ''0.01'') \<rparr>"

definition demo_clock :: query_clock where
  "demo_clock = \<lparr> qc_now = 0, qc_elapsed = 5, qc_cancel = 1 \<rparr>"

definition demo_handler :: "bool \<Rightarrow> handler" where
  "demo_handler only = \<lparr> hd_database = [], hd_maxPacket = 1000, hd_id = 7, hd_username = ''root'', hd_warnings = [], hd_auditOnly = only \<rparr>"

definition demo_state :: "nat server_state" where
  "demo_state = \<lparr> ss_runtime = demo_config, ss_registry = [(7, demo_process)],
     ss_metrics = \<lparr> mt_ready = True, mt_active = 0, mt_total = 0, mt_failed = 0, mt_durationNS = 0 \<rparr>, ss_world = 0 \<rparr>"

theorem audit_only_executes_nothing_witness:
  "\<exists>r h' s' effects. HandleQuery demo_env (demo_session [plain_select]) demo_clock (demo_handler True) demo_state demo_input = (r, h', s', effects) \<and>
     ss_world s' = 0"
proof -
  obtain r h' s' effects where q: "HandleQuery demo_env (demo_session [plain_select]) demo_clock (demo_handler True) demo_state demo_input =
    (r, h', s', effects)" by (metis prod_cases4)
  have "hd_auditOnly (demo_handler True)" by (simp add: demo_handler_def)
  from audit_only_executes_nothing [OF this q] q show ?thesis by (simp add: demo_state_def)
qed

theorem HandleQuery_own_connection_witness:
  "\<exists>r h' s' effects p. HandleQuery demo_env (demo_session [plain_select]) demo_clock (demo_handler False) demo_state demo_input = (r, h', s', effects) \<and>
     map_of (ss_registry s') 7 = Some p \<and> pi_Command p = ''Sleep''"
proof -
  obtain r h' s' effects where q: "HandleQuery demo_env (demo_session [plain_select]) demo_clock (demo_handler False) demo_state demo_input =
    (r, h', s', effects)" by (metis prod_cases4)
  from HandleQuery_own_connection [OF q, of 8] q demo_input_text(3) show ?thesis
    by (auto simp: demo_handler_def demo_state_def)
qed

lemma demo_state_reachable: "server_reachable demo_env ses demo_config demo_state"
proof -
  have "server_reachable demo_env ses demo_config (demo_state\<lparr>ss_registry := []\<rparr>)"
    by (rule server_reachable.start) (simp_all add: demo_state_def newProcessRegistry_def)
  from server_reachable.connect [OF this, of demo_process] show ?thesis
    by (simp add: registry_add_def demo_process_def demo_state_def)
qed

lemma demo_query_executes:
  assumes "snd (Audit (WithPolicyProvider (Policy demo_config) ses) demo_input 0) = 1"
  shows "\<exists>r h' s' effects. HandleQuery demo_env ses demo_clock (demo_handler False) demo_state demo_input = (r, h', s', effects) \<and> ss_world s' = 1"
proof -
  let ?begun = "demo_state\<lparr>ss_registry := registry_begin (ss_registry demo_state) 7 ''Query'' (strings_TrimSpace demo_input) 0 1\<rparr>"
  obtain t where "strings_TrimSpace (strings_TrimSuffix (strings_TrimSpace demo_input) '';'') = CHR ''/'' # t" using demo_input_text(1) by blast
  from comment_not_management [OF this] have
    disp: "dispatch demo_env ses demo_clock (demo_handler False) ?begun demo_input =
      (case audit_query demo_env ses demo_clock (demo_handler False) ?begun demo_input of (r, h', s') \<Rightarrow> (r, h', s', []))"
    using demo_input_text(2) by (simp add: dispatch_def)
  have env: "ParseLegacyEnvelope demo_input = Inr \<lparr> env_Options = sample_options, env_SQL = quoted_statement @ '';'' \<rparr>"
    unfolding demo_input_def by (rule sample_request_run)
  obtain out where out: "Audit (WithPolicyProvider (Policy demo_config) ses) demo_input 0 = (out, 1)"
    using assms by (metis prod.collapse)
  have "\<exists>r h' s'. audit_query demo_env ses demo_clock (demo_handler False) ?begun demo_input = (r, h', s') \<and> ss_world s' = 1"
    by (cases out) (simp_all add: audit_query_defs env out Let_def demo_handler_def demo_state_def)
  then show ?thesis
    using disp demo_input_text(3) by (auto simp: HandleQuery_def Let_def demo_handler_def demo_clock_def)
qed

theorem server_executes_audited_only_witness:
  "\<exists>opts parsed records. audited (WithPolicyProvider (Policy demo_config) (demo_session [plain_select])) demo_input 0 opts parsed records \<and>
    opt_Execute opts \<and> (\<forall>st\<in>set (pr_Statements parsed). \<not> refused (Policy demo_config) st)"
proof -
  obtain r h' s' effects where q: "HandleQuery demo_env (demo_session [plain_select]) demo_clock (demo_handler False) demo_state demo_input =
    (r, h', s', effects)" "ss_world s' = 1" using demo_query_executes [OF demo_audit_executes] by blast
  have "ss_runtime demo_state = demo_config" "ss_world demo_state = 0" by (simp_all add: demo_state_def)
  with server_executes_audited_only [OF demo_loads _ _ demo_state_reachable _ q(1)] q(2) show ?thesis
    by (simp add: any_order_def demo_rules)
qed

end
