(* ===== verification/Pipeline.thy ===== *)
theory Pipeline
  imports SqlParserFacts ProtocolFacts
begin

text \<open>
  The components put together as the program wires them: the session with the TiDB adapter as its parser and the MySQL engine as its
  executor. What the adapter guarantees discharges what the session and the engine require of their statements.
\<close>

section \<open>The audit loop keeps the projections usable\<close>

lemma projected_cong:
  "map_option (\<lambda>d. (d_Action d, d_Indexes d, d_AlterOperations d)) (s_DDL s') = map_option (\<lambda>d. (d_Action d, d_Indexes d, d_AlterOperations d)) (s_DDL s)
   \<Longrightarrow> projected s \<Longrightarrow> projected s'"
  by (cases "s_DDL s"; cases "s_DDL s'") (auto simp: projected_def projected_indexes_def)

lemma select_database_projected: "select_database s a = (issues, s', a') \<Longrightarrow> projected s \<Longrightarrow> projected s'"
  by (rule projected_cong) (auto simp: select_database_def resolveStatementDatabase_def resolve_ddl_def Let_def option.map_comp comp_def
      split: if_splits prod.splits sum.splits)

lemma estimate_rows_projected: "estimate_rows pol a s issues = (issues', s') \<Longrightarrow> projected s \<Longrightarrow> projected s'"
  by (rule projected_cong) (auto simp: estimate_rows_def set_estimate_def split: option.splits if_splits sum.splits)

lemma prepare_create_alters: "prepare_create d p = Returns (err, d', p') \<Longrightarrow> d_AlterOperations d' = d_AlterOperations d"
  by (auto simp: prepare_create_def deriveFlags_def Let_def split: prod.splits sum.splits if_splits option.splits)

lemma PrepareDDL_projected:
  assumes "PrepareDDL (Some d) p = Returns (err, spec', p')"
    and "(d_Action d = DDLCreateIndex \<longrightarrow> d_Indexes d \<noteq> []) \<and> projected_indexes d"
  shows "\<exists>d'. spec' = Some d' \<and> (d_Action d' = DDLCreateIndex \<longrightarrow> d_Indexes d' \<noteq> []) \<and> projected_indexes d'"
proof (cases "\<not> d_FullyProjected d \<or> d_Action d \<noteq> DDLCreateTable \<and> d_Action d \<noteq> DDLCreateView")
  case True
  with assms show ?thesis by (auto simp: PrepareDDL_def Let_def split: if_splits prod.splits)
next
  case False
  with assms(1) obtain d' where d': "prepare_create d p = Returns (err, d', p')" "spec' = Some d'"
    by (auto simp: PrepareDDL_def split: outcome.splits prod.splits)
  with assms(2) False prepare_create_action [OF d'(1)] prepare_create_alters [OF d'(1)] show ?thesis
    by (auto simp: projected_indexes_def)
qed

lemma prepare_statement_projected:
  "prepare_statement s issues p = Returns (issues', s', p') \<Longrightarrow> projected s \<Longrightarrow> projected s'"
  by (cases "s_DDL s")
     (auto simp: prepare_statement_def projected_def split: if_splits outcome.splits prod.splits dest!: PrepareDDL_projected)

lemma audit_statement_projected:
  assumes "audit_statement rules pol execute warnings s lp = Returns (r, s', lp')" and "projected s"
  shows "projected s'"
proof -
  obtain i0 s0 a0 where sel: "select_database s (lp_ctx lp) = (i0, s0, a0)" by (metis prod_cases3)
  obtain i2 s2 where est: "estimate_rows pol a0 s0 i0 = (i2, s2)" by (metis surj_pair)
  from assms sel est obtain i3 s3 p3 where
    prep: "prepare_statement s2 i2 (a_Metadata a0) = Returns (i3, s3, p3)"
    by (cases "prepare_statement s2 i2 (a_Metadata a0)") (auto simp: audit_statement_def)
  have "s_DDL s' = s_DDL s3" using assms(1) sel est prep by (auto simp: audit_statement_def split: prod.splits)
  moreover have "projected s3"
    using assms(2) select_database_projected [OF sel] estimate_rows_projected [OF est] prepare_statement_projected [OF prep] by blast
  ultimately show ?thesis by (simp add: projected_def)
qed

lemma audit_statements_projected:
  "audit_statements rules pol execute warnings ss lp = Returns (records, ss', lp') \<Longrightarrow> \<forall>s\<in>set ss. projected s \<Longrightarrow>
   (\<forall>s\<in>set ss'. projected s) \<and> length ss' = length ss \<and> length records = length ss"
proof (induction ss arbitrary: lp records ss')
  case (Cons s ss)
  from Cons.prems(1) obtain r s1 lp1 where step: "audit_statement rules pol execute warnings s lp = Returns (r, s1, lp1)"
    by (cases "audit_statement rules pol execute warnings s lp") auto
  with Cons.prems(1) obtain rs ss1 where rest: "audit_statements rules pol execute warnings ss lp1 = Returns (rs, ss1, lp')"
    and out: "records = r # rs" "ss' = s1 # ss1"
    by (cases "audit_statements rules pol execute warnings ss lp1") auto
  from Cons.IH [OF rest] audit_statement_projected [OF step] Cons.prems(2) out show ?case by simp
qed simp

section \<open>Every accepted request is answered\<close>

text \<open>The executors of the session are engines over stores that visit each group of a backup once.\<close>

definition mysql_executors :: "'w session \<Rightarrow> bool" where
  "mysql_executors ses \<longleftrightarrow> (\<forall>opn t w ex. ses_openExecutor ses = Some opn \<longrightarrow> opn t w = Inr ex \<longrightarrow>
     (\<exists>env target. ex = Execute env target \<and> (\<forall>t store. ee_OpenStore env t = Inr store \<longrightarrow> fair_order (sd_order store))))"

lemma execute_phase_returns:
  assumes "mysql_executors ses" and "\<forall>s\<in>set stmts. projected s" and "records \<noteq> []"
  shows "\<exists>out w'. execute_phase ses opts records stmts w = (Returns out, w')"
proof -
  obtain r rs where records: "records = r # rs" using assms(3) by (cases records) auto
  have run: "\<exists>x w'. ex opts stmts w = (Returns x, w')" if ex: "ses_openExecutor ses = Some opn" "opn t w = Inr ex" for opn t ex
  proof -
    obtain env target where "ex = Execute env target" "\<forall>t store. ee_OpenStore env t = Inr store \<longrightarrow> fair_order (sd_order store)"
      using assms(1) ex unfolding mysql_executors_def by blast
    with Execute_returns [of env stmts] assms(2) show ?thesis by simp
  qed
  show ?thesis
  proof (cases "ses_openExecutor ses")
    case (Some opn)
    show ?thesis
    proof (cases "opn (opt_Target opts) w")
      case (Inr ex)
      with run [OF Some Inr] Some show ?thesis by (auto simp: execute_phase_def)
    qed (simp add: execute_phase_def Some fail_first_def records)
  qed (simp add: execute_phase_def fail_first_def records)
qed

lemma Audit_returns:
  assumes parser: "ses_parser ses = Parse tidb" and exec: "mysql_executors ses" and env: "ParseLegacyEnvelope input = Inr env"
    and nonempty: "\<And>mode r. Parse tidb (env_SQL env) mode = Inr r \<Longrightarrow> pr_Statements r \<noteq> []"
  shows "\<exists>out w'. Audit ses input w = (Returns out, w')"
proof (cases "ses_openMetadata ses")
  case None
  then show ?thesis by (simp add: Audit_def env)
next
  case opn: (Some opn)
  show ?thesis
  proof (cases "opn (opt_Target (env_Options env)) w")
    case (Inl err)
    then show ?thesis by (simp add: Audit_def env opn)
  next
    case src: (Inr p)
    obtain source server where p: "p = (source, server)" by (metis surj_pair)
    show ?thesis
    proof (cases "supportedMySQLVersion (srv_Version server)")
      case False
      then show ?thesis by (simp add: Audit_def env opn src p)
    next
      case sup: True
      let ?opts = "effective_options (env_Options env) server (session_policy ses)"
      show ?thesis
      proof (cases "Parse tidb (env_SQL env) (tgt_SQLMode (opt_Target ?opts))")
        case (Inl err)
        then show ?thesis by (simp add: Audit_def env opn src p sup parser Let_def)
      next
        case parse: (Inr parsed)
        note ok = Parse_statements [OF parse]
        obtain records stmts lp where run: "audit_statements (ses_engine ses) (session_policy ses) (opt_Execute ?opts) (pr_Warnings parsed)
            (pr_Statements parsed) (initial_state ?opts source server (session_policy ses)) = Returns (records, stmts, lp)"
          using audit_statements_return [of "pr_Statements parsed"] ok by blast
        from audit_statements_projected [OF run] ok have "\<forall>s\<in>set stmts. projected s" "length records = length (pr_Statements parsed)" by auto
        moreover from this(2) nonempty [OF parse] have "records \<noteq> []" by auto
        ultimately show ?thesis using execute_phase_returns [OF exec, of stmts records ?opts w]
          by (simp add: Audit_def env opn src p sup parser parse run Let_def)
      qed
    qed
  qed
qed

text \<open>
  The whole pipeline answers: with the TiDB adapter and the MySQL engine, a request whose envelope is accepted and whose SQL is
  not empty always gets its records. No answer of the parser, the target server or the backup server makes the server
  panic or lose the request.
\<close>

theorem Audit_answers:
  assumes "ses_parser ses = Parse tidb" and "mysql_executors ses" and "ParseLegacyEnvelope input = Inr env"
    and "\<And>mode r. Parse tidb (env_SQL env) mode = Inr r \<Longrightarrow> pr_Statements r \<noteq> []"
  shows "\<exists>out w'. Audit ses input w = (Returns out, w')"
  by (rule Audit_returns [OF assms])

text \<open>
  What the projection does not understand is never executed: when a request changes the databases, every statement of its
  syntax tree is one the data model represents in full. An ALTER TABLE with a clause without projection, a CREATE TABLE ...
  SELECT, a spatial index or a statement of another type anywhere in the request keeps all of it from running.
\<close>

theorem executed_understood:
  assumes "ses_parser ses = Parse tidb" and "ses_engine ses = program_rules" and "policy_bounded (session_policy ses)"
    and "snd (Audit ses input w) \<noteq> w"
  shows "\<exists>env mode nodes warnings. ParseLegacyEnvelope input = Inr env \<and> td_ParseSQL tidb mode (env_SQL env) = Inr (nodes, warnings) \<and>
    (\<forall>n\<in>set nodes. understood (an_Stmt n))"
proof -
  obtain opts parsed records where run: "audited ses input w opts parsed records"
    and ok: "\<forall>s\<in>set (pr_Statements parsed). \<not> refused (session_policy ses) s"
    using executed_not_refused [OF assms(4,2,3)] by blast
  obtain env where env: "ParseLegacyEnvelope input = Inr env" "Parse tidb (env_SQL env) (tgt_SQLMode (opt_Target opts)) = Inr parsed"
    using run assms(1) by (auto simp: audited_def)
  have "\<forall>s\<in>set (pr_Statements parsed). s_Supported s" using ok by (auto simp: refused_def)
  from Parse_understood [OF env(2) this] env(1) show ?thesis by blast
qed

section \<open>Witnesses\<close>

definition wired_session :: "ast_stmt list \<Rightarrow> nat session" where
  "wired_session nodes = (demo_session [])\<lparr>ses_parser := Parse (demo_tidb nodes),
     ses_openExecutor := Some (\<lambda>t w. Inr (Execute quiet_env demo_backup))\<rparr>"

lemma wired_executors: "mysql_executors (wired_session nodes)"
  using quiet_fair by (auto simp: mysql_executors_def wired_session_def)

lemma demo_envelope: "ParseLegacyEnvelope demo_input = Inr \<lparr> env_Options = sample_options, env_SQL = quoted_statement @ '';'' \<rparr>"
  unfolding demo_input_def by (rule sample_request_run)

theorem Audit_answers_witness: "\<exists>out w'. Audit (wired_session [demo_select_node, demo_alter_node]) demo_input 0 = (Returns out, w')"
proof (rule Audit_answers [OF _ wired_executors demo_envelope])
  show "ses_parser (wired_session [demo_select_node, demo_alter_node]) = Parse (demo_tidb [demo_select_node, demo_alter_node])"
    by (simp add: wired_session_def)
qed (auto simp: demo_tidb_Parse)

definition select_one :: ast_stmt where
  "select_one = \<lparr> an_Stmt = SelectStmt \<lparr> se_With = None, se_Where = False, se_Limit = False, se_OrderBy = False, se_Fields = [False] \<rparr>,
     an_OriginTextPosition = 0, an_OriginalText = ''select 1'', an_Text = \<lparr> tx_Restore = Some ''SELECT 1'', tx_Text = ''select 1'' \<rparr>,
     an_Visit = Visit OtherNode [] \<rparr>"

lemma select_one_projection:
  "project_statement 0 select_one = (zero_statement StatementSelect)\<lparr>s_Sequence := 1, s_Original := ''select 1'', s_Normalized := ''SELECT 1'',
     s_EndOffset := 8, s_Supported := True, s_DML := Some (zero_dml_spec\<lparr>m_FullyProjected := True\<rparr>)\<rparr>"
  by code_simp

definition select_in :: "string \<Rightarrow> statement" where
  "select_in db = (project_statement 0 select_one)\<lparr>s_Database := db\<rparr>"

lemma select_in_fields:
  "s_Kind (select_in db) = StatementSelect" "s_DDL (select_in db) = None" "s_Supported (select_in db)" "s_Sequence (select_in db) = 1"
  "s_DML (select_in db) = Some (zero_dml_spec\<lparr>m_FullyProjected := True\<rparr>)"
  by (simp_all only: select_in_def select_one_projection) (simp_all add: zero_statement_def)

lemma select_in_resolved: "select_database (project_statement 0 select_one) a = ([], select_in (a_Database a), a)"
  unfolding select_one_projection select_in_def
  by (simp add: select_database_def resolveStatementDatabase_def requiresDatabase_def zero_statement_def zero_dml_spec_def Let_def)

lemma select_in_clean: "Engine_Check program_rules a (select_in db) = ([], a)"
  by (simp add: Engine_Check_def program_rules_def KnownStatement_Check_def DDLSafety_Check_def LegacyDDL_Check_def
      RequirePrimaryKey_Check_def RequireTableComment_Check_def RequireColumnComments_Check_def LimitColumnCount_Check_def
      appliesToCreateTable_def DMLSafety_Check_def dml_statement_issues_def comparison_issues_def select_in_fields zero_dml_spec_def
      report_def Let_def)

lemma select_one_run:
  "\<exists>ss lp. audit_statements program_rules pol True [] [project_statement 0 select_one] (initial_state opts source server pol) =
     Returns ([makeRecord (select_in (tgt_Database (opt_Target opts))) []], ss, lp)"
  by (simp add: audit_statement_def select_in_resolved select_in_clean estimate_rows_def prepare_statement_def select_in_fields
      zero_dml_spec_def parser_warnings_def finish_statement_def initial_state_def)

lemma select_one_executes:
  "snd (Audit ((demo_session [])\<lparr>ses_parser := Parse (demo_tidb [select_one])\<rparr>) demo_input 0) = 1"
proof -
  let ?ses = "(demo_session [])\<lparr>ses_parser := Parse (demo_tidb [select_one])\<rparr>"
  let ?s = "select_in (tgt_Database (opt_Target demo_options))"
  obtain ss lp where run: "audit_statements program_rules LegacyDefaults True [] [project_statement 0 select_one]
     (initial_state demo_options users_source server8 LegacyDefaults) = Returns ([makeRecord ?s []], ss, lp)"
    using select_one_run by blast
  have "Audit ?ses demo_input 0 = execute_phase ?ses demo_options [makeRecord ?s []] ss 0"
    using run server8_supported
    by (simp add: Audit_def demo_envelope demo_defs demo_tidb_Parse demo_options_def [symmetric] Let_def del: audit_statements.simps)
  also have "snd \<dots> = 1"
    by (simp add: execute_phase_def demo_defs blocks_def makeRecord_def max_level_def counting_executor_def)
  finally show ?thesis .
qed

theorem executed_understood_witness:
  "snd (Audit ((demo_session [])\<lparr>ses_parser := Parse (demo_tidb [select_one])\<rparr>) demo_input 0) = 1 \<and>
   (\<exists>env mode nodes warnings. ParseLegacyEnvelope demo_input = Inr env \<and>
      td_ParseSQL (demo_tidb [select_one]) mode (env_SQL env) = Inr (nodes, warnings) \<and> (\<forall>n\<in>set nodes. understood (an_Stmt n)))"
  using executed_understood [of "(demo_session [])\<lparr>ses_parser := Parse (demo_tidb [select_one])\<rparr>" "demo_tidb [select_one]" demo_input 0]
    select_one_executes LegacyDefaults_bounded by (simp add: demo_defs)

end
