(* ===== verification/MySQLProviderFacts.thy ===== *)
theory MySQLProviderFacts
  imports MySQLProvider RulesDdl
begin

text \<open>
  Facts about the metadata provider: the indexes it rebuilds from the rows of the server, the well-formedness of the
  tables it loads, its reading of version numbers, and its estimates.
\<close>

section \<open>Loops over rows\<close>

lemma scan_rows_Inr: "scan_rows wrap f rows s = Inr s' \<Longrightarrow> \<exists>rs. rows = map Inr rs \<and> s' = fold f rs s"
proof (induction wrap f rows s rule: scan_rows.induct)
  case (3 wrap f r rows s)
  then obtain rs where "rows = map Inr rs" "s' = fold f rs (f r s)" by auto
  then show ?case by (intro exI [of _ "r # rs"]) simp
qed simp_all

lemma rows_loop_Inr:
  "rows_loop wrap f rows s = Inr s' \<Longrightarrow> \<exists>rs. rs_Rows rows = map Inr rs \<and> s' = fold f rs s \<and> rs_Err rows = None"
  using scan_rows_Inr [of wrap f "rs_Rows rows" s] by (auto simp: rows_loop_def sum_bind_Inr_iff split: option.splits)

section \<open>Grouping index rows\<close>

text \<open>The names in the order in which they first appear, and the index that all rows of one name describe.\<close>

definition firsts :: "'a list \<Rightarrow> 'a list" where
  "firsts xs = rev (remdups (rev xs))"

lemma firsts_simps [simp]:
  "firsts [] = []" "firsts (xs @ [x]) = (if x \<in> set xs then firsts xs else firsts xs @ [x])"
  "set (firsts xs) = set xs" "distinct (firsts xs)"
  by (simp_all add: firsts_def)

definition key_column :: "index_row \<Rightarrow> string" where
  "key_column r = (case iw_Column r of Some c \<Rightarrow> c | None \<Rightarrow> [])"

definition grouped :: "index_row list \<Rightarrow> string \<Rightarrow> index_meta" where
  "grouped rs n = (let own = filter (\<lambda>r. iw_Name r = n) rs in
     \<lparr> idx_Name = n, idx_Columns = map key_column own, idx_Unique = (iw_NonUnique (hd own) = 0),
       idx_Primary = strings_EqualFold n ''PRIMARY'', idx_PrefixLengths = map iw_Prefix own,
       idx_Expressions = filter (\<lambda>e. strings_TrimSpace e \<noteq> []) (map iw_Expression own), idx_Directions = map iw_Direction own,
       idx_IndexType = iw_IndexType (hd own), idx_Visible = strings_EqualFold (iw_Visible (hd own)) ''YES'' \<rparr>)"

lemma grouped_other: "n \<noteq> iw_Name r \<Longrightarrow> grouped (rs @ [r]) n = grouped rs n"
  by (simp add: grouped_def)

lemma map_update_one:
  assumes "distinct ns" and "p < length ns" and "\<And>m. m \<noteq> ns ! p \<Longrightarrow> g m = f m"
  shows "(map f ns)[p := g (ns ! p)] = map g ns"
  using assms by (intro nth_equalityI) (auto simp: nth_list_update nth_eq_iff_index_eq)

lemma find_pos_snoc_new: "n \<notin> set ns \<Longrightarrow>
   find_pos (\<lambda>m. m = k) (ns @ [n]) = (if k = n then Some (length ns) else find_pos (\<lambda>m. m = k) ns)"
  by (induction ns) auto

definition index_positions :: "string list \<Rightarrow> string \<rightharpoonup> nat" where
  "index_positions ns = (\<lambda>n. find_pos (\<lambda>m. m = n) ns)"

lemma add_index_rows:
  "fold add_index_row rs ([], Map.empty) =
     (map (grouped rs) (firsts (map iw_Name rs)), index_positions (firsts (map iw_Name rs)))"
proof (induction rs rule: rev_induct)
  case Nil
  then show ?case by (simp add: index_positions_def fun_eq_iff)
next
  case (snoc r rs)
  let ?n = "iw_Name r" and ?ns = "firsts (map iw_Name rs)"
  show ?case
  proof (cases "?n \<in> set ?ns")
    case True
    then obtain p where p: "find_pos (\<lambda>m. m = ?n) ?ns = Some p"
      by (cases "find_pos (\<lambda>m. m = ?n) ?ns") auto
    then have at: "p < length ?ns" "?ns ! p = ?n" using find_pos_SomeD by fastforce+
    have own: "filter (\<lambda>x. iw_Name x = ?n) rs \<noteq> []" using True by (auto simp: filter_empty_conv)
    have "extend_index r (grouped rs ?n) = grouped (rs @ [r]) ?n"
      using own by (simp add: extend_index_def grouped_def key_column_def Let_def hd_append)
    then have "fold add_index_row (rs @ [r]) ([], Map.empty) =
        ((map (grouped rs) ?ns)[p := grouped (rs @ [r]) (?ns ! p)], index_positions ?ns)"
      using snoc at p by (simp add: index_positions_def)
    also have "(map (grouped rs) ?ns)[p := grouped (rs @ [r]) (?ns ! p)] = map (grouped (rs @ [r])) ?ns"
      by (rule map_update_one) (use at grouped_other in auto)
    finally show ?thesis using True by simp
  next
    case False
    have own: "filter (\<lambda>x. iw_Name x = ?n) rs = []" using False by (metis (mono_tags, lifting) filter_False firsts_simps(3) image_eqI list.set_map)
    have "extend_index r (open_index r) = grouped (rs @ [r]) ?n"
      using own by (simp add: extend_index_def open_index_def key_column_def grouped_def zero_index_meta_def Let_def)
    moreover have "index_positions ?ns ?n = None" unfolding index_positions_def find_pos_None using False by blast
    ultimately have "fold add_index_row (rs @ [r]) ([], Map.empty) =
        (map (grouped rs) ?ns @ [grouped (rs @ [r]) ?n], (index_positions ?ns)(?n \<mapsto> length ?ns))"
      using snoc by simp
    also have "map (grouped rs) ?ns = map (grouped (rs @ [r])) ?ns" using False grouped_other by (metis (no_types, lifting) map_cong)
    also have "(index_positions ?ns)(?n \<mapsto> length ?ns) = index_positions (?ns @ [?n])"
      using False by (simp add: index_positions_def fun_eq_iff find_pos_snoc_new)
    finally show ?thesis using False by simp
  qed
qed

lemma loadIndexes_rows:
  assumes "loadIndexes db t = Inr t'" and "t_Indexes t = []"
  shows "\<exists>server rows rs. provider_LoadServerInfo db = Inr server \<and>
    db_IndexRows db (index_query (mysqlVersionAtLeast (srv_Version server) 8 0 13)) (t_Schema t) (t_Name t) = Inr rows \<and>
    rs_Rows rows = map Inr rs \<and> t' = t\<lparr>t_Indexes := map (grouped (map
        (\<lambda>r. if mysqlVersionAtLeast (srv_Version server) 8 0 13 then r else r\<lparr>iw_Expression := [], iw_Visible := ''YES''\<rparr>) rs))
      (firsts (map iw_Name rs))\<rparr>"
proof -
  obtain server where server: "provider_LoadServerInfo db = Inr server"
    using assms(1) by (auto simp: loadIndexes_def Let_def sum_bind_Inr_iff)
  let ?v = "mysqlVersionAtLeast (srv_Version server) 8 0 13"
  let ?seen = "\<lambda>r. if ?v then r else r\<lparr>iw_Expression := [], iw_Visible := ''YES''\<rparr>"
  obtain rows where rows: "db_IndexRows db (index_query ?v) (t_Schema t) (t_Name t) = Inr rows"
    using assms(1) server by (cases "db_IndexRows db (index_query ?v) (t_Schema t) (t_Name t)") (auto simp: loadIndexes_def Let_def)
  obtain indexes byName where loop: "rows_loop (wrapf (''scan index for '' @ qualified_text (t_Schema t) (t_Name t) @ '': ''))
      (\<lambda>r. add_index_row (?seen r)) rows ([], Map.empty) = Inr (indexes, byName)" and t': "t' = t\<lparr>t_Indexes := indexes\<rparr>"
    using assms server rows by (auto simp: loadIndexes_def Let_def sum_bind_Inr_iff)
  obtain rs where rs: "rs_Rows rows = map Inr rs" "(indexes, byName) = fold (\<lambda>r. add_index_row (?seen r)) rs ([], Map.empty)"
    using rows_loop_Inr [OF loop] by blast
  have "(indexes, byName) = fold add_index_row (map ?seen rs) ([], Map.empty)" using rs(2) by (simp add: fold_map comp_def)
  then have "indexes = map (grouped (map ?seen rs)) (firsts (map iw_Name (map ?seen rs)))" unfolding add_index_rows by (rule Pair_inject)
  moreover have "map iw_Name (map ?seen rs) = map iw_Name rs" by (simp add: comp_def)
  ultimately have "indexes = map (grouped (map ?seen rs)) (firsts (map iw_Name rs))" by metis
  with server rows rs(1) t' show ?thesis by blast
qed

section \<open>Loaded tables\<close>

lemma loadColumns_rows:
  assumes "loadColumns db t = Inr t'"
  shows "\<exists>rows rs. db_ColumnRows db columns_query (t_Schema t) (t_Name t) = Inr rows \<and> rs_Rows rows = map Inr rs \<and>
    t' = t\<lparr>t_Columns := t_Columns t @ map column_of_row rs\<rparr>"
proof -
  have fold: "fold (\<lambda>r t. t\<lparr>t_Columns := t_Columns t @ [column_of_row r]\<rparr>) rs t = t\<lparr>t_Columns := t_Columns t @ map column_of_row rs\<rparr>"
    for rs and t :: table_meta by (induction rs arbitrary: t) simp_all
  show ?thesis using assms
    by (auto simp: loadColumns_def Let_def fold split: sum.splits dest!: rows_loop_Inr)
qed

text \<open>
  What the server documents of its catalog: within a table, column names and index names are unique without regard to case, and
  all rows of an index spell its name alike.
\<close>

definition catalog_ok :: "target_db \<Rightarrow> bool" where
  "catalog_ok db \<longleftrightarrow>
     (\<forall>q schema table rows rs. db_ColumnRows db q schema table = Inr rows \<longrightarrow> rs_Rows rows = map Inr rs \<longrightarrow>
        distinct (map (\<lambda>r. strings_ToLower (cw_Name r)) rs)) \<and>
     (\<forall>q schema table rows rs. db_IndexRows db q schema table = Inr rows \<longrightarrow> rs_Rows rows = map Inr rs \<longrightarrow>
        inj_on strings_ToLower (iw_Name ` set rs))"

text \<open>An index as it is rebuilt: a part for every row, none without a row.\<close>

definition index_parts_ok :: "index_meta \<Rightarrow> bool" where
  "index_parts_ok i \<longleftrightarrow> idx_Columns i \<noteq> [] \<and> length (idx_PrefixLengths i) = length (idx_Columns i) \<and>
     length (idx_Directions i) = length (idx_Columns i)"

lemma grouped_parts: "n \<in> iw_Name ` set rs \<Longrightarrow> index_parts_ok (grouped rs n)"
  by (auto simp: index_parts_ok_def grouped_def Let_def filter_empty_conv)

lemma LoadTable_run:
  assumes "provider_LoadTable db schema table = Inr t"
  shows "\<exists>r t1 t2. db_TableRow db table_query schema table = Row r \<and>
    loadColumns db (table_head schema table r) = Inr t1 \<and> loadIndexes db t1 = Inr t2 \<and> (\<exists>sql. t = t2\<lparr>t_CreateSQL := sql\<rparr>)"
  using assms by (auto simp: provider_LoadTable_def Let_def sum_bind_Inr_iff split: query_row.splits)


section \<open>Versions\<close>

lemma core_text: "CHR ''-'' \<notin> set v \<Longrightarrow> hd (strings_SplitN (v @ suf) CHR ''-'' 2) = v" if "suf = [] \<or> hd suf = CHR ''-''"
  using that by (cases suf) (auto simp: numeral_2_eq_2 takeWhile_append)

lemma Atoi_nat_string: "n < 2 ^ 63 \<Longrightarrow> strconv_Atoi (nat_string n) = (int n, True)"
  using strconv_Atoi_Itoa [of "int n"] by (simp add: strconv_Itoa_def)

lemma version_parts:
  "strings_Split (nat_string a @ ''.'' @ nat_string b @ ''.'' @ nat_string c) CHR ''.'' = [nat_string a, nat_string b, nat_string c]"
  by (simp add: strings_Split_append [OF digits_no_dot] strings_Split_sep_free [OF digits_no_dot])

text \<open>
  The two readings of the server version agree: on a release number with an optional suffix such as \<^verbatim>\<open>-log\<close>, the provider's comparison,
  which decides what is read of the catalog, is the negation of the one the rules use, and both are the lexicographic order.
\<close>

theorem version_readings_agree:
  assumes "a < 2 ^ 63" and "b < 2 ^ 63" and "c < 2 ^ 63"
    and "\<forall>x\<in>set suf. \<not> is_digit x \<and> x \<noteq> CHR ''.''" and "suf = [] \<or> hd suf = CHR ''-''"
  shows "(mysqlVersionAtLeast (nat_string a @ ''.'' @ nat_string b @ ''.'' @ nat_string c @ suf) x y z \<longleftrightarrow>
      \<not> versionLessThan (nat_string a @ ''.'' @ nat_string b @ ''.'' @ nat_string c @ suf) x y z) \<and>
    (mysqlVersionAtLeast (nat_string a @ ''.'' @ nat_string b @ ''.'' @ nat_string c @ suf) x y z \<longleftrightarrow>
      int a > x \<or> int a = x \<and> (int b > y \<or> int b = y \<and> int c \<ge> z))"
proof -
  let ?core = "nat_string a @ ''.'' @ nat_string b @ ''.'' @ nat_string c"
  have "CHR ''-'' \<notin> set (nat_string n)" for n using nat_string_digits [of n] by (auto simp: is_digit_def)
  then have "CHR ''-'' \<notin> set ?core" by simp
  from core_text [OF assms(5) this] have core: "hd (strings_SplitN (nat_string a @ ''.'' @ nat_string b @ ''.'' @ nat_string c @ suf) CHR ''-'' 2) = ?core"
    by simp
  have "mysqlVersionAtLeast (nat_string a @ ''.'' @ nat_string b @ ''.'' @ nat_string c @ suf) x y z \<longleftrightarrow>
      int a > x \<or> int a = x \<and> (int b > y \<or> int b = y \<and> int c \<ge> z)"
    unfolding mysqlVersionAtLeast_def core Let_def version_parts 
    by (auto simp: Atoi_nat_string [OF assms(1)] Atoi_nat_string [OF assms(2)] Atoi_nat_string [OF assms(3)] nth_Cons')
  with versionLessThan_release [OF assms(1-4), of x y z] show ?thesis by auto
qed

text \<open>On a version of a vendor that appends digits they do not agree: the provider reads 8.0.30, the rules an older release.\<close>

lemma vendor_version_readings: "mysqlVersionAtLeast ''8.0.30-22'' 8 0 13 \<and> versionLessThan ''8.0.30-22'' 8 0 13"
  using vendor_suffix_misread by (simp add: mysqlVersionAtLeast_def numeral_2_eq_2 Let_def go_defs)

section \<open>Estimates and grants\<close>

definition plan_value :: "nat \<Rightarrow> string option list \<Rightarrow> int option" where
  "plan_value k cells = (case strconv_Atoi (case cells ! k of Some text \<Rightarrow> text | None \<Rightarrow> []) of (v, ok) \<Rightarrow> if ok then Some v else None)"

lemma explain_rows_max:
  "fst (fold (explain_row k) rs (m, f, n)) = Max (insert m (set (List.map_filter (plan_value k) rs)))"
proof (induction rs arbitrary: m f n)
  case (Cons cells rs)
  obtain v ok where atoi: "strconv_Atoi (case cells ! k of Some text \<Rightarrow> text | None \<Rightarrow> []) = (v, ok)" by (metis surj_pair)
  obtain f' where step: "explain_row k cells (m, f, n) = (if ok \<and> v > m then v else m, f', n + 1)"
    using atoi by (simp add: explain_row_def)
  have "Max (insert (if ok \<and> v > m then v else m) X) = Max (insert m (set_option (plan_value k cells) \<union> X))"
    if "finite X" for X :: "int set"
    using that atoi by (cases "X = {}") (auto simp: plan_value_def max_def)
  then show ?case using Cons.IH [of "if ok \<and> v > m then v else m" f' "n + 1"] step
    by (simp add: map_filter_simps plan_value_def atoi)
qed (simp add: map_filter_simps)

text \<open>
  The estimate that the row limit is compared with is the largest number in the \<^verbatim>\<open>rows\<close> column of the plan, and 0 when the plan has no
  number there; the column is found by its name, and no row of the plan is left out.
\<close>

theorem EstimateImpact_largest:
  assumes "provider_EstimateImpact db database statement = Inr e"
  shows "\<exists>rows columns k rs. db_Explain db database (''EXPLAIN '' @ strings_TrimSuffix (strings_TrimSpace statement) '';'') = Inr rows \<and>
    xr_Columns rows = Inr columns \<and> k < length columns \<and> strings_EqualFold (columns ! k) ''rows'' \<and> xr_Rows rows = map Inr rs \<and>
    est_Rows e = Max (insert 0 (set (List.map_filter (plan_value k) rs))) \<and> est_Method e = ''explain:max''"
proof -
  have rule: "\<not> strings_EqualFold ''max'' ''first''" "strings_ToLower ''max'' = ''max''" by (simp_all add: go_defs)
  let ?explain = "db_Explain db database (''EXPLAIN '' @ strings_TrimSuffix (strings_TrimSpace statement) '';'')"
  obtain rows where rows: "?explain = Inr rows"
    using assms by (cases ?explain) (auto simp: provider_EstimateImpact_def EstimateImpactWithRule_def sum_bind_Inr_iff)
  obtain columns where columns: "xr_Columns rows = Inr columns"
    using assms rows by (auto simp: provider_EstimateImpact_def EstimateImpactWithRule_def sum_bind_Inr_iff)
  obtain k where k: "find_pos (\<lambda>name. strings_EqualFold name ''rows'') columns = Some k"
    using assms rows columns by (cases "find_pos (\<lambda>name. strings_EqualFold name ''rows'') columns")
      (auto simp: provider_EstimateImpact_def EstimateImpactWithRule_def sum_bind_Inr_iff simp del: find_pos_None)
  obtain st where st: "rows_loop id (explain_row k) \<lparr> rs_Rows = xr_Rows rows, rs_Err = xr_Err rows \<rparr> (0, 0, 0) = Inr st"
    and e: "est_Rows e = fst st" "est_Method e = ''explain:max''"
    using assms rule rows columns k by (auto simp: provider_EstimateImpact_def EstimateImpactWithRule_def sum_bind_Inr_iff)
  obtain rs where "xr_Rows rows = map Inr rs" "st = fold (explain_row k) rs (0, 0, 0)" using rows_loop_Inr [OF st] by auto
  with rows columns e find_pos_SomeD [OF k] explain_rows_max [of k rs 0 0 0] show ?thesis
    by (intro exI [of _ rows] exI [of _ columns] exI [of _ k] exI [of _ rs]) simp
qed

text \<open>
  The grant check of an execution looks for a privilege anywhere in the text of the grant: a user without any privilege whose
  name contains the word passes it.
\<close>

lemma usage_grant_suffices: "grant_suffices want True ''GRANT USAGE ON *.* TO updater@localhost''"
  by (simp add: grant_suffices_def write_words_def go_defs)

section \<open>Witnesses\<close>

definition demo_index_row :: "string \<Rightarrow> int \<Rightarrow> string \<Rightarrow> index_row" where
  "demo_index_row name part column = \<lparr> iw_Name = name, iw_NonUnique = 0, iw_Sequence = part, iw_Column = Some column, iw_Prefix = 0,
     iw_Direction = ''A'', iw_IndexType = ''BTREE'', iw_Expression = [], iw_Visible = ''YES'' \<rparr>"

definition demo_column_row :: "string \<Rightarrow> column_row" where
  "demo_column_row name = \<lparr> cw_Name = name, cw_ColumnType = ''int unsigned'', cw_Nullable = ''NO'', cw_Default = None, cw_Extra = [],
     cw_CharacterSet = [], cw_Collation = [], cw_Comment = [], cw_GenerationExpression = [] \<rparr>"

definition demo_db :: target_db where
  "demo_db = \<lparr> db_ServerRow = (\<lambda>q. Row \<lparr> srv_Version = ''8.0.36'', srv_SQLMode = [], srv_LowerCaseTableNames = 0,
       srv_CharacterSetServer = ''utf8mb4'', srv_CollationServer = [], srv_ExplicitDefaultsForTimestamp = True \<rparr>),
     db_SchemaRow = (\<lambda>q s. NoRow),
     db_TableRow = (\<lambda>q s t. Row \<lparr> tw_TableType = ''BASE TABLE'', tw_Collation = ''utf8mb4_bin'', tw_Engine = ''InnoDB'', tw_Rows = 7, tw_Comment = [] \<rparr>),
     db_ColumnRows = (\<lambda>q s t. Inr \<lparr> rs_Rows = [Inr (demo_column_row ''id''), Inr (demo_column_row ''owner'')], rs_Err = None \<rparr>),
     db_IndexRows = (\<lambda>q s t. Inr \<lparr> rs_Rows = [Inr (demo_index_row ''PRIMARY'' 1 ''id''), Inr (demo_index_row ''by_owner'' 1 ''owner''),
        Inr (demo_index_row ''by_owner'' 2 ''id'')], rs_Err = None \<rparr>),
     db_GrantRows = (\<lambda>q. Inr \<lparr> rs_Rows = [], rs_Err = None \<rparr>),
     db_TextRows = (\<lambda>q. Inr \<lparr> xr_Columns = Inr [''Table'', ''Create Table''], xr_Rows = [Inr [Some ''users'', Some ''CREATE TABLE users''] ], xr_Err = None \<rparr>),
     db_Conn = Inr (), db_Exec = (\<lambda>q. None),
     db_Explain = (\<lambda>d q. Inr \<lparr> xr_Columns = Inr [''id'', ''rows''], xr_Rows = [Inr [Some ''1'', Some ''40''], Inr [Some ''1'', None]], xr_Err = None \<rparr>) \<rparr>"

lemma demo_catalog: "catalog_ok demo_db"
proof -
  have "map Inr xs = [Inr a, Inr b] \<longleftrightarrow> xs = [a, b]" "map Inr ys = [Inr c, Inr d, Inr e] \<longleftrightarrow> ys = [c, d, e]"
    for xs and a b :: column_row and ys and c d e :: index_row by auto
  then show ?thesis
    unfolding catalog_ok_def by (auto simp: demo_db_def demo_column_row_def demo_index_row_def inj_on_def go_defs)
qed

lemma demo_table_loads:
  "map_sum id (\<lambda>t. map (\<lambda>i. (idx_Name i, idx_Columns i)) (t_Indexes t)) (provider_LoadTable demo_db ''app'' ''users'') =
     Inr [(''PRIMARY'', [''id'']), (''by_owner'', [''owner'', ''id''])]"
proof -
  have "mysqlVersionAtLeast ''8.0.36'' 8 0 13" by (simp add: mysqlVersionAtLeast_def numeral_2_eq_2 Let_def go_defs)
  then show ?thesis
    by (simp add: provider_LoadTable_def loadColumns_def loadIndexes_def provider_LoadServerInfo_def provider_showCreate_def rows_loop_def
        demo_db_def table_head_def zero_table_meta_def Let_def)
      (simp add: demo_index_row_def extend_index_def open_index_def zero_index_meta_def)
qed


theorem version_readings_agree_witness: "mysqlVersionAtLeast ''8.0.36-log'' 8 0 13 \<and> \<not> versionLessThan ''8.0.36-log'' 8 0 13"
proof -
  have lit: "nat_string 8 = ''8''" "nat_string 0 = ''0''" "nat_string 36 = ''36''" by (simp_all add: go_defs)
  have "\<forall>x\<in>set ''-log''. \<not> is_digit x \<and> x \<noteq> CHR ''.''" by (simp add: is_digit_def)
  from version_readings_agree [OF _ _ _ this, of 8 0 36 8 0 13] show ?thesis by (auto simp: lit)
qed

lemma demo_estimate: "\<exists>e. provider_EstimateImpact demo_db ''app'' ''delete from users;'' = Inr e \<and> est_Rows e = 40"
  by (simp add: provider_EstimateImpact_def EstimateImpactWithRule_def demo_db_def rows_loop_def explain_row_def go_defs)

theorem EstimateImpact_largest_witness:
  "\<exists>e. provider_EstimateImpact demo_db ''app'' ''delete from users;'' = Inr e \<and> est_Rows e = 40 \<and> est_Method e = ''explain:max''"
  using demo_estimate EstimateImpact_largest [of demo_db "''app''" "''delete from users;''"] by blast

end
