(* ===== verification/Program.thy ===== *)
theory Program
  imports Pipeline MySQLProviderFacts
begin

text \<open>
  The program as \<^verbatim>\<open>cmd/goinception-plus/main.go\<close> wires it: the session with the TiDB adapter, the rules, the metadata provider and the
  MySQL engine, the start of the server from its configuration, and the \<^verbatim>\<open>audit\<close> subcommand. The outside world is the parameter
  \<open>program_env\<close>: the TiDB parser, the network with the target servers, per opened target the connection, clock and
  replication client of \<open>exec_env\<close>, and the backup server behind a driver configuration. The flags are in \<open>CommandLine\<close>.
\<close>

section \<open>Wiring\<close>

record 'w program_env =
  pe_tidb :: tidb_parser
  pe_net :: "'w target_net"
  pe_exec :: "driver_config \<Rightarrow> 'w exec_env"
  pe_store :: "driver_config \<Rightarrow> gerror + 'w store_db"

text \<open>The backup store, \<^verbatim>\<open>Open\<close> of \<^verbatim>\<open>backup/mysqlstore/store.go\<close>: no database is selected.\<close>

definition store_config :: "backup_target \<Rightarrow> driver_config" where
  "store_config options = \<lparr> dc_Addr = net_JoinHostPort (bt_Host options) (nat_string (unat (bt_Port options))), dc_User = bt_User options,
     dc_Passwd = bt_Password options, dc_DBName = [] \<rparr>"

definition store_Open :: "(driver_config \<Rightarrow> gerror + 'w store_db) \<Rightarrow> backup_target \<Rightarrow> gerror + 'w store_db" where
  "store_Open opens options = opens (store_config options)"

text \<open>The engine on an opened target: the capture loads tables with a provider on the same connection.\<close>

definition engine_env :: "'w program_env \<Rightarrow> driver_config \<Rightarrow> 'w exec_env" where
  "engine_env env config = (pe_exec env config)\<lparr>ee_LoadTable := (\<lambda>w. provider_LoadTable (tg_DB (pe_net env) config w)),
     ee_OpenStore := store_Open (pe_store env)\<rparr>"

definition OpenWithBackup :: "'w program_env \<Rightarrow> backup_target \<Rightarrow> target_options \<Rightarrow> 'w \<Rightarrow> gerror + 'w executor" where
  "OpenWithBackup env backupOptions options w =
     sum_bind (provider_Open (pe_net env) options) (\<lambda>config.
       case tg_Ping (pe_net env) config w of
         Some err \<Rightarrow> Inl err
       | None \<Rightarrow> Inr (Execute (engine_env env config) backupOptions))"

definition zero_backup_target :: backup_target where
  "zero_backup_target = \<lparr> bt_Host = [], bt_Port = 0, bt_User = [], bt_Password = [] \<rparr>"

definition engine_Open :: "'w program_env \<Rightarrow> target_options \<Rightarrow> 'w \<Rightarrow> gerror + 'w executor" where
  "engine_Open env = OpenWithBackup env zero_backup_target"

definition newSession :: "'w program_env \<Rightarrow> policy \<Rightarrow> (target_options \<Rightarrow> 'w \<Rightarrow> gerror + 'w executor) \<Rightarrow> 'w session" where
  "newSession env pol factory = WithExecutorFactory factory (WithMetadataFactory (OpenRequest (pe_net env))
     (WithPolicy pol (New (Parse (pe_tidb env)) program_rules)))"

section \<open>The audit subcommand\<close>

record audit_flags =
  fl_checkPrimaryKey :: bool
  fl_checkTableComment :: bool
  fl_checkColumnComment :: bool
  fl_maxColumnCount :: int

definition flags_policy :: "audit_flags \<Rightarrow> policy" where
  "flags_policy fl = LegacyDefaults\<lparr>p_CheckPrimaryKey := fl_checkPrimaryKey fl, p_CheckTableComment := fl_checkTableComment fl,
     p_CheckColumnComment := fl_checkColumnComment fl, p_MaxColumnCount := fl_maxColumnCount fl\<rparr>"

definition runAudit :: "'w program_env \<Rightarrow> audit_flags \<Rightarrow> string \<Rightarrow> 'w \<Rightarrow> audit_record list outcome \<times> 'w" where
  "runAudit env fl input w = Audit (newSession env (flags_policy fl) (engine_Open env)) input w"

section \<open>Starting the server\<close>

text \<open>The configuration, the password and the backup options, or the error with which the process exits.\<close>

definition start_options ::
  "(string list \<Rightarrow> string list) \<Rightarrow> (string \<Rightarrow> config \<Rightarrow> gerror + config \<times> toml_meta) \<Rightarrow> (string \<rightharpoonup> string) \<Rightarrow> string \<Rightarrow>
   gerror + config \<times> string \<times> backup_target" where
  "start_options order decode environ configPath =
     (if configPath = [] then Inl (errorf ''-config is required; use the audit subcommand for stdin JSON mode'')
      else sum_bind (Load order decode configPath) (\<lambda>cfg.
        sum_bind (AuthPassword environ cfg) (\<lambda>password.
          case BackupOptions environ cfg of
            (_, Some err) \<Rightarrow> Inl err
          | (backupOptions, None) \<Rightarrow> Inr (cfg, password, backupOptions))))"

text \<open>The session of the server; every query replaces the policy by the one of the running configuration.\<close>

definition server_session :: "'w program_env \<Rightarrow> config \<Rightarrow> backup_target \<Rightarrow> 'w session" where
  "server_session env cfg backupOptions = WithPolicyProvider (Policy cfg) (newSession env (Policy cfg) (OpenWithBackup env backupOptions))"

section \<open>The wired session\<close>

lemma newSession_fields [simp]:
  "ses_parser (newSession env pol factory) = Parse (pe_tidb env)" "ses_engine (newSession env pol factory) = program_rules"
  "ses_openMetadata (newSession env pol factory) = Some (OpenRequest (pe_net env))"
  "ses_openExecutor (newSession env pol factory) = Some factory" "session_policy (newSession env pol factory) = pol"
  by (simp_all add: newSession_def WithExecutorFactory_def WithMetadataFactory_def WithPolicy_def New_def session_policy_def)

text \<open>The stores visit every group of a backup once, in some order (Go's iteration over a map).\<close>

definition fair_stores :: "'w program_env \<Rightarrow> bool" where
  "fair_stores env \<longleftrightarrow> (\<forall>config store. pe_store env config = Inr store \<longrightarrow> fair_order (sd_order store))"

lemma wired_mysql_executors:
  assumes "fair_stores env" and "ses_openExecutor ses = Some (OpenWithBackup env bk)"
  shows "mysql_executors ses"
  unfolding mysql_executors_def
proof (intro allI impI)
  fix opn t w ex
  assume "ses_openExecutor ses = Some opn" "opn t w = Inr ex"
  with assms(2) have "OpenWithBackup env bk t w = Inr ex" by simp
  then obtain config where "ex = Execute (engine_env env config) bk"
    by (auto simp: OpenWithBackup_def sum_bind_Inr_iff split: option.splits)
  moreover have "\<forall>t store. ee_OpenStore (engine_env env config) t = Inr store \<longrightarrow> fair_order (sd_order store)"
    using assms(1) by (simp add: fair_stores_def engine_env_def store_Open_def)
  ultimately show "\<exists>env target. ex = Execute env target \<and> (\<forall>t store. ee_OpenStore env t = Inr store \<longrightarrow> fair_order (sd_order store))"
    by blast
qed

lemma runAudit_returns:
  assumes "fair_stores env" and "ParseLegacyEnvelope input = Inr e"
    and "\<And>mode r. Parse (pe_tidb env) (env_SQL e) mode = Inr r \<Longrightarrow> pr_Statements r \<noteq> []"
  shows "\<exists>out w'. runAudit env fl input w = (Returns out, w')"
  using Audit_returns [OF newSession_fields(1) wired_mysql_executors [OF assms(1) newSession_fields(4)] assms(2,3)]
  by (simp add: runAudit_def engine_Open_def)


text \<open>
  An accepted request names its target: the provider's own check of host, port and user never refuses it, so opening
  it fails only where the driver or the network does.
\<close>

lemma accepted_target:
  assumes "ParseLegacyEnvelope input = Inr e" and "\<And>config. tg_Open net config = None"
  shows "\<exists>config. provider_Open net (opt_Target (env_Options e)) = Inr config"
proof -
  obtain vals where "envelope_options vals = Inr (env_Options e)"
    using assms(1) by (auto simp: ParseLegacyEnvelope_def Let_def sum_bind_Inr_iff)
  from envelope_options_ok [OF this] show ?thesis
    by (auto simp: options_ok_def provider_Open_def assms(2) strings_TrimSpace_def strings_TrimFunc_def strings_TrimLeftFunc_def strings_TrimRightFunc_def)
qed

section \<open>The running server\<close>

lemma start_options_run:
  assumes "start_options order decode environ path = Inr (cfg, password, bk)"
  shows "Load order decode path = Inr cfg \<and> AuthPassword environ cfg = Inr password \<and> BackupOptions environ cfg = (bk, None)"
proof -
  obtain c p where load: "Load order decode path = Inr c" "AuthPassword environ c = Inr p"
    using assms by (auto simp: start_options_def sum_bind_Inr_iff split: if_splits)
  obtain b err where "BackupOptions environ c = (b, err)" by (metis surj_pair)
  with assms load show ?thesis by (cases err) (auto simp: start_options_def split: if_splits)
qed

text \<open>
  A server that starts has a configuration it can run with: levels and limits in range, a port and packet size it can listen
  with, and a backup target that is absent or complete.
\<close>

theorem started_server_ok:
  assumes "start_options order decode environ path = Inr (cfg, password, bk)" and "any_order order"
    and "\<And>d meta. decode path Defaults = Inr (d, meta) \<Longrightarrow> distinct (map fst (cf_Rules d))"
  shows "loaded_ok cfg \<and> (bk = zero_backup_target \<or> bt_Host bk \<noteq> [] \<and> bt_Port bk \<noteq> 0 \<and> bt_User bk \<noteq> [])"
proof -
  note run = start_options_run [OF assms(1)]
  have ok: "loaded_ok cfg" by (rule Load_ok [OF conjunct1 [OF run] assms(2,3)])
  show ?thesis
  proof (cases "bc_Host (cf_Backup cfg) = []")
    case True
    then have "bk = zero_backup_target" using run by (auto simp: BackupOptions_def zero_backup_target_def Let_def)
    with ok show ?thesis by blast
  next
    case False
    from BackupOptions_usable [OF ok False, of environ] run ok show ?thesis by auto
  qed
qed

lemma started_bounded:
  assumes "start_options order decode environ path = Inr (cfg, password, bk)" and "any_order order"
    and "\<And>d meta. decode path Defaults = Inr (d, meta) \<Longrightarrow> distinct (map fst (cf_Rules d))"
  shows "runtime_ok cfg"
  using Load_ok [OF conjunct1 [OF start_options_run [OF assms(1)]] assms(2,3)] by (simp add: loaded_ok_def)

text \<open>What the server executes under a policy with levels in range, the policy of its audit.\<close>

lemma executed_statements_ok:
  assumes "snd (Audit (WithPolicyProvider pol (server_session env cfg bk)) q w) \<noteq> w" and "policy_bounded pol"
  shows "\<exists>e mode nodes warnings. ParseLegacyEnvelope q = Inr e \<and> opt_Execute (env_Options e) \<and>
    td_ParseSQL (pe_tidb env) mode (env_SQL e) = Inr (nodes, warnings) \<and>
    (\<forall>(i, n)\<in>set (enumerate 0 nodes). understood (an_Stmt n) \<and> \<not> refused pol (project_statement i n))"
proof -
  let ?ses = "WithPolicyProvider pol (server_session env cfg bk)"
  have fields: "ses_parser ?ses = Parse (pe_tidb env)" "ses_engine ?ses = program_rules" "session_policy ?ses = pol"
    by (simp_all add: server_session_def WithPolicyProvider_def session_policy_def)
  obtain opts parsed records where run: "audited ?ses q w opts parsed records" and exec: "opt_Execute opts"
    and ok: "\<forall>st\<in>set (pr_Statements parsed). \<not> refused pol st"
    using executed_not_refused [OF assms(1) fields(2)] assms(2) unfolding fields(3) by blast
  obtain e where e: "ParseLegacyEnvelope q = Inr e" "opt_Execute (env_Options e)" using audited_envelope [OF run] exec by auto
  have "Parse (pe_tidb env) (env_SQL e) (tgt_SQLMode (opt_Target opts)) = Inr parsed" using run e(1) fields(1) by (auto simp: audited_def)
  from Parse_nodes [OF this] obtain m nodes warnings where nodes: "td_ParseSQL (pe_tidb env) m (env_SQL e) = Inr (nodes, warnings)"
    "pr_Statements parsed = map (\<lambda>(i, node). project_statement i node) (enumerate 0 nodes)" by blast
  have "understood (an_Stmt n) \<and> \<not> refused pol (project_statement i n)" if "(i, n) \<in> set (enumerate 0 nodes)" for i n
  proof -
    have "project_statement i n \<in> set (pr_Statements parsed)" using that by (force simp: nodes(2))
    with ok have "\<not> refused pol (project_statement i n)" by blast
    then show ?thesis using supported_iff_understood [of i n] by (auto simp: refused_def)
  qed
  with e nodes(1) show ?thesis by blast
qed

text \<open>
  The program as a whole: in every state that a started server reaches, a query that changes the databases comes over a connection
  that may execute, asks for execution, and every statement of its syntax tree is one that the projection represents in full and
  that no rule of the running configuration refuses.
\<close>

theorem program_executes_audited_only:
  assumes "start_options order decode environ path = Inr (cfg, password, bk)" and "any_order order"
    and "\<And>d meta. decode path Defaults = Inr (d, meta) \<Longrightarrow> distinct (map fst (cf_Rules d))"
    and "server_reachable penv (server_session env cfg bk) cfg s"
    and "HandleQuery penv (server_session env cfg bk) clock h s q = (r, h', s', effects)" and "ss_world s' \<noteq> ss_world s"
  shows "\<exists>e mode nodes warnings. ParseLegacyEnvelope q = Inr e \<and> opt_Execute (env_Options e) \<and> \<not> hd_auditOnly h \<and>
    td_ParseSQL (pe_tidb env) mode (env_SQL e) = Inr (nodes, warnings) \<and>
    (\<forall>(i, n)\<in>set (enumerate 0 nodes). understood (an_Stmt n) \<and> \<not> refused (Policy (ss_runtime s)) (project_statement i n))"
proof -
  have "policy_bounded (Policy (ss_runtime s))"
    using started_bounded [OF assms(1-3)] server_reachable_ok [OF assms(4)] by (simp add: Policy_bounded runtime_ok_def)
  from executed_statements_ok [OF conjunct1 [OF HandleQuery_world [OF assms(5,6)]] this] HandleQuery_world [OF assms(5,6)] show ?thesis by blast
qed

section \<open>Witnesses\<close>

text \<open>A target server that answers the audit and then refuses the connection of the engine; the world counts the connections.\<close>

definition demo_program :: "nat program_env" where
  "demo_program = \<lparr> pe_tidb = demo_tidb [select_one], pe_net = \<lparr> tg_Open = (\<lambda>_. None), tg_Ping = (\<lambda>_ _. None), tg_DB = (\<lambda>_ _. demo_db) \<rparr>,
     pe_exec = (\<lambda>_. quiet_env\<lparr>ee_Conn := (\<lambda>w. (Inl (errorf ''too many connections''), w + 1))\<rparr>), pe_store = (\<lambda>_. Inr quiet_store) \<rparr>"

lemma demo_program_fair: "fair_stores demo_program"
  using quiet_fair by (auto simp: fair_stores_def demo_program_def quiet_env_def)


lemma demo_start:
  "start_options (\<lambda>ks. ks) (\<lambda>path d. Inr (demo_config, demo_meta)) Map.empty ''config.toml'' = Inr (demo_config, ''pw'', zero_backup_target)"
proof -
  have "AuthPassword Map.empty demo_config = Inr ''pw''" by (simp add: AuthPassword_def secret_def demo_config_def)
  moreover have "BackupOptions Map.empty demo_config = (zero_backup_target, None)"
    by (simp add: BackupOptions_def zero_backup_target_def demo_config_def Defaults_def)
  ultimately show ?thesis by (simp add: start_options_def demo_loads)
qed

theorem started_server_ok_witness: "loaded_ok demo_config"
  using started_server_ok [OF demo_start] by (simp add: any_order_def demo_rules)

lemma demo_program_executes: "snd (Audit (WithPolicyProvider pol (server_session demo_program cfg bk)) demo_input 0) = 1"
proof -
  let ?ses = "WithPolicyProvider pol (server_session demo_program cfg bk)"
  let ?config = "\<lparr> dc_Addr = net_JoinHostPort ''db1'' (nat_string 3306), dc_User = ''root'', dc_Passwd = [], dc_DBName = [] \<rparr>"
  have opened: "provider_Open (pe_net demo_program) (opt_Target sample_options) = Inr ?config"
    by (simp add: provider_Open_def demo_program_def sample_options_def Let_def)
  obtain server where server: "provider_LoadServerInfo demo_db = Inr server" "srv_Version server = ''8.0.36''"
    by (simp add: provider_LoadServerInfo_def demo_db_def)
  let ?opts = "effective_options sample_options server pol"
  have opts: "opt_Execute ?opts" "provider_Open (pe_net demo_program) (opt_Target ?opts) = Inr ?config"
    using opened by (simp_all add: effective_options_def sample_options_def provider_Open_def demo_program_def Let_def)
  obtain ss lp where run: "audit_statements program_rules pol True [] [project_statement 0 select_one]
      (initial_state ?opts (provider_source demo_db) server pol) = Returns ([makeRecord (select_in (tgt_Database (opt_Target ?opts))) []], ss, lp)"
    using select_one_run by blast
  have fields: "ses_parser ?ses = Parse (demo_tidb [select_one])" "ses_engine ?ses = program_rules" "session_policy ?ses = pol"
    "ses_openMetadata ?ses = Some (OpenRequest (pe_net demo_program))" "ses_openExecutor ?ses = Some (OpenWithBackup demo_program bk)"
    by (simp_all add: server_session_def WithPolicyProvider_def session_policy_def demo_program_def)
  have "OpenRequest (pe_net demo_program) (opt_Target sample_options) 0 = Inr (provider_source demo_db, server)"
    unfolding OpenRequest_def opened using server(1) by (simp add: demo_program_def)
  moreover have "supportedMySQLVersion (srv_Version server)" using server8_supported server(2) by (simp add: server8_def)
  ultimately have "Audit ?ses demo_input 0 = execute_phase ?ses ?opts [makeRecord (select_in (tgt_Database (opt_Target ?opts))) []] ss 0"
    using run opts(1) by (simp add: Audit_def demo_envelope fields demo_tidb_Parse Let_def del: audit_statements.simps)
  moreover have "OpenWithBackup demo_program bk (opt_Target ?opts) 0 = Inr (Execute (engine_env demo_program ?config) bk)"
    unfolding OpenWithBackup_def opts(2) by (simp add: demo_program_def)
  ultimately show ?thesis using opts(1)
    by (simp add: execute_phase_def fields blocks_def makeRecord_def max_level_def Execute_def engine_env_def) (simp add: demo_program_def)
qed

theorem program_executes_audited_only_witness:
  "\<exists>e mode nodes warnings. ParseLegacyEnvelope demo_input = Inr e \<and> opt_Execute (env_Options e) \<and>
     td_ParseSQL (demo_tidb [select_one]) mode (env_SQL e) = Inr (nodes, warnings) \<and> (\<forall>(i, n)\<in>set (enumerate 0 nodes). understood (an_Stmt n))"
proof -
  let ?ses = "server_session demo_program demo_config zero_backup_target"
  obtain r h' s' effects where q: "HandleQuery demo_env ?ses demo_clock (demo_handler False) demo_state demo_input = (r, h', s', effects)"
    "ss_world s' = 1" using demo_query_executes [OF demo_program_executes] by blast
  have "ss_world demo_state = 0" by (simp add: demo_state_def)
  with program_executes_audited_only [OF demo_start _ _ demo_state_reachable q(1)] q(2) show ?thesis
    by (force simp: any_order_def demo_rules demo_program_def)
qed

end
