(* ===== verification/ConcurrentQueries.thy ===== *)
theory ConcurrentQueries
  imports Program
begin

text \<open>
  Queries of different connections at the same time. \<^verbatim>\<open>serveConn\<close> of \<^verbatim>\<open>protocol/server.go\<close> runs \<^verbatim>\<open>HandleQuery\<close> of every connection in
  its own goroutine; they share the running configuration, the registry and the counters, each behind a lock or an atomic. The step
  relation \<open>live_step\<close> interleaves the parts of \<^verbatim>\<open>HandleQuery\<close> between two accesses to what is shared: the entry in the registry, the
  counters, the one reading of the policy by \<^verbatim>\<open>Session.Audit\<close>, the audit with its execution, and the return. \<open>HandleQuery\<close> of
  \<open>Protocol\<close> is the run of these parts without interruption.
\<close>

section \<open>Steps\<close>

datatype query_phase =
    Idle
  | Received string query_clock
  | Opened string query_clock
  | Auditing string query_clock policy
  | Answered_query reply_outcome

text \<open>\<open>lv_alive\<close>: no goroutine has panicked; a panic ends the process.\<close>

record 'w live =
  lv_shared :: "'w server_state"
  lv_conns :: "32 word \<rightharpoonup> handler \<times> query_phase"
  lv_alive :: bool

definition is_audit :: "protocol_env \<Rightarrow> query_clock \<Rightarrow> handler \<Rightarrow> 'w server_state \<Rightarrow> string \<Rightarrow> bool" where
  "is_audit env clock h s q \<longleftrightarrow> management env (management_view_of clock h s) q = None \<and>
     strings_Contains (strings_ToLower (strings_TrimSpace q)) ''inception_magic_start'' \<and> audit_refusal h q = None"

definition set_conn :: "32 word \<Rightarrow> handler \<times> query_phase \<Rightarrow> 'w server_state \<Rightarrow> 'w live \<Rightarrow> 'w live" where
  "set_conn k c s l = l\<lparr>lv_shared := s, lv_conns := (lv_conns l)(k \<mapsto> c), lv_alive := (\<forall>m. snd c \<noteq> Answered_query (Crashed m))\<rparr>"

text \<open>\<open>outside\<close>: the databases are used by others, too.\<close>

inductive live_step :: "protocol_env \<Rightarrow> 'w session \<Rightarrow> 'w live \<Rightarrow> 'w live \<Rightarrow> bool" for env ses where
  connect: "lv_alive l \<Longrightarrow> lv_conns l (hd_id h) = None \<Longrightarrow> pi_ID p = hd_id h \<Longrightarrow> pi_Command p = ''Sleep'' \<Longrightarrow>
    live_step env ses l (set_conn (hd_id h) (h, Idle) ((lv_shared l)\<lparr>ss_registry := registry_add (ss_registry (lv_shared l)) p\<rparr>) l)"
| receive: "lv_alive l \<Longrightarrow> lv_conns l k = Some (h, Idle) \<Longrightarrow> int (length q) \<le> hd_maxPacket h \<Longrightarrow>
    live_step env ses l (set_conn k (h, Received q clock) ((lv_shared l)\<lparr>ss_registry :=
      registry_begin (ss_registry (lv_shared l)) k ''Query'' (strings_TrimSpace q) (qc_now clock) (qc_cancel clock)\<rparr>) l)"
| command: "lv_alive l \<Longrightarrow> lv_conns l k = Some (h, Received q clock) \<Longrightarrow> \<not> is_audit env clock h (lv_shared l) q \<Longrightarrow>
    dispatch env ses clock h (lv_shared l) q = (r, h', s', effects) \<Longrightarrow> live_step env ses l (set_conn k (h', Answered_query r) s' l)"
| open_audit: "lv_alive l \<Longrightarrow> lv_conns l k = Some (h, Received q clock) \<Longrightarrow> is_audit env clock h (lv_shared l) q \<Longrightarrow>
    live_step env ses l (set_conn k (h, Opened q clock) (audit_open h q (lv_shared l)) l)"
| read_policy: "lv_alive l \<Longrightarrow> lv_conns l k = Some (h, Opened q clock) \<Longrightarrow>
    live_step env ses l (set_conn k (h, Auditing q clock (Policy (ss_runtime (lv_shared l)))) (lv_shared l) l)"
| audit: "lv_alive l \<Longrightarrow> lv_conns l k = Some (h, Auditing q clock pol) \<Longrightarrow> audit_run env ses clock pol h (lv_shared l) q = (r, h', s') \<Longrightarrow>
    live_step env ses l (set_conn k (h', Answered_query r) s' l)"
| return: "lv_alive l \<Longrightarrow> lv_conns l k = Some (h, Answered_query r) \<Longrightarrow>
    live_step env ses l (set_conn k (h, Idle) ((lv_shared l)\<lparr>ss_registry := registry_end (ss_registry (lv_shared l)) k\<rparr>) l)"
| disconnect: "lv_alive l \<Longrightarrow> lv_conns l k = Some (h, Idle) \<Longrightarrow>
    live_step env ses l (l\<lparr>lv_shared := (lv_shared l)\<lparr>ss_registry := registry_remove (ss_registry (lv_shared l)) k\<rparr>, lv_conns := (lv_conns l)(k := None)\<rparr>)"
| outside: "lv_alive l \<Longrightarrow> live_step env ses l (l\<lparr>lv_shared := (lv_shared l)\<lparr>ss_world := w\<rparr>\<rparr>)"

definition live_start :: "config \<Rightarrow> metrics \<Rightarrow> 'w \<Rightarrow> 'w live" where
  "live_start c0 m w = \<lparr> lv_shared = \<lparr> ss_runtime = c0, ss_registry = newProcessRegistry, ss_metrics = m, ss_world = w \<rparr>,
     lv_conns = Map.empty, lv_alive = True \<rparr>"

lemma set_conn_simps [simp]:
  "lv_shared (set_conn k c s l) = s" "lv_conns (set_conn k c s l) j = (if j = k then Some c else lv_conns l j)"
  "lv_conns (set_conn k c s l) = (lv_conns l)(k \<mapsto> c)"
  "lv_alive (set_conn k c s l) = (\<forall>m. snd c \<noteq> Answered_query (Crashed m))"
  by (simp_all add: set_conn_def)

section \<open>The invariant\<close>

text \<open>
  The parts of a query touch the registry only in the entry of their connection. A policy that an audit holds is one of a
  configuration of the past, between the start and now.
\<close>

definition past_policy :: "config \<Rightarrow> config \<Rightarrow> policy \<Rightarrow> bool" where
  "past_policy c0 now pol \<longleftrightarrow> (\<exists>c. runtime_step\<^sup>*\<^sup>* c0 c \<and> runtime_step\<^sup>*\<^sup>* c now \<and> pol = Policy c)"

definition in_audit :: "query_phase \<Rightarrow> bool" where
  "in_audit ph \<longleftrightarrow> (case ph of Opened _ _ \<Rightarrow> True | Auditing _ _ _ \<Rightarrow> True | _ \<Rightarrow> False)"

definition auditing :: "'w live \<Rightarrow> 32 word set" where
  "auditing l = {k. \<exists>h ph. lv_conns l k = Some (h, ph) \<and> in_audit ph}"

definition live_conn_ok :: "config \<Rightarrow> 'w live \<Rightarrow> 32 word \<Rightarrow> bool" where
  "live_conn_ok c0 l k \<longleftrightarrow> (case lv_conns l k of
       None \<Rightarrow> map_of (ss_registry (lv_shared l)) k = None
     | Some (h, ph) \<Rightarrow> hd_id h = k \<and> (\<exists>p. map_of (ss_registry (lv_shared l)) k = Some p \<and> (pi_Command p = ''Sleep'' \<longleftrightarrow> ph = Idle)) \<and>
         (\<forall>q clock pol. ph = Auditing q clock pol \<longrightarrow> past_policy c0 (ss_runtime (lv_shared l)) pol) \<and>
         (\<forall>q clock pol. ph = Opened q clock \<or> ph = Auditing q clock pol \<longrightarrow> audit_refusal h q = None))"

definition live_ok :: "config \<Rightarrow> metrics \<Rightarrow> 'w live \<Rightarrow> bool" where
  "live_ok c0 m l \<longleftrightarrow> runtime_step\<^sup>*\<^sup>* c0 (ss_runtime (lv_shared l)) \<and> registry_ok (ss_registry (lv_shared l)) \<and>
     (\<forall>k. live_conn_ok c0 l k) \<and> mt_active (ss_metrics (lv_shared l)) = mt_active m + of_nat (card (auditing l))"

lemma live_start_ok: "live_ok c0 m (live_start c0 m w)"
  by (auto simp: live_ok_def live_start_def live_conn_ok_def auditing_def newProcessRegistry_def registry_ok_def)

lemma live_okD:
  assumes "live_ok c0 m l" and "lv_conns l k = Some (h, ph)"
  shows live_id: "hd_id h = k" and live_entry: "\<exists>p. map_of (ss_registry (lv_shared l)) k = Some p \<and> (pi_Command p = ''Sleep'' \<longleftrightarrow> ph = Idle)"
    and live_policy: "ph = Auditing q clock pol \<Longrightarrow> past_policy c0 (ss_runtime (lv_shared l)) pol"
    and live_refusal: "ph = Opened q clock \<or> ph = Auditing q clock pol \<Longrightarrow> audit_refusal h q = None"
    and live_auditing: "k \<in> auditing l \<longleftrightarrow> in_audit ph"
proof -
  have "live_conn_ok c0 l k" using assms(1) by (simp add: live_ok_def)
  then show "hd_id h = k" "\<exists>p. map_of (ss_registry (lv_shared l)) k = Some p \<and> (pi_Command p = ''Sleep'' \<longleftrightarrow> ph = Idle)"
    "ph = Auditing q clock pol \<Longrightarrow> past_policy c0 (ss_runtime (lv_shared l)) pol"
    "ph = Opened q clock \<or> ph = Auditing q clock pol \<Longrightarrow> audit_refusal h q = None"
    by (simp_all add: live_conn_ok_def assms(2)) blast+
  show "k \<in> auditing l \<longleftrightarrow> in_audit ph" by (simp add: auditing_def assms(2))
qed

lemma past_policy_mono: "past_policy c0 c pol \<Longrightarrow> runtime_step\<^sup>*\<^sup>* c c' \<Longrightarrow> past_policy c0 c' pol"
  unfolding past_policy_def using rtranclp_trans [of runtime_step _ c c'] by blast

lemma auditing_set_conn: "auditing (set_conn k (h, ph) s l) = (if in_audit ph then insert k (auditing l) else auditing l - {k})"
  by (auto simp: auditing_def set_conn_def split: if_splits)

lemma card_auditing:
  "(of_nat (card (auditing (set_conn k (h, ph) s l))) :: 64 word) =
     of_nat (card (auditing l)) + (if in_audit ph then 1 else 0) - (if k \<in> auditing l then 1 else 0)"
proof (cases "k \<in> auditing l")
  case True
  have "card (auditing l) = Suc (card (auditing l - {k}))" using True by (rule card.remove [OF finite])
  with True show ?thesis by (simp add: auditing_set_conn insert_absorb)
next
  case False
  then show ?thesis by (simp add: auditing_set_conn)
qed

lemma set_conn_ok:
  assumes "live_ok c0 m l" and "hd_id h = k" and "\<And>j. j \<noteq> k \<Longrightarrow> map_of (ss_registry s) j = map_of (ss_registry (lv_shared l)) j"
    and "registry_ok (ss_registry s)" and "runtime_step\<^sup>*\<^sup>* (ss_runtime (lv_shared l)) (ss_runtime s)"
    and "\<exists>p. map_of (ss_registry s) k = Some p \<and> (pi_Command p = ''Sleep'' \<longleftrightarrow> ph = Idle)"
    and "\<And>q clock pol. ph = Auditing q clock pol \<Longrightarrow> past_policy c0 (ss_runtime s) pol"
    and "\<And>q clock pol. ph = Opened q clock \<or> ph = Auditing q clock pol \<Longrightarrow> audit_refusal h q = None"
    and "mt_active (ss_metrics s) = mt_active (ss_metrics (lv_shared l)) + (if in_audit ph then 1 else 0) - (if k \<in> auditing l then 1 else 0)"
  shows "live_ok c0 m (set_conn k (h, ph) s l)"
proof -
  have "live_conn_ok c0 (set_conn k (h, ph) s l) j" for j
  proof (cases "j = k")
    case True
    with assms(2,6-8) show ?thesis by (auto simp: live_conn_ok_def)
  next
    case False
    have "live_conn_ok c0 l j" using assms(1) by (simp add: live_ok_def)
    with False assms(3) [OF False] past_policy_mono [OF _ assms(5)] show ?thesis
      by (auto simp: live_conn_ok_def split: option.splits)
  qed
  moreover have "runtime_step\<^sup>*\<^sup>* c0 (ss_runtime s)" using assms(1,5) unfolding live_ok_def by (meson rtranclp_trans)
  ultimately show ?thesis using assms(1,4,9) by (simp add: live_ok_def card_auditing)
qed

section \<open>Every step keeps it\<close>

text \<open>What the parts of a query do to what is shared.\<close>

definition same_command :: "32 word \<Rightarrow> processRegistry \<Rightarrow> processRegistry \<Rightarrow> bool" where
  "same_command k r r' \<longleftrightarrow> map_option pi_Command (map_of r' k) = map_option pi_Command (map_of r k)"

lemma same_command_steps: "same_command k r r" "same_command k r (setDB r k db)" "same_command k r (setTarget r k u host port)"
  by (simp_all add: same_command_def registry_changes registry_modify_lookup option.map_comp comp_def)

lemma audit_open_shape:
  "ss_runtime (audit_open h q s) = ss_runtime s" "ss_world (audit_open h q s) = ss_world s"
  "own_entry (hd_id h) (ss_registry s) (ss_registry (audit_open h q s))" "same_command (hd_id h) (ss_registry s) (ss_registry (audit_open h q s))"
  "mt_active (ss_metrics (audit_open h q s)) = mt_active (ss_metrics s) + 1"
  by (simp_all add: audit_open_def Let_def metrics_Begin_def own_entry_steps same_command_steps split: sum.split)

lemma audit_run_shape:
  assumes "audit_run env ses clock pol h s q = (r, h', s')"
  shows "ss_runtime s' = ss_runtime s \<and> ss_registry s' = ss_registry s \<and> hd_id h' = hd_id h \<and>
    mt_active (ss_metrics s') = mt_active (ss_metrics s) - 1 \<and> ss_world s' = snd (Audit (WithPolicyProvider pol ses) q (ss_world s))"
  using assms by (auto simp: audit_run_def audit_finish_def Let_def metrics_finish_def split: outcome.splits prod.splits)

lemma dispatch_same_command:
  assumes "dispatch env ses clock h s q = (r, h', s', effects)"
  shows "same_command (hd_id h) (ss_registry s) (ss_registry s')"
  using assms
proof (cases rule: dispatch_cases)
  case audit
  from audit_query_shape [OF this] show ?thesis by (simp add: same_command_steps Let_def split: sum.split)
next
  case plain
  from session_query_shape [OF this] show ?thesis by (auto simp: same_command_steps)
qed (simp add: same_command_steps)

lemma same_command_entry:
  "same_command k r r' \<Longrightarrow> \<exists>p. map_of r k = Some p \<and> (pi_Command p = ''Sleep'' \<longleftrightarrow> b) \<Longrightarrow> \<exists>p. map_of r' k = Some p \<and> (pi_Command p = ''Sleep'' \<longleftrightarrow> b)"
  by (auto simp: same_command_def)

lemma live_step_ok:
  assumes "live_step env ses l l'" and "live_ok c0 m l"
  shows "live_ok c0 m l'"
  using assms(1)
proof cases
  case (connect h p)
  have "map_of (ss_registry (lv_shared l)) (hd_id h) = None"
    using assms(2) connect(3) by (auto simp: live_ok_def live_conn_ok_def split: option.splits dest!: spec [of _ "hd_id h"])
  moreover have "hd_id h \<notin> auditing l" using connect(3) by (simp add: auditing_def)
  moreover have "registry_ok (registry_add (ss_registry (lv_shared l)) p)" using assms(2) by (auto simp: live_ok_def)
  ultimately show ?thesis unfolding connect(1)
    using connect(4,5) by (intro set_conn_ok [OF assms(2)]) (auto simp: registry_add_def update_conv' in_audit_def)
next
  case (receive k h q clock)
  note facts = live_okD [OF assms(2) receive(3)]
  have "registry_ok (ss_registry (lv_shared l))" using assms(2) by (simp add: live_ok_def)
  then show ?thesis unfolding receive(1) using facts(2)
    by (intro set_conn_ok [OF assms(2) facts(1)]) (auto simp: registry_changes registry_modify_lookup facts(5) in_audit_def intro!: registry_modify_ok)
next
  case (command k h q clock r h' s' effects)
  note facts = live_okD [OF assms(2) command(3)] and shape = dispatch_shape [OF command(5)]
  have "registry_ok (ss_registry (lv_shared l))" using assms(2) by (simp add: live_ok_def)
  then show ?thesis unfolding command(1) using shape facts(1) same_command_entry [OF dispatch_same_command [OF command(5)], unfolded facts(1)] facts(2)
    by (intro set_conn_ok [OF assms(2)]) (auto simp: own_entry_def facts(5) in_audit_def)
next
  case (open_audit k h q clock)
  note facts = live_okD [OF assms(2) open_audit(3)] and shape = audit_open_shape [where h = h and q = q and s = "lv_shared l", unfolded live_okD(1) [OF assms(2) open_audit(3)]]
  have "registry_ok (ss_registry (lv_shared l))" using assms(2) by (simp add: live_ok_def)
  then show ?thesis unfolding open_audit(1) using shape open_audit(4) same_command_entry [OF shape(4)] facts(2)
    by (intro set_conn_ok [OF assms(2) facts(1)]) (auto simp: own_entry_def facts(5) in_audit_def is_audit_def)
next
  case (read_policy k h q clock)
  note facts = live_okD [OF assms(2) read_policy(3)]
  have ok: "registry_ok (ss_registry (lv_shared l))" "runtime_step\<^sup>*\<^sup>* c0 (ss_runtime (lv_shared l))" using assms(2) by (simp_all add: live_ok_def)
  then have "past_policy c0 (ss_runtime (lv_shared l)) (Policy (ss_runtime (lv_shared l)))" unfolding past_policy_def by blast
  with ok show ?thesis unfolding read_policy(1) using facts(2,4)
    by (intro set_conn_ok [OF assms(2) facts(1)]) (auto simp: facts(5) in_audit_def)
next
  case (audit k h q clock pol r h' s')
  note facts = live_okD [OF assms(2) audit(3)] and shape = audit_run_shape [OF audit(4)]
  have "registry_ok (ss_registry (lv_shared l))" using assms(2) by (simp add: live_ok_def)
  then show ?thesis unfolding audit(1) using shape facts(1,2)
    by (intro set_conn_ok [OF assms(2)]) (auto simp: facts(5) in_audit_def)
next
  case (return k h r)
  note facts = live_okD [OF assms(2) return(3)]
  have "registry_ok (ss_registry (lv_shared l))" using assms(2) by (simp add: live_ok_def)
  then show ?thesis unfolding return(1) using facts(2)
    by (intro set_conn_ok [OF assms(2) facts(1)]) (auto simp: registry_changes registry_modify_lookup facts(5) in_audit_def intro!: registry_modify_ok)
next
  case (disconnect k h)
  have conn: "live_conn_ok c0 l j" for j using assms(2) by (simp add: live_ok_def)
  have "live_conn_ok c0 l' j" for j
    using conn [of j] by (auto simp: disconnect(1) live_conn_ok_def registry_remove_def delete_conv' split: option.splits)
  moreover have "auditing l' = auditing l"
    using disconnect(3) by (auto simp: disconnect(1) auditing_def in_audit_def split: if_splits)
  ultimately show ?thesis using assms(2) by (auto simp: live_ok_def disconnect(1))
next
  case (outside w)
  have conn: "live_conn_ok c0 l j" for j using assms(2) by (simp add: live_ok_def)
  have "live_conn_ok c0 l' j" for j using conn [of j] by (auto simp: outside(1) live_conn_ok_def split: option.splits)
  then show ?thesis using assms(2) by (simp add: live_ok_def outside(1) auditing_def)
qed

lemma live_reachable_ok: "(live_step env ses)\<^sup>*\<^sup>* (live_start c0 m w) l \<Longrightarrow> live_ok c0 m l"
  by (induction rule: rtranclp_induct) (auto intro: live_start_ok live_step_ok)

section \<open>Properties\<close>

lemma audit_step_world:
  assumes "live_step env ses l l'" and "lv_conns l' \<noteq> lv_conns l" and "ss_world (lv_shared l') \<noteq> ss_world (lv_shared l)"
  obtains k h q clock pol where "lv_conns l k = Some (h, Auditing q clock pol)"
    "snd (Audit (WithPolicyProvider pol ses) q (ss_world (lv_shared l))) \<noteq> ss_world (lv_shared l)"
  using assms(1)
proof cases
  case (command k h q clock r h' s' effects)
  have "ss_world s' = ss_world (lv_shared l)"
    using command(5)
  proof (cases rule: dispatch_cases)
    case audit
    with command(4,5) show ?thesis
    proof (cases "management env (management_view_of clock h (lv_shared l)) q")
      case None
      show ?thesis
      proof (cases "audit_refusal h q")
        case None
        with command(4) \<open>management env (management_view_of clock h (lv_shared l)) q = None\<close>
        have "\<not> strings_Contains (strings_ToLower (strings_TrimSpace q)) ''inception_magic_start''" by (simp add: is_audit_def)
        with \<open>management env (management_view_of clock h (lv_shared l)) q = None\<close> command(5)
        have "session_query env h (lv_shared l) (strings_TrimSpace q) = (r, h', s')" by (simp add: dispatch_def split: prod.splits)
        from session_query_shape [OF this] show ?thesis by simp
      qed (use audit in \<open>auto simp: audit_query_def audit_finish_def audit_open_shape Let_def\<close>)
    qed (auto simp: dispatch_def)
  next
    case plain
    from session_query_shape [OF this] show ?thesis by simp
  qed simp
  with command(1) assms(3) show ?thesis by simp
next
  case (audit k h q clock pol r h' s')
  with audit_run_shape [OF audit(4)] assms(3) that show ?thesis by simp
qed (use assms(2,3) in \<open>auto simp: audit_open_shape\<close>)


text \<open>
  C7. The counters and the registry are exact under any interleaving: the gauge of active audits, which started at zero, is the number of
  connections in an audit, and a connection is listed just when it is connected, as sleeping just when it runs no query.
\<close>

theorem concurrent_bookkeeping:
  assumes "(live_step env ses)\<^sup>*\<^sup>* (live_start c0 m w) l" and "mt_active m = 0"
  shows "mt_active (ss_metrics (lv_shared l)) = of_nat (card (auditing l)) \<and>
    (\<forall>k. (map_of (ss_registry (lv_shared l)) k = None \<longleftrightarrow> lv_conns l k = None) \<and>
       ((\<exists>p. map_of (ss_registry (lv_shared l)) k = Some p \<and> pi_Command p = ''Sleep'') \<longleftrightarrow> (\<exists>h. lv_conns l k = Some (h, Idle))))"
proof -
  have ok: "live_ok c0 m l" by (rule live_reachable_ok [OF assms(1)])
  then have "live_conn_ok c0 l k" for k by (simp add: live_ok_def)
  then have "(map_of (ss_registry (lv_shared l)) k = None \<longleftrightarrow> lv_conns l k = None) \<and>
       ((\<exists>p. map_of (ss_registry (lv_shared l)) k = Some p \<and> pi_Command p = ''Sleep'') \<longleftrightarrow> (\<exists>h. lv_conns l k = Some (h, Idle)))" for k
    by (fastforce simp: live_conn_ok_def split: option.splits)
  with ok assms(2) show ?thesis by (simp add: live_ok_def)
qed


section \<open>Witnesses\<close>

text \<open>One connection that has sent the request of the other witnesses, up to the reading of the policy.\<close>

definition demo_metrics :: metrics where
  "demo_metrics = \<lparr> mt_ready = True, mt_active = 0, mt_total = 0, mt_failed = 0, mt_durationNS = 0 \<rparr>"

definition demo_connected :: "nat live" where
  "demo_connected = set_conn 7 (demo_handler False, Idle) demo_state (live_start demo_config demo_metrics 0)"

definition demo_received :: "nat server_state" where
  "demo_received = demo_state\<lparr>ss_registry := registry_begin (ss_registry demo_state) 7 ''Query'' (strings_TrimSpace demo_input) 0 1\<rparr>"

definition demo_auditing :: "nat live" where
  "demo_auditing = set_conn 7 (demo_handler False, Auditing demo_input demo_clock (Policy demo_config)) (audit_open (demo_handler False) demo_input demo_received)
     demo_connected"

lemma demo_connected_step: "live_step env ses (live_start demo_config demo_metrics 0) demo_connected"
proof -
  have "demo_state = (lv_shared (live_start demo_config demo_metrics 0))\<lparr>ss_registry := registry_add newProcessRegistry demo_process\<rparr>"
    by (simp add: demo_state_def live_start_def demo_metrics_def newProcessRegistry_def registry_add_def demo_process_def)
  then show ?thesis
    using live_step.connect [of "live_start demo_config demo_metrics 0" "demo_handler False" demo_process env ses]
    by (simp add: demo_connected_def live_start_def demo_handler_def demo_process_def)
qed

lemma demo_is_audit: "is_audit env clock (demo_handler False) s demo_input"
proof -
  obtain t where "strings_TrimSpace (strings_TrimSuffix (strings_TrimSpace demo_input) '';'') = CHR ''/'' # t" using demo_input_text(1) by blast
  from comment_not_management [OF this] show ?thesis
    by (simp add: is_audit_def demo_input_text(2) audit_refusal_def demo_envelope demo_handler_def)
qed

lemma demo_auditing_reached: "(live_step env ses)\<^sup>*\<^sup>* (live_start demo_config demo_metrics 0) demo_auditing"
proof -
  let ?h = "demo_handler False"
  let ?l1 = "set_conn 7 (?h, Received demo_input demo_clock) demo_received demo_connected"
  let ?l2 = "set_conn 7 (?h, Opened demo_input demo_clock) (audit_open ?h demo_input demo_received) ?l1"
  have conn: "lv_alive demo_connected" "lv_conns demo_connected 7 = Some (?h, Idle)" "lv_shared demo_connected = demo_state" by (simp_all add: demo_connected_def)
  have received: "live_step env ses demo_connected ?l1"
    using live_step.receive [OF conn(1,2), of demo_input env ses demo_clock] demo_input_text(3)
    by (simp add: conn(3) demo_received_def demo_clock_def demo_handler_def)
  have opened: "live_step env ses ?l1 ?l2"
    using live_step.open_audit [of ?l1 7 ?h demo_input demo_clock env ses] by (simp add: demo_is_audit)
  have "ss_runtime (audit_open ?h demo_input demo_received) = demo_config" by (simp add: audit_open_shape demo_received_def demo_state_def)
  then have policy: "live_step env ses ?l2 demo_auditing"
    using live_step.read_policy [of ?l2 7 ?h demo_input demo_clock env ses] by (simp add: demo_auditing_def set_conn_def)
  show ?thesis
    by (rule converse_rtranclp_into_rtranclp [of "live_step env ses", OF demo_connected_step],
        rule converse_rtranclp_into_rtranclp [of "live_step env ses", OF received],
        rule converse_rtranclp_into_rtranclp [of "live_step env ses", OF opened], rule r_into_rtranclp, rule policy)
qed


theorem concurrent_bookkeeping_witness: "mt_active (ss_metrics (lv_shared demo_auditing)) = of_nat (card (auditing demo_auditing)) \<and> 7 \<in> auditing demo_auditing"
proof -
  have "7 \<in> auditing demo_auditing" by (simp add: auditing_def demo_auditing_def in_audit_def)
  moreover have "mt_active demo_metrics = 0" by (simp add: demo_metrics_def)
  ultimately show ?thesis using concurrent_bookkeeping [OF demo_auditing_reached] by blast
qed


end
