(* ===== verification/CommandLine.thy ===== *)
theory CommandLine
  imports Program
begin

text \<open>
  The command line of \<^verbatim>\<open>cmd/goinception-plus/main.go\<close>: the flags of the server and of the \<^verbatim>\<open>audit\<close> subcommand as the standard package
  \<^verbatim>\<open>flag\<close> reads them, and what the process does with them. Only the JSON text of the records is left to the standard library: the
  result of the subcommand is the list it prints.
\<close>

section \<open>Integers with a base prefix\<close>

text \<open>
  \<^verbatim>\<open>strconv.ParseInt(s, 0, 64)\<close>, which reads the values of integer flags: a sign, a prefix for the base, and underscores between
  digits.
\<close>

definition base_prefix :: "string \<Rightarrow> nat \<times> string" where
  "base_prefix s =
     (if s \<noteq> [] \<and> hd s = CHR ''0'' then
        (if length s \<ge> 3 \<and> lower_byte (s ! 1) = CHR ''b'' then (2, drop 2 s)
         else if length s \<ge> 3 \<and> lower_byte (s ! 1) = CHR ''o'' then (8, drop 2 s)
         else if length s \<ge> 3 \<and> lower_byte (s ! 1) = CHR ''x'' then (16, drop 2 s)
         else (8, drop 1 s))
      else (10, s))"

definition digit_value :: "char \<Rightarrow> nat option" where
  "digit_value c =
     (if is_digit c then Some (byte_val c - 48)
      else if byte_val CHR ''a'' \<le> byte_val (lower_byte c) \<and> byte_val (lower_byte c) \<le> byte_val CHR ''z''
      then Some (byte_val (lower_byte c) - byte_val CHR ''a'' + 10) else None)"

fun scan_base :: "nat \<Rightarrow> nat \<Rightarrow> string \<Rightarrow> num_result" where
  "scan_base base acc [] = NumOk acc"
| "scan_base base acc (c # cs) =
     (if c = CHR ''_'' then scan_base base acc cs
      else (case digit_value c of
          None \<Rightarrow> NumSyntax
        | Some d \<Rightarrow>
            if d \<ge> base then NumSyntax
            else if acc * base + d > 2 ^ 64 - 1 then NumRange
            else scan_base base (acc * base + d) cs))"

text \<open>\<^verbatim>\<open>underscoreOK\<close>: an underscore stands between two digits, or between the prefix and a digit.\<close>

datatype seen = SeenStart | SeenDigit | SeenUnderscore | SeenOther

fun underscores_ok :: "bool \<Rightarrow> seen \<Rightarrow> string \<Rightarrow> bool" where
  "underscores_ok hex i [] = (i \<noteq> SeenUnderscore)"
| "underscores_ok hex i (c # cs) =
     (if is_digit c \<or> hex \<and> lower_byte c \<in> set ''abcdef'' then underscores_ok hex SeenDigit cs
      else if c = CHR ''_'' then (if i \<noteq> SeenDigit then False else underscores_ok hex SeenUnderscore cs)
      else if i = SeenUnderscore then False
      else underscores_ok hex SeenOther cs)"

definition underscoreOK :: "string \<Rightarrow> bool" where
  "underscoreOK s =
     (if length s \<ge> 2 \<and> hd s = CHR ''0'' \<and> lower_byte (s ! 1) \<in> set ''box''
      then underscores_ok (lower_byte (s ! 1) = CHR ''x'') SeenDigit (drop 2 s)
      else underscores_ok False SeenStart s)"

definition parse_magnitude :: "string \<Rightarrow> num_result" where
  "parse_magnitude s =
     (if s = [] then NumSyntax
      else case base_prefix s of (base, digits) \<Rightarrow>
        (case scan_base base 0 digits of
           NumOk n \<Rightarrow> if CHR ''_'' \<in> set digits \<and> \<not> underscoreOK s then NumSyntax else NumOk n
         | r \<Rightarrow> r))"

definition strconv_ParseInt0 :: "string \<Rightarrow> num_result \<times> int \<times> bool" where
  "strconv_ParseInt0 s =
     (case s of
        [] \<Rightarrow> (NumSyntax, 0, False)
      | c # cs \<Rightarrow>
          if c = CHR ''-'' then (parse_magnitude cs, int64_of_magnitude True (parse_magnitude cs))
          else if c = CHR ''+'' then (parse_magnitude cs, int64_of_magnitude False (parse_magnitude cs))
          else (parse_magnitude s, int64_of_magnitude False (parse_magnitude s)))"

definition strconv_ParseBool :: "string \<Rightarrow> bool option" where
  "strconv_ParseBool s =
     (if s \<in> {''1'', ''t'', ''T'', ''true'', ''TRUE'', ''True''} then Some True
      else if s \<in> {''0'', ''f'', ''F'', ''false'', ''FALSE'', ''False''} then Some False
      else None)"

section \<open>Flags\<close>

datatype flag_value = BoolFlag bool | StringFlag string | IntFlag int

type_synonym flag_set = "(string \<times> flag_value) list"

text \<open>One argument, as \<^verbatim>\<open>FlagSet.parseOne\<close> takes it apart.\<close>

datatype flag_token = NoFlag | EndOfFlags | BadSyntax | Flag string "string option"

definition flag_token_of :: "string \<Rightarrow> flag_token" where
  "flag_token_of s =
     (if length s < 2 \<or> hd s \<noteq> CHR ''-'' then NoFlag
      else if s = ''--'' then EndOfFlags
      else
        let name = (if s ! 1 = CHR ''-'' then drop 2 s else drop 1 s) in
        if name = [] \<or> hd name = CHR ''-'' \<or> hd name = CHR ''='' then BadSyntax
        else if CHR ''='' \<in> set name
        then Flag (takeWhile (\<lambda>c. c \<noteq> CHR ''='') name) (Some (tl (dropWhile (\<lambda>c. c \<noteq> CHR ''='') name)))
        else Flag name None)"

definition flag_Set :: "flag_value \<Rightarrow> string \<Rightarrow> string + flag_value" where
  "flag_Set old v =
     (case old of
        StringFlag _ \<Rightarrow> Inr (StringFlag v)
      | BoolFlag _ \<Rightarrow> (case strconv_ParseBool v of Some b \<Rightarrow> Inr (BoolFlag b) | None \<Rightarrow> Inl ''parse error'')
      | IntFlag _ \<Rightarrow>
          (case strconv_ParseInt0 v of
             (r, n, ok) \<Rightarrow> if ok then Inr (IntFlag n) else Inl (if r = NumSyntax then ''parse error'' else ''value out of range'')))"

datatype flag_outcome = Flags flag_set "string list" | FlagHelp | FlagError string

fun flag_Parse :: "flag_set \<Rightarrow> string list \<Rightarrow> flag_outcome" where
  "flag_Parse fs [] = Flags fs []"
| "flag_Parse fs (s # args) =
     (case flag_token_of s of
        NoFlag \<Rightarrow> Flags fs (s # args)
      | EndOfFlags \<Rightarrow> Flags fs args
      | BadSyntax \<Rightarrow> FlagError (''bad flag syntax: '' @ s)
      | Flag name given \<Rightarrow>
          (case map_of fs name of
             None \<Rightarrow> if name = ''help'' \<or> name = ''h'' then FlagHelp else FlagError (''flag provided but not defined: -'' @ name)
           | Some (BoolFlag b) \<Rightarrow>
               (case given of
                  None \<Rightarrow> flag_Parse (AList.update name (BoolFlag True) fs) args
                | Some v \<Rightarrow>
                    (case flag_Set (BoolFlag b) v of
                       Inl err \<Rightarrow> FlagError (''invalid boolean value '' @ strconv_Quote v @ '' for -'' @ name @ '': '' @ err)
                     | Inr new \<Rightarrow> flag_Parse (AList.update name new fs) args))
           | Some old \<Rightarrow>
               (case given of
                  Some v \<Rightarrow>
                    (case flag_Set old v of
                       Inl err \<Rightarrow> FlagError (''invalid value '' @ strconv_Quote v @ '' for flag -'' @ name @ '': '' @ err)
                     | Inr new \<Rightarrow> flag_Parse (AList.update name new fs) args)
                | None \<Rightarrow>
                    (case args of
                       [] \<Rightarrow> FlagError (''flag needs an argument: -'' @ name)
                     | v # rest \<Rightarrow>
                         (case flag_Set old v of
                            Inl err \<Rightarrow> FlagError (''invalid value '' @ strconv_Quote v @ '' for flag -'' @ name @ '': '' @ err)
                          | Inr new \<Rightarrow> flag_Parse (AList.update name new fs) rest)))))"

section \<open>The process\<close>

text \<open>
  What the process does: it exits with a status and a message, prints the version, prints records, or serves. The \<^verbatim>\<open>flag\<close> package exits with
  status 2 for a bad command line and 0 for help; the runtime exits with 2 after a panic.
\<close>

datatype process_result =
    Exit nat string
  | PrintVersion string
  | PrintRecords "audit_record list"
  | Serve config string backup_target

definition exitError :: "gerror \<Rightarrow> process_result" where
  "exitError err = Exit 1 (err_Error err)"

definition bool_flag :: "flag_set \<Rightarrow> string \<Rightarrow> bool" where
  "bool_flag fs name = (case map_of fs name of Some (BoolFlag b) \<Rightarrow> b | _ \<Rightarrow> False)"

definition string_flag :: "flag_set \<Rightarrow> string \<Rightarrow> string" where
  "string_flag fs name = (case map_of fs name of Some (StringFlag v) \<Rightarrow> v | _ \<Rightarrow> [])"

definition int_flag :: "flag_set \<Rightarrow> string \<Rightarrow> int" where
  "int_flag fs name = (case map_of fs name of Some (IntFlag n) \<Rightarrow> n | _ \<Rightarrow> 0)"

definition serve_flags :: flag_set where
  "serve_flags = [(''config'', StringFlag []), (''version'', BoolFlag False)]"

definition audit_flag_set :: flag_set where
  "audit_flag_set = [(''check-primary-key'', BoolFlag False), (''check-table-comment'', BoolFlag False),
     (''check-column-comment'', BoolFlag False), (''max-column-count'', IntFlag 0)]"

definition flags_of :: "flag_set \<Rightarrow> audit_flags" where
  "flags_of fs = \<lparr> fl_checkPrimaryKey = bool_flag fs ''check-primary-key'', fl_checkTableComment = bool_flag fs ''check-table-comment'',
     fl_checkColumnComment = bool_flag fs ''check-column-comment'', fl_maxColumnCount = int_flag fs ''max-column-count'' \<rparr>"

text \<open>The build information, set by the linker.\<close>

record build_info =
  bi_version :: string
  bi_commit :: string
  bi_buildTime :: string

definition version_line :: "build_info \<Rightarrow> string" where
  "version_line b = ''goinception-plus '' @ bi_version b @ '' commit='' @ bi_commit b @ '' built='' @ bi_buildTime b @ [CHR 0x0A]"

text \<open>The surroundings of the process: the TOML decoder, the environment, the standard input.\<close>

record process_env =
  pr_order :: "string list \<Rightarrow> string list"
  pr_decode :: "string \<Rightarrow> config \<Rightarrow> gerror + config \<times> toml_meta"
  pr_environ :: "string \<rightharpoonup> string"
  pr_stdin :: "gerror + string"
  pr_build :: build_info

definition main_serve :: "process_env \<Rightarrow> string list \<Rightarrow> process_result" where
  "main_serve penv args =
     (case flag_Parse serve_flags args of
        FlagHelp \<Rightarrow> Exit 0 []
      | FlagError message \<Rightarrow> Exit 2 message
      | Flags fs _ \<Rightarrow>
          if bool_flag fs ''version'' then PrintVersion (version_line (pr_build penv))
          else (case start_options (pr_order penv) (pr_decode penv) (pr_environ penv) (string_flag fs ''config'') of
              Inl err \<Rightarrow> exitError err
            | Inr (cfg, password, backupOptions) \<Rightarrow> Serve cfg password backupOptions))"

definition main_audit :: "'w program_env \<Rightarrow> process_env \<Rightarrow> string list \<Rightarrow> 'w \<Rightarrow> process_result \<times> 'w" where
  "main_audit env penv args w =
     (case flag_Parse audit_flag_set args of
        FlagHelp \<Rightarrow> (Exit 0 [], w)
      | FlagError message \<Rightarrow> (Exit 2 message, w)
      | Flags fs _ \<Rightarrow>
          (case pr_stdin penv of
             Inl err \<Rightarrow> (exitError err, w)
           | Inr input \<Rightarrow>
               (case runAudit env (flags_of fs) input w of
                  (Returns records, w') \<Rightarrow> (PrintRecords records, w')
                | (Raises err, w') \<Rightarrow> (exitError err, w')
                | (Panics message, w') \<Rightarrow> (Exit 2 message, w'))))"

text \<open>\<open>args\<close> is \<^verbatim>\<open>os.Args[1:]\<close>.\<close>

definition main :: "'w program_env \<Rightarrow> process_env \<Rightarrow> string list \<Rightarrow> 'w \<Rightarrow> process_result \<times> 'w" where
  "main env penv args w =
     (case args of
        a # rest \<Rightarrow> if a = ''audit'' then main_audit env penv rest w else (main_serve penv args, w)
      | [] \<Rightarrow> (main_serve penv args, w))"

section \<open>Reading back what was written\<close>

lemma scan_base_digits: "\<forall>c\<in>set s. is_digit c \<Longrightarrow> scan_base 10 acc s = scan_uint (2 ^ 64 - 1) acc s"
proof (induction s arbitrary: acc)
  case (Cons c s)
  have "c \<noteq> CHR ''_''" "byte_val c - 48 < 10" using Cons.prems by (auto simp: is_digit_def)
  with Cons show ?case by (simp add: digit_value_def)
qed simp

lemma parse_magnitude_nat_string:
  assumes "n < 2 ^ 64"
  shows "parse_magnitude (nat_string n) = NumOk n"
proof (cases "n = 0")
  case True
  have "nat_string 0 = ''0''" by (simp add: nat_string_def nat_digits_rev.simps digit_char_def)
  with True show ?thesis by (simp add: parse_magnitude_def base_prefix_def)
next
  case False
  have "CHR ''_'' \<notin> set (nat_string n)" using nat_string_digits [of n] by (auto simp: is_digit_def)
  moreover have "base_prefix (nat_string n) = (10, nat_string n)" using False hd_digits_nonzero [of n] by (simp add: base_prefix_def)
  moreover have "scan_base 10 0 (nat_string n) = NumOk n"
    using assms scan_uint_nat_string [of n "2 ^ 64 - 1"] nat_string_digits [of n] by (simp add: scan_base_digits)
  ultimately show ?thesis by (simp add: parse_magnitude_def)
qed

lemma ParseInt0_Itoa:
  assumes "- (2 ^ 63) \<le> i" and "i < 2 ^ 63"
  shows "snd (strconv_ParseInt0 (strconv_Itoa i)) = (i, True)"
proof (cases "i < 0")
  case True
  then have "nat (- i) < 2 ^ 64" "\<not> 2 ^ 63 < nat (- i)" using assms by auto
  then show ?thesis using True by (simp add: strconv_ParseInt0_def strconv_Itoa_def parse_magnitude_nat_string int64_of_magnitude_def)
next
  case False
  then have n: "nat i < 2 ^ 64" "\<not> 2 ^ 63 \<le> nat i" using assms by auto
  obtain c cs where shape: "nat_string (nat i) = c # cs" using nat_string_nonempty [of "nat i"] by (cases "nat_string (nat i)") auto
  have "is_digit c" using nat_string_digits [of "nat i"] by (simp add: shape)
  then have "c \<noteq> CHR ''-''" "c \<noteq> CHR ''+''" by (auto simp: is_digit_def)
  then have "strconv_ParseInt0 (nat_string (nat i)) = (parse_magnitude (nat_string (nat i)), int64_of_magnitude False (parse_magnitude (nat_string (nat i))))"
    by (simp add: strconv_ParseInt0_def shape)
  then show ?thesis using False n by (simp add: strconv_Itoa_def parse_magnitude_nat_string int64_of_magnitude_def)
qed

definition render_flags :: "audit_flags \<Rightarrow> string list" where
  "render_flags fl = [''-check-primary-key='' @ strconv_FormatBool (fl_checkPrimaryKey fl), ''--check-table-comment='' @ strconv_FormatBool (fl_checkTableComment fl),
     ''-check-column-comment='' @ strconv_FormatBool (fl_checkColumnComment fl), ''-max-column-count'', strconv_Itoa (fl_maxColumnCount fl)]"

lemma flag_token_render:
  "flag_token_of (''-check-primary-key='' @ v) = Flag ''check-primary-key'' (Some v)"
  "flag_token_of (''--check-table-comment='' @ v) = Flag ''check-table-comment'' (Some v)"
  "flag_token_of (''-check-column-comment='' @ v) = Flag ''check-column-comment'' (Some v)"
  "flag_token_of ''-max-column-count'' = Flag ''max-column-count'' None"
  by (simp_all add: flag_token_of_def)

lemma flag_Parse_render:
  assumes "- (2 ^ 63) \<le> fl_maxColumnCount fl" and "fl_maxColumnCount fl < 2 ^ 63"
  shows "\<exists>fs. flag_Parse audit_flag_set (render_flags fl) = Flags fs [] \<and> flags_of fs = fl"
proof -
  have bools: "flag_Set (BoolFlag b) (strconv_FormatBool c) = Inr (BoolFlag c)" for b c
    by (simp add: flag_Set_def strconv_ParseBool_def strconv_FormatBool_def)
  have ints: "flag_Set (IntFlag n) (strconv_Itoa (fl_maxColumnCount fl)) = Inr (IntFlag (fl_maxColumnCount fl))" for n
    using ParseInt0_Itoa [OF assms] by (cases "strconv_ParseInt0 (strconv_Itoa (fl_maxColumnCount fl))") (auto simp: flag_Set_def)
  have "flag_Parse audit_flag_set (render_flags fl) = Flags [(''check-primary-key'', BoolFlag (fl_checkPrimaryKey fl)),
      (''check-table-comment'', BoolFlag (fl_checkTableComment fl)), (''check-column-comment'', BoolFlag (fl_checkColumnComment fl)),
      (''max-column-count'', IntFlag (fl_maxColumnCount fl))] []"
    unfolding render_flags_def by (simp add: flag_token_render [simplified] bools ints audit_flag_set_def)
  then show ?thesis by (cases fl) (simp add: flags_of_def bool_flag_def int_flag_def)
qed

text \<open>
  The audit subcommand from its command line to its output: flags written out are read back as given, and for every accepted request with a
  statement on the standard input the process prints the records of the audit under the policy of these flags, and does not exit with an error.
\<close>

theorem audit_command_prints:
  assumes "fair_stores env" and "pr_stdin penv = Inr input" and "ParseLegacyEnvelope input = Inr e"
    and "\<And>mode r. Parse (pe_tidb env) (env_SQL e) mode = Inr r \<Longrightarrow> pr_Statements r \<noteq> []"
    and "- (2 ^ 63) \<le> fl_maxColumnCount fl" and "fl_maxColumnCount fl < 2 ^ 63"
  shows "\<exists>records w'. main env penv (''audit'' # render_flags fl) w = (PrintRecords records, w') \<and>
    Audit (newSession env (flags_policy fl) (engine_Open env)) input w = (Returns records, w')"
proof -
  obtain records w' where run: "runAudit env fl input w = (Returns records, w')" using runAudit_returns [OF assms(1,3)] assms(4) by blast
  obtain fs where "flag_Parse audit_flag_set (render_flags fl) = Flags fs []" "flags_of fs = fl" using flag_Parse_render [OF assms(5,6)] by blast
  with assms(2) run show ?thesis by (auto simp: main_def main_audit_def runAudit_def)
qed

text \<open>
  The server starts only with a configuration it can run with: whatever the command line, the environment and the file, \<^verbatim>\<open>main\<close> gets to serve only after
  the file named by the flags was accepted.
\<close>

theorem serving_configured:
  assumes "main env penv args w = (Serve cfg password bk, w')" and "any_order (pr_order penv)"
    and "\<And>path d meta. pr_decode penv path Defaults = Inr (d, meta) \<Longrightarrow> distinct (map fst (cf_Rules d))"
  shows "w' = w \<and> loaded_ok cfg \<and> (\<exists>path. path \<noteq> [] \<and> Load (pr_order penv) (pr_decode penv) path = Inr cfg \<and>
    AuthPassword (pr_environ penv) cfg = Inr password)"
proof -
  have serve: "main_serve penv args = Serve cfg password bk" "w' = w"
    using assms(1) by (auto simp: main_def main_audit_def exitError_def split: list.splits if_splits flag_outcome.splits sum.splits prod.splits outcome.splits)
  then obtain path where path: "start_options (pr_order penv) (pr_decode penv) (pr_environ penv) path = Inr (cfg, password, bk)"
    by (auto simp: main_serve_def exitError_def split: flag_outcome.splits if_splits sum.splits)
  then have "path \<noteq> []" by (auto simp: start_options_def)
  moreover have "loaded_ok cfg" using Load_ok [OF conjunct1 [OF start_options_run [OF path]] assms(2)] assms(3) by blast
  ultimately show ?thesis using start_options_run [OF path] serve(2) by blast
qed

section \<open>Witnesses\<close>

definition demo_process_env :: process_env where
  "demo_process_env = \<lparr> pr_order = (\<lambda>ks. ks), pr_decode = (\<lambda>_ _. Inr (demo_config, demo_meta)), pr_environ = Map.empty, pr_stdin = Inr demo_input,
     pr_build = \<lparr> bi_version = ''0.7.0-dev'', bi_commit = ''unknown'', bi_buildTime = ''unknown'' \<rparr> \<rparr>"

theorem audit_command_prints_witness:
  "\<exists>records w'. main demo_program demo_process_env (''audit'' # render_flags \<lparr> fl_checkPrimaryKey = True, fl_checkTableComment = False,
     fl_checkColumnComment = False, fl_maxColumnCount = -5 \<rparr>) 0 = (PrintRecords records, w')"
proof -
  have "pe_tidb demo_program = demo_tidb [select_one]" by (simp add: demo_program_def)
  then have "Parse (pe_tidb demo_program) sql mode = Inr r \<Longrightarrow> pr_Statements r \<noteq> []" for sql mode r by (auto simp: demo_tidb_Parse)
  moreover have "pr_stdin demo_process_env = Inr demo_input" by (simp add: demo_process_env_def)
  ultimately show ?thesis using audit_command_prints [OF demo_program_fair _ demo_envelope, of demo_process_env
      "\<lparr> fl_checkPrimaryKey = True, fl_checkTableComment = False, fl_checkColumnComment = False, fl_maxColumnCount = -5 \<rparr>" 0] by auto
qed

theorem serving_configured_witness:
  "main demo_program demo_process_env [''-config=config.toml''] 0 = (Serve demo_config ''pw'' zero_backup_target, 0) \<and> loaded_ok demo_config"
proof -
  have run: "main demo_program demo_process_env [''-config=config.toml''] 0 = (Serve demo_config ''pw'' zero_backup_target, 0)"
    using demo_start by (simp add: main_def main_serve_def flag_token_of_def serve_flags_def flag_Set_def bool_flag_def string_flag_def demo_process_env_def)
  have "any_order (pr_order demo_process_env)" by (simp add: any_order_def demo_process_env_def)
  moreover have "distinct (map fst (cf_Rules d))" if "pr_decode demo_process_env path Defaults = Inr (d, meta)" for path d meta
    using that demo_rules by (auto simp: demo_process_env_def)
  ultimately show ?thesis using serving_configured [OF run] run by (metis (no_types, lifting))
qed

end
