(* ===== verification/Spec2Isabelle.thy ===== *)
theory Spec2Isabelle
  imports RequestFacts CacheFlights AlterRollback AuditLog Lifecycle ConcurrentQueries CommandLine
begin

text \<open>
  \<^bold>\<open>goInception Plus\<close>: audit, execution, backup and rollback of SQL for MySQL.

  A client speaks the MySQL protocol to the server (\<open>protocol\<close>). It sends management commands, which read and change the running
  configuration (\<open>config\<close>) and the list of connections, or a request: a comment with the target and the options, then SQL
  statements between two marker statements. The server cuts the request (\<open>request/legacy.go\<close>), parses the SQL and projects its
  syntax trees (\<open>parser/parser.go\<close>), audits every statement against a policy and the simulated schema of the target (\<open>audit\<close>,
  \<open>metadata\<close>, \<open>session/session.go\<close>), and, when the client asks for execution and no record blocks it, runs the
  statements one after the other (\<open>execution/mysql/engine.go\<close>). With backup, it captures the rows every
  statement changed from the binary log (\<open>backup/binlogmysql/capture.go\<close>), generates the statements that
  undo them (\<open>rollback/generator.go\<close>) and stores these on a backup server
  (\<open>backup/mysqlstore/store.go\<close>). \<open>main.go\<close> wires these parts.

  \<^bold>\<open>Theories.\<close> Paths are relative to \<open>src/internal\<close>.

  \<^item> \<open>GoPrelude\<close>: results and outcomes (\<open>gerror\<close>, sums, \<open>Returns\<close> / \<open>Raises\<close> / \<open>Panics\<close>), and what the code
    uses of Go's \<open>strings\<close>, \<open>strconv\<close> and \<open>fmt\<close>, with their lemmas. \<open>GoIO\<close>: computations over an outside
    world, which return, fail or panic. \<open>SqlText\<close>: a tokeniser of SQL text and the locale
    \<open>identifier_quoter\<close>; every quoting function of the program interprets it.
  \<^item> \<open>DataModel\<close>: \<open>model/model.go\<close> and the metadata types of \<open>audit/audit.go\<close>.
  \<^item> \<open>Request\<close>, \<open>RequestFacts\<close>: \<open>request/legacy.go\<close>. The splitter is a state machine over the bytes;
    parsing inverts rendering, every admitted request satisfies the documented bounds, the segments
    are exactly the text between separators outside quotes and comments.
  \<^item> \<open>Catalog\<close>: \<open>audit/catalog.go\<close> and \<open>audit/policy.go\<close>.
  \<^item> \<open>SchemaCache\<close>, \<open>Snapshot\<close>: \<open>metadata/cache.go\<close> and \<open>metadata/snapshot.go\<close>. \<open>applyTableDDL\<close> refines an
    abstract specification of ALTER TABLE on a schema (columns and indexes by name); \<open>ApplyDDL\<close> makes its effect
    visible to later statements and leaves every other table alone; \<open>PrepareDDL\<close> only reads. \<open>CacheFlights\<close>: concurrent
    callers of the cache as a step relation; they get the answers of sequential loads, and all of them get one.
  \<^item> \<open>RulesDdl\<close>, \<open>RulesDml\<close>, \<open>RulesLegacyDdl\<close>, \<open>AuditEngine\<close>: the rules of \<open>audit/rules\<close>, every check of
    them, and the engine that runs them (\<open>audit/audit.go\<close>). A clean audit implies the conditions the rules stand for.
  \<^item> \<open>Session\<close>, \<open>SessionFacts\<close>: \<open>session/session.go\<close>. The target, the parser and the executor are
    parameters. Nothing is executed unless every record is clean; results are merged fail-stop; the
    locale \<open>prefix_executor\<close> states what the session relies on from an executor.
  \<^item> \<open>Rollback\<close>, \<open>RollbackFacts\<close>: \<open>backup/backup.go\<close> and \<open>rollback/generator.go\<close>. The generated text is read
    back token by token, and running the rollbacks in reverse order restores the table as a multiset of rows.
  \<^item> \<open>Capture\<close>: \<open>backup/binlogmysql/capture.go\<close>; the changes collected are exactly the rows of the
    connection's own transactions.
  \<^item> \<open>BackupStore\<close>: \<open>backup/mysqlstore/store.go\<close>, as the sequence of SQL calls it makes.
  \<^item> \<open>ExecEngine\<close>, \<open>ExecEngineFacts\<close>, \<open>AlterRollback\<close>: \<open>execution/mysql/engine.go\<close>. The engine interprets
    \<open>prefix_executor\<close>; it answers whatever the servers do; statements that cannot be undone are not run; a
    backup reported as complete is complete; the rollback of an ALTER TABLE restores the simulated table.

  \<^item> \<open>SqlParser\<close>, \<open>SqlParserFacts\<close>: \<open>parser/parser.go\<close>, every projection and the visitor of the syntax tree. A statement's
    kind determines its projection, \<open>Supported\<close> means that all of it was projected, the collector finds exactly the tables and
    conditions of the tree, and CREATE TABLE and ALTER TABLE project an index alike.
  \<^item> \<open>MySQLProvider\<close>, \<open>MySQLProviderFacts\<close>: \<open>metadata/mysql/provider.go\<close> and \<open>factory.go\<close>, the queries by their text and the
    loops over their rows. A loaded table is well formed as the schema simulation requires; the two readings of the server version agree.
  \<^item> \<open>Config\<close>, \<open>ConfigTables\<close>, \<open>ConfigFacts\<close>: \<open>config/config.go\<close>, \<open>legacy.go\<close> and \<open>runtime.go\<close>. The level of every rule is the
    configured one; each change at run time keeps the configuration valid and touches only what it names.
  \<^item> \<open>GoRegexp\<close>, \<open>Management\<close>, \<open>ManagementFacts\<close>: \<open>protocol/management.go\<close>, with a matcher for the regular expressions that
    recognise the commands. LIKE patterns mean what SQL says; a set command reaches the configuration as written; KILL touches one connection.
  \<^item> \<open>Protocol\<close>, \<open>ProtocolFacts\<close>: \<open>protocol/server.go\<close>, \<open>adapter.go\<close> and the counters and pages of \<open>observability/service.go\<close>.
    An inductive relation gives the reachable states of the server over all queries of all connections; an audit-only server
    executes nothing. \<open>AuditLog\<close>: what the server logs of a request, and that users, passwords and statements of the requests it
    understands are not among it. \<open>Connections\<close>: the interleaving of accepting, registering, serving and closing connections as a step relation; the
    registry lists exactly the connections being served, at most the configured number, and a shutdown reaches all of them.
    \<open>Lifecycle\<close>: the process from its start to its exit, the accept loop, the shutdown, the HTTP server of the counters and \<open>main\<close> as
    one step relation over \<open>Connections\<close>; when an exit is a clean one, and that every state can be left by a signal.
  \<^item> \<open>Pipeline\<close>, \<open>Program\<close>: \<open>cmd/goinception-plus/main.go\<close> and the composition of all components. What the adapter guarantees discharges
    what session and engine require: the program answers every accepted request that has a statement, and what it executes was
    understood in full by the projection and refused by no rule of the configuration of that moment.
    \<open>ConcurrentQueries\<close>: the same for all connections at once, with the parts of \<open>HandleQuery\<close> interleaved; uninterrupted they are
    \<open>HandleQuery\<close> of \<open>Protocol\<close>. \<open>CommandLine\<close>: the flags as the standard library reads them, the subcommands and their exit codes.

  \<^bold>\<open>Bounds and fuel.\<close> No definition needs fuel: every loop of the source runs over a list and is a
  structural recursion, or has a termination proof. The stream of the replication client is a finite
  list of events followed by its error, since the read deadline ends every stream. Machine integers are
  words where the source narrows them (\<open>uint16\<close> ports, \<open>uint32\<close> positions and thread identifiers); Go's
  \<open>int\<close> is an unbounded integer where the values are bounded by the checks that precede their use.
  Strings are lists of bytes.

  \<^bold>\<open>Parameters.\<close> The TiDB parser (for each node: the fields that are read, the text \<open>Restore\<close> writes, the order in which
  \<open>Accept\<close> shows nodes), the TOML decoder, the environment, \<open>database/sql\<close> and the MySQL servers behind it, the replication
  client, the MySQL protocol library, the clock and the iteration order of Go maps are arguments of the definitions that use them; the
  theorems hold for all of them, under hypotheses they name.

  \<^bold>\<open>Not modelled.\<close> The text that \<open>slog\<close> and \<open>encoding/json\<close> make of log events and records; the HTTP library around the pages of the
  counters; the handshake and the packets of the MySQL protocol, where the library accepts the password; the pool settings and timeouts of the
  database drivers. A context is modelled where the program acts on its end: in the registry of connections, in the shutdown, in
  the choice of the failure stage and in the load that it ends; elsewhere its end shows as an error of the call it is given to.
\<close>

end
